(* ===== verification/NR_Prelude.thy ===== *)
theory NR_Prelude
  imports Main "HOL-Library.Word" "HOL-Library.Multiset"
begin

unbundle bit_operations_syntax

text \<open>
  Shared vocabulary of the NIC Residency development: the C++ fixed-width integers,
  operations that may throw while they mutate a state, the comparison sort of
  \<^verbatim>\<open>std::sort\<close>, decimal rendering (\<^verbatim>\<open>std::to_string\<close>) and the generic facts on
  words, bytes and lists that the component theories use.
\<close>

section \<open>Types and collections of facts\<close>

type_synonym u8 = "8 word"
type_synonym u16 = "16 word"
type_synonym u32 = "32 word"
type_synonym u64 = "64 word"

named_theorems map_laws \<open>laws of the ordered map\<close>
named_theorems reg_defs \<open>definitions of the registry operations\<close>
named_theorems codec_rt \<open>round-trip laws of readers and writers\<close>

section \<open>Operations that may throw\<close>

text \<open>
  A C++ member function that mutates an object and may throw is a function from the
  state to a result (\<^term>\<open>Inl\<close> the exception, \<^term>\<open>Inr\<close> the returned value) and the state the
  object has afterwards. A throw does not undo what was already written.
\<close>

type_synonym ('s, 'e, 'a) exop = "'s \<Rightarrow> ('e + 'a) \<times> 's"

definition ex_return :: "'a \<Rightarrow> ('s, 'e, 'a) exop" where
  "ex_return x s = (Inr x, s)"

definition ex_throw :: "'e \<Rightarrow> ('s, 'e, 'a) exop" where
  "ex_throw e s = (Inl e, s)"

definition ex_bind :: "('s, 'e, 'a) exop \<Rightarrow> ('a \<Rightarrow> ('s, 'e, 'b) exop) \<Rightarrow> ('s, 'e, 'b) exop" where
  "ex_bind m f s = (case m s of (Inl e, s') \<Rightarrow> (Inl e, s') | (Inr x, s') \<Rightarrow> f x s')"

lemma ex_return_apply [simp]: "ex_return x s = (Inr x, s)"
  by (simp add: ex_return_def)

lemma ex_throw_apply [simp]: "ex_throw e s = (Inl e, s)"
  by (simp add: ex_throw_def)

lemma ex_bind_Inr: "m s = (Inr x, s') \<Longrightarrow> ex_bind m f s = f x s'"
  by (simp add: ex_bind_def)

lemma ex_bind_Inl: "m s = (Inl e, s') \<Longrightarrow> ex_bind m f s = (Inl e, s')"
  by (simp add: ex_bind_def)

lemma ex_bind_eq_Inr:
  "ex_bind m f s = (Inr y, t) \<longleftrightarrow> (\<exists>x s'. m s = (Inr x, s') \<and> f x s' = (Inr y, t))"
  by (auto simp: ex_bind_def split: prod.splits sum.splits)

lemma ex_bind_assoc: "ex_bind (ex_bind m f) g = ex_bind m (\<lambda>x. ex_bind (f x) g)"
  by (rule ext) (simp add: ex_bind_def split: prod.splits sum.splits)

text \<open>Sequencing, and loops that run an operation for every element or a number of times.\<close>

definition ex_then :: "('s, 'e, 'a) exop \<Rightarrow> ('s, 'e, 'b) exop \<Rightarrow> ('s, 'e, 'b) exop" where
  "ex_then m k = ex_bind m (\<lambda>_. k)"

fun ex_each :: "('x \<Rightarrow> ('s, 'e, 'a) exop) \<Rightarrow> 'x list \<Rightarrow> ('s, 'e, unit) exop" where
  "ex_each f [] = ex_return ()"
| "ex_each f (x # xs) = ex_then (f x) (ex_each f xs)"

fun ex_times :: "nat \<Rightarrow> ('s, 'e, 'a) exop \<Rightarrow> ('s, 'e, 'a list) exop" where
  "ex_times 0 m = ex_return []"
| "ex_times (Suc n) m = ex_bind m (\<lambda>x. ex_bind (ex_times n m) (\<lambda>xs. ex_return (x # xs)))"

text \<open>An invariant that every single run keeps is kept by the loop, whether it finishes or throws.\<close>

lemma ex_then_state:
  "snd (ex_then m k s) = (case fst (m s) of Inl _ \<Rightarrow> snd (m s) | Inr _ \<Rightarrow> snd (k (snd (m s))))"
  by (simp add: ex_then_def ex_bind_def split: prod.split sum.split)

lemma ex_then_keeps: "P (snd (m s)) \<Longrightarrow> (\<And>t. P t \<Longrightarrow> P (snd (k t))) \<Longrightarrow> P (snd (ex_then m k s))"
  by (simp add: ex_then_state split: sum.split)

lemma ex_each_keeps:
  "P s \<Longrightarrow> (\<And>x t. x \<in> set xs \<Longrightarrow> P t \<Longrightarrow> P (snd (f x t))) \<Longrightarrow> P (snd (ex_each f xs s))"
  by (induction xs arbitrary: s) (auto intro: ex_then_keeps)

section \<open>Sorting with a comparator\<close>

text \<open>
  \<^verbatim>\<open>std::sort(begin, end, less)\<close>: any permutation of the range that is sorted with
  respect to \<^verbatim>\<open>less\<close>. The model picks insertion sort; \<open>sorted_unique\<close> below shows that
  the choice is immaterial when no two elements are equivalent.
\<close>

fun sort_insert :: "('a \<Rightarrow> 'a \<Rightarrow> bool) \<Rightarrow> 'a \<Rightarrow> 'a list \<Rightarrow> 'a list" where
  "sort_insert lt x [] = [x]"
| "sort_insert lt x (y # ys) = (if lt y x then y # sort_insert lt x ys else x # y # ys)"

fun std_sort :: "('a \<Rightarrow> 'a \<Rightarrow> bool) \<Rightarrow> 'a list \<Rightarrow> 'a list" where
  "std_sort lt [] = []"
| "std_sort lt (x # xs) = sort_insert lt x (std_sort lt xs)"

lemma mset_sort_insert [simp]: "mset (sort_insert lt x xs) = add_mset x (mset xs)"
  by (induction xs) auto

lemma mset_std_sort [simp]: "mset (std_sort lt xs) = mset xs"
  by (induction xs) auto

lemma set_std_sort [simp]: "set (std_sort lt xs) = set xs"
  by (metis mset_std_sort set_mset_mset)

lemma length_std_sort [simp]: "length (std_sort lt xs) = length xs"
  by (metis mset_std_sort size_mset)

lemma std_sort_Nil_iff [simp]: "std_sort lt xs = [] \<longleftrightarrow> xs = []"
  by (metis length_0_conv length_std_sort)

text \<open>What the comparator must satisfy for \<^verbatim>\<open>std::sort\<close> to be defined (a strict weak order).\<close>

locale comparator =
  fixes lt :: "'a \<Rightarrow> 'a \<Rightarrow> bool"
  assumes lt_irrefl: "\<not> lt x x"
    and lt_trans: "lt x y \<Longrightarrow> lt y z \<Longrightarrow> lt x z"
    and incomp_trans: "\<not> lt x y \<Longrightarrow> \<not> lt y z \<Longrightarrow> \<not> lt x z"
begin

lemma lt_asym: "lt x y \<Longrightarrow> \<not> lt y x"
  using lt_irrefl lt_trans by blast

lemma set_sort_insert: "set (sort_insert lt x xs) = insert x (set xs)"
  by (induction xs) auto

lemma sorted_insert:
  "sorted_wrt (\<lambda>a b. \<not> lt b a) xs \<Longrightarrow> sorted_wrt (\<lambda>a b. \<not> lt b a) (sort_insert lt x xs)"
proof (induction xs)
  case Nil
  then show ?case by simp
next
  case (Cons y ys)
  show ?case
  proof (cases "lt y x")
    case True
    with Cons show ?thesis by (auto simp: set_sort_insert dest: lt_asym)
  next
    case False
    with Cons.prems show ?thesis using incomp_trans by auto
  qed
qed

lemma sorted_std_sort: "sorted_wrt (\<lambda>a b. \<not> lt b a) (std_sort lt xs)"
  by (induction xs) (auto intro: sorted_insert)

lemma head_least: "std_sort lt xs = y # ys \<Longrightarrow> x \<in> set xs \<Longrightarrow> \<not> lt x y"
proof -
  assume eq: "std_sort lt xs = y # ys" and x: "x \<in> set xs"
  have "x \<in> set (y # ys)" using x by (simp flip: eq)
  moreover have "sorted_wrt (\<lambda>a b. \<not> lt b a) (y # ys)"
    using sorted_std_sort [of xs] by (simp add: eq)
  ultimately show ?thesis using lt_irrefl by auto
qed

text \<open>If distinct positions are never equivalent, there is only one sorted permutation.\<close>

lemma sorted_unique:
  assumes tot: "\<And>x y. x \<in> set xs \<Longrightarrow> y \<in> set xs \<Longrightarrow> \<not> lt x y \<Longrightarrow> \<not> lt y x \<Longrightarrow> x = y"
    and srt: "sorted_wrt (\<lambda>a b. \<not> lt b a) ys" and perm: "mset ys = mset xs"
  shows "ys = std_sort lt xs"
proof -
  have "sorted_wrt (\<lambda>a b. \<not> lt b a) as \<Longrightarrow> sorted_wrt (\<lambda>a b. \<not> lt b a) bs \<Longrightarrow>
      mset as = mset bs \<Longrightarrow> set as \<subseteq> set xs \<Longrightarrow> as = bs" for as bs
  proof (induction as arbitrary: bs)
    case Nil
    then show ?case by simp
  next
    case (Cons a as)
    obtain b bs' where bs: "bs = b # bs'" using Cons.prems(3) by (cases bs) auto
    have mem: "b \<in> set (a # as)" "a \<in> set bs"
      using Cons.prems(3) bs by (metis list.set_intros(1) set_mset_mset)+
    have "\<not> lt b a" using Cons.prems(1) mem(1) lt_irrefl by auto
    moreover have "\<not> lt a b" using Cons.prems(2) mem(2) bs lt_irrefl by auto
    ultimately have "a = b"
      using tot [of a b] Cons.prems(4) mem(1) by auto
    with Cons bs show ?case by auto
  qed
  from this [OF srt sorted_std_sort perm [folded mset_std_sort [of lt xs]]]
  show ?thesis using perm by (metis order_refl set_mset_mset)
qed

lemma sorted_id:
  "sorted_wrt (\<lambda>a b. \<not> lt b a) xs \<Longrightarrow> std_sort lt xs = xs"
proof (induction xs)
  case Nil
  then show ?case by simp
next
  case (Cons x xs)
  then show ?case by (cases xs) auto
qed

end

text \<open>A comparator that compares a key in a linear order is a strict weak order.\<close>

lemma key_comparator: "comparator (\<lambda>a b. (k a :: 'b::linorder) < k b)"
  by unfold_locales auto

section \<open>Decimal rendering\<close>

fun dec_digits :: "nat \<Rightarrow> string" where
  "dec_digits n = (if n < 10 then [char_of (48 + n)] else dec_digits (n div 10) @ [char_of (48 + n mod 10)])"

declare dec_digits.simps [simp del]

definition std_to_string :: "u64 \<Rightarrow> string" where
  "std_to_string v = dec_digits (unat v)"

section \<open>Bytes\<close>

text \<open>
  A \<^verbatim>\<open>std::string\<close> is a list of bytes; \<^term>\<open>char_of\<close> and \<^term>\<open>of_char\<close> are the casts between
  \<^verbatim>\<open>char\<close> and \<^verbatim>\<open>std::uint8_t\<close>.
\<close>

definition to_byte :: "char \<Rightarrow> u8" where
  "to_byte c = of_nat (of_char c)"

definition of_byte :: "u8 \<Rightarrow> char" where
  "of_byte b = char_of (unat b)"

lemma of_byte_to_byte [simp]: "of_byte (to_byte c) = c"
proof -
  have "take_bit 8 (of_char c :: nat) = of_char c"
    using nat_of_char_less_256 [of c] by (simp add: take_bit_eq_mod del: nat_of_char_less_256)
  then show ?thesis by (simp add: to_byte_def of_byte_def unsigned_of_nat)
qed

lemma to_byte_of_byte [simp]: "to_byte (of_byte b) = b"
proof -
  have "unat b < 2 ^ LENGTH(8)" by (rule unsigned_less)
  then have "unat b mod 256 = unat b" by simp
  then show ?thesis by (simp add: to_byte_def of_byte_def)
qed

lemma map_of_byte_to_byte [simp]: "map (of_byte \<circ> to_byte) s = s"
  by (induction s) auto

section \<open>Words\<close>

lemma word_less_Suc: "x \<noteq> (-1 :: 'a::len word) \<Longrightarrow> x < x + 1"
proof -
  assume "x \<noteq> -1"
  then have "x + 1 \<noteq> 0" by (metis add_eq_0_iff2 add.commute)
  then have "unat (x + 1) = unat x + 1"
    by (metis Suc_eq_plus1 unatSuc add.commute)
  then show ?thesis by (simp add: word_less_nat_alt)
qed

lemma word_and_15: "v AND 15 = (v mod 16 :: u64)"
proof -
  have "v AND 15 = v AND mask 4" by (simp add: mask_eq_exp_minus_1)
  also have "\<dots> = take_bit 4 v" by (simp only: take_bit_eq_mask)
  finally show ?thesis by (simp add: take_bit_eq_mod)
qed

lemma word_bit_below:
  fixes w :: "'a::len word"
  assumes "w < 2 ^ n" and "n < LENGTH('a)" and "bit w m"
  shows "m < n"
proof -
  have "w AND mask n = w"
    using assms(1,2) word_2p_lem [of n w] by (simp add: mask_eq_iff word_size)
  then have "bit (w AND mask n) m" using assms(3) by simp
  then show ?thesis by (simp add: bit_and_iff bit_mask_iff)
qed

end
