(* ===== verification/Identity.thy ===== *)
theory Identity
  imports NR_Prelude
begin

unbundle bit_operations_syntax

text \<open>
  The strongly typed identities of \<^verbatim>\<open>include/nicresidency/id.hpp\<close>: \<open>Id\<close> and \<open>Generation\<close>
  carry a phantom tag, so that ids of different categories are different types here too.
  Both are linearly ordered by their value.
\<close>

section \<open>Identifiers\<close>

definition hex_digits :: string where
  "hex_digits = ''0123456789abcdef''"

definition hex_digit :: "u64 \<Rightarrow> char" where
  "hex_digit v = hex_digits ! unat (v AND 15)"

text \<open>The loop writes positions 15 down to 0, so it builds the text from its end.\<close>

fun hex_loop :: "nat \<Rightarrow> u64 \<Rightarrow> string \<Rightarrow> string" where
  "hex_loop 0 v out = out"
| "hex_loop (Suc n) v out = hex_loop n (drop_bit 4 v) (hex_digit v # out)"

definition hex64 :: "u64 \<Rightarrow> string" where
  "hex64 v = hex_loop 16 v []"

datatype 'tag Id = Id (id_value: u64)

definition id_null :: "'tag Id" where
  "id_null = Id 0"

definition id_valid :: "'tag Id \<Rightarrow> bool" where
  "id_valid i \<longleftrightarrow> id_value i \<noteq> 0"

definition id_str :: "'tag Id \<Rightarrow> string" where
  "id_str i = hex64 (id_value i)"

instantiation Id :: (type) linorder
begin

definition less_eq_Id :: "'a Id \<Rightarrow> 'a Id \<Rightarrow> bool" where
  "a \<le> b \<longleftrightarrow> id_value a \<le> id_value b"

definition less_Id :: "'a Id \<Rightarrow> 'a Id \<Rightarrow> bool" where
  "a < b \<longleftrightarrow> id_value a < id_value b"

instance
  by standard (auto simp: less_eq_Id_def less_Id_def intro: Id.expand)

end

section \<open>Generations\<close>

datatype 'tag Generation = Generation (gen_value: u64)

definition gen_null :: "'tag Generation" where
  "gen_null = Generation 0"

definition gen_valid :: "'tag Generation \<Rightarrow> bool" where
  "gen_valid g \<longleftrightarrow> gen_value g \<noteq> 0"

definition gen_next :: "'tag Generation \<Rightarrow> 'tag Generation" where
  "gen_next g = Generation (gen_value g + 1)"

definition gen_merge :: "'tag Generation \<Rightarrow> 'tag Generation \<Rightarrow> 'tag Generation" where
  "gen_merge a b = (if gen_value b \<le> gen_value a then a else b)"

definition gen_str :: "'tag Generation \<Rightarrow> string" where
  "gen_str g = std_to_string (gen_value g)"

instantiation Generation :: (type) linorder
begin

definition less_eq_Generation :: "'a Generation \<Rightarrow> 'a Generation \<Rightarrow> bool" where
  "a \<le> b \<longleftrightarrow> gen_value a \<le> gen_value b"

definition less_Generation :: "'a Generation \<Rightarrow> 'a Generation \<Rightarrow> bool" where
  "a < b \<longleftrightarrow> gen_value a < gen_value b"

instance
  by standard (auto simp: less_eq_Generation_def less_Generation_def intro: Generation.expand)

end

section \<open>Categories\<close>

typedecl NicTag
typedecl NicGenTag
typedecl PortTag
typedecl PortGenTag
typedecl FunctionTag
typedecl FunctionGenTag
typedecl QueueTag
typedecl QueueGenTag
typedecl GpuTag
typedecl GpuGenTag
typedecl DeviceTag
typedecl NumaNodeTag
typedecl PciNodeTag
typedecl EndpointTag
typedecl ResidencyTag
typedecl ResidencyGenTag
typedecl WorkerTag
typedecl WorkerBootTag
typedecl CoordinatorEpochTag
typedecl TopologyGenTag
typedecl CapabilityGenTag
typedecl PolicyTag
typedecl DecisionTag
typedecl AttachmentTag
typedecl AttachmentGenTag

type_synonym NicId = "NicTag Id"
type_synonym NicGeneration = "NicGenTag Generation"
type_synonym PortId = "PortTag Id"
type_synonym PortGeneration = "PortGenTag Generation"
type_synonym FunctionId = "FunctionTag Id"
type_synonym FunctionGeneration = "FunctionGenTag Generation"
type_synonym QueueId = "QueueTag Id"
type_synonym QueueGeneration = "QueueGenTag Generation"
type_synonym GpuId = "GpuTag Id"
type_synonym GpuGeneration = "GpuGenTag Generation"
type_synonym DeviceId = "DeviceTag Id"
type_synonym NumaNodeId = "NumaNodeTag Id"
type_synonym PciNodeId = "PciNodeTag Id"
type_synonym EndpointId = "EndpointTag Id"
type_synonym WorkerId = "WorkerTag Id"
type_synonym WorkerBootId = "WorkerBootTag Id"
type_synonym CoordinatorEpoch = "CoordinatorEpochTag Id"
type_synonym TopologyGeneration = "TopologyGenTag Generation"
type_synonym CapabilityGeneration = "CapabilityGenTag Generation"
type_synonym PolicyId = "PolicyTag Id"
type_synonym DecisionId = "DecisionTag Id"
type_synonym AttachmentId = "AttachmentTag Id"
type_synonym AttachmentGeneration = "AttachmentGenTag Generation"
type_synonym ResidencyId = "ResidencyTag Id"
type_synonym ResidencyGeneration = "ResidencyGenTag Generation"

section \<open>Facts\<close>

lemma id_valid_Id [simp]: "id_valid (Id v) \<longleftrightarrow> v \<noteq> 0"
  by (simp add: id_valid_def)

lemma id_valid_null [simp]: "\<not> id_valid id_null"
  by (simp add: id_null_def)

lemma gen_valid_Generation [simp]: "gen_valid (Generation v) \<longleftrightarrow> v \<noteq> 0"
  by (simp add: gen_valid_def)

lemma Id_less_iff [simp]: "Id a < Id b \<longleftrightarrow> a < b"
  by (simp add: less_Id_def)

lemma Id_le_iff [simp]: "Id a \<le> Id b \<longleftrightarrow> a \<le> b"
  by (simp add: less_eq_Id_def)

lemma Generation_less_iff [simp]: "Generation a < Generation b \<longleftrightarrow> a < b"
  by (simp add: less_Generation_def)

lemma Generation_le_iff [simp]: "Generation a \<le> Generation b \<longleftrightarrow> a \<le> b"
  by (simp add: less_eq_Generation_def)

lemma gen_next_less: "gen_value g \<noteq> -1 \<Longrightarrow> g < gen_next g"
  by (cases g) (simp add: gen_next_def word_less_Suc)

lemma gen_next_valid: "gen_value g \<noteq> -1 \<Longrightarrow> gen_valid (gen_next g)"
  using gen_next_less [of g] by (cases g) (auto simp: gen_next_def)

lemma gen_next_wraps: "gen_next (Generation (-1)) = Generation 0"
  by (simp add: gen_next_def)

lemma gen_merge_max: "gen_merge a b = max a b"
  by (auto simp: gen_merge_def max_def less_eq_Generation_def intro: Generation.expand)

subsection \<open>Fixed-width hexadecimal\<close>

definition hex_weight :: "char \<Rightarrow> nat" where
  "hex_weight c = length (takeWhile (\<lambda>x. x \<noteq> c) hex_digits)"

definition hex_nat :: "nat \<Rightarrow> string \<Rightarrow> nat" where
  "hex_nat = foldl (\<lambda>a c. 16 * a + hex_weight c)"

lemma hex_weight_nth: "n < 16 \<Longrightarrow> hex_weight (hex_digits ! n) = n"
proof -
  have "\<forall>n \<in> set [0..<16]. hex_weight (hex_digits ! n) = n"
    by (simp add: hex_weight_def hex_digits_def upt_rec)
  then show "n < 16 \<Longrightarrow> ?thesis" by simp
qed

lemma hex_weight_digit: "hex_weight (hex_digit v) = unat v mod 16"
  by (simp add: hex_digit_def hex_weight_nth word_and_15 unat_mod)

lemma hex_nat_Cons: "hex_nat a (c # cs) = hex_nat (16 * a + hex_weight c) cs"
  by (simp add: hex_nat_def)

lemma hex_nat_loop:
  "hex_nat a (hex_loop n v out) = hex_nat (a * 16 ^ n + unat v mod 16 ^ n) out"
proof (induction n arbitrary: v out)
  case 0
  then show ?case by simp
next
  case (Suc n)
  have "16 * (unat v div 16 mod 16 ^ n) + unat v mod 16 = unat v mod 16 ^ Suc n"
    by (simp add: mod_mult2_eq)
  then have "16 * (a * 16 ^ n + unat v div 16 mod 16 ^ n) + unat v mod 16
      = a * 16 ^ Suc n + unat v mod 16 ^ Suc n"
    by (simp add: algebra_simps)
  moreover have "unat (drop_bit 4 v) = unat v div 16"
    by (simp add: drop_bit_eq_div unat_div)
  ultimately show ?case
    using Suc.IH [of "drop_bit 4 v" "hex_digit v # out"]
    by (simp only: hex_loop.simps hex_nat_Cons hex_weight_digit)
qed

lemma hex_nat_hex64: "hex_nat 0 (hex64 v) = unat v"
proof -
  have "unat v < 2 ^ LENGTH(64)" by (rule unsigned_less)
  then show ?thesis by (simp add: hex64_def hex_nat_loop) (simp add: hex_nat_def)
qed

lemma length_hex_loop: "length (hex_loop n v out) = n + length out"
  by (induction n arbitrary: v out) auto

end
