(* ===== verification/Enums.thy ===== *)
theory Enums
  imports NR_Prelude
begin

text \<open>
  The enumerated vocabulary of \<^verbatim>\<open>error.hpp\<close>, \<^verbatim>\<open>enums.hpp\<close> and \<^verbatim>\<open>provenance.hpp\<close>: one datatype
  per \<^verbatim>\<open>enum class\<close> with the source's enumerators (written \<open>Type.kName\<close>), its \<^verbatim>\<open>to_string\<close>
  as \<open>Type_str\<close> and, for the enums that are written to storage, the underlying value
  (\<open>Type_code\<close>) and the cast back (\<open>Type_of\<close>). The locale \<open>enum_code\<close> is what the
  serializers rely on.
\<close>

section \<open>Errors\<close>

datatype ErrorCode =
  kOk | kNotFound | kUnsupported | kInvalidArgument | kInvalidTopology | kInvalidAttachment
  | kStaleNic | kStaleFunction | kStaleQueue | kStaleTopology | kStaleResidency | kStaleBoot
  | kStaleEpoch | kCapabilityMismatch | kNotLocal | kNotReady | kOwnerConflict
  | kRevalidationRequired | kInsufficientEvidence | kPolicyRejected | kBackendUnavailable
  | kBackendError | kProtocolError | kIntegrityFailure | kResourceLimit | kCancelled
  | kInternalError

fun ErrorCode_str :: "ErrorCode \<Rightarrow> string" where
  "ErrorCode_str ErrorCode.kOk = ''OK''"
| "ErrorCode_str ErrorCode.kNotFound = ''NOT_FOUND''"
| "ErrorCode_str ErrorCode.kUnsupported = ''UNSUPPORTED''"
| "ErrorCode_str ErrorCode.kInvalidArgument = ''INVALID_ARGUMENT''"
| "ErrorCode_str ErrorCode.kInvalidTopology = ''INVALID_TOPOLOGY''"
| "ErrorCode_str ErrorCode.kInvalidAttachment = ''INVALID_ATTACHMENT''"
| "ErrorCode_str ErrorCode.kStaleNic = ''STALE_NIC''"
| "ErrorCode_str ErrorCode.kStaleFunction = ''STALE_FUNCTION''"
| "ErrorCode_str ErrorCode.kStaleQueue = ''STALE_QUEUE''"
| "ErrorCode_str ErrorCode.kStaleTopology = ''STALE_TOPOLOGY''"
| "ErrorCode_str ErrorCode.kStaleResidency = ''STALE_RESIDENCY''"
| "ErrorCode_str ErrorCode.kStaleBoot = ''STALE_BOOT''"
| "ErrorCode_str ErrorCode.kStaleEpoch = ''STALE_EPOCH''"
| "ErrorCode_str ErrorCode.kCapabilityMismatch = ''CAPABILITY_MISMATCH''"
| "ErrorCode_str ErrorCode.kNotLocal = ''NOT_LOCAL''"
| "ErrorCode_str ErrorCode.kNotReady = ''NOT_READY''"
| "ErrorCode_str ErrorCode.kOwnerConflict = ''OWNER_CONFLICT''"
| "ErrorCode_str ErrorCode.kRevalidationRequired = ''REVALIDATION_REQUIRED''"
| "ErrorCode_str ErrorCode.kInsufficientEvidence = ''INSUFFICIENT_EVIDENCE''"
| "ErrorCode_str ErrorCode.kPolicyRejected = ''POLICY_REJECTED''"
| "ErrorCode_str ErrorCode.kBackendUnavailable = ''BACKEND_UNAVAILABLE''"
| "ErrorCode_str ErrorCode.kBackendError = ''BACKEND_ERROR''"
| "ErrorCode_str ErrorCode.kProtocolError = ''PROTOCOL_ERROR''"
| "ErrorCode_str ErrorCode.kIntegrityFailure = ''INTEGRITY_FAILURE''"
| "ErrorCode_str ErrorCode.kResourceLimit = ''RESOURCE_LIMIT''"
| "ErrorCode_str ErrorCode.kCancelled = ''CANCELLED''"
| "ErrorCode_str ErrorCode.kInternalError = ''INTERNAL_ERROR''"

text \<open>The exception class: its code, \<^verbatim>\<open>what()\<close> and the inspection detail.\<close>

datatype ResidencyError =
  ResidencyError (err_code: ErrorCode) (err_what: string) (err_detail: string)

section \<open>Domain enums\<close>

datatype ResidencyState =
  kAbsent | kDiscovered | kAvailable | kResident | kAttached | kDetached | kDraining
  | kRevalidationRequired | kStale | kFailed | kUnsupported | kRetired

fun ResidencyState_str :: "ResidencyState \<Rightarrow> string" where
  "ResidencyState_str ResidencyState.kAbsent = ''ABSENT''"
| "ResidencyState_str ResidencyState.kDiscovered = ''DISCOVERED''"
| "ResidencyState_str ResidencyState.kAvailable = ''AVAILABLE''"
| "ResidencyState_str ResidencyState.kResident = ''RESIDENT''"
| "ResidencyState_str ResidencyState.kAttached = ''ATTACHED''"
| "ResidencyState_str ResidencyState.kDetached = ''DETACHED''"
| "ResidencyState_str ResidencyState.kDraining = ''DRAINING''"
| "ResidencyState_str ResidencyState.kRevalidationRequired = ''REVALIDATION_REQUIRED''"
| "ResidencyState_str ResidencyState.kStale = ''STALE''"
| "ResidencyState_str ResidencyState.kFailed = ''FAILED''"
| "ResidencyState_str ResidencyState.kUnsupported = ''UNSUPPORTED''"
| "ResidencyState_str ResidencyState.kRetired = ''RETIRED''"

definition ResidencyState_all :: "ResidencyState list" where
  "ResidencyState_all =
    [ResidencyState.kAbsent, ResidencyState.kDiscovered, ResidencyState.kAvailable
     , ResidencyState.kResident, ResidencyState.kAttached, ResidencyState.kDetached
     , ResidencyState.kDraining, ResidencyState.kRevalidationRequired, ResidencyState.kStale
     , ResidencyState.kFailed, ResidencyState.kUnsupported, ResidencyState.kRetired]"

fun ResidencyState_code :: "ResidencyState \<Rightarrow> u8" where
  "ResidencyState_code ResidencyState.kAbsent = 0"
| "ResidencyState_code ResidencyState.kDiscovered = 1"
| "ResidencyState_code ResidencyState.kAvailable = 2"
| "ResidencyState_code ResidencyState.kResident = 3"
| "ResidencyState_code ResidencyState.kAttached = 4"
| "ResidencyState_code ResidencyState.kDetached = 5"
| "ResidencyState_code ResidencyState.kDraining = 6"
| "ResidencyState_code ResidencyState.kRevalidationRequired = 7"
| "ResidencyState_code ResidencyState.kStale = 8"
| "ResidencyState_code ResidencyState.kFailed = 9"
| "ResidencyState_code ResidencyState.kUnsupported = 10"
| "ResidencyState_code ResidencyState.kRetired = 11"

definition ResidencyState_of :: "u8 \<Rightarrow> ResidencyState" where
  "ResidencyState_of c = ResidencyState_all ! unat c"

datatype LifecycleState =
  kDiscovered | kAvailable | kReservedForAttachment | kAttached | kResident | kDraining
  | kDetached | kRevalidationRequired | kFailed | kRetired

fun LifecycleState_str :: "LifecycleState \<Rightarrow> string" where
  "LifecycleState_str LifecycleState.kDiscovered = ''DISCOVERED''"
| "LifecycleState_str LifecycleState.kAvailable = ''AVAILABLE''"
| "LifecycleState_str LifecycleState.kReservedForAttachment = ''RESERVED_FOR_ATTACHMENT''"
| "LifecycleState_str LifecycleState.kAttached = ''ATTACHED''"
| "LifecycleState_str LifecycleState.kResident = ''RESIDENT''"
| "LifecycleState_str LifecycleState.kDraining = ''DRAINING''"
| "LifecycleState_str LifecycleState.kDetached = ''DETACHED''"
| "LifecycleState_str LifecycleState.kRevalidationRequired = ''REVALIDATION_REQUIRED''"
| "LifecycleState_str LifecycleState.kFailed = ''FAILED''"
| "LifecycleState_str LifecycleState.kRetired = ''RETIRED''"

definition LifecycleState_all :: "LifecycleState list" where
  "LifecycleState_all =
    [LifecycleState.kDiscovered, LifecycleState.kAvailable, LifecycleState.kReservedForAttachment
     , LifecycleState.kAttached, LifecycleState.kResident, LifecycleState.kDraining
     , LifecycleState.kDetached, LifecycleState.kRevalidationRequired, LifecycleState.kFailed
     , LifecycleState.kRetired]"

fun LifecycleState_code :: "LifecycleState \<Rightarrow> u8" where
  "LifecycleState_code LifecycleState.kDiscovered = 0"
| "LifecycleState_code LifecycleState.kAvailable = 1"
| "LifecycleState_code LifecycleState.kReservedForAttachment = 2"
| "LifecycleState_code LifecycleState.kAttached = 3"
| "LifecycleState_code LifecycleState.kResident = 4"
| "LifecycleState_code LifecycleState.kDraining = 5"
| "LifecycleState_code LifecycleState.kDetached = 6"
| "LifecycleState_code LifecycleState.kRevalidationRequired = 7"
| "LifecycleState_code LifecycleState.kFailed = 8"
| "LifecycleState_code LifecycleState.kRetired = 9"

definition LifecycleState_of :: "u8 \<Rightarrow> LifecycleState" where
  "LifecycleState_of c = LifecycleState_all ! unat c"

datatype FunctionClass =
  kPhysicalFunction | kVirtualFunction | kSubfunction | kRepresentor | kUnknown

fun FunctionClass_str :: "FunctionClass \<Rightarrow> string" where
  "FunctionClass_str FunctionClass.kPhysicalFunction = ''PHYSICAL_FUNCTION''"
| "FunctionClass_str FunctionClass.kVirtualFunction = ''VIRTUAL_FUNCTION''"
| "FunctionClass_str FunctionClass.kSubfunction = ''SUBFUNCTION''"
| "FunctionClass_str FunctionClass.kRepresentor = ''REPRESENTOR''"
| "FunctionClass_str FunctionClass.kUnknown = ''UNKNOWN''"

definition FunctionClass_all :: "FunctionClass list" where
  "FunctionClass_all =
    [FunctionClass.kPhysicalFunction, FunctionClass.kVirtualFunction, FunctionClass.kSubfunction
     , FunctionClass.kRepresentor, FunctionClass.kUnknown]"

fun FunctionClass_code :: "FunctionClass \<Rightarrow> u8" where
  "FunctionClass_code FunctionClass.kPhysicalFunction = 0"
| "FunctionClass_code FunctionClass.kVirtualFunction = 1"
| "FunctionClass_code FunctionClass.kSubfunction = 2"
| "FunctionClass_code FunctionClass.kRepresentor = 3"
| "FunctionClass_code FunctionClass.kUnknown = 4"

definition FunctionClass_of :: "u8 \<Rightarrow> FunctionClass" where
  "FunctionClass_of c = FunctionClass_all ! unat c"

datatype DeviceKind =
  kNic | kSmartNic | kDpu | kUnknown | kUnsupported

fun DeviceKind_str :: "DeviceKind \<Rightarrow> string" where
  "DeviceKind_str DeviceKind.kNic = ''NIC''"
| "DeviceKind_str DeviceKind.kSmartNic = ''SMARTNIC''"
| "DeviceKind_str DeviceKind.kDpu = ''DPU''"
| "DeviceKind_str DeviceKind.kUnknown = ''UNKNOWN''"
| "DeviceKind_str DeviceKind.kUnsupported = ''UNSUPPORTED''"

definition DeviceKind_all :: "DeviceKind list" where
  "DeviceKind_all =
    [DeviceKind.kNic, DeviceKind.kSmartNic, DeviceKind.kDpu, DeviceKind.kUnknown
     , DeviceKind.kUnsupported]"

fun DeviceKind_code :: "DeviceKind \<Rightarrow> u8" where
  "DeviceKind_code DeviceKind.kNic = 0"
| "DeviceKind_code DeviceKind.kSmartNic = 1"
| "DeviceKind_code DeviceKind.kDpu = 2"
| "DeviceKind_code DeviceKind.kUnknown = 3"
| "DeviceKind_code DeviceKind.kUnsupported = 4"

definition DeviceKind_of :: "u8 \<Rightarrow> DeviceKind" where
  "DeviceKind_of c = DeviceKind_all ! unat c"

datatype OwnershipState =
  kUnassigned | kAssigned | kContested | kRevoked | kUnknown

fun OwnershipState_str :: "OwnershipState \<Rightarrow> string" where
  "OwnershipState_str OwnershipState.kUnassigned = ''UNASSIGNED''"
| "OwnershipState_str OwnershipState.kAssigned = ''ASSIGNED''"
| "OwnershipState_str OwnershipState.kContested = ''CONTESTED''"
| "OwnershipState_str OwnershipState.kRevoked = ''REVOKED''"
| "OwnershipState_str OwnershipState.kUnknown = ''UNKNOWN''"

definition OwnershipState_all :: "OwnershipState list" where
  "OwnershipState_all =
    [OwnershipState.kUnassigned, OwnershipState.kAssigned, OwnershipState.kContested
     , OwnershipState.kRevoked, OwnershipState.kUnknown]"

fun OwnershipState_code :: "OwnershipState \<Rightarrow> u8" where
  "OwnershipState_code OwnershipState.kUnassigned = 0"
| "OwnershipState_code OwnershipState.kAssigned = 1"
| "OwnershipState_code OwnershipState.kContested = 2"
| "OwnershipState_code OwnershipState.kRevoked = 3"
| "OwnershipState_code OwnershipState.kUnknown = 4"

definition OwnershipState_of :: "u8 \<Rightarrow> OwnershipState" where
  "OwnershipState_of c = OwnershipState_all ! unat c"

datatype AttachmentState =
  kProposed | kValidated | kCommitted | kDraining | kRevoked | kStale | kFailed

fun AttachmentState_str :: "AttachmentState \<Rightarrow> string" where
  "AttachmentState_str AttachmentState.kProposed = ''PROPOSED''"
| "AttachmentState_str AttachmentState.kValidated = ''VALIDATED''"
| "AttachmentState_str AttachmentState.kCommitted = ''COMMITTED''"
| "AttachmentState_str AttachmentState.kDraining = ''DRAINING''"
| "AttachmentState_str AttachmentState.kRevoked = ''REVOKED''"
| "AttachmentState_str AttachmentState.kStale = ''STALE''"
| "AttachmentState_str AttachmentState.kFailed = ''FAILED''"

datatype LinkState =
  kUp | kDown | kUnknown | kUnsupported

fun LinkState_str :: "LinkState \<Rightarrow> string" where
  "LinkState_str LinkState.kUp = ''UP''"
| "LinkState_str LinkState.kDown = ''DOWN''"
| "LinkState_str LinkState.kUnknown = ''UNKNOWN''"
| "LinkState_str LinkState.kUnsupported = ''UNSUPPORTED''"

datatype HealthState =
  kReady | kDegraded | kNotReady | kUnknown | kUnsupported

fun HealthState_str :: "HealthState \<Rightarrow> string" where
  "HealthState_str HealthState.kReady = ''READY''"
| "HealthState_str HealthState.kDegraded = ''DEGRADED''"
| "HealthState_str HealthState.kNotReady = ''NOT_READY''"
| "HealthState_str HealthState.kUnknown = ''UNKNOWN''"
| "HealthState_str HealthState.kUnsupported = ''UNSUPPORTED''"

section \<open>Evidence enums\<close>

datatype EvidenceKind =
  kReal | kSynthetic | kUnsupported

fun EvidenceKind_str :: "EvidenceKind \<Rightarrow> string" where
  "EvidenceKind_str EvidenceKind.kReal = ''REAL''"
| "EvidenceKind_str EvidenceKind.kSynthetic = ''SYNTHETIC''"
| "EvidenceKind_str EvidenceKind.kUnsupported = ''UNSUPPORTED''"

definition EvidenceKind_all :: "EvidenceKind list" where
  "EvidenceKind_all =
    [EvidenceKind.kReal, EvidenceKind.kSynthetic, EvidenceKind.kUnsupported]"

fun EvidenceKind_code :: "EvidenceKind \<Rightarrow> u8" where
  "EvidenceKind_code EvidenceKind.kReal = 0"
| "EvidenceKind_code EvidenceKind.kSynthetic = 1"
| "EvidenceKind_code EvidenceKind.kUnsupported = 2"

definition EvidenceKind_of :: "u8 \<Rightarrow> EvidenceKind" where
  "EvidenceKind_of c = EvidenceKind_all ! unat c"

datatype Source =
  kOperatingSystem | kPci | kNuma | kCuda | kNvml | kRdmaProvider | kVerbs | kNetAdapterApi
  | kVendorSdk | kDpuRuntime | kPersisted | kDerived | kSyntheticFixture

fun Source_str :: "Source \<Rightarrow> string" where
  "Source_str Source.kOperatingSystem = ''OPERATING_SYSTEM''"
| "Source_str Source.kPci = ''PCI''"
| "Source_str Source.kNuma = ''NUMA''"
| "Source_str Source.kCuda = ''CUDA''"
| "Source_str Source.kNvml = ''NVML''"
| "Source_str Source.kRdmaProvider = ''RDMA_PROVIDER''"
| "Source_str Source.kVerbs = ''VERBS''"
| "Source_str Source.kNetAdapterApi = ''NET_ADAPTER_API''"
| "Source_str Source.kVendorSdk = ''VENDOR_SDK''"
| "Source_str Source.kDpuRuntime = ''DPU_RUNTIME''"
| "Source_str Source.kPersisted = ''PERSISTED''"
| "Source_str Source.kDerived = ''DERIVED''"
| "Source_str Source.kSyntheticFixture = ''SYNTHETIC_FIXTURE''"

definition Source_all :: "Source list" where
  "Source_all =
    [Source.kOperatingSystem, Source.kPci, Source.kNuma, Source.kCuda, Source.kNvml
     , Source.kRdmaProvider, Source.kVerbs, Source.kNetAdapterApi, Source.kVendorSdk
     , Source.kDpuRuntime, Source.kPersisted, Source.kDerived, Source.kSyntheticFixture]"

fun Source_code :: "Source \<Rightarrow> u8" where
  "Source_code Source.kOperatingSystem = 0"
| "Source_code Source.kPci = 1"
| "Source_code Source.kNuma = 2"
| "Source_code Source.kCuda = 3"
| "Source_code Source.kNvml = 4"
| "Source_code Source.kRdmaProvider = 5"
| "Source_code Source.kVerbs = 6"
| "Source_code Source.kNetAdapterApi = 7"
| "Source_code Source.kVendorSdk = 8"
| "Source_code Source.kDpuRuntime = 9"
| "Source_code Source.kPersisted = 10"
| "Source_code Source.kDerived = 11"
| "Source_code Source.kSyntheticFixture = 12"

definition Source_of :: "u8 \<Rightarrow> Source" where
  "Source_of c = Source_all ! unat c"

section \<open>Enums on the wire\<close>

text \<open>
  What \<^verbatim>\<open>static_cast\<close> between an enum and its byte promises: the enumerators are numbered
  consecutively from zero.
\<close>

locale enum_code =
  fixes every :: "'e list" and code :: "'e \<Rightarrow> u8"
  assumes complete: "x \<in> set every"
    and few: "length every \<le> 256"
    and code_nth: "map code every = map of_nat [0..<length every]"
begin

lemma code_at: "i < length every \<Longrightarrow> code (every ! i) = of_nat i"
  using arg_cong [OF code_nth, of "\<lambda>xs. xs ! i"] by simp

lemma unat_code_at: "i < length every \<Longrightarrow> unat (code (every ! i)) = i"
  using few by (simp add: code_at unsigned_of_nat take_bit_eq_mod)

lemma decode_code: "every ! unat (code x) = x"
  using complete [of x] by (auto simp: in_set_conv_nth unat_code_at)

lemma code_bound: "unat (code x) < length every"
  using complete [of x] by (auto simp: in_set_conv_nth unat_code_at)

lemma code_decode: "unat c < length every \<Longrightarrow> code (every ! unat c) = c"
  by (simp add: code_at)

lemma code_inj: "code x = code y \<Longrightarrow> x = y"
  by (metis decode_code)

end

lemma ResidencyState_complete: "x \<in> set ResidencyState_all"
  by (cases x) (simp_all add: ResidencyState_all_def)

interpretation rs: enum_code ResidencyState_all ResidencyState_code
  by unfold_locales (simp_all add: ResidencyState_complete, simp_all add: ResidencyState_all_def upt_rec)

lemma LifecycleState_complete: "x \<in> set LifecycleState_all"
  by (cases x) (simp_all add: LifecycleState_all_def)

interpretation ls: enum_code LifecycleState_all LifecycleState_code
  by unfold_locales (simp_all add: LifecycleState_complete, simp_all add: LifecycleState_all_def upt_rec)

lemma FunctionClass_complete: "x \<in> set FunctionClass_all"
  by (cases x) (simp_all add: FunctionClass_all_def)

interpretation fc: enum_code FunctionClass_all FunctionClass_code
  by unfold_locales (simp_all add: FunctionClass_complete, simp_all add: FunctionClass_all_def upt_rec)

lemma DeviceKind_complete: "x \<in> set DeviceKind_all"
  by (cases x) (simp_all add: DeviceKind_all_def)

interpretation dk: enum_code DeviceKind_all DeviceKind_code
  by unfold_locales (simp_all add: DeviceKind_complete, simp_all add: DeviceKind_all_def upt_rec)

lemma OwnershipState_complete: "x \<in> set OwnershipState_all"
  by (cases x) (simp_all add: OwnershipState_all_def)

interpretation os: enum_code OwnershipState_all OwnershipState_code
  by unfold_locales (simp_all add: OwnershipState_complete, simp_all add: OwnershipState_all_def upt_rec)

lemma EvidenceKind_complete: "x \<in> set EvidenceKind_all"
  by (cases x) (simp_all add: EvidenceKind_all_def)

interpretation ek: enum_code EvidenceKind_all EvidenceKind_code
  by unfold_locales (simp_all add: EvidenceKind_complete, simp_all add: EvidenceKind_all_def upt_rec)

lemma Source_complete: "x \<in> set Source_all"
  by (cases x) (simp_all add: Source_all_def)

interpretation src: enum_code Source_all Source_code
  by unfold_locales (simp_all add: Source_complete, simp_all add: Source_all_def upt_rec)

end
