(* ===== verification/Evidence.thy ===== *)
theory Evidence
  imports Identity Enums
begin

text \<open>
  Evidence labels (\<^verbatim>\<open>provenance.hpp\<close>) and static capability sets (\<^verbatim>\<open>capability.hpp\<close>).
\<close>

section \<open>Provenance\<close>

record Provenance =
  prov_kind :: EvidenceKind
  prov_sources :: "Source list"

definition prov_default :: Provenance where
  "prov_default = \<lparr>prov_kind = EvidenceKind.kUnsupported, prov_sources = []\<rparr>"

abbreviation mk_prov :: "EvidenceKind \<Rightarrow> Source list \<Rightarrow> Provenance" where
  "mk_prov k s \<equiv> \<lparr>prov_kind = k, prov_sources = s\<rparr>"

primrec source_in :: "Source \<Rightarrow> Source list \<Rightarrow> bool" where
  "source_in s [] = False"
| "source_in s (x # xs) = (if x = s then True else source_in s xs)"

definition has_source :: "Provenance \<Rightarrow> Source \<Rightarrow> bool" where
  "has_source p s = source_in s (prov_sources p)"

definition add_source :: "Source \<Rightarrow> Provenance \<Rightarrow> Provenance" where
  "add_source s p = (if \<not> has_source p s then p\<lparr>prov_sources := prov_sources p @ [s]\<rparr> else p)"

definition prov_authoritative :: "Provenance \<Rightarrow> bool" where
  "prov_authoritative p \<longleftrightarrow> prov_kind p = EvidenceKind.kReal"

definition prov_synthetic :: "Provenance \<Rightarrow> bool" where
  "prov_synthetic p \<longleftrightarrow> prov_kind p = EvidenceKind.kSynthetic"

definition prov_unsupported :: "Provenance \<Rightarrow> bool" where
  "prov_unsupported p \<longleftrightarrow> prov_kind p = EvidenceKind.kUnsupported"

text \<open>\<^verbatim>\<open>operator==\<close> compares the kind, the number of sources and each source in order.\<close>

fun sources_eq :: "Source list \<Rightarrow> Source list \<Rightarrow> bool" where
  "sources_eq [] [] = True"
| "sources_eq (x # xs) (y # ys) = (if x \<noteq> y then False else sources_eq xs ys)"
| "sources_eq _ _ = False"

definition prov_eq :: "Provenance \<Rightarrow> Provenance \<Rightarrow> bool" where
  "prov_eq a b =
     (if prov_kind a \<noteq> prov_kind b then False
      else if length (prov_sources a) \<noteq> length (prov_sources b) then False
      else sources_eq (prov_sources a) (prov_sources b))"

fun comma_sep :: "string list \<Rightarrow> string" where
  "comma_sep [] = []"
| "comma_sep [x] = x"
| "comma_sep (x # xs) = x @ '','' @ comma_sep xs"

definition prov_str :: "Provenance \<Rightarrow> string" where
  "prov_str p = EvidenceKind_str (prov_kind p) @ ''['' @ comma_sep (map Source_str (prov_sources p)) @ '']''"

section \<open>Capabilities\<close>

record CapabilitySet =
  cap_generation :: CapabilityGeneration
  cap_rdma :: bool
  cap_sr_iov :: bool
  cap_offload :: bool
  cap_local_memory :: bool
  cap_accel_affinity :: bool
  cap_provenance :: Provenance

definition cap_default :: CapabilitySet where
  "cap_default = \<lparr>cap_generation = gen_null, cap_rdma = False, cap_sr_iov = False,
     cap_offload = False, cap_local_memory = False, cap_accel_affinity = False,
     cap_provenance = prov_default\<rparr>"

text \<open>\<^verbatim>\<open>operator==\<close> ignores the generation and the provenance.\<close>

definition cap_eq :: "CapabilitySet \<Rightarrow> CapabilitySet \<Rightarrow> bool" where
  "cap_eq a b \<longleftrightarrow> cap_rdma a = cap_rdma b \<and> cap_sr_iov a = cap_sr_iov b \<and>
     cap_offload a = cap_offload b \<and> cap_local_memory a = cap_local_memory b \<and>
     cap_accel_affinity a = cap_accel_affinity b"

definition yes_no :: "bool \<Rightarrow> string" where
  "yes_no b = (if b then ''yes'' else ''no'')"

definition cap_str :: "CapabilitySet \<Rightarrow> string" where
  "cap_str c = ''gen='' @ gen_str (cap_generation c) @ '' rdma='' @ yes_no (cap_rdma c)
     @ '' sriov='' @ yes_no (cap_sr_iov c) @ '' offload='' @ yes_no (cap_offload c)
     @ '' localmem='' @ yes_no (cap_local_memory c)
     @ '' accelaffinity='' @ yes_no (cap_accel_affinity c)
     @ '' prov='' @ prov_str (cap_provenance c)"

section \<open>Facts\<close>

lemma source_in_set [simp]: "source_in s xs \<longleftrightarrow> s \<in> set xs"
  by (induction xs) auto

lemma has_source_set: "has_source p s \<longleftrightarrow> s \<in> set (prov_sources p)"
  by (simp add: has_source_def)

lemma sources_eq_iff [simp]: "sources_eq xs ys \<longleftrightarrow> xs = ys"
  by (induction xs ys rule: sources_eq.induct) auto

lemma prov_eq_iff [simp]: "prov_eq a b \<longleftrightarrow> a = b"
  by (cases a, cases b) (auto simp: prov_eq_def)

lemma add_source_kind [simp]: "prov_kind (add_source s p) = prov_kind p"
  by (simp add: add_source_def)

lemma add_source_has [simp]: "has_source (add_source s p) t \<longleftrightarrow> t = s \<or> has_source p t"
  by (auto simp: add_source_def has_source_set)

lemma add_source_distinct:
  "distinct (prov_sources p) \<Longrightarrow> distinct (prov_sources (add_source s p))"
  by (simp add: add_source_def has_source_set)

lemma cap_eq_refl [simp]: "cap_eq c c"
  by (simp add: cap_eq_def)

end
