(* ===== verification/Pci_Locality.thy ===== *)
theory Pci_Locality
  imports Evidence
begin

unbundle bit_operations_syntax

text \<open>
  PCI addresses and locality statements (\<^verbatim>\<open>include/nicresidency/locality.hpp\<close>).
  The \<^verbatim>\<open>std::int64_t\<close> costs are \<^typ>\<open>int\<close>: they are differences of bytes and 16-bit values
  times 1000, far inside the 64-bit range (\<open>distance_to_bound\<close>).
\<close>

section \<open>PCI addresses\<close>

record PciAddress =
  pci_segment :: u16
  pci_bus :: u8
  pci_device :: u8
  pci_function :: u8

abbreviation mk_pci :: "u16 \<Rightarrow> u8 \<Rightarrow> u8 \<Rightarrow> u8 \<Rightarrow> PciAddress" where
  "mk_pci s b d f \<equiv> \<lparr>pci_segment = s, pci_bus = b, pci_device = d, pci_function = f\<rparr>"

definition pci_default :: PciAddress where
  "pci_default = mk_pci 0 0 0 0"

definition from_bdf :: "u16 \<Rightarrow> u16 \<Rightarrow> PciAddress" where
  "from_bdf segment bdf =
     mk_pci segment (ucast (drop_bit 8 bdf AND 0xFF)) (ucast (drop_bit 3 bdf AND 0x1F))
       (ucast (bdf AND 0x7))"

definition pci_valid :: "PciAddress \<Rightarrow> bool" where
  "pci_valid p \<longleftrightarrow> pci_bus p \<noteq> 0 \<or> pci_device p \<noteq> 0 \<or> pci_function p \<noteq> 0"

definition pci_numeric :: "PciAddress \<Rightarrow> u32" where
  "pci_numeric p =
     push_bit 16 (ucast (pci_segment p)) OR push_bit 8 (ucast (pci_bus p)) OR
     push_bit 3 (ucast (pci_device p)) OR ucast (pci_function p)"

definition pci_eq :: "PciAddress \<Rightarrow> PciAddress \<Rightarrow> bool" where
  "pci_eq a b \<longleftrightarrow> pci_numeric a = pci_numeric b"

definition distance_to :: "PciAddress \<Rightarrow> PciAddress \<Rightarrow> int" where
  "distance_to p other =
     (uint (pci_segment p) - uint (pci_segment other)) * 1000
       + (uint (pci_bus p) - uint (pci_bus other))"

definition nibble_hex :: "u64 \<Rightarrow> char" where
  "nibble_hex v = hex_digits ! unat (v AND 15)"

definition pci_str :: "PciAddress \<Rightarrow> string" where
  "pci_str p =
     (let s = ucast (pci_segment p); b = ucast (pci_bus p); d = ucast (pci_device p);
          f = ucast (pci_function p)
      in [nibble_hex (drop_bit 12 s), nibble_hex (drop_bit 8 s), nibble_hex (drop_bit 4 s),
          nibble_hex s, CHR '':'', nibble_hex (drop_bit 4 b), nibble_hex b, CHR '':'',
          nibble_hex (drop_bit 4 d), nibble_hex d, CHR ''.'', nibble_hex f])"

section \<open>Locality statements\<close>

datatype LocalityRelationship =
  kSameDevice | kSamePcieSwitch | kSameRootComplex | kSameNumaNode | kRemoteNuma | kHostLocal
  | kAcceleratorLocal | kUnknown | kUnsupported

fun LocalityRelationship_str :: "LocalityRelationship \<Rightarrow> string" where
  "LocalityRelationship_str LocalityRelationship.kSameDevice = ''SAME_DEVICE''"
| "LocalityRelationship_str LocalityRelationship.kSamePcieSwitch = ''SAME_PCIE_SWITCH''"
| "LocalityRelationship_str LocalityRelationship.kSameRootComplex = ''SAME_ROOT_COMPLEX''"
| "LocalityRelationship_str LocalityRelationship.kSameNumaNode = ''SAME_NUMA_NODE''"
| "LocalityRelationship_str LocalityRelationship.kRemoteNuma = ''REMOTE_NUMA''"
| "LocalityRelationship_str LocalityRelationship.kHostLocal = ''HOST_LOCAL''"
| "LocalityRelationship_str LocalityRelationship.kAcceleratorLocal = ''ACCELERATOR_LOCAL''"
| "LocalityRelationship_str LocalityRelationship.kUnknown = ''UNKNOWN''"
| "LocalityRelationship_str LocalityRelationship.kUnsupported = ''UNSUPPORTED''"

record LocalityFactors =
  root_complex_same :: bool
  pcie_switch_same :: bool
  numa_same :: bool
  accelerator_affine :: bool
  cpu_local :: bool
  local_memory :: bool
  host_local :: bool
  accelerator_local :: bool
  direct_pci_neighbor :: bool
  fac_cost :: int

definition factors_default :: LocalityFactors where
  "factors_default = \<lparr>root_complex_same = False, pcie_switch_same = False, numa_same = False,
     accelerator_affine = False, cpu_local = False, local_memory = False, host_local = False,
     accelerator_local = False, direct_pci_neighbor = False, fac_cost = 0\<rparr>"

record Locality =
  loc_relationship :: LocalityRelationship
  loc_numa_node :: NumaNodeId
  loc_pci :: PciAddress
  loc_provenance :: Provenance
  loc_factors :: LocalityFactors

abbreviation mk_locality ::
    "LocalityRelationship \<Rightarrow> NumaNodeId \<Rightarrow> PciAddress \<Rightarrow> Provenance \<Rightarrow> LocalityFactors \<Rightarrow> Locality" where
  "mk_locality r n p v f \<equiv> \<lparr>loc_relationship = r, loc_numa_node = n, loc_pci = p,
     loc_provenance = v, loc_factors = f\<rparr>"

definition locality_default :: Locality where
  "locality_default =
     mk_locality LocalityRelationship.kUnknown id_null pci_default prov_default factors_default"

definition locality_str :: "Locality \<Rightarrow> string" where
  "locality_str l = ''REL='' @ LocalityRelationship_str (loc_relationship l) @ '' NUMA=''
     @ (if id_valid (loc_numa_node l) then std_to_string (id_value (loc_numa_node l)) else ''none'')
     @ '' PCI='' @ pci_str (loc_pci l) @ '' PROV='' @ prov_str (loc_provenance l)"

definition is_localised :: "LocalityRelationship \<Rightarrow> bool" where
  "is_localised r = (case r of
     LocalityRelationship.kSameDevice \<Rightarrow> True
   | LocalityRelationship.kSamePcieSwitch \<Rightarrow> True
   | LocalityRelationship.kSameRootComplex \<Rightarrow> True
   | LocalityRelationship.kSameNumaNode \<Rightarrow> True
   | LocalityRelationship.kAcceleratorLocal \<Rightarrow> True
   | LocalityRelationship.kRemoteNuma \<Rightarrow> False
   | LocalityRelationship.kHostLocal \<Rightarrow> False
   | LocalityRelationship.kUnknown \<Rightarrow> False
   | LocalityRelationship.kUnsupported \<Rightarrow> False)"

section \<open>Facts\<close>

text \<open>The canonical field ranges of a bus:device.function address.\<close>

definition pci_canonical :: "PciAddress \<Rightarrow> bool" where
  "pci_canonical p \<longleftrightarrow> pci_device p < 32 \<and> pci_function p < 8"

lemma pci_eq_refl [simp]: "pci_eq a a"
  by (simp add: pci_eq_def)

lemma pci_eq_sym: "pci_eq a b \<Longrightarrow> pci_eq b a"
  by (simp add: pci_eq_def)

lemma pci_eq_trans: "pci_eq a b \<Longrightarrow> pci_eq b c \<Longrightarrow> pci_eq a c"
  by (simp add: pci_eq_def)

lemma distance_to_bound: "\<bar>distance_to a b\<bar> \<le> 65535255"
proof -
  have "0 \<le> uint (pci_segment x) \<and> uint (pci_segment x) < 65536" for x :: PciAddress
    using uint_lt2p [of "pci_segment x"] by simp
  moreover have "0 \<le> uint (pci_bus x) \<and> uint (pci_bus x) < 256" for x :: PciAddress
    using uint_lt2p [of "pci_bus x"] by simp
  ultimately have "0 \<le> uint (pci_segment a)" "uint (pci_segment a) < 65536"
    "0 \<le> uint (pci_segment b)" "uint (pci_segment b) < 65536"
    "0 \<le> uint (pci_bus a)" "uint (pci_bus a) < 256"
    "0 \<le> uint (pci_bus b)" "uint (pci_bus b) < 256"
    by blast+
  then show ?thesis unfolding distance_to_def abs_le_iff left_diff_distrib by (intro conjI; linarith)
qed

lemma pci_numeric_fields:
  assumes "pci_canonical p"
  shows "ucast (drop_bit 16 (pci_numeric p)) = pci_segment p"
    and "ucast (drop_bit 8 (ucast (pci_numeric p AND 0xFFFF) :: u16) AND 0xFF) = pci_bus p"
    and "ucast (drop_bit 3 (ucast (pci_numeric p AND 0xFFFF) :: u16) AND 0x1F) = pci_device p"
    and "ucast ((ucast (pci_numeric p AND 0xFFFF) :: u16) AND 0x7) = pci_function p"
proof -
  have d: "m < 5" if "bit (pci_device p) m" for m
    using word_bit_below [of "pci_device p" 5 m] assms that by (simp add: pci_canonical_def)
  have f: "m < 3" if "bit (pci_function p) m" for m
    using word_bit_below [of "pci_function p" 3 m] assms that by (simp add: pci_canonical_def)
  have m: "(0xFFFF :: u32) = mask 16" "(0xFF :: u16) = mask 8" "(0x1F :: u16) = mask 5"
    "(0x7 :: u16) = mask 3"
    by (simp_all add: mask_eq_exp_minus_1)
  show "ucast (drop_bit 16 (pci_numeric p)) = pci_segment p" unfolding pci_numeric_def
    by (rule bit_word_eqI) (auto simp: bit_simps dest: bit_imp_le_length d f)
  show "ucast (drop_bit 8 (ucast (pci_numeric p AND 0xFFFF) :: u16) AND 0xFF) = pci_bus p"
    unfolding pci_numeric_def m
    by (rule bit_word_eqI) (auto simp: bit_simps dest: bit_imp_le_length d f)
  show "ucast (drop_bit 3 (ucast (pci_numeric p AND 0xFFFF) :: u16) AND 0x1F) = pci_device p"
    unfolding pci_numeric_def m
    by (rule bit_word_eqI) (auto simp: bit_simps dest: bit_imp_le_length d f)
  show "ucast ((ucast (pci_numeric p AND 0xFFFF) :: u16) AND 0x7) = pci_function p"
    unfolding pci_numeric_def m
    by (rule bit_word_eqI) (auto simp: bit_simps dest: bit_imp_le_length d f)
qed

lemma from_bdf_numeric:
  "pci_canonical p \<Longrightarrow>
     from_bdf (ucast (drop_bit 16 (pci_numeric p))) (ucast (pci_numeric p AND 0xFFFF)) = p"
  unfolding from_bdf_def by (simp only: pci_numeric_fields) simp

lemma from_bdf_canonical: "pci_canonical (from_bdf s b)"
proof -
  have m: "(0x1F :: u16) = mask 5" "(0x7 :: u16) = mask 3"
    by (simp_all add: mask_eq_exp_minus_1)
  have "ucast (drop_bit 3 b AND mask 5 :: u16) = (take_bit 5 (ucast (drop_bit 3 b)) :: u8)"
    "ucast (b AND mask 3 :: u16) = (take_bit 3 (ucast b) :: u8)"
    by (rule bit_word_eqI; auto simp: bit_simps)+
  then show ?thesis unfolding pci_canonical_def from_bdf_def m
    using and_mask_less' [of 5 "ucast (drop_bit 3 b) :: u8"] and_mask_less' [of 3 "ucast b :: u8"]
    by (simp add: word_size take_bit_eq_mask)
qed

lemma pci_eq_canonical:
  "pci_canonical a \<Longrightarrow> pci_canonical b \<Longrightarrow> pci_eq a b \<longleftrightarrow> a = b"
  by (metis from_bdf_numeric pci_eq_def)

text \<open>The order of the addresses is a strict weak one, whose equivalence is their equality.\<close>

definition pci_less :: "PciAddress \<Rightarrow> PciAddress \<Rightarrow> bool" where
  "pci_less a b \<longleftrightarrow> pci_numeric a < pci_numeric b"

interpretation pci: comparator pci_less
  by unfold_locales (auto simp: pci_less_def)

lemma pci_less_incomparable: "\<not> pci_less a b \<and> \<not> pci_less b a \<longleftrightarrow> pci_eq a b"
  by (auto simp: pci_less_def pci_eq_def)

end
