(* ===== verification/Domain_Records.thy ===== *)
theory Domain_Records
  imports Pci_Locality
begin

text \<open>
  The domain records of \<^verbatim>\<open>include/nicresidency/records.hpp\<close>, one \<open>record\<close> per struct with
  a field per member (prefixed by the struct, as field names are global), and the values
  of the default member initializers.
\<close>

section \<open>Devices, functions, ports and queues\<close>

record NicRecord =
  nic_id :: NicId
  nic_generation :: NicGeneration
  nic_os_name :: string
  nic_os_description :: string
  nic_pci :: PciAddress
  nic_vendor_id :: u16
  nic_device_id :: u16
  nic_subsystem_vendor_id :: u16
  nic_subsystem_id :: u16
  nic_revision :: u8
  nic_device_kind :: DeviceKind
  nic_function_class :: FunctionClass
  nic_capability :: CapabilitySet
  nic_numa_node :: NumaNodeId
  nic_link_state :: LinkState
  nic_health :: HealthState
  nic_lifecycle :: LifecycleState
  nic_provenance :: Provenance
  nic_freshness :: u64

definition nic_default :: NicRecord where
  "nic_default = \<lparr>nic_id = id_null, nic_generation = gen_null, nic_os_name = [],
     nic_os_description = [], nic_pci = pci_default, nic_vendor_id = 0, nic_device_id = 0,
     nic_subsystem_vendor_id = 0, nic_subsystem_id = 0, nic_revision = 0,
     nic_device_kind = DeviceKind.kNic, nic_function_class = FunctionClass.kUnknown,
     nic_capability = cap_default, nic_numa_node = id_null, nic_link_state = LinkState.kUnknown,
     nic_health = HealthState.kUnknown, nic_lifecycle = LifecycleState.kDiscovered,
     nic_provenance = prov_default, nic_freshness = 0\<rparr>"

record FunctionRecord =
  fn_id :: FunctionId
  fn_generation :: FunctionGeneration
  fn_parent_nic :: NicId
  fn_class :: FunctionClass
  fn_port :: PortId
  fn_numa_node :: NumaNodeId
  fn_capability :: CapabilitySet
  fn_ownership :: OwnershipState
  fn_owner_worker :: WorkerId
  fn_owner_boot :: WorkerBootId
  fn_epoch :: CoordinatorEpoch
  fn_lifecycle :: LifecycleState
  fn_provenance :: Provenance
  fn_freshness :: u64

definition fn_default :: FunctionRecord where
  "fn_default = \<lparr>fn_id = id_null, fn_generation = gen_null, fn_parent_nic = id_null,
     fn_class = FunctionClass.kUnknown, fn_port = id_null, fn_numa_node = id_null,
     fn_capability = cap_default, fn_ownership = OwnershipState.kUnknown,
     fn_owner_worker = id_null, fn_owner_boot = id_null, fn_epoch = id_null,
     fn_lifecycle = LifecycleState.kDiscovered, fn_provenance = prov_default, fn_freshness = 0\<rparr>"

record PortRecord =
  port_id :: PortId
  port_generation :: PortGeneration
  port_parent_nic :: NicId
  port_parent_function :: FunctionId
  port_os_name :: string
  port_link_state :: LinkState
  port_link_speed_mbps :: u64
  port_numa_node :: NumaNodeId
  port_lifecycle :: LifecycleState
  port_provenance :: Provenance
  port_freshness :: u64

definition port_default :: PortRecord where
  "port_default = \<lparr>port_id = id_null, port_generation = gen_null, port_parent_nic = id_null,
     port_parent_function = id_null, port_os_name = [], port_link_state = LinkState.kUnknown,
     port_link_speed_mbps = 0, port_numa_node = id_null,
     port_lifecycle = LifecycleState.kDiscovered, port_provenance = prov_default,
     port_freshness = 0\<rparr>"

record QueueRecord =
  queue_id :: QueueId
  queue_generation :: QueueGeneration
  queue_parent_function :: FunctionId
  queue_parent_nic :: NicId
  queue_kind :: string
  queue_lifecycle :: LifecycleState
  queue_provenance :: Provenance
  queue_freshness :: u64

definition queue_default :: QueueRecord where
  "queue_default = \<lparr>queue_id = id_null, queue_generation = gen_null,
     queue_parent_function = id_null, queue_parent_nic = id_null, queue_kind = [],
     queue_lifecycle = LifecycleState.kDiscovered, queue_provenance = prov_default,
     queue_freshness = 0\<rparr>"

section \<open>Accelerators, attachments and residencies\<close>

record GpuRecord =
  gpu_id :: GpuId
  gpu_generation :: GpuGeneration
  gpu_name :: string
  gpu_pci :: PciAddress
  gpu_cuda_device :: DeviceId
  gpu_cuda_verified :: bool
  gpu_numa_node :: NumaNodeId
  gpu_provenance :: Provenance
  gpu_freshness :: u64

definition gpu_default :: GpuRecord where
  "gpu_default = \<lparr>gpu_id = id_null, gpu_generation = gen_null, gpu_name = [],
     gpu_pci = pci_default, gpu_cuda_device = id_null, gpu_cuda_verified = False,
     gpu_numa_node = id_null, gpu_provenance = prov_default, gpu_freshness = 0\<rparr>"

record Attachment =
  att_id :: AttachmentId
  att_generation :: AttachmentGeneration
  att_nic :: NicId
  att_function :: FunctionId
  att_port :: PortId
  att_queue :: QueueId
  att_gpu :: GpuId
  att_numa :: NumaNodeId
  att_endpoint :: EndpointId
  att_topology_generation :: TopologyGeneration
  att_state :: AttachmentState
  att_owner_worker :: WorkerId
  att_owner_boot :: WorkerBootId
  att_epoch :: CoordinatorEpoch
  att_provenance :: Provenance
  att_freshness :: u64

definition att_default :: Attachment where
  "att_default = \<lparr>att_id = id_null, att_generation = gen_null, att_nic = id_null,
     att_function = id_null, att_port = id_null, att_queue = id_null, att_gpu = id_null,
     att_numa = id_null, att_endpoint = id_null, att_topology_generation = gen_null,
     att_state = AttachmentState.kProposed, att_owner_worker = id_null,
     att_owner_boot = id_null, att_epoch = id_null, att_provenance = prov_default,
     att_freshness = 0\<rparr>"

record ResidencyRecord =
  res_id :: ResidencyId
  res_generation :: ResidencyGeneration
  res_nic :: NicId
  res_function :: FunctionId
  res_port :: PortId
  res_queue :: QueueId
  res_target_gpu :: GpuId
  res_target_numa :: NumaNodeId
  res_target_endpoint :: EndpointId
  res_state :: ResidencyState
  res_attachment_generation :: AttachmentGeneration
  res_topology_generation :: TopologyGeneration
  res_capability_generation :: CapabilityGeneration
  res_ownership :: OwnershipState
  res_owner_worker :: WorkerId
  res_owner_boot :: WorkerBootId
  res_epoch :: CoordinatorEpoch
  res_locality :: Locality
  res_policy :: PolicyId
  res_provenance :: Provenance
  res_freshness :: u64
  res_lifecycle :: LifecycleState
  res_explanation :: string

definition res_default :: ResidencyRecord where
  "res_default = \<lparr>res_id = id_null, res_generation = gen_null, res_nic = id_null,
     res_function = id_null, res_port = id_null, res_queue = id_null, res_target_gpu = id_null,
     res_target_numa = id_null, res_target_endpoint = id_null,
     res_state = ResidencyState.kDiscovered, res_attachment_generation = gen_null,
     res_topology_generation = gen_null, res_capability_generation = gen_null,
     res_ownership = OwnershipState.kUnknown, res_owner_worker = id_null,
     res_owner_boot = id_null, res_epoch = id_null, res_locality = locality_default,
     res_policy = id_null, res_provenance = prov_default, res_freshness = 0,
     res_lifecycle = LifecycleState.kDiscovered, res_explanation = []\<rparr>"

section \<open>Validity\<close>

definition nic_valid :: "NicRecord \<Rightarrow> bool" where
  "nic_valid n \<longleftrightarrow> id_valid (nic_id n)"

definition fn_valid :: "FunctionRecord \<Rightarrow> bool" where
  "fn_valid f \<longleftrightarrow> id_valid (fn_id f) \<and> id_valid (fn_parent_nic f)"

definition port_valid :: "PortRecord \<Rightarrow> bool" where
  "port_valid p \<longleftrightarrow> id_valid (port_id p) \<and> id_valid (port_parent_nic p)"

definition queue_valid :: "QueueRecord \<Rightarrow> bool" where
  "queue_valid q \<longleftrightarrow> id_valid (queue_id q) \<and> id_valid (queue_parent_function q)"

definition gpu_valid :: "GpuRecord \<Rightarrow> bool" where
  "gpu_valid g \<longleftrightarrow> id_valid (gpu_id g)"

definition att_valid :: "Attachment \<Rightarrow> bool" where
  "att_valid a \<longleftrightarrow> id_valid (att_id a)"

definition res_valid :: "ResidencyRecord \<Rightarrow> bool" where
  "res_valid r \<longleftrightarrow> id_valid (res_id r) \<and> id_valid (res_nic r)"

end
