(* ===== verification/Std_Containers.thy ===== *)
theory Std_Containers
  imports NR_Prelude
begin

text \<open>
  The ordered containers of the C++ standard library that the program uses:
  \<^verbatim>\<open>std::map\<close> as an association list in strictly increasing key order (so iteration order
  and size are those of the program) and \<^verbatim>\<open>std::set\<close> as a strictly increasing list.
  The locale \<open>std_map\<close> states what the clients rely on.
\<close>

section \<open>The map\<close>

type_synonym ('k, 'v) smap = "('k \<times> 'v) list"

abbreviation m_find :: "('k, 'v) smap \<Rightarrow> 'k \<Rightarrow> 'v option" where
  "m_find \<equiv> map_of"

fun m_put :: "'k::linorder \<Rightarrow> 'v \<Rightarrow> ('k, 'v) smap \<Rightarrow> ('k, 'v) smap" where
  "m_put k v [] = [(k, v)]"
| "m_put k v ((a, b) # m) =
     (if k < a then (k, v) # (a, b) # m
      else if k = a then (k, v) # m
      else (a, b) # m_put k v m)"

definition m_erase :: "'k \<Rightarrow> ('k, 'v) smap \<Rightarrow> ('k, 'v) smap" where
  "m_erase k m = filter (\<lambda>p. fst p \<noteq> k) m"

text \<open>\<^verbatim>\<open>for (auto& kv : m) kv.second = f(kv.second)\<close>\<close>

definition m_foreach :: "('v \<Rightarrow> 'v) \<Rightarrow> ('k, 'v) smap \<Rightarrow> ('k, 'v) smap" where
  "m_foreach f m = map (\<lambda>(k, v). (k, f v)) m"

definition m_size :: "('k, 'v) smap \<Rightarrow> nat" where
  "m_size m = length m"

definition m_has :: "('k, 'v) smap \<Rightarrow> 'k \<Rightarrow> bool" where
  "m_has m k \<longleftrightarrow> m_find m k \<noteq> None"

definition m_inv :: "('k::linorder, 'v) smap \<Rightarrow> bool" where
  "m_inv m \<longleftrightarrow> sorted_wrt (<) (map fst m)"

section \<open>What a client may rely on\<close>

locale std_map =
  fixes find :: "'m \<Rightarrow> 'k \<Rightarrow> 'v option"
    and put :: "'k \<Rightarrow> 'v \<Rightarrow> 'm \<Rightarrow> 'm"
    and erase :: "'k \<Rightarrow> 'm \<Rightarrow> 'm"
    and foreach :: "('v \<Rightarrow> 'v) \<Rightarrow> 'm \<Rightarrow> 'm"
    and count :: "'m \<Rightarrow> nat"
    and inv :: "'m \<Rightarrow> bool"
  assumes find_put: "find (put k v m) j = (if j = k then Some v else find m j)"
    and find_erase: "find (erase k m) j = (if j = k then None else find m j)"
    and find_foreach: "find (foreach f m) j = map_option f (find m j)"
    and count_put: "inv m \<Longrightarrow> count (put k v m) = (if find m k = None then Suc (count m) else count m)"
    and count_foreach: "count (foreach f m) = count m"
    and inv_put: "inv m \<Longrightarrow> inv (put k v m)"
    and inv_erase: "inv m \<Longrightarrow> inv (erase k m)"
    and inv_foreach: "inv (foreach f m) = inv m"
    and extensional: "inv m \<Longrightarrow> inv m' \<Longrightarrow> find m = find m' \<Longrightarrow> m = m'"
begin

lemma put_put_same: "inv m \<Longrightarrow> put k v (put k w m) = put k v m"
  by (intro extensional inv_put) (auto simp: find_put)

lemma put_commute:
  "inv m \<Longrightarrow> k \<noteq> j \<Longrightarrow> put k v (put j w m) = put j w (put k v m)"
  by (intro extensional inv_put) (auto simp: find_put)

lemma put_id: "inv m \<Longrightarrow> find m k = Some v \<Longrightarrow> put k v m = m"
  by (intro extensional inv_put) (auto simp: find_put)

lemma erase_id: "inv m \<Longrightarrow> find m k = None \<Longrightarrow> erase k m = m"
  by (intro extensional inv_erase) (auto simp: find_erase)

lemma foreach_put: "inv m \<Longrightarrow> foreach f (put k v m) = put k (f v) (foreach f m)"
  by (intro extensional) (auto simp: find_put find_foreach inv_put inv_foreach)

lemma foreach_foreach: "inv m \<Longrightarrow> foreach f (foreach g m) = foreach (f \<circ> g) m"
  by (intro extensional)
    (auto simp: find_foreach inv_foreach option.map_comp)

text \<open>A property of every stored value survives a write that satisfies it.\<close>

lemma all_put:
  assumes "\<And>j w. find m j = Some w \<Longrightarrow> P j w" and "P k v" and "find (put k v m) j = Some w"
  shows "P j w"
  using assms by (auto simp: find_put split: if_splits)

lemma all_foreach:
  assumes "\<And>j w. find m j = Some w \<Longrightarrow> P j (f w)" and "find (foreach f m) j = Some w"
  shows "P j w"
  using assms by (auto simp: find_foreach)

end

lemma m_find_put: "m_find (m_put k v m) j = (if j = k then Some v else m_find m j)"
  by (induction m) auto

lemma m_find_erase: "m_find (m_erase k m) j = (if j = k then None else m_find m j)"
  by (induction m) (auto simp: m_erase_def)

lemma m_find_foreach: "m_find (m_foreach f m) j = map_option f (m_find m j)"
  by (induction m) (auto simp: m_foreach_def)

lemma fst_m_foreach [simp]: "map fst (m_foreach f m) = map fst m"
  by (induction m) (auto simp: m_foreach_def)

lemma set_m_put_keys: "fst ` set (m_put k v m) = insert k (fst ` set m)"
proof (induction m)
  case Nil
  then show ?case by simp
next
  case (Cons p m)
  obtain a b where "p = (a, b)" by (cases p)
  with Cons show ?case by (simp add: insert_commute)
qed

lemma m_inv_Cons: "m_inv ((a, b) # m) \<longleftrightarrow> (\<forall>j \<in> fst ` set m. a < j) \<and> m_inv m"
  by (auto simp: m_inv_def)

lemma m_inv_Nil [simp]: "m_inv []"
  by (simp add: m_inv_def)

lemma m_inv_put: "m_inv m \<Longrightarrow> m_inv (m_put k v m)"
proof (induction m)
  case Nil
  then show ?case by (simp add: m_inv_Cons)
next
  case (Cons p m)
  then show ?case by (cases p) (auto simp: m_inv_Cons set_m_put_keys intro: less_trans)
qed

lemma m_inv_erase: "m_inv m \<Longrightarrow> m_inv (m_erase k m)"
  by (simp add: m_inv_def m_erase_def sorted_wrt_map sorted_wrt_filter)

lemma m_inv_distinct: "m_inv m \<Longrightarrow> distinct (map fst m)"
  by (simp add: m_inv_def strict_sorted_iff)

lemma m_find_None_less: "m_inv ((a, b) # m) \<Longrightarrow> k \<le> a \<Longrightarrow> m_find m k = None"
  by (force simp: m_inv_Cons map_of_eq_None_iff)

lemma m_size_put:
  "m_inv m \<Longrightarrow> m_size (m_put k v m) = (if m_find m k = None then Suc (m_size m) else m_size m)"
proof (induction m)
  case Nil
  then show ?case by (simp add: m_size_def)
next
  case (Cons p m)
  obtain a b where p: "p = (a, b)" by (cases p)
  have "m_inv m" using Cons.prems p by (simp add: m_inv_Cons)
  with Cons.IH p show ?case
    using m_find_None_less [of a b m k] Cons.prems by (auto simp: m_size_def)
qed

lemma m_set_conv: "m_inv m \<Longrightarrow> set m = {(k, v). m_find m k = Some v}"
  by (auto simp: m_inv_distinct dest: map_of_SomeD)

lemma m_extensional:
  assumes "m_inv m" "m_inv m'" "m_find m = m_find m'"
  shows "m = m'"
proof -
  have "set m = set m'" using assms by (simp add: m_set_conv)
  moreover have "sorted (map fst m)" "distinct (map fst m)" "sorted (map fst m')" "distinct (map fst m')"
    using assms(1,2) by (simp_all add: m_inv_def strict_sorted_iff)
  ultimately show ?thesis using map_sorted_distinct_set_unique [of fst m m']
    by (metis distinct_map inj_on_Un sup.idem)
qed

lemma m_inv_foreach [simp]: "m_inv (m_foreach f m) = m_inv m"
  by (simp add: m_inv_def)

lemma m_size_foreach [simp]: "m_size (m_foreach f m) = m_size m"
  by (simp add: m_size_def m_foreach_def)

interpretation om: std_map m_find m_put m_erase m_foreach m_size m_inv
  by unfold_locales
    (simp_all add: m_find_put m_find_erase m_find_foreach m_size_put m_inv_put m_inv_erase m_extensional)

lemmas [map_laws, simp] =
  m_find_put m_find_erase m_find_foreach m_size_put m_inv_put m_inv_erase

lemma m_has_find: "m_has m k \<longleftrightarrow> (\<exists>v. m_find m k = Some v)"
  by (auto simp: m_has_def)

lemma m_has_put [simp]: "m_has (m_put k v m) j \<longleftrightarrow> j = k \<or> m_has m j"
  by (auto simp: m_has_def)

lemma m_has_foreach [simp]: "m_has (m_foreach f m) j \<longleftrightarrow> m_has m j"
  by (auto simp: m_has_def)

lemma m_find_in: "m_find m k = Some v \<Longrightarrow> (k, v) \<in> set m"
  by (rule map_of_SomeD)

lemma m_in_find: "m_inv m \<Longrightarrow> (k, v) \<in> set m \<Longrightarrow> m_find m k = Some v"
  by (simp add: m_inv_distinct)

section \<open>Filling a map from a list\<close>

fun m_load :: "('x \<Rightarrow> 'k::linorder) \<Rightarrow> ('x \<Rightarrow> 'v) \<Rightarrow> 'x list \<Rightarrow> ('k, 'v) smap \<Rightarrow> ('k, 'v) smap" where
  "m_load key val [] m = m"
| "m_load key val (x # xs) m = m_load key val xs (m_put (key x) (val x) m)"

lemma m_inv_load [simp]: "m_inv m \<Longrightarrow> m_inv (m_load key val xs m)"
  by (induction xs arbitrary: m) simp_all

lemma m_find_load:
  "distinct (map key xs) \<Longrightarrow> m_find (m_load key val xs m) k =
     (case m_find (map (\<lambda>x. (key x, val x)) xs) k of None \<Rightarrow> m_find m k | Some v \<Rightarrow> Some v)"
proof (induction xs arbitrary: m)
  case (Cons x xs)
  have "m_find (map (\<lambda>x. (key x, val x)) xs) (key x) = None"
    using Cons.prems by (force simp: map_of_eq_None_iff image_iff)
  with Cons show ?case by (auto split: option.split)
qed simp

lemma m_find_load_Some:
  assumes "distinct (map key xs)"
  shows "m_find (m_load key val xs []) k = Some v \<longleftrightarrow> (\<exists>x \<in> set xs. k = key x \<and> v = val x)"
proof -
  have "distinct (map fst (map (\<lambda>x. (key x, val x)) xs))" using assms by (simp add: comp_def)
  from map_of_eq_Some_iff [OF this, of k v] show ?thesis
    using assms by (auto simp: m_find_load split: option.split)
qed

lemma m_load_dom: "distinct (map key xs) \<Longrightarrow> dom (m_find (m_load key val xs [])) = key ` set xs"
  by (auto simp: dom_def m_find_load_Some)

lemma m_load_set: "distinct (map key xs) \<Longrightarrow> set (m_load key val xs []) = (\<lambda>x. (key x, val x)) ` set xs"
  by (auto simp: m_set_conv [OF m_inv_load [OF m_inv_Nil]] m_find_load_Some)

lemma m_load_perm:
  assumes "distinct (map key xs)" "mset ys = mset xs" "m_inv m"
  shows "m_load key val ys m = m_load key val xs m"
proof (rule m_extensional)
  let ?pair = "\<lambda>x. (key x, val x)"
  have d: "distinct (map key ys)" using assms(1,2) by (metis mset_eq_imp_distinct_iff mset_map)
  have "set (map ?pair ys) = set (map ?pair xs)" using mset_eq_setD [OF assms(2)] by simp
  then have "m_find (map ?pair ys) = m_find (map ?pair xs)"
    by (subst map_of_inject_set) (simp_all add: comp_def assms(1) d)
  then show "m_find (m_load key val ys m) = m_find (m_load key val xs m)"
    by (intro ext) (simp add: m_find_load [OF assms(1)] m_find_load [OF d])
qed (simp_all add: assms(3))

section \<open>The set\<close>

fun s_insert :: "'k::linorder \<Rightarrow> 'k list \<Rightarrow> 'k list" where
  "s_insert k [] = [k]"
| "s_insert k (a # s) = (if k < a then k # a # s else if k = a then a # s else a # s_insert k s)"

lemma set_s_insert [simp]: "set (s_insert k s) = insert k (set s)"
  by (induction s) auto

end
