(* ===== verification/Topology_Graph.thy ===== *)
theory Topology_Graph
  imports Domain_Records Std_Containers
begin

text \<open>
  The topology model of \<^verbatim>\<open>include/nicresidency/topology.hpp\<close>: nodes, the immutable snapshot
  with its locality queries, and the builder that stages and finalizes it.
  \<open>finalize\<close> walks parent links in a loop that need not end (a parent cycle), so the model
  is a partial function: \<^term>\<open>None\<close> is a build that does not return.
\<close>

section \<open>Nodes and snapshots\<close>

datatype TopologyNodeKind =
  kRootComplex | kSwitch | kBridge | kDevice | kNumaDomain | kUnknown

fun TopologyNodeKind_str :: "TopologyNodeKind \<Rightarrow> string" where
  "TopologyNodeKind_str TopologyNodeKind.kRootComplex = ''ROOT_COMPLEX''"
| "TopologyNodeKind_str TopologyNodeKind.kSwitch = ''SWITCH''"
| "TopologyNodeKind_str TopologyNodeKind.kBridge = ''BRIDGE''"
| "TopologyNodeKind_str TopologyNodeKind.kDevice = ''DEVICE''"
| "TopologyNodeKind_str TopologyNodeKind.kNumaDomain = ''NUMA_DOMAIN''"
| "TopologyNodeKind_str TopologyNodeKind.kUnknown = ''UNKNOWN''"

record TopologyNode =
  tn_id :: PciNodeId
  tn_pci :: PciAddress
  tn_kind :: TopologyNodeKind
  tn_parent :: PciNodeId
  tn_numa :: NumaNodeId
  tn_provenance :: Provenance

abbreviation mk_node ::
    "PciNodeId \<Rightarrow> PciAddress \<Rightarrow> TopologyNodeKind \<Rightarrow> PciNodeId \<Rightarrow> NumaNodeId \<Rightarrow> Provenance \<Rightarrow> TopologyNode" where
  "mk_node i p k par n v \<equiv> \<lparr>tn_id = i, tn_pci = p, tn_kind = k, tn_parent = par, tn_numa = n,
     tn_provenance = v\<rparr>"

type_synonym node_map = "(PciNodeId, TopologyNode) smap"

record TopologySnapshot =
  top_generation :: TopologyGeneration
  top_nodes :: node_map
  top_edges :: "(PciNodeId \<times> PciNodeId) list"
  top_root_complex :: "(PciNodeId, PciNodeId) smap"
  top_switch :: "(PciNodeId, PciNodeId) smap"

definition topology_default :: TopologySnapshot where
  "topology_default = \<lparr>top_generation = gen_null, top_nodes = [], top_edges = [],
     top_root_complex = [], top_switch = []\<rparr>"

definition top_node_count :: "TopologySnapshot \<Rightarrow> nat" where
  "top_node_count t = m_size (top_nodes t)"

definition top_edge_count :: "TopologySnapshot \<Rightarrow> nat" where
  "top_edge_count t = length (top_edges t)"

definition top_node :: "TopologySnapshot \<Rightarrow> PciNodeId \<Rightarrow> TopologyNode option" where
  "top_node t i = m_find (top_nodes t) i"

fun first_pci :: "node_map \<Rightarrow> PciAddress \<Rightarrow> TopologyNode option" where
  "first_pci [] pci = None"
| "first_pci ((k, n) # m) pci = (if pci_eq (tn_pci n) pci then Some n else first_pci m pci)"

definition node_for_pci :: "TopologySnapshot \<Rightarrow> PciAddress \<Rightarrow> TopologyNode option" where
  "node_for_pci t pci = first_pci (top_nodes t) pci"

definition has_edge :: "TopologySnapshot \<Rightarrow> PciNodeId \<Rightarrow> PciNodeId \<Rightarrow> bool" where
  "has_edge t a b \<longleftrightarrow> (a, b) \<in> set (top_edges t) \<or> (b, a) \<in> set (top_edges t)"

definition root_complex_of :: "TopologySnapshot \<Rightarrow> PciNodeId \<Rightarrow> PciNodeId" where
  "root_complex_of t n = (case m_find (top_root_complex t) n of None \<Rightarrow> id_null | Some r \<Rightarrow> r)"

definition switch_of :: "TopologySnapshot \<Rightarrow> PciNodeId \<Rightarrow> PciNodeId" where
  "switch_of t n = (case m_find (top_switch t) n of None \<Rightarrow> id_null | Some s \<Rightarrow> s)"

section \<open>Locality queries\<close>

definition same_root_complex :: "TopologySnapshot \<Rightarrow> PciAddress \<Rightarrow> PciAddress \<Rightarrow> bool" where
  "same_root_complex t a b =
     (case (node_for_pci t a, node_for_pci t b) of
        (Some na, Some nb) \<Rightarrow>
          (let ra = root_complex_of t (tn_id na); rb = root_complex_of t (tn_id nb)
           in id_valid ra \<and> ra = rb)
      | _ \<Rightarrow> False)"

definition same_pcie_switch :: "TopologySnapshot \<Rightarrow> PciAddress \<Rightarrow> PciAddress \<Rightarrow> bool" where
  "same_pcie_switch t a b =
     (case (node_for_pci t a, node_for_pci t b) of
        (Some na, Some nb) \<Rightarrow>
          (let sa = switch_of t (tn_id na); sb = switch_of t (tn_id nb)
           in id_valid sa \<and> sa = sb)
      | _ \<Rightarrow> False)"

definition same_numa_node :: "TopologySnapshot \<Rightarrow> PciAddress \<Rightarrow> PciAddress \<Rightarrow> bool" where
  "same_numa_node t a b =
     (case (node_for_pci t a, node_for_pci t b) of
        (Some na, Some nb) \<Rightarrow> id_valid (tn_numa na) \<and> tn_numa na = tn_numa nb
      | _ \<Rightarrow> False)"

definition FastCost :: "PciAddress \<Rightarrow> PciAddress \<Rightarrow> int" where
  "FastCost a b = distance_to a b"

definition derivable_cost :: "LocalityFactors \<Rightarrow> int" where
  "derivable_cost f =
     (if numa_same f then 0 else 1000) + (if root_complex_same f then 0 else 200)
       - (if pcie_switch_same f then 10 else 0) - (if direct_pci_neighbor f then 5 else 0)"

definition classify ::
    "TopologyNode option \<Rightarrow> TopologyNode option \<Rightarrow> PciAddress \<Rightarrow> PciAddress \<Rightarrow> LocalityFactors
      \<Rightarrow> LocalityRelationship" where
  "classify na nb a b f =
     (if pci_eq a b then LocalityRelationship.kSameDevice
      else if pcie_switch_same f then LocalityRelationship.kSamePcieSwitch
      else if root_complex_same f then LocalityRelationship.kSameRootComplex
      else if numa_same f then LocalityRelationship.kSameNumaNode
      else (case (na, nb) of
          (Some x, Some y) \<Rightarrow>
            if id_valid (tn_numa x) \<and> id_valid (tn_numa y) \<and> tn_numa x \<noteq> tn_numa y
            then LocalityRelationship.kRemoteNuma else LocalityRelationship.kUnknown
        | _ \<Rightarrow> LocalityRelationship.kUnknown))"

text \<open>The evidence label of a locality statement, from the labels of the two nodes.\<close>

definition locality_provenance :: "TopologyNode option \<Rightarrow> TopologyNode option \<Rightarrow> Provenance" where
  "locality_provenance na nb =
     (case (na, nb) of
        (Some x, Some y) \<Rightarrow>
          (let both_real = prov_kind (tn_provenance x) = EvidenceKind.kReal \<and>
                           prov_kind (tn_provenance y) = EvidenceKind.kReal;
               both_synth = prov_kind (tn_provenance x) = EvidenceKind.kSynthetic \<and>
                            prov_kind (tn_provenance y) = EvidenceKind.kSynthetic;
               kind = (if both_synth then EvidenceKind.kSynthetic else EvidenceKind.kReal);
               srcs = [Source.kPci, Source.kNuma] @
                      (if \<not> both_real \<and> \<not> both_synth then [Source.kDerived] else [])
           in mk_prov kind srcs)
      | _ \<Rightarrow> mk_prov EvidenceKind.kReal [Source.kPci, Source.kDerived])"

definition locality_between :: "TopologySnapshot \<Rightarrow> PciAddress \<Rightarrow> PciAddress \<Rightarrow> Locality" where
  "locality_between t a b =
     (let na = node_for_pci t a; nb = node_for_pci t b;
          prov = locality_provenance na nb;
          f0 = (if na \<noteq> None \<and> nb \<noteq> None
                then let f = factors_default\<lparr>root_complex_same := same_root_complex t a b,
                           pcie_switch_same := same_pcie_switch t a b,
                           numa_same := same_numa_node t a b\<rparr>
                     in f\<lparr>fac_cost := derivable_cost f\<rparr>
                else factors_default\<lparr>fac_cost := FastCost a b\<rparr>);
          f1 = (if pci_eq a b then f0\<lparr>direct_pci_neighbor := True\<rparr> else f0);
          rel = classify na nb a b f1;
          n0 = (case na of Some x \<Rightarrow> tn_numa x | None \<Rightarrow> id_null);
          n1 = (case nb of Some y \<Rightarrow> (if \<not> id_valid n0 then tn_numa y else n0) | None \<Rightarrow> n0)
      in mk_locality rel n1 b prov f1)"

definition cost_between :: "TopologySnapshot \<Rightarrow> PciAddress \<Rightarrow> PciAddress \<Rightarrow> int" where
  "cost_between t a b =
     (if node_for_pci t a = None \<or> node_for_pci t b = None then FastCost a b
      else derivable_cost (factors_default\<lparr>root_complex_same := same_root_complex t a b,
             pcie_switch_same := same_pcie_switch t a b, numa_same := same_numa_node t a b\<rparr>))"

section \<open>Finalization\<close>

text \<open>
  The inner \<^verbatim>\<open>while (cur.valid())\<close> loop of \<^verbatim>\<open>finalize\<close>; \<open>rc\<close> and \<open>sw\<close> are overwritten at
  every root complex and every switch that is passed on the way up.
\<close>

partial_function (option) finalize_walk ::
    "node_map \<Rightarrow> PciNodeId \<Rightarrow> PciNodeId \<Rightarrow> PciNodeId \<Rightarrow> (PciNodeId \<times> PciNodeId) option" where
  "finalize_walk nodes cur rc sw =
     (if \<not> id_valid cur then Some (rc, sw)
      else (case m_find nodes cur of
          None \<Rightarrow> Some (rc, sw)
        | Some n \<Rightarrow>
            finalize_walk nodes (tn_parent n)
              (if tn_kind n = TopologyNodeKind.kRootComplex then cur else rc)
              (if tn_kind n = TopologyNodeKind.kSwitch then cur else sw)))"

declare finalize_walk.simps [code]

fun finalize_loop ::
    "node_map \<Rightarrow> node_map \<Rightarrow> (PciNodeId, PciNodeId) smap \<Rightarrow> (PciNodeId, PciNodeId) smap
      \<Rightarrow> ((PciNodeId, PciNodeId) smap \<times> (PciNodeId, PciNodeId) smap) option" where
  "finalize_loop nodes [] rcs sws = Some (rcs, sws)"
| "finalize_loop nodes ((i, n) # rest) rcs sws =
     (case finalize_walk nodes i id_null id_null of
        None \<Rightarrow> None
      | Some (rc, sw) \<Rightarrow> finalize_loop nodes rest (m_put i rc rcs) (m_put i sw sws))"

definition finalize :: "TopologySnapshot \<Rightarrow> TopologySnapshot option" where
  "finalize t =
     map_option (\<lambda>(rcs, sws). t\<lparr>top_root_complex := rcs, top_switch := sws\<rparr>)
       (finalize_loop (top_nodes t) (top_nodes t) (top_root_complex t) (top_switch t))"

section \<open>The builder\<close>

definition kMaxNodes :: nat where
  "kMaxNodes = 4096"

definition kMaxEdges :: nat where
  "kMaxEdges = 16384"

record TopologyBuilder =
  tb_nodes :: node_map
  tb_edges :: "(PciNodeId \<times> PciNodeId) list"

definition builder_default :: TopologyBuilder where
  "builder_default = \<lparr>tb_nodes = [], tb_edges = []\<rparr>"

definition add_node :: "TopologyNode \<Rightarrow> (TopologyBuilder, ResidencyError, unit) exop" where
  "add_node node b =
     (if m_size (tb_nodes b) \<ge> kMaxNodes then
        (Inl (ResidencyError ErrorCode.kResourceLimit ''topology node limit exceeded'' []), b)
      else if m_has (tb_nodes b) (tn_id node) then
        (Inl (ResidencyError ErrorCode.kInvalidTopology ''duplicate topology node''
               (id_str (tn_id node))), b)
      else (Inr (), b\<lparr>tb_nodes := m_put (tn_id node) node (tb_nodes b)\<rparr>))"

definition add_edge :: "PciNodeId \<Rightarrow> PciNodeId \<Rightarrow> (TopologyBuilder, ResidencyError, unit) exop" where
  "add_edge from' to' b =
     (if length (tb_edges b) \<ge> kMaxEdges then
        (Inl (ResidencyError ErrorCode.kResourceLimit ''topology edge limit exceeded'' []), b)
      else if \<not> m_has (tb_nodes b) from' \<or> \<not> m_has (tb_nodes b) to' then
        (Inl (ResidencyError ErrorCode.kInvalidTopology
               ''topology edge references missing node'' []), b)
      else (Inr (), b\<lparr>tb_edges := (if (from', to') \<in> set (tb_edges b) then tb_edges b
                                     else tb_edges b @ [(from', to')])\<rparr>))"

definition build :: "TopologyGeneration \<Rightarrow> TopologyBuilder \<Rightarrow> TopologySnapshot option" where
  "build g b =
     finalize (topology_default\<lparr>top_generation := g, top_nodes := tb_nodes b, top_edges := tb_edges b\<rparr>)"

section \<open>Well-formed builders\<close>

definition builder_inv :: "TopologyBuilder \<Rightarrow> bool" where
  "builder_inv b \<longleftrightarrow> m_inv (tb_nodes b) \<and> m_size (tb_nodes b) \<le> kMaxNodes \<and>
     length (tb_edges b) \<le> kMaxEdges \<and> distinct (tb_edges b) \<and>
     (\<forall>k n. m_find (tb_nodes b) k = Some n \<longrightarrow> tn_id n = k) \<and>
     (\<forall>a c. (a, c) \<in> set (tb_edges b) \<longrightarrow> m_has (tb_nodes b) a \<and> m_has (tb_nodes b) c)"

lemma builder_inv_default: "builder_inv builder_default"
  by (simp add: builder_inv_def builder_default_def m_size_def)

lemma add_node_inv: "builder_inv b \<Longrightarrow> builder_inv (snd (add_node n b))"
  by (auto simp: builder_inv_def add_node_def m_has_def split: if_splits)

lemma add_edge_inv: "builder_inv b \<Longrightarrow> builder_inv (snd (add_edge x y b))"
  by (auto simp: builder_inv_def add_edge_def split: if_splits)

lemma add_node_error: "add_node n b = (Inl e, b') \<Longrightarrow> b' = b"
  by (auto simp: add_node_def split: if_splits)

lemma add_edge_error: "add_edge x y b = (Inl e, b') \<Longrightarrow> b' = b"
  by (auto simp: add_edge_def split: if_splits)

section \<open>When finalization returns\<close>

text \<open>The parent chain of a node ends at a null or unknown parent after finitely many steps.\<close>

inductive chain_ends :: "node_map \<Rightarrow> PciNodeId \<Rightarrow> bool" for nodes where
  null: "\<not> id_valid cur \<Longrightarrow> chain_ends nodes cur"
| unknown: "m_find nodes cur = None \<Longrightarrow> chain_ends nodes cur"
| step: "m_find nodes cur = Some n \<Longrightarrow> chain_ends nodes (tn_parent n) \<Longrightarrow> chain_ends nodes cur"

inductive_cases chain_endsE: "chain_ends nodes cur"

text \<open>The nodes passed on the way up, in order.\<close>

inductive parent_path :: "node_map \<Rightarrow> PciNodeId \<Rightarrow> TopologyNode list \<Rightarrow> bool" for nodes where
  stop: "\<not> id_valid cur \<or> m_find nodes cur = None \<Longrightarrow> parent_path nodes cur []"
| up: "id_valid cur \<Longrightarrow> m_find nodes cur = Some n \<Longrightarrow> parent_path nodes (tn_parent n) ns \<Longrightarrow>
    parent_path nodes cur (n # ns)"

lemma chain_ends_path: "chain_ends nodes cur \<Longrightarrow> \<exists>ns. parent_path nodes cur ns"
proof (induction rule: chain_ends.induct)
  case (step cur n)
  then show ?case by (cases "id_valid cur") (auto intro: parent_path.intros)
qed (auto intro: parent_path.intros)

lemma path_chain_ends: "parent_path nodes cur ns \<Longrightarrow> chain_ends nodes cur"
  by (induction rule: parent_path.induct) (auto intro: chain_ends.intros)

lemma parent_path_fun: "parent_path nodes cur ns \<Longrightarrow> parent_path nodes cur ms \<Longrightarrow> ns = ms"
proof (induction arbitrary: ms rule: parent_path.induct)
  case (stop cur)
  then show ?case by (auto elim: parent_path.cases)
next
  case (up cur n ns)
  from up.prems up.hyps obtain ns' where "ms = n # ns'" "parent_path nodes (tn_parent n) ns'"
    by (auto elim: parent_path.cases)
  with up.IH show ?case by simp
qed

abbreviation root_ids :: "TopologyNode list \<Rightarrow> PciNodeId list" where
  "root_ids ns \<equiv> map tn_id (filter (\<lambda>n. tn_kind n = TopologyNodeKind.kRootComplex) ns)"

abbreviation switch_ids :: "TopologyNode list \<Rightarrow> PciNodeId list" where
  "switch_ids ns \<equiv> map tn_id (filter (\<lambda>n. tn_kind n = TopologyNodeKind.kSwitch) ns)"

definition keyed :: "node_map \<Rightarrow> bool" where
  "keyed nodes \<longleftrightarrow> (\<forall>k n. m_find nodes k = Some n \<longrightarrow> tn_id n = k)"

lemma finalize_walk_path:
  "parent_path nodes cur ns \<Longrightarrow> keyed nodes \<Longrightarrow>
     finalize_walk nodes cur rc sw = Some (last (rc # root_ids ns), last (sw # switch_ids ns))"
proof (induction arbitrary: rc sw rule: parent_path.induct)
  case (stop cur)
  then show ?case by (auto simp: finalize_walk.simps [of nodes cur])
next
  case (up cur n ns)
  then have "tn_id n = cur" by (auto simp: keyed_def)
  with up show ?case by (auto simp: finalize_walk.simps [of nodes cur])
qed

lemma finalize_walk_returns: "chain_ends nodes cur \<Longrightarrow> \<exists>r. finalize_walk nodes cur rc sw = Some r"
proof (induction arbitrary: rc sw rule: chain_ends.induct)
  case (step cur n)
  then show ?case by (cases "id_valid cur") (auto simp: finalize_walk.simps [of nodes cur])
qed (auto simp: finalize_walk.simps)

lemma finalize_walk_Some: "finalize_walk nodes cur rc sw = Some r \<Longrightarrow> chain_ends nodes cur"
proof -
  have *: "chain_ends nodes cur" if ret: "finalize_walk nodes cur rc sw = Some r"
  proof (rule finalize_walk.raw_induct [where P = "\<lambda>nodes cur rc sw r. chain_ends nodes cur", OF _ ret])
    fix f :: "node_map \<Rightarrow> PciNodeId \<Rightarrow> PciNodeId \<Rightarrow> PciNodeId \<Rightarrow> (PciNodeId \<times> PciNodeId) option"
      and nodes :: node_map and cur rc sw :: PciNodeId and r
    assume IH: "\<And>nodes cur rc sw r. f nodes cur rc sw = Some r \<Longrightarrow> chain_ends nodes cur"
      and eq: "(if \<not> id_valid cur then Some (rc, sw)
        else (case m_find nodes cur of
          None \<Rightarrow> Some (rc, sw)
        | Some n \<Rightarrow> f nodes (tn_parent n)
              (if tn_kind n = TopologyNodeKind.kRootComplex then cur else rc)
              (if tn_kind n = TopologyNodeKind.kSwitch then cur else sw))) = Some r"
    show "chain_ends nodes cur"
    proof (cases "m_find nodes cur")
      case None
      then show ?thesis by (rule chain_ends.unknown)
    next
      case (Some n)
      show ?thesis
      proof (cases "id_valid cur")
        case True
        with eq Some have "chain_ends nodes (tn_parent n)" by (auto intro: IH)
        with Some show ?thesis by (rule chain_ends.step)
      qed (rule chain_ends.null)
    qed
  qed
  show "finalize_walk nodes cur rc sw = Some r \<Longrightarrow> ?thesis" by (rule *)
qed

lemma finalize_walk_None_iff: "finalize_walk nodes cur rc sw = None \<longleftrightarrow> \<not> chain_ends nodes cur"
  using finalize_walk_returns finalize_walk_Some by (metis option.distinct(1) option.exhaust)

lemma finalize_loop_None_iff:
  "finalize_loop nodes rest rcs sws = None \<longleftrightarrow> (\<exists>i \<in> fst ` set rest. \<not> chain_ends nodes i)"
proof (induction nodes rest rcs sws rule: finalize_loop.induct)
  case (2 nodes i n rest rcs sws)
  show ?case
  proof (cases "finalize_walk nodes i id_null id_null")
    case None
    then have "\<not> chain_ends nodes i" by (simp add: finalize_walk_None_iff)
    with None show ?thesis by simp
  next
    case (Some p)
    then have "chain_ends nodes i" by (cases p) (auto intro: finalize_walk_Some)
    with 2 Some show ?thesis by (cases p) simp
  qed
qed simp

lemma build_None_iff: "build g b = None \<longleftrightarrow> (\<exists>i \<in> fst ` set (tb_nodes b). \<not> chain_ends (tb_nodes b) i)"
  by (simp add: build_def finalize_def topology_default_def finalize_loop_None_iff)

text \<open>Ranked parents: no cycle is possible, so the build returns.\<close>

lemma chain_ends_ranked:
  assumes "\<And>k n. m_find nodes k = Some n \<Longrightarrow> id_valid (tn_parent n) \<Longrightarrow>
      m_has nodes (tn_parent n) \<Longrightarrow> d (tn_parent n) < (d k :: nat)"
  shows "chain_ends nodes cur"
proof (induction "d cur" arbitrary: cur rule: less_induct)
  case less
  show ?case
  proof (cases "m_find nodes cur")
    case (Some n)
    have "chain_ends nodes (tn_parent n)"
      using assms [OF Some] less.hyps [of "tn_parent n"]
      by (cases "id_valid (tn_parent n)"; cases "m_has nodes (tn_parent n)")
        (auto simp: m_has_def intro: chain_ends.null chain_ends.unknown)
    with Some show ?thesis by (rule chain_ends.step)
  qed (rule chain_ends.unknown)
qed

text \<open>A set of nodes closed under parent links never lets the walk out.\<close>

lemma cycle_not_chain_ends:
  assumes "\<And>i. i \<in> S \<Longrightarrow> id_valid i \<and> (\<exists>n. m_find nodes i = Some n \<and> tn_parent n \<in> S)"
  shows "i \<in> S \<Longrightarrow> \<not> chain_ends nodes i"
proof
  assume "chain_ends nodes i" and "i \<in> S"
  then show False
    by (induction rule: chain_ends.induct) (use assms in fastforce)+
qed

section \<open>What a finished snapshot knows\<close>

lemma finalize_loop_find:
  assumes "finalize_loop nodes rest rcs sws = Some (R, S)" and "distinct (map fst rest)"
  shows "m_find R k = (if k \<in> fst ` set rest
            then map_option fst (finalize_walk nodes k id_null id_null) else m_find rcs k)
       \<and> m_find S k = (if k \<in> fst ` set rest
            then map_option snd (finalize_walk nodes k id_null id_null) else m_find sws k)"
  using assms
proof (induction nodes rest rcs sws rule: finalize_loop.induct)
  case (2 nodes i n rest rcs sws)
  from "2.prems"(1) obtain rc sw where w: "finalize_walk nodes i id_null id_null = Some (rc, sw)"
    and l: "finalize_loop nodes rest (m_put i rc rcs) (m_put i sw sws) = Some (R, S)"
    by (auto split: option.splits)
  have i: "i \<notin> fst ` set rest" and d: "distinct (map fst rest)" using "2.prems"(2) by auto
  show ?case using "2.IH" [OF w refl l d] i w by auto
qed auto

lemma build_fields:
  assumes "build g b = Some t"
  shows "top_generation t = g" "top_nodes t = tb_nodes b" "top_edges t = tb_edges b"
  using assms by (auto simp: build_def finalize_def topology_default_def)

lemma build_ancestors:
  assumes "build g b = Some t" and inv: "builder_inv b" and k: "m_has (tb_nodes b) k"
    and p: "parent_path (tb_nodes b) k ns"
  shows "root_complex_of t k = last (id_null # root_ids ns)"
    and "switch_of t k = last (id_null # switch_ids ns)"
proof -
  have kd: "keyed (tb_nodes b)" using inv by (simp add: keyed_def builder_inv_def)
  have dist: "distinct (map fst (tb_nodes b))" using inv by (simp add: builder_inv_def m_inv_distinct)
  from assms(1) have "finalize_loop (tb_nodes b) (tb_nodes b) [] [] = Some (top_root_complex t, top_switch t)"
    by (auto simp: build_def finalize_def topology_default_def)
  from finalize_loop_find [OF this dist, of k]
  have "m_find (top_root_complex t) k = Some (last (id_null # root_ids ns))"
    "m_find (top_switch t) k = Some (last (id_null # switch_ids ns))"
    using k finalize_walk_path [OF p kd, of id_null id_null]
    by (auto simp: m_has_def map_of_eq_None_iff)
  then show "root_complex_of t k = last (id_null # root_ids ns)"
    "switch_of t k = last (id_null # switch_ids ns)"
    by (simp_all add: root_complex_of_def switch_of_def)
qed

section \<open>Locality statements\<close>

lemma same_root_complex_sym: "same_root_complex t a b = same_root_complex t b a"
  by (auto simp: same_root_complex_def Let_def split: option.splits)

lemma same_pcie_switch_sym: "same_pcie_switch t a b = same_pcie_switch t b a"
  by (auto simp: same_pcie_switch_def Let_def split: option.splits)

lemma same_numa_node_sym: "same_numa_node t a b = same_numa_node t b a"
  by (auto simp: same_numa_node_def split: option.splits)

lemmas same_syms = same_root_complex_sym same_pcie_switch_sym same_numa_node_sym

lemma first_pci_cong: "pci_eq a b \<Longrightarrow> first_pci m a = first_pci m b"
  by (induction m a rule: first_pci.induct) (auto simp: pci_eq_def)

lemma first_pci_Some: "first_pci m a = Some n \<Longrightarrow> \<exists>k. (k, n) \<in> set m \<and> pci_eq (tn_pci n) a"
  by (induction m a rule: first_pci.induct) (auto split: if_splits)

lemma first_pci_None: "first_pci m a = None \<longleftrightarrow> (\<forall>(k, n) \<in> set m. \<not> pci_eq (tn_pci n) a)"
  by (induction m a rule: first_pci.induct) auto

lemma same_known:
  assumes "same_root_complex t a b \<or> same_pcie_switch t a b \<or> same_numa_node t a b"
  shows "node_for_pci t a \<noteq> None \<and> node_for_pci t b \<noteq> None"
  using assms by (auto simp: same_root_complex_def same_pcie_switch_def same_numa_node_def
      split: option.splits)

lemma locality_between_factors [simp]:
  "root_complex_same (loc_factors (locality_between t a b)) = same_root_complex t a b"
  "pcie_switch_same (loc_factors (locality_between t a b)) = same_pcie_switch t a b"
  "numa_same (loc_factors (locality_between t a b)) = same_numa_node t a b"
  "direct_pci_neighbor (loc_factors (locality_between t a b)) = pci_eq a b"
  "\<not> accelerator_affine (loc_factors (locality_between t a b))"
  "\<not> cpu_local (loc_factors (locality_between t a b))"
  "\<not> local_memory (loc_factors (locality_between t a b))"
  "\<not> host_local (loc_factors (locality_between t a b))"
  "\<not> accelerator_local (loc_factors (locality_between t a b))"
  using same_known [of t a b]
  by (auto simp: locality_between_def factors_default_def Let_def)

lemma locality_between_provenance [simp]:
  "loc_provenance (locality_between t a b) = locality_provenance (node_for_pci t a) (node_for_pci t b)"
  by (simp add: locality_between_def Let_def)

lemma locality_between_rel:
  "loc_relationship (locality_between t a b) =
     (if pci_eq a b then LocalityRelationship.kSameDevice
      else if same_pcie_switch t a b then LocalityRelationship.kSamePcieSwitch
      else if same_root_complex t a b then LocalityRelationship.kSameRootComplex
      else if same_numa_node t a b then LocalityRelationship.kSameNumaNode
      else if \<exists>x y. node_for_pci t a = Some x \<and> node_for_pci t b = Some y \<and>
                 id_valid (tn_numa x) \<and> id_valid (tn_numa y) \<and> tn_numa x \<noteq> tn_numa y
      then LocalityRelationship.kRemoteNuma else LocalityRelationship.kUnknown)"
  using same_known [of t a b]
  by (auto simp: locality_between_def classify_def factors_default_def Let_def split: option.splits)

end
