(* ===== verification/Registry_Core.thy ===== *)
theory Registry_Core
  imports Topology_Graph
begin

text \<open>
  The mutable registry of \<^verbatim>\<open>include/nicresidency/registry.hpp\<close> and \<^verbatim>\<open>src/registry.cpp\<close>: its
  state, one definition per public operation, and the immutable snapshot. Every operation
  runs under one lock, so an execution is a sequence of these operations; each returns
  its result or exception together with the state it leaves.
\<close>

section \<open>State\<close>

record WorkerHandle =
  wh_worker :: WorkerId
  wh_boot :: WorkerBootId

record NicRegistry =
  reg_epoch :: CoordinatorEpoch
  reg_workers :: "(WorkerId, WorkerHandle) smap"
  reg_nics :: "(NicId, NicRecord) smap"
  reg_functions :: "(FunctionId, FunctionRecord) smap"
  reg_ports :: "(PortId, PortRecord) smap"
  reg_queues :: "(QueueId, QueueRecord) smap"
  reg_attachments :: "(AttachmentId, Attachment) smap"
  reg_gpus :: "(GpuId, GpuRecord) smap"
  reg_residencies :: "ResidencyRecord list"
  reg_topology :: "TopologySnapshot option"
  reg_next_residency :: ResidencyId
  reg_worker_nics :: "(WorkerId, NicId list) smap"

type_synonym 'a reg_op = "(NicRegistry, ResidencyError, 'a) exop"

definition kMaxNics :: nat where "kMaxNics = 1024"

definition kMaxGpus :: nat where "kMaxGpus = 512"

definition kMaxFunctions :: nat where "kMaxFunctions = 8192"

definition kMaxPorts :: nat where "kMaxPorts = 8192"

definition kMaxQueues :: nat where "kMaxQueues = 16384"

definition kMaxAttachments :: nat where "kMaxAttachments = 16384"

definition kMaxResidencies :: nat where "kMaxResidencies = 16384"

section \<open>Authority\<close>

definition EnsureNextEpoch :: "CoordinatorEpoch \<Rightarrow> ResidencyError + unit" where
  "EnsureNextEpoch e =
     (if \<not> id_valid e then
        Inl (ResidencyError ErrorCode.kInvalidArgument ''epoch must be non-zero'' [])
      else Inr ())"

text \<open>The constructor \<^verbatim>\<open>NicRegistry(CoordinatorEpoch)\<close>.\<close>

definition NicRegistry_new :: "CoordinatorEpoch \<Rightarrow> ResidencyError + NicRegistry" where
  "NicRegistry_new e =
     (case EnsureNextEpoch e of
        Inl err \<Rightarrow> Inl err
      | Inr _ \<Rightarrow> Inr \<lparr>reg_epoch = e, reg_workers = [], reg_nics = [], reg_functions = [],
          reg_ports = [], reg_queues = [], reg_attachments = [], reg_gpus = [],
          reg_residencies = [], reg_topology = None, reg_next_residency = Id 1,
          reg_worker_nics = []\<rparr>)"

definition EnsureAuthority ::
    "CoordinatorEpoch \<Rightarrow> WorkerId \<Rightarrow> WorkerBootId \<Rightarrow> NicRegistry \<Rightarrow> ResidencyError + unit" where
  "EnsureAuthority e w b r =
     (if e \<noteq> reg_epoch r then
        Inl (ResidencyError ErrorCode.kStaleEpoch ''stale coordinator epoch rejected'' (id_str e))
      else (case m_find (reg_workers r) w of
          None \<Rightarrow> Inl (ResidencyError ErrorCode.kNotReady
                    ''worker is not a registered authority'' (''worker='' @ id_str w))
        | Some h \<Rightarrow>
            if wh_boot h \<noteq> b then
              Inl (ResidencyError ErrorCode.kStaleBoot
                     ''stale worker boot identity rejected'' (id_str b))
            else Inr ()))"

definition register_worker :: "WorkerId \<Rightarrow> WorkerBootId \<Rightarrow> unit reg_op" where
  "register_worker w b r =
     (case m_find (reg_workers r) w of
        Some h \<Rightarrow>
          if wh_boot h \<noteq> b then
            (Inl (ResidencyError ErrorCode.kOwnerConflict
                    ''worker already active with a different boot id'' (''worker='' @ id_str w)), r)
          else (Inr (), r\<lparr>reg_workers := m_put w \<lparr>wh_worker = w, wh_boot = b\<rparr> (reg_workers r)\<rparr>)
      | None \<Rightarrow> (Inr (), r\<lparr>reg_workers := m_put w \<lparr>wh_worker = w, wh_boot = b\<rparr> (reg_workers r)\<rparr>))"

definition nic_revalidate :: "NicRecord \<Rightarrow> NicRecord" where
  "nic_revalidate n = n\<lparr>nic_lifecycle := LifecycleState.kRevalidationRequired, nic_freshness := 0\<rparr>"

text \<open>The loop over the NIC ids a worker published.\<close>

fun revalidate_nics :: "NicId list \<Rightarrow> (NicId, NicRecord) smap \<Rightarrow> (NicId, NicRecord) smap" where
  "revalidate_nics [] m = m"
| "revalidate_nics (i # is) m =
     revalidate_nics is
       (case m_find m i of Some n \<Rightarrow> m_put i (nic_revalidate n) m | None \<Rightarrow> m)"

definition att_disown :: "WorkerId \<Rightarrow> WorkerBootId \<Rightarrow> Attachment \<Rightarrow> Attachment" where
  "att_disown w b a =
     (if att_owner_worker a = w \<and> att_owner_boot a = b then
        a\<lparr>att_state := AttachmentState.kStale, att_owner_worker := id_null, att_owner_boot := id_null\<rparr>
      else a)"

definition res_disown :: "WorkerId \<Rightarrow> WorkerBootId \<Rightarrow> ResidencyRecord \<Rightarrow> ResidencyRecord" where
  "res_disown w b x =
     (if res_owner_worker x = w \<and> res_owner_boot x = b then
        x\<lparr>res_state := ResidencyState.kRevalidationRequired,
          res_lifecycle := LifecycleState.kRevalidationRequired,
          res_owner_worker := id_null, res_owner_boot := id_null\<rparr>
      else x)"

definition worker_retired :: "WorkerId \<Rightarrow> WorkerBootId \<Rightarrow> unit reg_op" where
  "worker_retired w b r =
     (if (case m_find (reg_workers r) w of Some h \<Rightarrow> wh_boot h \<noteq> b | None \<Rightarrow> False) then (Inr (), r)
      else
        let r1 = r\<lparr>reg_workers := m_erase w (reg_workers r)\<rparr>;
            r2 = (case m_find (reg_worker_nics r1) w of
                    Some ids \<Rightarrow> r1\<lparr>reg_nics := revalidate_nics ids (reg_nics r1),
                                  reg_worker_nics := m_erase w (reg_worker_nics r1)\<rparr>
                  | None \<Rightarrow> r1)
        in (Inr (), r2\<lparr>reg_attachments := m_foreach (att_disown w b) (reg_attachments r2),
                        reg_residencies := map (res_disown w b) (reg_residencies r2)\<rparr>))"

definition fn_restart :: "CoordinatorEpoch \<Rightarrow> FunctionRecord \<Rightarrow> FunctionRecord" where
  "fn_restart e f = f\<lparr>fn_ownership := OwnershipState.kUnassigned, fn_owner_worker := id_null,
     fn_owner_boot := id_null, fn_epoch := e\<rparr>"

definition att_restart :: "CoordinatorEpoch \<Rightarrow> Attachment \<Rightarrow> Attachment" where
  "att_restart e a = a\<lparr>att_state := AttachmentState.kStale, att_owner_worker := id_null,
     att_owner_boot := id_null, att_epoch := e\<rparr>"

definition res_restart :: "CoordinatorEpoch \<Rightarrow> ResidencyRecord \<Rightarrow> ResidencyRecord" where
  "res_restart e x = x\<lparr>res_state := ResidencyState.kRevalidationRequired,
     res_lifecycle := LifecycleState.kRevalidationRequired,
     res_owner_worker := id_null, res_owner_boot := id_null, res_epoch := e\<rparr>"

definition coordinator_restart :: "CoordinatorEpoch \<Rightarrow> unit reg_op" where
  "coordinator_restart new_epoch r =
     (if \<not> id_value (reg_epoch r) < id_value new_epoch then
        (Inl (ResidencyError ErrorCode.kStaleEpoch
                ''coordinator epoch must advance monotonically'' (id_str new_epoch)), r)
      else (Inr (), r\<lparr>reg_epoch := new_epoch, reg_workers := [], reg_worker_nics := [],
              reg_functions := m_foreach (fn_restart new_epoch) (reg_functions r),
              reg_attachments := m_foreach (att_restart new_epoch) (reg_attachments r),
              reg_residencies := map (res_restart new_epoch) (reg_residencies r)\<rparr>))"

section \<open>NICs\<close>

definition nic_equal :: "NicRecord \<Rightarrow> NicRecord \<Rightarrow> bool" where
  "nic_equal a b \<longleftrightarrow> nic_id a = nic_id b \<and> nic_generation a = nic_generation b \<and>
     nic_os_name a = nic_os_name b \<and> nic_os_description a = nic_os_description b \<and>
     pci_eq (nic_pci a) (nic_pci b) \<and> nic_vendor_id a = nic_vendor_id b \<and>
     nic_device_id a = nic_device_id b \<and> nic_subsystem_vendor_id a = nic_subsystem_vendor_id b \<and>
     nic_subsystem_id a = nic_subsystem_id b \<and> nic_revision a = nic_revision b \<and>
     nic_device_kind a = nic_device_kind b \<and> nic_function_class a = nic_function_class b \<and>
     nic_numa_node a = nic_numa_node b \<and> cap_eq (nic_capability a) (nic_capability b) \<and>
     prov_eq (nic_provenance a) (nic_provenance b)"

definition register_nic ::
    "NicRecord \<Rightarrow> CoordinatorEpoch \<Rightarrow> WorkerId \<Rightarrow> WorkerBootId \<Rightarrow> NicGeneration reg_op" where
  "register_nic rec e w b r0 =
     (case EnsureAuthority e w b r0 of
        Inl err \<Rightarrow> (Inl err, r0)
      | Inr _ \<Rightarrow>
        let ids = (case m_find (reg_worker_nics r0) w of Some s \<Rightarrow> s | None \<Rightarrow> []);
            r = r0\<lparr>reg_worker_nics := m_put w (s_insert (nic_id rec) ids) (reg_worker_nics r0)\<rparr>
        in
        if \<not> id_valid (nic_id rec) then
          (Inl (ResidencyError ErrorCode.kInvalidArgument ''NIC id must be valid'' []), r)
        else if m_size (reg_nics r) \<ge> kMaxNics then
          (Inl (ResidencyError ErrorCode.kResourceLimit ''NIC count limit exceeded'' []), r)
        else (case m_find (reg_nics r) (nic_id rec) of
          None \<Rightarrow>
            if \<not> gen_valid (nic_generation rec) then
              (Inl (ResidencyError ErrorCode.kInvalidArgument
                      ''new NIC generation must be non-zero'' []), r)
            else (Inr (nic_generation rec),
                  r\<lparr>reg_nics := m_put (nic_id rec) (rec\<lparr>nic_freshness := 0\<rparr>) (reg_nics r)\<rparr>)
        | Some existing \<Rightarrow>
            if nic_generation rec = nic_generation existing then
              (if nic_equal rec existing then (Inr (nic_generation existing), r)
               else (Inl (ResidencyError ErrorCode.kInvalidArgument
                       ''conflicting duplicate NIC publication at same generation''
                       (id_str (nic_id rec))), r))
            else if nic_generation rec < nic_generation existing then
              (Inl (ResidencyError ErrorCode.kStaleNic ''stale NIC generation rejected''
                      (id_str (nic_id rec))), r)
            else (Inr (nic_generation rec),
                  r\<lparr>reg_nics := m_put (nic_id rec) (rec\<lparr>nic_freshness := 0\<rparr>) (reg_nics r)\<rparr>)))"

definition fn_invalidate :: "FunctionRecord \<Rightarrow> FunctionRecord" where
  "fn_invalidate f = f\<lparr>fn_lifecycle := LifecycleState.kRevalidationRequired\<rparr>"

definition queue_invalidate :: "QueueRecord \<Rightarrow> QueueRecord" where
  "queue_invalidate q = q\<lparr>queue_lifecycle := LifecycleState.kRevalidationRequired\<rparr>"

definition att_invalidate :: "Attachment \<Rightarrow> Attachment" where
  "att_invalidate a = a\<lparr>att_state := AttachmentState.kStale\<rparr>"

definition res_invalidate :: "ResidencyRecord \<Rightarrow> ResidencyRecord" where
  "res_invalidate x = x\<lparr>res_state := ResidencyState.kRevalidationRequired,
     res_lifecycle := LifecycleState.kRevalidationRequired\<rparr>"

definition advance_nic_generation ::
    "NicId \<Rightarrow> CoordinatorEpoch \<Rightarrow> WorkerId \<Rightarrow> WorkerBootId \<Rightarrow> unit reg_op" where
  "advance_nic_generation i e w b r =
     (case EnsureAuthority e w b r of
        Inl err \<Rightarrow> (Inl err, r)
      | Inr _ \<Rightarrow> (case m_find (reg_nics r) i of
          None \<Rightarrow> (Inl (ResidencyError ErrorCode.kNotFound ''NIC not found'' (id_str i)), r)
        | Some n \<Rightarrow>
            (Inr (), r\<lparr>reg_nics := m_put i (n\<lparr>nic_generation := gen_next (nic_generation n)\<rparr>) (reg_nics r),
               reg_functions := m_foreach (\<lambda>f. if fn_parent_nic f = i then fn_invalidate f else f) (reg_functions r),
               reg_queues := m_foreach (\<lambda>q. if queue_parent_nic q = i then queue_invalidate q else q) (reg_queues r),
               reg_attachments := m_foreach (\<lambda>a. if att_nic a = i then att_invalidate a else a) (reg_attachments r),
               reg_residencies := map (\<lambda>x. if res_nic x = i then res_invalidate x else x) (reg_residencies r)\<rparr>)))"

section \<open>Functions\<close>

definition function_equal :: "FunctionRecord \<Rightarrow> FunctionRecord \<Rightarrow> bool" where
  "function_equal a b \<longleftrightarrow> fn_id a = fn_id b \<and> fn_generation a = fn_generation b \<and>
     fn_parent_nic a = fn_parent_nic b \<and> fn_class a = fn_class b \<and> fn_port a = fn_port b \<and>
     fn_numa_node a = fn_numa_node b \<and> cap_eq (fn_capability a) (fn_capability b) \<and>
     prov_eq (fn_provenance a) (fn_provenance b)"

definition register_function ::
    "FunctionRecord \<Rightarrow> CoordinatorEpoch \<Rightarrow> WorkerId \<Rightarrow> WorkerBootId \<Rightarrow> FunctionGeneration reg_op" where
  "register_function rec e w b r =
     (case EnsureAuthority e w b r of
        Inl err \<Rightarrow> (Inl err, r)
      | Inr _ \<Rightarrow>
        if \<not> id_valid (fn_id rec) \<or> \<not> id_valid (fn_parent_nic rec) then
          (Inl (ResidencyError ErrorCode.kInvalidArgument
                  ''function id and parent NIC id required'' []), r)
        else if \<not> m_has (reg_nics r) (fn_parent_nic rec) then
          (Inl (ResidencyError ErrorCode.kInvalidTopology ''function references nonexistent NIC''
                  (id_str (fn_parent_nic rec))), r)
        else if m_size (reg_functions r) \<ge> kMaxFunctions then
          (Inl (ResidencyError ErrorCode.kResourceLimit ''function count limit exceeded'' []), r)
        else (case m_find (reg_functions r) (fn_id rec) of
          None \<Rightarrow>
            if \<not> gen_valid (fn_generation rec) then
              (Inl (ResidencyError ErrorCode.kInvalidArgument
                      ''new function generation must be non-zero'' []), r)
            else (Inr (fn_generation rec), r\<lparr>reg_functions := m_put (fn_id rec) rec (reg_functions r)\<rparr>)
        | Some existing \<Rightarrow>
            if fn_generation rec = fn_generation existing then
              (if function_equal rec existing then (Inr (fn_generation existing), r)
               else (Inl (ResidencyError ErrorCode.kInvalidArgument
                       ''conflicting duplicate function publication at same generation''
                       (id_str (fn_id rec))), r))
            else if fn_generation rec < fn_generation existing then
              (Inl (ResidencyError ErrorCode.kStaleFunction ''stale function generation rejected''
                      (id_str (fn_id rec))), r)
            else (Inr (fn_generation rec), r\<lparr>reg_functions := m_put (fn_id rec) rec (reg_functions r)\<rparr>)))"

definition advance_function_generation ::
    "FunctionId \<Rightarrow> CoordinatorEpoch \<Rightarrow> WorkerId \<Rightarrow> WorkerBootId \<Rightarrow> unit reg_op" where
  "advance_function_generation i e w b r =
     (case EnsureAuthority e w b r of
        Inl err \<Rightarrow> (Inl err, r)
      | Inr _ \<Rightarrow> (case m_find (reg_functions r) i of
          None \<Rightarrow> (Inl (ResidencyError ErrorCode.kNotFound ''function not found'' (id_str i)), r)
        | Some f \<Rightarrow>
            (Inr (), r\<lparr>reg_functions := m_put i (f\<lparr>fn_generation := gen_next (fn_generation f)\<rparr>) (reg_functions r),
               reg_queues := m_foreach (\<lambda>q. if queue_parent_function q = i then queue_invalidate q else q) (reg_queues r),
               reg_attachments := m_foreach (\<lambda>a. if att_function a = i then att_invalidate a else a) (reg_attachments r),
               reg_residencies := map (\<lambda>x. if res_function x = i then res_invalidate x else x) (reg_residencies r)\<rparr>)))"

section \<open>Ports and queues\<close>

definition port_equal :: "PortRecord \<Rightarrow> PortRecord \<Rightarrow> bool" where
  "port_equal a b \<longleftrightarrow> port_id a = port_id b \<and> port_generation a = port_generation b \<and>
     port_parent_nic a = port_parent_nic b \<and> port_parent_function a = port_parent_function b \<and>
     port_os_name a = port_os_name b \<and> port_numa_node a = port_numa_node b \<and>
     prov_eq (port_provenance a) (port_provenance b)"

definition register_port ::
    "PortRecord \<Rightarrow> CoordinatorEpoch \<Rightarrow> WorkerId \<Rightarrow> WorkerBootId \<Rightarrow> PortGeneration reg_op" where
  "register_port rec e w b r =
     (case EnsureAuthority e w b r of
        Inl err \<Rightarrow> (Inl err, r)
      | Inr _ \<Rightarrow>
        if \<not> id_valid (port_id rec) \<or> \<not> id_valid (port_parent_nic rec) then
          (Inl (ResidencyError ErrorCode.kInvalidArgument ''port id and parent NIC id required'' []), r)
        else if \<not> m_has (reg_nics r) (port_parent_nic rec) then
          (Inl (ResidencyError ErrorCode.kInvalidTopology ''port references nonexistent NIC''
                  (id_str (port_parent_nic rec))), r)
        else if id_valid (port_parent_function rec) \<and> \<not> m_has (reg_functions r) (port_parent_function rec) then
          (Inl (ResidencyError ErrorCode.kInvalidTopology ''port references nonexistent function''
                  (id_str (port_parent_function rec))), r)
        else if m_size (reg_ports r) \<ge> kMaxPorts then
          (Inl (ResidencyError ErrorCode.kResourceLimit ''port count limit exceeded'' []), r)
        else (case m_find (reg_ports r) (port_id rec) of
          None \<Rightarrow>
            if \<not> gen_valid (port_generation rec) then
              (Inl (ResidencyError ErrorCode.kInvalidArgument
                      ''new port generation must be non-zero'' []), r)
            else (Inr (port_generation rec), r\<lparr>reg_ports := m_put (port_id rec) rec (reg_ports r)\<rparr>)
        | Some existing \<Rightarrow>
            if port_generation rec = port_generation existing then
              (if port_equal rec existing then (Inr (port_generation existing), r)
               else (Inl (ResidencyError ErrorCode.kInvalidArgument
                       ''conflicting duplicate port publication at same generation''
                       (id_str (port_id rec))), r))
            else if port_generation rec < port_generation existing then
              (Inl (ResidencyError ErrorCode.kInvalidArgument ''stale port generation rejected''
                      (id_str (port_id rec))), r)
            else (Inr (port_generation rec), r\<lparr>reg_ports := m_put (port_id rec) rec (reg_ports r)\<rparr>)))"

definition queue_equal :: "QueueRecord \<Rightarrow> QueueRecord \<Rightarrow> bool" where
  "queue_equal a b \<longleftrightarrow> queue_id a = queue_id b \<and> queue_generation a = queue_generation b \<and>
     queue_parent_function a = queue_parent_function b \<and> queue_parent_nic a = queue_parent_nic b \<and>
     queue_kind a = queue_kind b \<and> prov_eq (queue_provenance a) (queue_provenance b)"

definition register_queue ::
    "QueueRecord \<Rightarrow> CoordinatorEpoch \<Rightarrow> WorkerId \<Rightarrow> WorkerBootId \<Rightarrow> QueueGeneration reg_op" where
  "register_queue rec e w b r =
     (case EnsureAuthority e w b r of
        Inl err \<Rightarrow> (Inl err, r)
      | Inr _ \<Rightarrow>
        if \<not> id_valid (queue_id rec) \<or> \<not> id_valid (queue_parent_function rec) \<or>
           \<not> id_valid (queue_parent_nic rec) then
          (Inl (ResidencyError ErrorCode.kInvalidArgument
                  ''queue id, parent function, and parent NIC id required'' []), r)
        else if \<not> m_has (reg_functions r) (queue_parent_function rec) then
          (Inl (ResidencyError ErrorCode.kInvalidTopology ''queue references nonexistent function''
                  (id_str (queue_parent_function rec))), r)
        else if \<not> m_has (reg_nics r) (queue_parent_nic rec) then
          (Inl (ResidencyError ErrorCode.kInvalidTopology ''queue references nonexistent NIC''
                  (id_str (queue_parent_nic rec))), r)
        else if m_size (reg_queues r) \<ge> kMaxQueues then
          (Inl (ResidencyError ErrorCode.kResourceLimit ''queue count limit exceeded'' []), r)
        else (case m_find (reg_queues r) (queue_id rec) of
          None \<Rightarrow>
            if \<not> gen_valid (queue_generation rec) then
              (Inl (ResidencyError ErrorCode.kInvalidArgument
                      ''new queue generation must be non-zero'' []), r)
            else (Inr (queue_generation rec), r\<lparr>reg_queues := m_put (queue_id rec) rec (reg_queues r)\<rparr>)
        | Some existing \<Rightarrow>
            if queue_generation rec = queue_generation existing then
              (if queue_equal rec existing then (Inr (queue_generation existing), r)
               else (Inl (ResidencyError ErrorCode.kInvalidArgument
                       ''conflicting duplicate queue publication at same generation''
                       (id_str (queue_id rec))), r))
            else if queue_generation rec < queue_generation existing then
              (Inl (ResidencyError ErrorCode.kInvalidArgument ''stale queue generation rejected''
                      (id_str (queue_id rec))), r)
            else (Inr (queue_generation rec), r\<lparr>reg_queues := m_put (queue_id rec) rec (reg_queues r)\<rparr>)))"

definition advance_queue_generation ::
    "QueueId \<Rightarrow> CoordinatorEpoch \<Rightarrow> WorkerId \<Rightarrow> WorkerBootId \<Rightarrow> unit reg_op" where
  "advance_queue_generation i e w b r =
     (case EnsureAuthority e w b r of
        Inl err \<Rightarrow> (Inl err, r)
      | Inr _ \<Rightarrow> (case m_find (reg_queues r) i of
          None \<Rightarrow> (Inl (ResidencyError ErrorCode.kNotFound ''queue not found'' (id_str i)), r)
        | Some q \<Rightarrow>
            (Inr (), r\<lparr>reg_queues := m_put i (q\<lparr>queue_generation := gen_next (queue_generation q)\<rparr>) (reg_queues r),
               reg_residencies := map (\<lambda>x. if res_queue x = i then res_invalidate x else x) (reg_residencies r)\<rparr>)))"

section \<open>Topology\<close>

definition set_topology ::
    "TopologySnapshot \<Rightarrow> CoordinatorEpoch \<Rightarrow> WorkerId \<Rightarrow> WorkerBootId \<Rightarrow> unit reg_op" where
  "set_topology tp e w b r =
     (case EnsureAuthority e w b r of
        Inl err \<Rightarrow> (Inl err, r)
      | Inr _ \<Rightarrow>
        if (case reg_topology r of Some t \<Rightarrow> top_generation tp < top_generation t | None \<Rightarrow> False) then
          (Inl (ResidencyError ErrorCode.kStaleTopology ''stale topology generation rejected''
                  (gen_str (top_generation tp))), r)
        else (Inr (), r\<lparr>reg_topology := Some tp,
               reg_attachments := m_foreach att_invalidate (reg_attachments r),
               reg_residencies := map res_invalidate (reg_residencies r)\<rparr>))"

section \<open>Attachments and accelerators\<close>

definition register_attachment ::
    "Attachment \<Rightarrow> CoordinatorEpoch \<Rightarrow> WorkerId \<Rightarrow> WorkerBootId \<Rightarrow> AttachmentGeneration reg_op" where
  "register_attachment att e w b r =
     (case EnsureAuthority e w b r of
        Inl err \<Rightarrow> (Inl err, r)
      | Inr _ \<Rightarrow>
        if \<not> id_valid (att_id att) \<or> \<not> id_valid (att_nic att) then
          (Inl (ResidencyError ErrorCode.kInvalidArgument ''attachment id and NIC id required'' []), r)
        else if \<not> m_has (reg_nics r) (att_nic att) then
          (Inl (ResidencyError ErrorCode.kInvalidAttachment ''attachment references nonexistent NIC''
                  (id_str (att_nic att))), r)
        else if id_valid (att_function att) \<and> \<not> m_has (reg_functions r) (att_function att) then
          (Inl (ResidencyError ErrorCode.kInvalidAttachment
                  ''attachment references nonexistent function'' (id_str (att_function att))), r)
        else if id_valid (att_port att) \<and> \<not> m_has (reg_ports r) (att_port att) then
          (Inl (ResidencyError ErrorCode.kInvalidAttachment
                  ''attachment references nonexistent port'' (id_str (att_port att))), r)
        else if id_valid (att_queue att) \<and> \<not> m_has (reg_queues r) (att_queue att) then
          (Inl (ResidencyError ErrorCode.kInvalidAttachment
                  ''attachment references nonexistent queue'' (id_str (att_queue att))), r)
        else if m_size (reg_attachments r) \<ge> kMaxAttachments then
          (Inl (ResidencyError ErrorCode.kResourceLimit ''attachment count limit exceeded'' []), r)
        else (case m_find (reg_attachments r) (att_id att) of
          None \<Rightarrow>
            if \<not> gen_valid (att_generation att) then
              (Inl (ResidencyError ErrorCode.kInvalidArgument
                      ''new attachment generation must be non-zero'' []), r)
            else (Inr (att_generation att),
                  r\<lparr>reg_attachments := m_put (att_id att) att (reg_attachments r)\<rparr>)
        | Some existing \<Rightarrow>
            if att_generation att < att_generation existing then
              (Inl (ResidencyError ErrorCode.kInvalidAttachment
                      ''stale attachment generation rejected'' (id_str (att_id att))), r)
            else (Inr (att_generation att),
                  r\<lparr>reg_attachments := m_put (att_id att) att (reg_attachments r)\<rparr>)))"

definition register_gpu ::
    "GpuRecord \<Rightarrow> CoordinatorEpoch \<Rightarrow> WorkerId \<Rightarrow> WorkerBootId \<Rightarrow> unit reg_op" where
  "register_gpu rec e w b r =
     (case EnsureAuthority e w b r of
        Inl err \<Rightarrow> (Inl err, r)
      | Inr _ \<Rightarrow>
        if \<not> id_valid (gpu_id rec) then
          (Inl (ResidencyError ErrorCode.kInvalidArgument ''GPU id must be valid'' []), r)
        else if m_size (reg_gpus r) \<ge> kMaxGpus then
          (Inl (ResidencyError ErrorCode.kResourceLimit ''GPU count limit exceeded'' []), r)
        else (case m_find (reg_gpus r) (gpu_id rec) of
          None \<Rightarrow>
            if \<not> gen_valid (gpu_generation rec) then
              (Inl (ResidencyError ErrorCode.kInvalidArgument
                      ''new GPU generation must be non-zero'' []), r)
            else (Inr (), r\<lparr>reg_gpus := m_put (gpu_id rec) rec (reg_gpus r)\<rparr>)
        | Some existing \<Rightarrow>
            if gpu_generation rec < gpu_generation existing then
              (Inl (ResidencyError ErrorCode.kInvalidArgument ''stale GPU generation rejected''
                      (id_str (gpu_id rec))), r)
            else (Inr (), r\<lparr>reg_gpus := m_put (gpu_id rec) rec (reg_gpus r)\<rparr>)))"

definition retire_attachment ::
    "AttachmentId \<Rightarrow> CoordinatorEpoch \<Rightarrow> WorkerId \<Rightarrow> WorkerBootId \<Rightarrow> unit reg_op" where
  "retire_attachment i e w b r =
     (case EnsureAuthority e w b r of
        Inl err \<Rightarrow> (Inl err, r)
      | Inr _ \<Rightarrow> (case m_find (reg_attachments r) i of
          None \<Rightarrow> (Inl (ResidencyError ErrorCode.kNotFound ''attachment not found'' (id_str i)), r)
        | Some a \<Rightarrow>
            (Inr (), r\<lparr>reg_attachments := m_put i (a\<lparr>att_state := AttachmentState.kRevoked\<rparr>)
                        (reg_attachments r)\<rparr>)))"

section \<open>Residencies\<close>

text \<open>The scan that refuses a residency generation below one already recorded for its id.\<close>

fun stale_residency :: "ResidencyRecord \<Rightarrow> ResidencyRecord list \<Rightarrow> bool" where
  "stale_residency rec [] = False"
| "stale_residency rec (x # xs) =
     (if res_id x = res_id rec \<and> res_generation rec < res_generation x then True
      else stale_residency rec xs)"

definition publish_residency ::
    "ResidencyRecord \<Rightarrow> CoordinatorEpoch \<Rightarrow> WorkerId \<Rightarrow> WorkerBootId \<Rightarrow> ResidencyRecord reg_op" where
  "publish_residency rec e w b r =
     (case EnsureAuthority e w b r of
        Inl err \<Rightarrow> (Inl err, r)
      | Inr _ \<Rightarrow>
        if \<not> id_valid (res_id rec) \<or> \<not> id_valid (res_nic rec) then
          (Inl (ResidencyError ErrorCode.kInvalidArgument ''residency id and NIC id required'' []), r)
        else if \<not> m_has (reg_nics r) (res_nic rec) then
          (Inl (ResidencyError ErrorCode.kInvalidArgument ''residency references nonexistent NIC''
                  (id_str (res_nic rec))), r)
        else if id_valid (res_function rec) \<and> \<not> m_has (reg_functions r) (res_function rec) then
          (Inl (ResidencyError ErrorCode.kInvalidArgument
                  ''residency references nonexistent function'' (id_str (res_function rec))), r)
        else if id_valid (res_port rec) \<and> \<not> m_has (reg_ports r) (res_port rec) then
          (Inl (ResidencyError ErrorCode.kInvalidArgument
                  ''residency references nonexistent port'' (id_str (res_port rec))), r)
        else if id_valid (res_queue rec) \<and> \<not> m_has (reg_queues r) (res_queue rec) then
          (Inl (ResidencyError ErrorCode.kInvalidArgument
                  ''residency references nonexistent queue'' (id_str (res_queue rec))), r)
        else if length (reg_residencies r) \<ge> kMaxResidencies then
          (Inl (ResidencyError ErrorCode.kResourceLimit ''residency count limit exceeded'' []), r)
        else if stale_residency rec (reg_residencies r) then
          (Inl (ResidencyError ErrorCode.kStaleResidency ''stale residency generation rejected''
                  (id_str (res_id rec))), r)
        else (Inr rec, r\<lparr>reg_residencies := reg_residencies r @ [rec]\<rparr>))"

text \<open>Retire the first record with the id; the loop returns there.\<close>

fun retire_first :: "ResidencyId \<Rightarrow> ResidencyRecord list \<Rightarrow> ResidencyRecord list option" where
  "retire_first i [] = None"
| "retire_first i (x # xs) =
     (if res_id x = i then
        Some (x\<lparr>res_state := ResidencyState.kRetired, res_lifecycle := LifecycleState.kRetired\<rparr> # xs)
      else map_option (\<lambda>ys. x # ys) (retire_first i xs))"

definition retire_residency ::
    "ResidencyId \<Rightarrow> CoordinatorEpoch \<Rightarrow> WorkerId \<Rightarrow> WorkerBootId \<Rightarrow> unit reg_op" where
  "retire_residency i e w b r =
     (case EnsureAuthority e w b r of
        Inl err \<Rightarrow> (Inl err, r)
      | Inr _ \<Rightarrow> (case retire_first i (reg_residencies r) of
          Some xs \<Rightarrow> (Inr (), r\<lparr>reg_residencies := xs\<rparr>)
        | None \<Rightarrow> (Inl (ResidencyError ErrorCode.kNotFound ''residency not found'' (id_str i)), r)))"

section \<open>Snapshots\<close>

record RegistrySnapshot =
  snap_epoch :: CoordinatorEpoch
  snap_nics :: "(NicId, NicRecord) smap"
  snap_functions :: "(FunctionId, FunctionRecord) smap"
  snap_ports :: "(PortId, PortRecord) smap"
  snap_queues :: "(QueueId, QueueRecord) smap"
  snap_attachments :: "(AttachmentId, Attachment) smap"
  snap_gpus :: "(GpuId, GpuRecord) smap"
  snap_residencies :: "ResidencyRecord list"
  snap_topology :: "TopologySnapshot option"

definition snapshot :: "NicRegistry \<Rightarrow> RegistrySnapshot" where
  "snapshot r = \<lparr>snap_epoch = reg_epoch r, snap_nics = reg_nics r, snap_functions = reg_functions r,
     snap_ports = reg_ports r, snap_queues = reg_queues r, snap_attachments = reg_attachments r,
     snap_gpus = reg_gpus r, snap_residencies = reg_residencies r, snap_topology = reg_topology r\<rparr>"

definition snap_summary :: "RegistrySnapshot \<Rightarrow> string" where
  "snap_summary s = ''epoch='' @ id_str (snap_epoch s) @ '' nics='' @ dec_digits (m_size (snap_nics s))
     @ '' gpus='' @ dec_digits (m_size (snap_gpus s)) @ '' funcs='' @ dec_digits (m_size (snap_functions s))
     @ '' ports='' @ dec_digits (m_size (snap_ports s)) @ '' queues='' @ dec_digits (m_size (snap_queues s))
     @ '' attachments='' @ dec_digits (m_size (snap_attachments s))
     @ (case snap_topology s of Some t \<Rightarrow> '' topo_nodes='' @ dec_digits (top_node_count t) | None \<Rightarrow> [])"

lemmas [reg_defs] =
  register_worker_def worker_retired_def coordinator_restart_def register_nic_def
  advance_nic_generation_def register_function_def advance_function_generation_def
  register_port_def register_queue_def advance_queue_generation_def set_topology_def
  register_attachment_def register_gpu_def retire_attachment_def publish_residency_def
  retire_residency_def

end
