(* ===== verification/Registry_Safety.thy ===== *)
theory Registry_Safety
  imports Registry_Core
begin

text \<open>
  Safety of the registry: the representation invariant (reference integrity, keys, bounds),
  the contract every authority-guarded operation shares (locale \<open>guarded_op\<close>), executions
  as arbitrary sequences of public calls, and generation monotonicity.
\<close>

section \<open>The invariant\<close>

definition nics_ok :: "(NicId, NicRecord) smap \<Rightarrow> bool" where
  "nics_ok N \<longleftrightarrow> m_inv N \<and> m_size N \<le> kMaxNics \<and>
     (\<forall>k n. m_find N k = Some n \<longrightarrow> nic_id n = k \<and> id_valid k \<and> nic_freshness n = 0)"

definition gpus_ok :: "(GpuId, GpuRecord) smap \<Rightarrow> bool" where
  "gpus_ok G \<longleftrightarrow> m_inv G \<and> m_size G \<le> kMaxGpus \<and>
     (\<forall>k g. m_find G k = Some g \<longrightarrow> gpu_id g = k \<and> id_valid k)"

definition functions_ok :: "(NicId, NicRecord) smap \<Rightarrow> (FunctionId, FunctionRecord) smap \<Rightarrow> bool" where
  "functions_ok N F \<longleftrightarrow> m_inv F \<and> m_size F \<le> kMaxFunctions \<and>
     (\<forall>k f. m_find F k = Some f \<longrightarrow> fn_id f = k \<and> id_valid k \<and> m_has N (fn_parent_nic f))"

definition ports_ok ::
    "(NicId, NicRecord) smap \<Rightarrow> (FunctionId, FunctionRecord) smap \<Rightarrow> (PortId, PortRecord) smap \<Rightarrow> bool" where
  "ports_ok N F P \<longleftrightarrow> m_inv P \<and> m_size P \<le> kMaxPorts \<and>
     (\<forall>k p. m_find P k = Some p \<longrightarrow> port_id p = k \<and> id_valid k \<and> m_has N (port_parent_nic p) \<and>
        (id_valid (port_parent_function p) \<longrightarrow> m_has F (port_parent_function p)))"

definition queues_ok ::
    "(NicId, NicRecord) smap \<Rightarrow> (FunctionId, FunctionRecord) smap \<Rightarrow> (QueueId, QueueRecord) smap \<Rightarrow> bool" where
  "queues_ok N F Q \<longleftrightarrow> m_inv Q \<and> m_size Q \<le> kMaxQueues \<and>
     (\<forall>k q. m_find Q k = Some q \<longrightarrow> queue_id q = k \<and> id_valid k \<and> m_has N (queue_parent_nic q) \<and>
        m_has F (queue_parent_function q))"

text \<open>What an attachment or a residency may refer to.\<close>

definition refs_ok :: "NicRegistry \<Rightarrow> NicId \<Rightarrow> FunctionId \<Rightarrow> PortId \<Rightarrow> QueueId \<Rightarrow> bool" where
  "refs_ok r n f p q \<longleftrightarrow> m_has (reg_nics r) n \<and> (id_valid f \<longrightarrow> m_has (reg_functions r) f) \<and>
     (id_valid p \<longrightarrow> m_has (reg_ports r) p) \<and> (id_valid q \<longrightarrow> m_has (reg_queues r) q)"

definition attachments_ok :: "NicRegistry \<Rightarrow> (AttachmentId, Attachment) smap \<Rightarrow> bool" where
  "attachments_ok r A \<longleftrightarrow> m_inv A \<and> m_size A \<le> kMaxAttachments \<and>
     (\<forall>k a. m_find A k = Some a \<longrightarrow> att_id a = k \<and> id_valid k \<and>
        refs_ok r (att_nic a) (att_function a) (att_port a) (att_queue a))"

definition residencies_ok :: "NicRegistry \<Rightarrow> ResidencyRecord list \<Rightarrow> bool" where
  "residencies_ok r xs \<longleftrightarrow> length xs \<le> kMaxResidencies \<and>
     (\<forall>x \<in> set xs. id_valid (res_id x) \<and>
        refs_ok r (res_nic x) (res_function x) (res_port x) (res_queue x))"

definition workers_ok :: "(WorkerId, WorkerHandle) smap \<Rightarrow> bool" where
  "workers_ok W \<longleftrightarrow> m_inv W \<and> (\<forall>k h. m_find W k = Some h \<longrightarrow> wh_worker h = k)"

definition reg_inv :: "NicRegistry \<Rightarrow> bool" where
  "reg_inv r \<longleftrightarrow> id_valid (reg_epoch r) \<and> workers_ok (reg_workers r) \<and> m_inv (reg_worker_nics r) \<and>
     nics_ok (reg_nics r) \<and> gpus_ok (reg_gpus r) \<and>
     functions_ok (reg_nics r) (reg_functions r) \<and>
     ports_ok (reg_nics r) (reg_functions r) (reg_ports r) \<and>
     queues_ok (reg_nics r) (reg_functions r) (reg_queues r) \<and>
     attachments_ok r (reg_attachments r) \<and> residencies_ok r (reg_residencies r)"

text \<open>The registry never forgets a NIC, function, port or queue.\<close>

definition grows :: "NicRegistry \<Rightarrow> NicRegistry \<Rightarrow> bool" where
  "grows r s \<longleftrightarrow> (\<forall>k. m_has (reg_nics r) k \<longrightarrow> m_has (reg_nics s) k) \<and>
     (\<forall>k. m_has (reg_functions r) k \<longrightarrow> m_has (reg_functions s) k) \<and>
     (\<forall>k. m_has (reg_ports r) k \<longrightarrow> m_has (reg_ports s) k) \<and>
     (\<forall>k. m_has (reg_queues r) k \<longrightarrow> m_has (reg_queues s) k)"

lemma grows_refl [simp]: "grows r r"
  by (simp add: grows_def)

lemma refs_ok_grows: "refs_ok r n f p q \<Longrightarrow> grows r s \<Longrightarrow> refs_ok s n f p q"
  by (auto simp: refs_ok_def grows_def)

lemma attachments_ok_grows: "attachments_ok r A \<Longrightarrow> grows r s \<Longrightarrow> attachments_ok s A"
  by (auto simp: attachments_ok_def intro: refs_ok_grows)

lemma residencies_ok_grows: "residencies_ok r xs \<Longrightarrow> grows r s \<Longrightarrow> residencies_ok s xs"
  by (auto simp: residencies_ok_def intro: refs_ok_grows)

lemma functions_ok_grows: "functions_ok (reg_nics r) F \<Longrightarrow> grows r s \<Longrightarrow> functions_ok (reg_nics s) F"
  by (auto simp: functions_ok_def grows_def)

lemma ports_ok_grows:
  "ports_ok (reg_nics r) (reg_functions r) P \<Longrightarrow> grows r s \<Longrightarrow> ports_ok (reg_nics s) (reg_functions s) P"
  by (auto simp: ports_ok_def grows_def)

lemma queues_ok_grows:
  "queues_ok (reg_nics r) (reg_functions r) Q \<Longrightarrow> grows r s \<Longrightarrow> queues_ok (reg_nics s) (reg_functions s) Q"
  by (auto simp: queues_ok_def grows_def)

lemmas ok_grows = attachments_ok_grows residencies_ok_grows functions_ok_grows ports_ok_grows
  queues_ok_grows

text \<open>To show the invariant of the next state it is enough that keys only grow and that the
  tables a call wrote are well formed with respect to the old state.\<close>

lemma reg_inv_step:
  assumes "reg_inv r" "grows r s" "id_valid (reg_epoch s)" "workers_ok (reg_workers s)"
    "m_inv (reg_worker_nics s)" "nics_ok (reg_nics s)" "gpus_ok (reg_gpus s)"
    "functions_ok (reg_nics r) (reg_functions s)"
    "ports_ok (reg_nics r) (reg_functions r) (reg_ports s)"
    "queues_ok (reg_nics r) (reg_functions r) (reg_queues s)"
    "attachments_ok r (reg_attachments s)" "residencies_ok r (reg_residencies s)"
  shows "reg_inv s"
  using assms unfolding reg_inv_def by (meson ok_grows)

subsection \<open>Single table updates\<close>

lemma nics_ok_put:
  "nics_ok N \<Longrightarrow> id_valid (nic_id n) \<Longrightarrow> nic_freshness n = 0 \<Longrightarrow> nic_id n = i \<Longrightarrow>
     m_size N < kMaxNics \<or> m_has N i \<Longrightarrow> nics_ok (m_put i n N)"
  by (auto simp: nics_ok_def m_has_def)

lemma gpus_ok_put:
  "gpus_ok G \<Longrightarrow> id_valid (gpu_id g) \<Longrightarrow> m_size G < kMaxGpus \<Longrightarrow> gpus_ok (m_put (gpu_id g) g G)"
  by (auto simp: gpus_ok_def)

lemma functions_ok_put:
  "functions_ok N F \<Longrightarrow> id_valid i \<Longrightarrow> fn_id f = i \<Longrightarrow> m_has N (fn_parent_nic f) \<Longrightarrow>
     m_size F < kMaxFunctions \<or> m_has F i \<Longrightarrow> functions_ok N (m_put i f F)"
  by (auto simp: functions_ok_def m_has_def)

lemma functions_ok_foreach:
  "functions_ok N F \<Longrightarrow> (\<And>f. fn_id (g f) = fn_id f \<and> fn_parent_nic (g f) = fn_parent_nic f) \<Longrightarrow>
     functions_ok N (m_foreach g F)"
  by (auto simp: functions_ok_def)

lemma ports_ok_put:
  "ports_ok N F P \<Longrightarrow> id_valid (port_id p) \<Longrightarrow> m_has N (port_parent_nic p) \<Longrightarrow>
     (id_valid (port_parent_function p) \<Longrightarrow> m_has F (port_parent_function p)) \<Longrightarrow>
     m_size P < kMaxPorts \<Longrightarrow> ports_ok N F (m_put (port_id p) p P)"
  by (auto simp: ports_ok_def)

lemma queues_ok_put:
  "queues_ok N F Q \<Longrightarrow> id_valid i \<Longrightarrow> queue_id q = i \<Longrightarrow> m_has N (queue_parent_nic q) \<Longrightarrow>
     m_has F (queue_parent_function q) \<Longrightarrow> m_size Q < kMaxQueues \<or> m_has Q i \<Longrightarrow>
     queues_ok N F (m_put i q Q)"
  by (auto simp: queues_ok_def m_has_def)

lemma queues_ok_foreach:
  "queues_ok N F Q \<Longrightarrow>
     (\<And>q. queue_id (g q) = queue_id q \<and> queue_parent_nic (g q) = queue_parent_nic q \<and>
        queue_parent_function (g q) = queue_parent_function q) \<Longrightarrow> queues_ok N F (m_foreach g Q)"
  by (auto simp: queues_ok_def)

lemma attachments_ok_put:
  "attachments_ok r A \<Longrightarrow> id_valid i \<Longrightarrow> att_id a = i \<Longrightarrow>
     refs_ok r (att_nic a) (att_function a) (att_port a) (att_queue a) \<Longrightarrow>
     m_size A < kMaxAttachments \<or> m_has A i \<Longrightarrow> attachments_ok r (m_put i a A)"
  by (auto simp: attachments_ok_def m_has_def)

lemma attachments_ok_foreach:
  "attachments_ok r A \<Longrightarrow>
     (\<And>a. att_id (g a) = att_id a \<and> att_nic (g a) = att_nic a \<and> att_function (g a) = att_function a \<and>
        att_port (g a) = att_port a \<and> att_queue (g a) = att_queue a) \<Longrightarrow>
     attachments_ok r (m_foreach g A)"
  by (auto simp: attachments_ok_def)

lemma residencies_ok_map:
  "residencies_ok r xs \<Longrightarrow>
     (\<And>x. res_id (g x) = res_id x \<and> res_nic (g x) = res_nic x \<and> res_function (g x) = res_function x \<and>
        res_port (g x) = res_port x \<and> res_queue (g x) = res_queue x) \<Longrightarrow>
     residencies_ok r (map g xs)"
  by (auto simp: residencies_ok_def)

lemma revalidate_nics_find:
  "m_find (revalidate_nics is m) k =
     (if k \<in> set is then map_option nic_revalidate (m_find m k) else m_find m k)"
proof (induction "is" m rule: revalidate_nics.induct)
  case (2 i "is" m)
  have "nic_revalidate (nic_revalidate n) = nic_revalidate n" for n
    by (simp add: nic_revalidate_def)
  with 2 show ?case by (auto split: option.splits simp: option.map_comp comp_def)
qed simp

lemma revalidate_nics_inv: "m_inv m \<Longrightarrow> m_inv (revalidate_nics is m)"
  by (induction "is" m rule: revalidate_nics.induct) (auto split: option.splits)

lemma revalidate_nics_size: "m_inv m \<Longrightarrow> m_size (revalidate_nics is m) = m_size m"
  by (induction "is" m rule: revalidate_nics.induct) (auto split: option.splits)

lemma revalidate_nics_has [simp]: "m_has (revalidate_nics is m) k = m_has m k"
  by (simp add: m_has_def revalidate_nics_find)

lemma nics_ok_revalidate: "nics_ok N \<Longrightarrow> nics_ok (revalidate_nics is N)"
  by (auto simp: nics_ok_def revalidate_nics_inv revalidate_nics_size revalidate_nics_find
      nic_revalidate_def split: if_splits)

lemma retire_first_map:
  "retire_first i xs = Some ys \<Longrightarrow>
     map res_id ys = map res_id xs \<and> length ys = length xs \<and>
     (\<forall>x \<in> set ys. \<exists>z \<in> set xs. res_id x = res_id z \<and> res_nic x = res_nic z \<and>
        res_function x = res_function z \<and> res_port x = res_port z \<and> res_queue x = res_queue z)"
proof (induction xs arbitrary: ys)
  case (Cons x xs)
  show ?case
  proof (cases "res_id x = i")
    case True
    with Cons.prems show ?thesis by auto
  next
    case False
    with Cons.prems obtain zs where "retire_first i xs = Some zs" "ys = x # zs" by auto
    with Cons.IH show ?thesis by auto
  qed
qed simp

lemmas ok_updates = nics_ok_put gpus_ok_put functions_ok_put functions_ok_foreach ports_ok_put
  queues_ok_put queues_ok_foreach attachments_ok_put attachments_ok_foreach residencies_ok_map
  nics_ok_revalidate

lemmas touch_defs = nic_revalidate_def att_disown_def res_disown_def fn_restart_def att_restart_def
  res_restart_def fn_invalidate_def queue_invalidate_def att_invalidate_def res_invalidate_def

section \<open>Every operation keeps the invariant\<close>

lemma reg_inv_unfold:
  assumes "reg_inv r"
  shows "id_valid (reg_epoch r)" "workers_ok (reg_workers r)" "m_inv (reg_worker_nics r)"
    "nics_ok (reg_nics r)" "gpus_ok (reg_gpus r)" "functions_ok (reg_nics r) (reg_functions r)"
    "ports_ok (reg_nics r) (reg_functions r) (reg_ports r)"
    "queues_ok (reg_nics r) (reg_functions r) (reg_queues r)"
    "attachments_ok r (reg_attachments r)" "residencies_ok r (reg_residencies r)"
  using assms by (simp_all add: reg_inv_def)

lemma reg_inv_nic:
  "reg_inv r \<Longrightarrow> m_find (reg_nics r) k = Some n \<Longrightarrow> nic_id n = k \<and> id_valid k \<and> nic_freshness n = 0"
  by (simp add: reg_inv_def nics_ok_def)

lemma reg_inv_function:
  "reg_inv r \<Longrightarrow> m_find (reg_functions r) k = Some f \<Longrightarrow>
     fn_id f = k \<and> id_valid k \<and> m_has (reg_nics r) (fn_parent_nic f)"
  by (simp add: reg_inv_def functions_ok_def)

lemma reg_inv_queue:
  "reg_inv r \<Longrightarrow> m_find (reg_queues r) k = Some q \<Longrightarrow>
     queue_id q = k \<and> id_valid k \<and> m_has (reg_nics r) (queue_parent_nic q) \<and>
     m_has (reg_functions r) (queue_parent_function q)"
  by (simp add: reg_inv_def queues_ok_def)

lemma reg_inv_attachment:
  "reg_inv r \<Longrightarrow> m_find (reg_attachments r) k = Some a \<Longrightarrow>
     att_id a = k \<and> id_valid k \<and> refs_ok r (att_nic a) (att_function a) (att_port a) (att_queue a)"
  by (simp add: reg_inv_def attachments_ok_def)

lemma m_find_has: "m_find m k = Some v \<Longrightarrow> m_has m k"
  by (simp add: m_has_def)

lemma register_worker_inv: "reg_inv r \<Longrightarrow> reg_inv (snd (register_worker w b r))"
  by (auto simp: register_worker_def reg_inv_def workers_ok_def attachments_ok_def residencies_ok_def
      refs_ok_def split: option.splits)

lemma worker_retired_inv:
  assumes "reg_inv r"
  shows "reg_inv (snd (worker_retired w b r))"
proof (cases "case m_find (reg_workers r) w of Some h \<Rightarrow> wh_boot h \<noteq> b | None \<Rightarrow> False")
  case True
  with assms show ?thesis by (simp add: worker_retired_def)
next
  case False
  note inv = reg_inv_unfold [OF assms]
  have w: "workers_ok (m_erase w (reg_workers r))" using inv(2) by (auto simp: workers_ok_def)
  show ?thesis
    by (rule reg_inv_step [OF assms])
      (use False inv w in \<open>auto simp: worker_retired_def Let_def grows_def touch_defs
        intro!: ok_updates split: option.splits\<close>)
qed

lemma coordinator_restart_inv:
  assumes "reg_inv r"
  shows "reg_inv (snd (coordinator_restart e r))"
proof (cases "id_value (reg_epoch r) < id_value e")
  case False
  with assms show ?thesis by (simp add: coordinator_restart_def)
next
  case True
  then have "id_valid e" by (auto simp: id_valid_def)
  with True show ?thesis
    by (intro reg_inv_step [OF assms])
      (use reg_inv_unfold [OF assms] in \<open>auto simp: coordinator_restart_def grows_def touch_defs
        workers_ok_def intro!: ok_updates\<close>)
qed

lemma register_nic_inv:
  assumes "reg_inv r"
  shows "reg_inv (snd (register_nic n e w b r))"
  by (rule reg_inv_step [OF assms])
    (use reg_inv_unfold [OF assms] in \<open>auto simp: register_nic_def Let_def grows_def
      intro!: ok_updates split: option.splits sum.splits\<close>)

lemma advance_nic_generation_inv:
  assumes "reg_inv r"
  shows "reg_inv (snd (advance_nic_generation i e w b r))"
  by (rule reg_inv_step [OF assms])
    (use reg_inv_unfold [OF assms] reg_inv_nic [OF assms] in
      \<open>auto simp: advance_nic_generation_def grows_def touch_defs
        intro!: ok_updates dest: m_find_has split: option.splits sum.splits\<close>)

text \<open>Evaluating a guard chain under the decided guards, without splitting the others.\<close>

lemmas guard_steps = sum.case option.case if_True if_False fst_conv snd_conv simp_thms

lemma register_function_effect:
  "snd (register_function f e w b r) = r \<or>
     snd (register_function f e w b r) = r\<lparr>reg_functions := m_put (fn_id f) f (reg_functions r)\<rparr> \<and> EnsureAuthority e w b r = Inr () \<and>
     id_valid (fn_id f) \<and> m_has (reg_nics r) (fn_parent_nic f) \<and> m_size (reg_functions r) < kMaxFunctions \<and>
     (\<forall>x. m_find (reg_functions r) (fn_id f) = Some x \<longrightarrow> fn_generation x < fn_generation f)"
  by (simp add: register_function_def split: sum.split option.split) auto

lemma register_function_inv:
  assumes "reg_inv r"
  shows "reg_inv (snd (register_function f e w b r))"
  using register_function_effect [of f e w b r]
proof
  assume "snd (register_function f e w b r) = r"
  with assms show ?thesis by simp
qed (intro reg_inv_step [OF assms],
    use reg_inv_unfold [OF assms] in \<open>auto simp: grows_def intro!: ok_updates\<close>)

lemma advance_function_generation_inv:
  assumes "reg_inv r"
  shows "reg_inv (snd (advance_function_generation i e w b r))"
  by (rule reg_inv_step [OF assms])
    (use reg_inv_unfold [OF assms] reg_inv_function [OF assms] in
      \<open>auto simp: advance_function_generation_def grows_def touch_defs
        intro!: ok_updates dest: m_find_has split: option.splits sum.splits\<close>)

lemma register_port_effect:
  "snd (register_port p e w b r) = r \<or>
     snd (register_port p e w b r) = r\<lparr>reg_ports := m_put (port_id p) p (reg_ports r)\<rparr> \<and> EnsureAuthority e w b r = Inr () \<and>
     id_valid (port_id p) \<and> m_has (reg_nics r) (port_parent_nic p) \<and>
     (id_valid (port_parent_function p) \<longrightarrow> m_has (reg_functions r) (port_parent_function p)) \<and>
     m_size (reg_ports r) < kMaxPorts \<and>
     (\<forall>x. m_find (reg_ports r) (port_id p) = Some x \<longrightarrow> port_generation x < port_generation p)"
  by (simp add: register_port_def split: sum.split option.split) auto

lemma register_port_inv:
  assumes "reg_inv r"
  shows "reg_inv (snd (register_port p e w b r))"
  using register_port_effect [of p e w b r]
proof
  assume "snd (register_port p e w b r) = r"
  with assms show ?thesis by simp
qed (intro reg_inv_step [OF assms],
    use reg_inv_unfold [OF assms] in \<open>auto simp: grows_def intro!: ok_updates\<close>)

lemma register_queue_effect:
  "snd (register_queue q e w b r) = r \<or>
     snd (register_queue q e w b r) = r\<lparr>reg_queues := m_put (queue_id q) q (reg_queues r)\<rparr> \<and> EnsureAuthority e w b r = Inr () \<and>
     id_valid (queue_id q) \<and> m_has (reg_nics r) (queue_parent_nic q) \<and>
     m_has (reg_functions r) (queue_parent_function q) \<and> m_size (reg_queues r) < kMaxQueues \<and>
     (\<forall>x. m_find (reg_queues r) (queue_id q) = Some x \<longrightarrow> queue_generation x < queue_generation q)"
  by (cases "EnsureAuthority e w b r", simp add: register_queue_def,
      cases "\<not> id_valid (queue_id q) \<or> \<not> id_valid (queue_parent_function q) \<or> \<not> id_valid (queue_parent_nic q)",
      simp add: register_queue_def,
      cases "\<not> m_has (reg_functions r) (queue_parent_function q)", simp add: register_queue_def,
      cases "\<not> m_has (reg_nics r) (queue_parent_nic q)", simp add: register_queue_def,
      cases "m_size (reg_queues r) \<ge> kMaxQueues", simp add: register_queue_def)
    (simp add: register_queue_def split: option.split, auto)

lemma register_queue_inv:
  assumes "reg_inv r"
  shows "reg_inv (snd (register_queue q e w b r))"
  using register_queue_effect [of q e w b r]
proof
  assume "snd (register_queue q e w b r) = r"
  with assms show ?thesis by simp
qed (intro reg_inv_step [OF assms],
    use reg_inv_unfold [OF assms] in \<open>auto simp: grows_def intro!: ok_updates\<close>)

lemma advance_queue_generation_inv:
  assumes "reg_inv r"
  shows "reg_inv (snd (advance_queue_generation i e w b r))"
  by (rule reg_inv_step [OF assms])
    (use reg_inv_unfold [OF assms] reg_inv_queue [OF assms] in
      \<open>auto simp: advance_queue_generation_def grows_def touch_defs
        intro!: ok_updates dest: m_find_has split: option.splits sum.splits\<close>)

lemma set_topology_inv:
  assumes "reg_inv r"
  shows "reg_inv (snd (set_topology t e w b r))"
  by (rule reg_inv_step [OF assms])
    (use reg_inv_unfold [OF assms] in \<open>auto simp: set_topology_def grows_def touch_defs
      intro!: ok_updates split: option.splits sum.splits\<close>)

lemma register_attachment_effect:
  "snd (register_attachment a e w b r) = r \<or>
     snd (register_attachment a e w b r) = r\<lparr>reg_attachments := m_put (att_id a) a (reg_attachments r)\<rparr> \<and> EnsureAuthority e w b r = Inr () \<and>
     id_valid (att_id a) \<and> refs_ok r (att_nic a) (att_function a) (att_port a) (att_queue a) \<and>
     m_size (reg_attachments r) < kMaxAttachments \<and>
     (\<forall>x. m_find (reg_attachments r) (att_id a) = Some x \<longrightarrow> att_generation x \<le> att_generation a)"
  by (cases "EnsureAuthority e w b r", simp add: register_attachment_def,
      cases "\<not> id_valid (att_id a) \<or> \<not> id_valid (att_nic a)", simp add: register_attachment_def,
      cases "\<not> m_has (reg_nics r) (att_nic a)", simp add: register_attachment_def,
      cases "id_valid (att_function a) \<and> \<not> m_has (reg_functions r) (att_function a)",
      simp only: register_attachment_def guard_steps,
      cases "id_valid (att_port a) \<and> \<not> m_has (reg_ports r) (att_port a)",
      simp only: register_attachment_def guard_steps,
      cases "id_valid (att_queue a) \<and> \<not> m_has (reg_queues r) (att_queue a)",
      simp only: register_attachment_def guard_steps,
      cases "m_size (reg_attachments r) \<ge> kMaxAttachments",
      simp only: register_attachment_def guard_steps,
      cases "m_find (reg_attachments r) (att_id a)")
    (simp_all only: register_attachment_def guard_steps, simp_all add: refs_ok_def not_less not_le)

lemma register_attachment_inv:
  assumes "reg_inv r"
  shows "reg_inv (snd (register_attachment a e w b r))"
  using register_attachment_effect [of a e w b r]
proof
  assume "snd (register_attachment a e w b r) = r"
  with assms show ?thesis by simp
qed (intro reg_inv_step [OF assms],
    use reg_inv_unfold [OF assms] in \<open>auto simp: grows_def intro!: ok_updates\<close>)

lemma register_gpu_inv:
  assumes "reg_inv r"
  shows "reg_inv (snd (register_gpu g e w b r))"
  by (rule reg_inv_step [OF assms])
    (use reg_inv_unfold [OF assms] in \<open>auto simp: register_gpu_def grows_def
      intro!: ok_updates split: option.splits sum.splits\<close>)

lemma retire_attachment_inv:
  assumes "reg_inv r"
  shows "reg_inv (snd (retire_attachment i e w b r))"
  by (rule reg_inv_step [OF assms])
    (use reg_inv_unfold [OF assms] reg_inv_attachment [OF assms] in
      \<open>auto simp: retire_attachment_def grows_def intro!: ok_updates dest: m_find_has split: option.splits sum.splits\<close>)

lemma publish_residency_inv:
  assumes "reg_inv r"
  shows "reg_inv (snd (publish_residency x e w b r))"
  by (rule reg_inv_step [OF assms])
    (use reg_inv_unfold [OF assms] in \<open>auto simp: publish_residency_def grows_def residencies_ok_def
      refs_ok_def split: option.splits sum.splits\<close>)

lemma retire_residency_inv:
  assumes "reg_inv r"
  shows "reg_inv (snd (retire_residency i e w b r))"
proof -
  have "residencies_ok r ys" if "retire_first i (reg_residencies r) = Some ys" for ys
    using retire_first_map [OF that] reg_inv_unfold(10) [OF assms]
    by (fastforce simp: residencies_ok_def)
  then show ?thesis
    by (intro reg_inv_step [OF assms])
      (use reg_inv_unfold [OF assms] in \<open>auto simp: retire_residency_def grows_def
        split: option.splits sum.splits\<close>)
qed

section \<open>The contract of an authority-guarded operation\<close>

text \<open>What a failed call must leave alone: everything but the record of which worker
  tried to publish which NIC.\<close>

definition canonical :: "NicRegistry \<Rightarrow> NicRegistry" where
  "canonical r = r\<lparr>reg_worker_nics := []\<rparr>"

locale guarded_op =
  fixes run :: "CoordinatorEpoch \<Rightarrow> WorkerId \<Rightarrow> WorkerBootId \<Rightarrow> 'a reg_op"
  assumes fenced: "EnsureAuthority e w b r = Inl err \<Longrightarrow> run e w b r = (Inl err, r)"
    and keeps_inv: "reg_inv r \<Longrightarrow> reg_inv (snd (run e w b r))"
    and keeps_authority:
      "reg_epoch (snd (run e w b r)) = reg_epoch r \<and> reg_workers (snd (run e w b r)) = reg_workers r"
    and failure_atomic: "run e w b r = (Inl err, r') \<Longrightarrow> canonical r' = canonical r"
begin

lemma stale_epoch_rejected:
  "e \<noteq> reg_epoch r \<Longrightarrow> \<exists>err. err_code err = ErrorCode.kStaleEpoch \<and> run e w b r = (Inl err, r)"
  by (rule exI [of _ "ResidencyError ErrorCode.kStaleEpoch ''stale coordinator epoch rejected'' (id_str e)"])
    (simp add: fenced EnsureAuthority_def)

lemma unknown_worker_rejected:
  "e = reg_epoch r \<Longrightarrow> m_find (reg_workers r) w = None \<Longrightarrow>
     \<exists>err. err_code err = ErrorCode.kNotReady \<and> run e w b r = (Inl err, r)"
  by (rule exI [of _ "ResidencyError ErrorCode.kNotReady
        ''worker is not a registered authority'' (''worker='' @ id_str w)"])
    (simp add: fenced EnsureAuthority_def)

lemma stale_boot_rejected:
  "e = reg_epoch r \<Longrightarrow> m_find (reg_workers r) w = Some h \<Longrightarrow> wh_boot h \<noteq> b \<Longrightarrow>
     \<exists>err. err_code err = ErrorCode.kStaleBoot \<and> run e w b r = (Inl err, r)"
  by (rule exI [of _ "ResidencyError ErrorCode.kStaleBoot
        ''stale worker boot identity rejected'' (id_str b)"])
    (simp add: fenced EnsureAuthority_def)

lemma success_authority:
  assumes "run e w b r = (Inr x, r')"
  shows "e = reg_epoch r \<and> (\<exists>h. m_find (reg_workers r) w = Some h \<and> wh_boot h = b)"
proof (cases "EnsureAuthority e w b r")
  case (Inl err)
  with assms show ?thesis by (simp add: fenced)
next
  case (Inr u)
  then show ?thesis by (auto simp: EnsureAuthority_def split: if_splits option.splits)
qed

text \<open>Any change at all needs current authority.\<close>

lemma change_authority:
  assumes "snd (run e w b r) \<noteq> r"
  shows "e = reg_epoch r \<and> (\<exists>h. m_find (reg_workers r) w = Some h \<and> wh_boot h = b)"
proof (cases "EnsureAuthority e w b r")
  case (Inl err)
  with assms show ?thesis by (simp add: fenced)
next
  case (Inr u)
  then show ?thesis by (auto simp: EnsureAuthority_def split: if_splits option.splits)
qed

end

lemma canonical_worker_nics [simp]: "canonical (r\<lparr>reg_worker_nics := x\<rparr>) = canonical r"
  by (simp add: canonical_def)

interpretation g_nic: guarded_op "register_nic n" for n
  by unfold_locales (simp_all add: register_nic_inv, auto simp: register_nic_def Let_def
    split: sum.splits option.splits if_splits)

interpretation g_adv_nic: guarded_op "advance_nic_generation i" for i
  by unfold_locales (simp_all add: advance_nic_generation_inv, auto simp: advance_nic_generation_def
    split: sum.splits option.splits if_splits)

interpretation g_fn: guarded_op "register_function f" for f
  by unfold_locales (simp_all add: register_function_inv, auto simp: register_function_def
    split: sum.splits option.splits if_splits)

interpretation g_adv_fn: guarded_op "advance_function_generation i" for i
  by unfold_locales (simp_all add: advance_function_generation_inv,
    auto simp: advance_function_generation_def split: sum.splits option.splits if_splits)

interpretation g_port: guarded_op "register_port p" for p
  by unfold_locales (simp_all add: register_port_inv, auto simp: register_port_def
    split: sum.splits option.splits if_splits)

interpretation g_queue: guarded_op "register_queue q" for q
  by unfold_locales (simp_all add: register_queue_inv, auto simp: register_queue_def
    split: sum.splits option.splits if_splits)

interpretation g_adv_queue: guarded_op "advance_queue_generation i" for i
  by unfold_locales (simp_all add: advance_queue_generation_inv,
    auto simp: advance_queue_generation_def split: sum.splits option.splits if_splits)

interpretation g_topo: guarded_op "set_topology t" for t
  by unfold_locales (simp_all add: set_topology_inv, auto simp: set_topology_def
    split: sum.splits option.splits if_splits)

interpretation g_att: guarded_op "register_attachment a" for a
  by unfold_locales (simp_all add: register_attachment_inv, auto simp: register_attachment_def
    split: sum.splits option.splits if_splits)

interpretation g_gpu: guarded_op "register_gpu g" for g
  by unfold_locales (simp_all add: register_gpu_inv, auto simp: register_gpu_def
    split: sum.splits option.splits if_splits)

interpretation g_ret_att: guarded_op "retire_attachment i" for i
  by unfold_locales (simp_all add: retire_attachment_inv, auto simp: retire_attachment_def
    split: sum.splits option.splits if_splits)

interpretation g_pub: guarded_op "publish_residency x" for x
  by unfold_locales (simp_all add: publish_residency_inv, auto simp: publish_residency_def
    split: sum.splits option.splits if_splits)

interpretation g_ret: guarded_op "retire_residency i" for i
  by unfold_locales (simp_all add: retire_residency_inv, auto simp: retire_residency_def
    split: sum.splits option.splits if_splits)

end
