(* ===== verification/Registry_Runs.thy ===== *)
theory Registry_Runs
  imports Registry_Safety
begin

text \<open>
  Executions of the registry. Every public mutating call of
  \<^verbatim>\<open>include/nicresidency/registry.hpp\<close> is a value of \<open>reg_call\<close>; because each call runs under
  one lock, the states a registry can be in are those reached from a constructed one by a
  sequence of calls, whichever threads they come from. The theory shows what holds in every
  such state and what one call may do to generations, the epoch and the authority.
\<close>

section \<open>Calls and reachable states\<close>

datatype reg_call =
    RegisterWorker WorkerId WorkerBootId
  | WorkerRetired WorkerId WorkerBootId
  | CoordinatorRestart CoordinatorEpoch
  | RegisterNic NicRecord CoordinatorEpoch WorkerId WorkerBootId
  | AdvanceNic NicId CoordinatorEpoch WorkerId WorkerBootId
  | RegisterFunction FunctionRecord CoordinatorEpoch WorkerId WorkerBootId
  | AdvanceFunction FunctionId CoordinatorEpoch WorkerId WorkerBootId
  | RegisterPort PortRecord CoordinatorEpoch WorkerId WorkerBootId
  | RegisterQueue QueueRecord CoordinatorEpoch WorkerId WorkerBootId
  | AdvanceQueue QueueId CoordinatorEpoch WorkerId WorkerBootId
  | SetTopology TopologySnapshot CoordinatorEpoch WorkerId WorkerBootId
  | RegisterAttachment Attachment CoordinatorEpoch WorkerId WorkerBootId
  | RegisterGpu GpuRecord CoordinatorEpoch WorkerId WorkerBootId
  | RetireAttachment AttachmentId CoordinatorEpoch WorkerId WorkerBootId
  | PublishResidency ResidencyRecord CoordinatorEpoch WorkerId WorkerBootId
  | RetireResidency ResidencyId CoordinatorEpoch WorkerId WorkerBootId

text \<open>The exception a call raises, if any, and the state it leaves.\<close>

definition outcome :: "(ResidencyError + 'a) \<times> NicRegistry \<Rightarrow> ResidencyError option \<times> NicRegistry" where
  "outcome p = (case fst p of Inl err \<Rightarrow> Some err | Inr _ \<Rightarrow> None, snd p)"

fun exec_call :: "reg_call \<Rightarrow> NicRegistry \<Rightarrow> ResidencyError option \<times> NicRegistry" where
  "exec_call (RegisterWorker w b) r = outcome (register_worker w b r)"
| "exec_call (WorkerRetired w b) r = outcome (worker_retired w b r)"
| "exec_call (CoordinatorRestart e) r = outcome (coordinator_restart e r)"
| "exec_call (RegisterNic n e w b) r = outcome (register_nic n e w b r)"
| "exec_call (AdvanceNic i e w b) r = outcome (advance_nic_generation i e w b r)"
| "exec_call (RegisterFunction f e w b) r = outcome (register_function f e w b r)"
| "exec_call (AdvanceFunction i e w b) r = outcome (advance_function_generation i e w b r)"
| "exec_call (RegisterPort p e w b) r = outcome (register_port p e w b r)"
| "exec_call (RegisterQueue q e w b) r = outcome (register_queue q e w b r)"
| "exec_call (AdvanceQueue i e w b) r = outcome (advance_queue_generation i e w b r)"
| "exec_call (SetTopology t e w b) r = outcome (set_topology t e w b r)"
| "exec_call (RegisterAttachment a e w b) r = outcome (register_attachment a e w b r)"
| "exec_call (RegisterGpu g e w b) r = outcome (register_gpu g e w b r)"
| "exec_call (RetireAttachment i e w b) r = outcome (retire_attachment i e w b r)"
| "exec_call (PublishResidency x e w b) r = outcome (publish_residency x e w b r)"
| "exec_call (RetireResidency i e w b) r = outcome (retire_residency i e w b r)"

text \<open>The authority a call presents; the three lifecycle calls present none.\<close>

fun call_auth :: "reg_call \<Rightarrow> (CoordinatorEpoch \<times> WorkerId \<times> WorkerBootId) option" where
  "call_auth (RegisterWorker w b) = None"
| "call_auth (WorkerRetired w b) = None"
| "call_auth (CoordinatorRestart e) = None"
| "call_auth (RegisterNic n e w b) = Some (e, w, b)"
| "call_auth (AdvanceNic i e w b) = Some (e, w, b)"
| "call_auth (RegisterFunction f e w b) = Some (e, w, b)"
| "call_auth (AdvanceFunction i e w b) = Some (e, w, b)"
| "call_auth (RegisterPort p e w b) = Some (e, w, b)"
| "call_auth (RegisterQueue q e w b) = Some (e, w, b)"
| "call_auth (AdvanceQueue i e w b) = Some (e, w, b)"
| "call_auth (SetTopology t e w b) = Some (e, w, b)"
| "call_auth (RegisterAttachment a e w b) = Some (e, w, b)"
| "call_auth (RegisterGpu g e w b) = Some (e, w, b)"
| "call_auth (RetireAttachment i e w b) = Some (e, w, b)"
| "call_auth (PublishResidency x e w b) = Some (e, w, b)"
| "call_auth (RetireResidency i e w b) = Some (e, w, b)"

inductive reg_reach :: "NicRegistry \<Rightarrow> bool" where
  start: "NicRegistry_new e = Inr r \<Longrightarrow> reg_reach r"
| call: "reg_reach r \<Longrightarrow> reg_reach (snd (exec_call c r))"

primrec exec_calls :: "reg_call list \<Rightarrow> NicRegistry \<Rightarrow> NicRegistry" where
  "exec_calls [] r = r"
| "exec_calls (c # cs) r = exec_calls cs (snd (exec_call c r))"

lemma snd_outcome [simp]: "snd (outcome p) = snd p"
  by (simp add: outcome_def)

lemma fst_outcome [simp]: "fst (outcome p) = (case fst p of Inl err \<Rightarrow> Some err | Inr _ \<Rightarrow> None)"
  by (simp add: outcome_def)

lemma outcome_Some: "outcome p = (Some err, s) \<longleftrightarrow> p = (Inl err, s)"
  by (cases p) (auto simp: outcome_def split: sum.splits)

lemma outcome_None: "outcome p = (None, s) \<longleftrightarrow> (\<exists>x. p = (Inr x, s))"
  by (cases p) (auto simp: outcome_def split: sum.splits)

lemma NicRegistry_new_inv: "NicRegistry_new e = Inr r \<Longrightarrow> reg_inv r"
  by (auto simp: NicRegistry_new_def EnsureNextEpoch_def reg_inv_def workers_ok_def nics_ok_def
      gpus_ok_def functions_ok_def ports_ok_def queues_ok_def attachments_ok_def residencies_ok_def
      m_size_def split: if_splits)

lemmas op_invs = register_worker_inv worker_retired_inv coordinator_restart_inv g_nic.keeps_inv
  g_adv_nic.keeps_inv g_fn.keeps_inv g_adv_fn.keeps_inv g_port.keeps_inv g_queue.keeps_inv
  g_adv_queue.keeps_inv g_topo.keeps_inv g_att.keeps_inv g_gpu.keeps_inv g_ret_att.keeps_inv
  g_pub.keeps_inv g_ret.keeps_inv

lemma exec_call_inv: "reg_inv r \<Longrightarrow> reg_inv (snd (exec_call c r))"
  by (cases c) (simp_all add: op_invs)

lemma reg_reach_inv: "reg_reach r \<Longrightarrow> reg_inv r"
  by (induction rule: reg_reach.induct) (simp_all add: NicRegistry_new_inv exec_call_inv)

lemma reg_reach_calls: "reg_reach r \<Longrightarrow> reg_reach (exec_calls cs r)"
  by (induction cs arbitrary: r) (simp_all add: reg_reach.call)

section \<open>Fencing\<close>

lemmas op_fenced = g_nic.fenced g_adv_nic.fenced g_fn.fenced g_adv_fn.fenced g_port.fenced
  g_queue.fenced g_adv_queue.fenced g_topo.fenced g_att.fenced g_gpu.fenced g_ret_att.fenced
  g_pub.fenced g_ret.fenced

lemma exec_call_fenced:
  "call_auth c = Some (e, w, b) \<Longrightarrow> EnsureAuthority e w b r = Inl err \<Longrightarrow> exec_call c r = (Some err, r)"
  by (cases c) (simp_all add: op_fenced outcome_Some)

lemmas op_keeps_authority = g_nic.keeps_authority g_adv_nic.keeps_authority g_fn.keeps_authority
  g_adv_fn.keeps_authority g_port.keeps_authority g_queue.keeps_authority
  g_adv_queue.keeps_authority g_topo.keeps_authority g_att.keeps_authority g_gpu.keeps_authority
  g_ret_att.keeps_authority g_pub.keeps_authority g_ret.keeps_authority

lemma exec_call_keeps_authority:
  "call_auth c = Some a \<Longrightarrow> reg_epoch (snd (exec_call c r)) = reg_epoch r \<and>
     reg_workers (snd (exec_call c r)) = reg_workers r"
  by (cases c) (simp_all add: op_keeps_authority)

lemma EnsureAuthority_Inr:
  "EnsureAuthority e w b r = Inr u \<longleftrightarrow>
     e = reg_epoch r \<and> (\<exists>h. m_find (reg_workers r) w = Some h \<and> wh_boot h = b)"
  by (auto simp: EnsureAuthority_def split: option.splits)

lemmas op_failure_atomic = g_nic.failure_atomic g_adv_nic.failure_atomic g_fn.failure_atomic
  g_adv_fn.failure_atomic g_port.failure_atomic g_queue.failure_atomic g_adv_queue.failure_atomic
  g_topo.failure_atomic g_att.failure_atomic g_gpu.failure_atomic g_ret_att.failure_atomic
  g_pub.failure_atomic g_ret.failure_atomic

lemma exec_call_failure:
  assumes "exec_call c r = (Some err, s)"
  shows "canonical s = canonical r"
proof (cases "call_auth c")
  case None
  with assms show ?thesis
    by (cases c) (auto simp: outcome_Some register_worker_def worker_retired_def Let_def
        coordinator_restart_def split: option.splits if_splits)
next
  case (Some a)
  with assms show ?thesis
    by (cases c) (auto simp: outcome_Some dest: op_failure_atomic)
qed

section \<open>Epochs\<close>

lemma register_worker_epoch: "reg_epoch (snd (register_worker w b r)) = reg_epoch r"
  by (auto simp: register_worker_def split: option.splits)

lemma worker_retired_epoch: "reg_epoch (snd (worker_retired w b r)) = reg_epoch r"
  by (auto simp: worker_retired_def Let_def split: option.splits)

lemma exec_call_epoch:
  "id_value (reg_epoch r) < id_value (reg_epoch (snd (exec_call c r))) \<or>
     reg_epoch (snd (exec_call c r)) = reg_epoch r"
proof (cases "call_auth c")
  case None
  then show ?thesis
    by (cases c) (simp_all add: register_worker_epoch worker_retired_epoch coordinator_restart_def)
next
  case (Some a)
  then show ?thesis by (simp add: exec_call_keeps_authority)
qed

lemma exec_calls_epoch_mono: "id_value (reg_epoch r) \<le> id_value (reg_epoch (exec_calls cs r))"
proof (induction cs arbitrary: r)
  case (Cons c cs)
  have "id_value (reg_epoch r) \<le> id_value (reg_epoch (snd (exec_call c r)))"
    using exec_call_epoch [of r c] by auto
  with Cons.IH show ?case by (auto intro: order_trans)
qed simp

end
