(* ===== verification/Registry_Generations.thy ===== *)
theory Registry_Generations
  imports Registry_Runs
begin

text \<open>
  Generations: how one call moves the generation of every recorded entity and of the
  topology, and the order of the residency log. The only call that can lower a generation is
  \<^verbatim>\<open>advance_*_generation\<close> at the largest 64-bit value, where \<^verbatim>\<open>Generation::next\<close> wraps.
\<close>

section \<open>Tables whose generations only grow\<close>

definition tbl_mono :: "('v \<Rightarrow> 'g::linorder) \<Rightarrow> ('k, 'v) smap \<Rightarrow> ('k, 'v) smap \<Rightarrow> bool" where
  "tbl_mono g m m' \<longleftrightarrow>
     (\<forall>k v. m_find m k = Some v \<longrightarrow> (\<exists>v'. m_find m' k = Some v' \<and> g v \<le> g v'))"

lemma tbl_mono_refl [simp]: "tbl_mono g m m"
  by (simp add: tbl_mono_def)

lemma tbl_mono_trans: "tbl_mono g a b \<Longrightarrow> tbl_mono g b c \<Longrightarrow> tbl_mono g a c"
  unfolding tbl_mono_def by (metis order_trans)

lemma tbl_mono_put:
  "(\<And>x. m_find m k = Some x \<Longrightarrow> g x \<le> g v) \<Longrightarrow> tbl_mono g m (m_put k v m)"
  by (auto simp: tbl_mono_def)

lemma tbl_mono_foreach: "(\<And>v. g (f v) = g v) \<Longrightarrow> tbl_mono g m (m_foreach f m)"
  by (auto simp: tbl_mono_def)

lemma tbl_mono_revalidate: "tbl_mono nic_generation m (revalidate_nics is m)"
  by (auto simp: tbl_mono_def revalidate_nics_find nic_revalidate_def)

definition topo_mono :: "TopologySnapshot option \<Rightarrow> TopologySnapshot option \<Rightarrow> bool" where
  "topo_mono a b \<longleftrightarrow>
     (case a of None \<Rightarrow> True
      | Some t \<Rightarrow> (case b of None \<Rightarrow> False | Some u \<Rightarrow> top_generation t \<le> top_generation u))"

lemma topo_mono_refl [simp]: "topo_mono t t"
  by (simp add: topo_mono_def split: option.split)

lemma topo_mono_trans: "topo_mono a b \<Longrightarrow> topo_mono b c \<Longrightarrow> topo_mono a c"
  by (auto simp: topo_mono_def split: option.splits)

text \<open>
  The residency log: the records stay with their ids and generations, in order, and records that
  are appended are at least as new as every earlier record of their id.
\<close>

definition log_keys :: "ResidencyRecord list \<Rightarrow> (ResidencyId \<times> ResidencyGeneration) list" where
  "log_keys = map (\<lambda>x. (res_id x, res_generation x))"

definition log_mono :: "ResidencyRecord list \<Rightarrow> ResidencyRecord list \<Rightarrow> bool" where
  "log_mono xs ys \<longleftrightarrow> (\<exists>zs. log_keys ys = log_keys xs @ zs \<and>
     (\<forall>(i, g) \<in> set zs. \<forall>(j, h) \<in> set (log_keys xs). i = j \<longrightarrow> h \<le> g))"

lemma log_mono_refl [simp]: "log_mono xs xs"
  by (simp add: log_mono_def)

lemma log_mono_trans: "log_mono xs ys \<Longrightarrow> log_mono ys zs \<Longrightarrow> log_mono xs zs"
  unfolding log_mono_def by (elim exE conjE) (simp, blast)

lemma log_mono_keys: "log_keys ys = log_keys xs \<Longrightarrow> log_mono xs ys"
  by (simp add: log_mono_def)

lemma log_mono_map:
  "(\<And>x. res_id (f x) = res_id x) \<Longrightarrow> (\<And>x. res_generation (f x) = res_generation x) \<Longrightarrow> log_mono xs (map f xs)"
  by (simp add: log_mono_keys log_keys_def)

definition gens_le :: "NicRegistry \<Rightarrow> NicRegistry \<Rightarrow> bool" where
  "gens_le r s \<longleftrightarrow> tbl_mono nic_generation (reg_nics r) (reg_nics s) \<and>
     tbl_mono fn_generation (reg_functions r) (reg_functions s) \<and>
     tbl_mono port_generation (reg_ports r) (reg_ports s) \<and>
     tbl_mono queue_generation (reg_queues r) (reg_queues s) \<and>
     tbl_mono att_generation (reg_attachments r) (reg_attachments s) \<and>
     tbl_mono gpu_generation (reg_gpus r) (reg_gpus s) \<and>
     topo_mono (reg_topology r) (reg_topology s) \<and>
     log_mono (reg_residencies r) (reg_residencies s)"

lemma gens_le_refl [simp]: "gens_le r r"
  by (simp add: gens_le_def)

lemma gens_le_trans: "gens_le a b \<Longrightarrow> gens_le b c \<Longrightarrow> gens_le a c"
  unfolding gens_le_def by (meson tbl_mono_trans topo_mono_trans log_mono_trans)

section \<open>One call\<close>

text \<open>Advancing an entity whose generation is the largest 64-bit value.\<close>

fun wrapping_call :: "reg_call \<Rightarrow> NicRegistry \<Rightarrow> bool" where
  "wrapping_call (AdvanceNic i e w b) r =
     (case m_find (reg_nics r) i of Some n \<Rightarrow> gen_value (nic_generation n) = -1 | None \<Rightarrow> False)"
| "wrapping_call (AdvanceFunction i e w b) r =
     (case m_find (reg_functions r) i of Some f \<Rightarrow> gen_value (fn_generation f) = -1 | None \<Rightarrow> False)"
| "wrapping_call (AdvanceQueue i e w b) r =
     (case m_find (reg_queues r) i of Some q \<Rightarrow> gen_value (queue_generation q) = -1 | None \<Rightarrow> False)"
| "wrapping_call _ r = False"

lemmas tbl_updates = tbl_mono_put tbl_mono_foreach tbl_mono_revalidate log_mono_map

lemma gen_next_le: "gen_value g \<noteq> -1 \<Longrightarrow> g \<le> gen_next g"
  using gen_next_less by (rule less_imp_le)

lemma register_worker_gens: "gens_le r (snd (register_worker w b r))"
  by (auto simp: register_worker_def gens_le_def split: option.split)

lemma worker_retired_gens: "gens_le r (snd (worker_retired w b r))"
  by (auto simp: worker_retired_def gens_le_def Let_def att_disown_def res_disown_def intro!: tbl_updates
      split: option.split)

lemma coordinator_restart_gens: "gens_le r (snd (coordinator_restart e r))"
  by (auto simp: coordinator_restart_def gens_le_def fn_restart_def att_restart_def res_restart_def
      intro!: tbl_updates)

lemma register_nic_gens: "gens_le r (snd (register_nic n e w b r))"
  by (auto simp: register_nic_def gens_le_def Let_def intro!: tbl_updates
      split: option.split sum.split)

lemma advance_nic_gens:
  "\<not> wrapping_call (AdvanceNic i e w b) r \<Longrightarrow> gens_le r (snd (advance_nic_generation i e w b r))"
  by (auto simp: advance_nic_generation_def gens_le_def fn_invalidate_def queue_invalidate_def
      att_invalidate_def res_invalidate_def gen_next_le intro!: tbl_updates split: option.split sum.split)

lemma register_function_gens: "gens_le r (snd (register_function f e w b r))"
  using register_function_effect [of f e w b r]
  by (auto simp: gens_le_def intro!: tbl_updates dest!: less_imp_le)

lemma advance_function_gens:
  "\<not> wrapping_call (AdvanceFunction i e w b) r \<Longrightarrow>
     gens_le r (snd (advance_function_generation i e w b r))"
  by (auto simp: advance_function_generation_def gens_le_def queue_invalidate_def
      att_invalidate_def res_invalidate_def gen_next_le intro!: tbl_updates split: option.split sum.split)

lemma register_port_gens: "gens_le r (snd (register_port p e w b r))"
  using register_port_effect [of p e w b r]
  by (auto simp: gens_le_def intro!: tbl_updates dest!: less_imp_le)

lemma register_queue_gens: "gens_le r (snd (register_queue q e w b r))"
  using register_queue_effect [of q e w b r]
  by (auto simp: gens_le_def intro!: tbl_updates dest!: less_imp_le)

lemma advance_queue_gens:
  "\<not> wrapping_call (AdvanceQueue i e w b) r \<Longrightarrow> gens_le r (snd (advance_queue_generation i e w b r))"
  by (auto simp: advance_queue_generation_def gens_le_def res_invalidate_def gen_next_le intro!: tbl_updates
      split: option.split sum.split)

lemma set_topology_gens: "gens_le r (snd (set_topology t e w b r))"
  by (auto simp: set_topology_def gens_le_def att_invalidate_def res_invalidate_def topo_mono_def
      intro!: tbl_updates split: option.splits sum.splits)

lemma register_attachment_gens: "gens_le r (snd (register_attachment a e w b r))"
  using register_attachment_effect [of a e w b r]
  by (auto simp: gens_le_def intro!: tbl_updates)

lemma register_gpu_gens: "gens_le r (snd (register_gpu g e w b r))"
  by (auto simp: register_gpu_def gens_le_def intro!: tbl_updates split: option.split sum.split)

lemma retire_attachment_gens: "gens_le r (snd (retire_attachment i e w b r))"
  by (auto simp: retire_attachment_def gens_le_def intro!: tbl_updates split: option.split sum.split)

lemma stale_residency_iff:
  "stale_residency x xs \<longleftrightarrow> (\<exists>y \<in> set xs. res_id y = res_id x \<and> res_generation x < res_generation y)"
  by (induction xs) auto

lemma retire_first_keys:
  "retire_first i xs = Some ys \<Longrightarrow> log_keys ys = log_keys xs"
  by (induction xs arbitrary: ys) (auto simp: log_keys_def split: if_splits)

lemma log_mono_publish: "\<not> stale_residency x xs \<Longrightarrow> log_mono xs (xs @ [x])"
  by (auto simp: log_mono_def log_keys_def stale_residency_iff not_less)

lemma publish_residency_gens: "gens_le r (snd (publish_residency x e w b r))"
  by (simp add: publish_residency_def gens_le_def log_mono_publish split: sum.split)

lemma retire_residency_gens: "gens_le r (snd (retire_residency i e w b r))"
  by (auto simp: retire_residency_def gens_le_def retire_first_keys intro!: log_mono_keys split: option.split sum.split)

lemmas op_gens = register_worker_gens worker_retired_gens coordinator_restart_gens
  register_nic_gens advance_nic_gens register_function_gens advance_function_gens
  register_port_gens register_queue_gens advance_queue_gens set_topology_gens
  register_attachment_gens register_gpu_gens retire_attachment_gens publish_residency_gens
  retire_residency_gens

lemma exec_call_gens:
  assumes "\<not> wrapping_call c r"
  shows "gens_le r (snd (exec_call c r))"
  using assms by (cases c) (simp_all add: op_gens del: wrapping_call.simps)

fun no_wrap :: "reg_call list \<Rightarrow> NicRegistry \<Rightarrow> bool" where
  "no_wrap [] r = True"
| "no_wrap (c # cs) r = (\<not> wrapping_call c r \<and> no_wrap cs (snd (exec_call c r)))"

lemma exec_calls_gens: "no_wrap cs r \<Longrightarrow> gens_le r (exec_calls cs r)"
proof (induction cs arbitrary: r)
  case (Cons c cs)
  then have "gens_le r (snd (exec_call c r))" "gens_le (snd (exec_call c r)) (exec_calls (c # cs) r)"
    by (simp_all add: exec_call_gens)
  then show ?case by (rule gens_le_trans)
qed simp

section \<open>The residency log\<close>

text \<open>The records of one residency id appear in the order of their generations.\<close>

definition log_ordered :: "ResidencyRecord list \<Rightarrow> bool" where
  "log_ordered = sorted_wrt (\<lambda>x y. res_id x = res_id y \<longrightarrow> res_generation x \<le> res_generation y)"

lemma log_ordered_map:
  "(\<And>x. res_id (f x) = res_id x \<and> res_generation (f x) = res_generation x) \<Longrightarrow>
     log_ordered (map f xs) = log_ordered xs"
  by (simp add: log_ordered_def sorted_wrt_map)

lemma log_ordered_publish:
  "log_ordered xs \<Longrightarrow> \<not> stale_residency x xs \<Longrightarrow> log_ordered (xs @ [x])"
  by (fastforce simp: log_ordered_def sorted_wrt_append stale_residency_iff not_less)

lemma log_ordered_keys:
  assumes "log_keys ys = log_keys xs"
  shows "log_ordered ys = log_ordered xs"
proof -
  define R where "R = (\<lambda>(i :: ResidencyId, g :: ResidencyGeneration) (j, h). i = j \<longrightarrow> g \<le> h)"
  have "log_ordered zs = sorted_wrt R (log_keys zs)" for zs
    by (simp add: log_ordered_def log_keys_def sorted_wrt_map R_def)
  with assms show ?thesis by simp
qed

lemma unchanged_log:
  "reg_residencies (snd (register_worker w b r)) = reg_residencies r"
  "reg_residencies (snd (register_nic n e w b r)) = reg_residencies r"
  "reg_residencies (snd (register_function f e w b r)) = reg_residencies r"
  "reg_residencies (snd (register_port p e w b r)) = reg_residencies r"
  "reg_residencies (snd (register_queue q e w b r)) = reg_residencies r"
  "reg_residencies (snd (register_attachment a e w b r)) = reg_residencies r"
  "reg_residencies (snd (register_gpu g e w b r)) = reg_residencies r"
  "reg_residencies (snd (retire_attachment j e w b r)) = reg_residencies r"
  subgoal by (simp add: register_worker_def split: option.split)
  subgoal by (simp add: register_nic_def Let_def split: option.split sum.split)
  subgoal using register_function_effect [of f e w b r] by auto
  subgoal using register_port_effect [of p e w b r] by auto
  subgoal using register_queue_effect [of q e w b r] by auto
  subgoal using register_attachment_effect [of a e w b r] by auto
  subgoal by (simp add: register_gpu_def split: option.split sum.split)
  subgoal by (simp add: retire_attachment_def split: option.split sum.split)
  done

lemma mapped_log:
  assumes "log_ordered (reg_residencies r)"
  shows "log_ordered (reg_residencies (snd (worker_retired w b r)))"
    "log_ordered (reg_residencies (snd (coordinator_restart e r)))"
    "log_ordered (reg_residencies (snd (advance_nic_generation i e w b r)))"
    "log_ordered (reg_residencies (snd (advance_function_generation j e w b r)))"
    "log_ordered (reg_residencies (snd (advance_queue_generation k e w b r)))"
    "log_ordered (reg_residencies (snd (set_topology t e w b r)))"
  using assms
  by (auto simp: reg_defs Let_def log_ordered_map res_disown_def res_restart_def res_invalidate_def
      split: option.split sum.split)

lemma publish_log:
  "log_ordered (reg_residencies r) \<Longrightarrow> log_ordered (reg_residencies (snd (publish_residency x e w b r)))"
  by (simp add: publish_residency_def log_ordered_publish split: sum.split)

lemma retire_log:
  "log_ordered (reg_residencies r) \<Longrightarrow> log_ordered (reg_residencies (snd (retire_residency i e w b r)))"
  by (auto simp: retire_residency_def dest: retire_first_keys log_ordered_keys
      split: sum.split option.split)

lemma exec_call_log:
  "log_ordered (reg_residencies r) \<Longrightarrow> log_ordered (reg_residencies (snd (exec_call c r)))"
  by (cases c) (simp_all add: unchanged_log mapped_log publish_log retire_log)

lemma reg_reach_log: "reg_reach r \<Longrightarrow> log_ordered (reg_residencies r)"
proof (induction rule: reg_reach.induct)
  case (start e r)
  then show ?case
    by (auto simp: NicRegistry_new_def log_ordered_def split: sum.splits)
qed (rule exec_call_log)

end
