(* ===== verification/Sample_States.thy ===== *)
theory Sample_States
  imports Registry_Generations
begin

text \<open>
  Small concrete registries on which the theorems are instantiated: a coordinator of epoch 7
  with one worker (id 1, boot 10) that has published NICs, a function, a queue, an attachment
  and residencies. Everything here is built by executing the modelled calls.
\<close>

definition empty_registry :: "u64 \<Rightarrow> NicRegistry" where
  "empty_registry e = \<lparr>reg_epoch = Id e, reg_workers = [], reg_nics = [], reg_functions = [],
     reg_ports = [], reg_queues = [], reg_attachments = [], reg_gpus = [], reg_residencies = [],
     reg_topology = None, reg_next_residency = Id 1, reg_worker_nics = []\<rparr>"

lemma NicRegistry_new_eq: "id_valid (Id e) \<Longrightarrow> NicRegistry_new (Id e) = Inr (empty_registry e)"
  by (simp add: NicRegistry_new_def EnsureNextEpoch_def empty_registry_def)

definition sample_nic :: "u64 \<Rightarrow> u64 \<Rightarrow> NicRecord" where
  "sample_nic i g = nic_default\<lparr>nic_id := Id i, nic_generation := Generation g,
     nic_lifecycle := LifecycleState.kAvailable,
     nic_provenance := mk_prov EvidenceKind.kReal [Source.kPci]\<rparr>"

definition sample_function :: "u64 \<Rightarrow> u64 \<Rightarrow> FunctionRecord" where
  "sample_function i n = fn_default\<lparr>fn_id := Id i, fn_generation := Generation 1,
     fn_parent_nic := Id n\<rparr>"

definition sample_queue :: "u64 \<Rightarrow> u64 \<Rightarrow> u64 \<Rightarrow> QueueRecord" where
  "sample_queue i f n = queue_default\<lparr>queue_id := Id i, queue_generation := Generation 1,
     queue_parent_function := Id f, queue_parent_nic := Id n\<rparr>"

definition sample_attachment :: "u64 \<Rightarrow> u64 \<Rightarrow> Attachment" where
  "sample_attachment i n = att_default\<lparr>att_id := Id i, att_generation := Generation 1,
     att_nic := Id n, att_owner_worker := Id 1, att_owner_boot := Id 10\<rparr>"

definition sample_residency :: "u64 \<Rightarrow> u64 \<Rightarrow> u64 \<Rightarrow> ResidencyRecord" where
  "sample_residency i g n = res_default\<lparr>res_id := Id i, res_generation := Generation g,
     res_nic := Id n, res_owner_worker := Id 1, res_owner_boot := Id 10\<rparr>"

definition sample_registry :: NicRegistry where
  "sample_registry = exec_calls
     [RegisterWorker (Id 1) (Id 10),
      RegisterNic (sample_nic 3 1) (Id 7) (Id 1) (Id 10),
      RegisterNic (sample_nic 5 2) (Id 7) (Id 1) (Id 10),
      RegisterFunction (sample_function 30 3) (Id 7) (Id 1) (Id 10),
      RegisterQueue (sample_queue 40 30 3) (Id 7) (Id 1) (Id 10),
      RegisterAttachment (sample_attachment 50 3) (Id 7) (Id 1) (Id 10),
      PublishResidency (sample_residency 60 1 3) (Id 7) (Id 1) (Id 10),
      PublishResidency (sample_residency 60 2 3) (Id 7) (Id 1) (Id 10)]
     (empty_registry 7)"

text \<open>What these calls build.\<close>

lemmas sample_fields = nic_default_def fn_default_def queue_default_def att_default_def res_default_def
  sample_nic_def sample_function_def sample_queue_def sample_attachment_def sample_residency_def

lemma sample_registry_eq:
  "sample_registry = \<lparr>reg_epoch = Id 7, reg_workers = [(Id 1, \<lparr>wh_worker = Id 1, wh_boot = Id 10\<rparr>)],
     reg_nics = [(Id 3, sample_nic 3 1), (Id 5, sample_nic 5 2)],
     reg_functions = [(Id 30, sample_function 30 3)], reg_ports = [],
     reg_queues = [(Id 40, sample_queue 40 30 3)],
     reg_attachments = [(Id 50, sample_attachment 50 3)], reg_gpus = [],
     reg_residencies = [sample_residency 60 1 3, sample_residency 60 2 3], reg_topology = None,
     reg_next_residency = Id 1, reg_worker_nics = [(Id 1, [Id 3, Id 5])]\<rparr>"
  by (simp add: sample_registry_def empty_registry_def outcome_def EnsureAuthority_def Let_def
      register_worker_def register_nic_def register_function_def register_queue_def
      register_attachment_def publish_residency_def m_size_def m_has_def kMaxNics_def
      kMaxFunctions_def kMaxQueues_def kMaxAttachments_def kMaxResidencies_def sample_fields)

lemma sample_authority: "EnsureAuthority (Id 7) (Id 1) (Id 10) sample_registry = Inr ()"
  by (simp add: EnsureAuthority_def sample_registry_eq)

lemma sample_registry_reach: "reg_reach sample_registry"
  unfolding sample_registry_def
  by (rule reg_reach_calls, rule reg_reach.start [of "Id 7"], rule NicRegistry_new_eq) simp

lemma sample_registry_inv: "reg_inv sample_registry"
  by (rule reg_reach_inv [OF sample_registry_reach])

end
