(* ===== verification/Registry_Theorems.thy ===== *)
theory Registry_Theorems
  imports Sample_States
begin

text \<open>
  The properties of the registry (\<^verbatim>\<open>include/nicresidency/registry.hpp\<close>, \<^verbatim>\<open>src/registry.cpp\<close>):
  integrity of every reachable state, fencing of stale authority, monotone generations and
  epochs, failure atomicity, and the effect of the operations that invalidate evidence.
\<close>

section \<open>Integrity\<close>

text \<open>
  C1: In every state a registry can reach by any sequence of public calls (failed ones
  included) the epoch is valid, every table is keyed by the id of its records, all ids are
  valid, all counts are within their limits, and every function, port, queue, attachment and
  residency refers only to entities the registry holds.
\<close>

theorem registry_reachable_inv: "reg_reach r \<Longrightarrow> reg_inv r"
  by (rule reg_reach_inv)

theorem registry_reachable_inv_witness:
  "reg_reach sample_registry \<and> reg_inv sample_registry \<and> length (reg_residencies sample_registry) = 2"
proof -
  have "length (reg_residencies sample_registry) = 2" by (simp add: sample_registry_eq)
  with registry_reachable_inv [OF sample_registry_reach] sample_registry_reach show ?thesis by simp
qed

section \<open>Authority\<close>

lemma authority_error:
  assumes "\<not> (e = reg_epoch r \<and> (\<exists>h. m_find (reg_workers r) w = Some h \<and> wh_boot h = b))"
  obtains err where "EnsureAuthority e w b r = Inl err"
    "err_code err = (if e \<noteq> reg_epoch r then ErrorCode.kStaleEpoch
       else if m_find (reg_workers r) w = None then ErrorCode.kNotReady else ErrorCode.kStaleBoot)"
proof (cases "EnsureAuthority e w b r")
  case (Inl err)
  with that [of err] show thesis by (auto simp: EnsureAuthority_def split: if_splits option.splits)
next
  case (Inr u)
  with assms show thesis by (auto simp: EnsureAuthority_Inr)
qed

text \<open>
  C2: A publishing call that presents anything but the current coordinator epoch and the boot
  identity under which its worker is registered raises STALE_EPOCH, NOT_READY or STALE_BOOT,
  in this order of precedence, and leaves the whole registry as it was.
\<close>

theorem stale_authority_rejected:
  assumes "call_auth c = Some (e, w, b)"
    and "\<not> (e = reg_epoch r \<and> (\<exists>h. m_find (reg_workers r) w = Some h \<and> wh_boot h = b))"
  shows "\<exists>err. exec_call c r = (Some err, r) \<and>
    err_code err = (if e \<noteq> reg_epoch r then ErrorCode.kStaleEpoch
       else if m_find (reg_workers r) w = None then ErrorCode.kNotReady else ErrorCode.kStaleBoot)"
  using authority_error [OF assms(2)] exec_call_fenced [OF assms(1)] by metis

theorem stale_authority_rejected_witness:
  "\<exists>err. exec_call (RegisterNic (sample_nic 9 1) (Id 6) (Id 1) (Id 10)) sample_registry =
     (Some err, sample_registry) \<and> err_code err = ErrorCode.kStaleEpoch"
proof -
  have e: "Id 6 \<noteq> reg_epoch sample_registry" by (simp add: sample_registry_eq)
  then show ?thesis
    using stale_authority_rejected [of "RegisterNic (sample_nic 9 1) (Id 6) (Id 1) (Id 10)" "Id 6" "Id 1"
        "Id 10" sample_registry] by simp
qed

text \<open>
  C11: Once a coordinator restart has succeeded, a call under the epoch that was current before
  it raises STALE_EPOCH and changes nothing, whatever calls have happened in between (new
  registrations and further restarts included).
\<close>

theorem old_epoch_fenced_forever:
  assumes "coordinator_restart e r = (Inr (), r')" "call_auth c = Some (reg_epoch r, w, b)"
  shows "\<exists>err. exec_call c (exec_calls cs r') = (Some err, exec_calls cs r') \<and>
    err_code err = ErrorCode.kStaleEpoch"
proof -
  have "id_value (reg_epoch r) < id_value (reg_epoch r')"
    using assms(1) by (auto simp: coordinator_restart_def split: if_splits)
  then have "reg_epoch r \<noteq> reg_epoch (exec_calls cs r')"
    using exec_calls_epoch_mono [of r' cs] by auto
  then obtain err where "EnsureAuthority (reg_epoch r) w b (exec_calls cs r') = Inl err"
    "err_code err = ErrorCode.kStaleEpoch"
    using authority_error [of "reg_epoch r" "exec_calls cs r'" w b] by metis
  with exec_call_fenced [OF assms(2)] show ?thesis by blast
qed

theorem old_epoch_fenced_forever_witness:
  "\<exists>err. exec_call (AdvanceNic (Id 3) (Id 7) (Id 1) (Id 10))
      (exec_calls [RegisterWorker (Id 1) (Id 10)] (snd (coordinator_restart (Id 8) sample_registry)))
    = (Some err, exec_calls [RegisterWorker (Id 1) (Id 10)] (snd (coordinator_restart (Id 8) sample_registry)))
    \<and> err_code err = ErrorCode.kStaleEpoch"
proof (rule old_epoch_fenced_forever [of "Id 8" sample_registry _ _ "Id 1" "Id 10"])
  show "coordinator_restart (Id 8) sample_registry =
      (Inr (), snd (coordinator_restart (Id 8) sample_registry))"
    by (simp add: sample_registry_eq coordinator_restart_def)
  show "call_auth (AdvanceNic (Id 3) (Id 7) (Id 1) (Id 10)) = Some (reg_epoch sample_registry, Id 1, Id 10)"
    by (simp add: sample_registry_eq)
qed

text \<open>
  Right after a coordinator restart nobody has authority: every publishing call is refused
  without effect, with NOT_READY when it already uses the new epoch, until the worker has
  registered again.
\<close>

theorem restart_revokes_all_authority:
  assumes "coordinator_restart e r = (Inr (), r')" "call_auth c = Some (e', w, b)"
  shows "\<exists>err. exec_call c r' = (Some err, r') \<and>
    err_code err = (if e' = e then ErrorCode.kNotReady else ErrorCode.kStaleEpoch)"
proof -
  have r': "reg_epoch r' = e" "reg_workers r' = []"
    using assms(1) by (auto simp: coordinator_restart_def split: if_splits)
  then have "\<not> (e' = reg_epoch r' \<and> (\<exists>h. m_find (reg_workers r') w = Some h \<and> wh_boot h = b))" by simp
  then obtain err where "EnsureAuthority e' w b r' = Inl err"
    "err_code err = (if e' = e then ErrorCode.kNotReady else ErrorCode.kStaleEpoch)"
    using authority_error [of e' r' w b] r' by (metis map_of.simps(1))
  with exec_call_fenced [OF assms(2)] show ?thesis by blast
qed

theorem restart_revokes_all_authority_witness:
  "\<exists>err. exec_call (AdvanceNic (Id 3) (Id 8) (Id 1) (Id 10)) (snd (coordinator_restart (Id 8) sample_registry))
    = (Some err, snd (coordinator_restart (Id 8) sample_registry)) \<and> err_code err = ErrorCode.kNotReady"
proof -
  have "coordinator_restart (Id 8) sample_registry =
      (Inr (), snd (coordinator_restart (Id 8) sample_registry))"
    by (simp add: sample_registry_eq coordinator_restart_def)
  from restart_revokes_all_authority [OF this, of "AdvanceNic (Id 3) (Id 8) (Id 1) (Id 10)"]
  show ?thesis by simp
qed

text \<open>
  C12: A worker id has one authoritative boot at a time. While a worker is registered, a second
  boot identity cannot register (OWNER_CONFLICT, nothing changes); after the first boot is
  retired the second one can, and from then on every call of the first boot is refused with
  STALE_BOOT and without effect.
\<close>

theorem worker_boot_takeover:
  assumes "m_find (reg_workers r) w = Some h" "wh_boot h = b" "b \<noteq> b'"
    "call_auth c = Some (reg_epoch r, w, b)"
  shows "register_worker w b' r = (Inl (ResidencyError ErrorCode.kOwnerConflict
      ''worker already active with a different boot id'' (''worker='' @ id_str w)), r) \<and>
    (\<exists>r'. register_worker w b' (snd (worker_retired w b r)) = (Inr (), r') \<and>
       (\<exists>err. exec_call c r' = (Some err, r') \<and> err_code err = ErrorCode.kStaleBoot))"
proof -
  let ?s = "snd (worker_retired w b r)"
  have s: "m_find (reg_workers ?s) w = None" "reg_epoch ?s = reg_epoch r"
    using assms by (auto simp: worker_retired_def Let_def split: option.split)
  define t where "t = ?s\<lparr>reg_workers := m_put w \<lparr>wh_worker = w, wh_boot = b'\<rparr> (reg_workers ?s)\<rparr>"
  have t: "register_worker w b' ?s = (Inr (), t)"
    using s by (simp add: register_worker_def t_def)
  have "EnsureAuthority (reg_epoch r) w b t = Inl (ResidencyError ErrorCode.kStaleBoot
      ''stale worker boot identity rejected'' (id_str b))"
    using assms(3) by (simp add: t_def EnsureAuthority_def s)
  from exec_call_fenced [OF assms(4) this] t assms(1-3) show ?thesis
    by (simp add: register_worker_def)
qed

theorem worker_boot_takeover_witness:
  "\<exists>r'. register_worker (Id 1) (Id 11) (snd (worker_retired (Id 1) (Id 10) sample_registry)) = (Inr (), r')"
proof -
  have "m_find (reg_workers sample_registry) (Id 1) = Some \<lparr>wh_worker = Id 1, wh_boot = Id 10\<rparr>"
    "call_auth (AdvanceNic (Id 3) (Id 7) (Id 1) (Id 10)) = Some (reg_epoch sample_registry, Id 1, Id 10)"
    by (simp_all add: sample_registry_eq)
  from worker_boot_takeover [OF this(1) _ _ this(2), of "Id 11"] show ?thesis by auto
qed

section \<open>Atomicity, epochs and generations\<close>

lemma exec_call_failure_exact:
  "exec_call c r = (Some err, r') \<Longrightarrow> \<nexists>n e w b. c = RegisterNic n e w b \<Longrightarrow> r' = r"
  by (cases c) (simp_all add: outcome_Some reg_defs advance_function_generation_def Let_def,
      auto simp: Let_def split: sum.splits option.splits if_splits)

text \<open>
  C16: A call that raises leaves the registry as it was, except that \<^verbatim>\<open>register_nic\<close> may have
  added the NIC id to the list of NICs its worker published; every other call leaves all of
  it alone.
\<close>

theorem failed_call_keeps_state:
  assumes "exec_call c r = (Some err, r')"
  shows "canonical r' = canonical r \<and> (r' = r \<or> (\<exists>n e w b. c = RegisterNic n e w b))"
proof
  show "canonical r' = canonical r" using assms by (rule exec_call_failure)
  show "r' = r \<or> (\<exists>n e w b. c = RegisterNic n e w b)"
    using assms exec_call_failure_exact by blast
qed

theorem failed_call_keeps_state_witness:
  "snd (exec_call (RegisterFunction (sample_function 31 99) (Id 7) (Id 1) (Id 10)) sample_registry)
     = sample_registry"
proof -
  let ?c = "RegisterFunction (sample_function 31 99) (Id 7) (Id 1) (Id 10)"
  have "fst (exec_call ?c sample_registry) =
      Some (ResidencyError ErrorCode.kInvalidTopology ''function references nonexistent NIC''
        (id_str (Id 99 :: NicId)))"
    by (simp add: register_function_def sample_authority m_has_def sample_fields)
      (simp add: sample_registry_eq)
  then have "exec_call ?c sample_registry =
      (Some (ResidencyError ErrorCode.kInvalidTopology ''function references nonexistent NIC''
        (id_str (Id 99 :: NicId))), snd (exec_call ?c sample_registry))" by (simp add: prod_eq_iff)
  from failed_call_keeps_state [OF this] show ?thesis by simp
qed

text \<open>
  C17: Along any sequence of calls the coordinator epoch never decreases, and no NIC, function,
  port, queue, attachment, accelerator, topology or residency record is ever forgotten or falls
  back to a lower generation, and no residency is published at a lower generation than an earlier
  one of its id, as long as no \<^verbatim>\<open>advance_*_generation\<close> is applied to an entity whose generation is
  already the largest 64-bit value. The generation of a NIC's capabilities is not among these
  (\<open>capability_generation_falls\<close>).
\<close>

theorem generations_never_decrease:
  assumes "no_wrap cs r"
  shows "gens_le r (exec_calls cs r) \<and> id_value (reg_epoch r) \<le> id_value (reg_epoch (exec_calls cs r))"
  using exec_calls_gens [OF assms] exec_calls_epoch_mono by blast

theorem generations_never_decrease_witness:
  "gens_le sample_registry (exec_calls [AdvanceNic (Id 3) (Id 7) (Id 1) (Id 10),
     RegisterNic (sample_nic 3 9) (Id 7) (Id 1) (Id 10), CoordinatorRestart (Id 8)] sample_registry)"
proof -
  have "no_wrap [AdvanceNic (Id 3) (Id 7) (Id 1) (Id 10),
     RegisterNic (sample_nic 3 9) (Id 7) (Id 1) (Id 10), CoordinatorRestart (Id 8)] sample_registry"
    by (simp add: sample_registry_eq sample_nic_def)
  from generations_never_decrease [OF this] show ?thesis by simp
qed

text \<open>
  A newer record of a NIC replaces the stored one whatever its capability generation is, so that
  generation may fall.
\<close>

theorem capability_generation_falls:
  assumes "EnsureAuthority e w b r = Inr ()" "m_find (reg_nics r) (nic_id n') = Some n" "id_valid (nic_id n')"
    "m_size (reg_nics r) < kMaxNics" "nic_generation n < nic_generation n'"
    "cap_generation (nic_capability n') < cap_generation (nic_capability n)"
  shows "\<exists>s m. register_nic n' e w b r = (Inr (nic_generation n'), s) \<and> m_find (reg_nics s) (nic_id n') = Some m \<and>
    cap_generation (nic_capability m) < cap_generation (nic_capability n)"
  using assms by (auto simp: register_nic_def Let_def)

theorem capability_generation_falls_witness:
  "\<exists>s m. register_nic (sample_nic 3 9) (Id 7) (Id 1) (Id 10)
       (snd (register_nic ((sample_nic 3 8)\<lparr>nic_capability := cap_default\<lparr>cap_generation := Generation 5\<rparr>\<rparr>) (Id 7) (Id 1) (Id 10)
         sample_registry)) = (Inr (Generation 9), s) \<and>
     m_find (reg_nics s) (Id 3) = Some m \<and> cap_generation (nic_capability m) < Generation 5"
proof -
  let ?n = "(sample_nic 3 8)\<lparr>nic_capability := cap_default\<lparr>cap_generation := Generation 5\<rparr>\<rparr>"
  let ?r = "snd (register_nic ?n (Id 7) (Id 1) (Id 10) sample_registry)"
  have "EnsureAuthority (Id 7) (Id 1) (Id 10) ?r = Inr ()"
    "m_find (reg_nics ?r) (nic_id (sample_nic 3 9)) = Some (?n\<lparr>nic_freshness := 0\<rparr>)" "m_size (reg_nics ?r) < kMaxNics"
    by (simp_all add: register_nic_def Let_def sample_registry_eq sample_nic_def nic_default_def EnsureAuthority_def kMaxNics_def m_size_def)
  moreover have eq: "nic_id (sample_nic 3 9) = Id 3" "nic_generation (sample_nic 3 9) = Generation 9"
    "cap_generation (nic_capability (?n\<lparr>nic_freshness := 0\<rparr>)) = Generation 5"
    by (simp_all add: sample_nic_def)
  moreover have "id_valid (nic_id (sample_nic 3 9))" "nic_generation (?n\<lparr>nic_freshness := 0\<rparr>) < nic_generation (sample_nic 3 9)"
    "cap_generation (nic_capability (sample_nic 3 9)) < cap_generation (nic_capability (?n\<lparr>nic_freshness := 0\<rparr>))"
    by (simp_all add: sample_nic_def nic_default_def cap_default_def gen_null_def)
  ultimately show ?thesis
    using capability_generation_falls [of "Id 7" "Id 1" "Id 10" ?r "sample_nic 3 9" "?n\<lparr>nic_freshness := 0\<rparr>"]
    unfolding eq by blast
qed

text \<open>
  At the largest 64-bit value \<^verbatim>\<open>advance_nic_generation\<close> does lower a generation: the NIC is
  left with generation 0, the value that stands for an invalid generation.
\<close>

theorem advance_nic_wraps:
  assumes "EnsureAuthority e w b r = Inr ()" "m_find (reg_nics r) i = Some n"
    "nic_generation n = Generation (- 1)"
  shows "\<exists>n'. m_find (reg_nics (snd (advance_nic_generation i e w b r))) i = Some n' \<and>
    nic_generation n' = Generation 0 \<and> nic_generation n' < nic_generation n"
  using assms by (simp add: advance_nic_generation_def gen_next_wraps word_gt_0)

definition wrap_registry :: NicRegistry where
  "wrap_registry = exec_calls [RegisterWorker (Id 1) (Id 10),
     RegisterNic (sample_nic 3 (- 1)) (Id 7) (Id 1) (Id 10)] (empty_registry 7)"

theorem advance_nic_wraps_witness:
  "\<exists>n'. m_find (reg_nics (snd (advance_nic_generation (Id 3) (Id 7) (Id 1) (Id 10) wrap_registry))) (Id 3)
      = Some n' \<and> nic_generation n' = Generation 0"
proof -
  have "EnsureAuthority (Id 7) (Id 1) (Id 10) wrap_registry = Inr () \<and>
      m_find (reg_nics wrap_registry) (Id 3) = Some (sample_nic 3 (- 1))" by code_simp
  moreover have "nic_generation (sample_nic 3 (- 1)) = Generation (- 1)" by (simp add: sample_nic_def)
  ultimately show ?thesis
    using advance_nic_wraps [of "Id 7" "Id 1" "Id 10" wrap_registry "Id 3" "sample_nic 3 (- 1)"] by auto
qed

section \<open>Publication of NICs\<close>

lemma nic_equal_freshness: "nic_equal rec (rec\<lparr>nic_freshness := 0\<rparr>)"
  by (simp add: nic_equal_def cap_eq_def)

lemma s_insert_twice: "s_insert x (s_insert x s) = s_insert x s"
  by (induction s) auto

lemma register_nic_twice:
  assumes "register_nic rec e w b r = (Inr g, r')" "m_inv (reg_worker_nics r)"
    and "m_size (reg_nics r') < kMaxNics"
  shows "register_nic rec e w b r' = (Inr g, r')"
proof -
  define ids where "ids = (case m_find (reg_worker_nics r) w of Some s \<Rightarrow> s | None \<Rightarrow> [])"
  have ids: "m_find (reg_worker_nics r') w = Some (s_insert (nic_id rec) ids)"
      "reg_worker_nics r' = m_put w (s_insert (nic_id rec) ids) (reg_worker_nics r)"
    using assms(1) by (auto simp: ids_def register_nic_def Let_def split: option.splits sum.splits if_splits)
  then have same: "r'\<lparr>reg_worker_nics :=
      m_put w (s_insert (nic_id rec) (s_insert (nic_id rec) ids)) (reg_worker_nics r')\<rparr> = r'"
    using assms(2) by (simp add: s_insert_twice om.put_put_same)
  have auth: "EnsureAuthority e w b r = Inr ()" "EnsureAuthority e w b r' = EnsureAuthority e w b r"
    using g_nic.success_authority [OF assms(1)] g_nic.keeps_authority [of rec e w b r] assms(1)
    by (auto simp: EnsureAuthority_def)
  have stored: "id_valid (nic_id rec) \<and> (\<exists>x. m_find (reg_nics r') (nic_id rec) = Some x \<and>
      nic_generation x = nic_generation rec \<and> nic_equal rec x \<and> g = nic_generation rec)"
    using assms(1) nic_equal_freshness [of rec] auth(1)
    by (auto simp: register_nic_def Let_def split: option.splits if_splits)
  show ?thesis
    using assms(3) stored auth same ids(1) by (auto simp: register_nic_def Let_def)
qed

text \<open>
  C18: With authority, \<^verbatim>\<open>register_nic\<close> succeeds exactly when the id is valid, the NIC table is
  below its limit, and the record is either new with a non-zero generation, or newer than the
  recorded one, or an exact republication at the same generation; it returns the published
  generation.
\<close>

theorem register_nic_accepts_iff:
  assumes "EnsureAuthority e w b r = Inr ()"
  shows "fst (register_nic rec e w b r) = Inr g \<longleftrightarrow>
    g = nic_generation rec \<and> id_valid (nic_id rec) \<and> m_size (reg_nics r) < kMaxNics \<and>
    (case m_find (reg_nics r) (nic_id rec) of
       None \<Rightarrow> gen_valid (nic_generation rec)
     | Some old \<Rightarrow> nic_generation old < nic_generation rec \<or>
         nic_generation old = nic_generation rec \<and> nic_equal rec old)"
  using assms by (auto simp: register_nic_def Let_def split: option.split)

theorem register_nic_accepts_iff_witness:
  "fst (register_nic (sample_nic 3 2) (Id 7) (Id 1) (Id 10) sample_registry) = Inr (Generation 2)"
  using register_nic_accepts_iff [OF sample_authority, of "sample_nic 3 2" "Generation 2"]
  by (simp add: sample_registry_eq sample_nic_def m_size_def kMaxNics_def)

text \<open>
  A successful \<^verbatim>\<open>register_nic\<close> stores the record with freshness 0 under its id, unless it
  republishes the recorded generation, in which case the recorded value stays; every other
  NIC and every other table is untouched, and the NIC is on its worker's list.
\<close>

theorem register_nic_effect:
  assumes "register_nic rec e w b r = (Inr g, r')"
  shows "m_find (reg_nics r') j =
      (if j = nic_id rec \<and> (\<forall>old. m_find (reg_nics r) j = Some old \<longrightarrow> nic_generation old \<noteq> nic_generation rec)
       then Some (rec\<lparr>nic_freshness := 0\<rparr>) else m_find (reg_nics r) j) \<and>
    r' = r\<lparr>reg_nics := reg_nics r', reg_worker_nics := reg_worker_nics r'\<rparr> \<and>
    (\<exists>ids. m_find (reg_worker_nics r') w = Some ids \<and> nic_id rec \<in> set ids)"
  using assms by (auto simp: register_nic_def Let_def split: option.splits sum.splits if_splits)

lemma sample_publish:
  "register_nic (sample_nic 9 4) (Id 7) (Id 1) (Id 10) sample_registry =
     (Inr (Generation 4), sample_registry\<lparr>
        reg_nics := [(Id 3, sample_nic 3 1), (Id 5, sample_nic 5 2), (Id 9, sample_nic 9 4)],
        reg_worker_nics := [(Id 1, [Id 3, Id 5, Id 9])]\<rparr>)"
  unfolding register_nic_def sample_authority
  by (simp add: sample_registry_eq sample_nic_def nic_default_def m_size_def kMaxNics_def)

theorem register_nic_effect_witness:
  "m_find (reg_nics (snd (register_nic (sample_nic 9 4) (Id 7) (Id 1) (Id 10) sample_registry))) (Id 9)
     = Some ((sample_nic 9 4)\<lparr>nic_freshness := 0\<rparr>)"
proof -
  have c: "Id 9 = nic_id (sample_nic 9 4) \<and> (\<forall>old. m_find (reg_nics sample_registry) (Id 9) = Some old \<longrightarrow>
      nic_generation old \<noteq> nic_generation (sample_nic 9 4))"
    by (simp add: sample_registry_eq sample_nic_def)
  from register_nic_effect [OF sample_publish, of "Id 9", THEN conjunct1, unfolded if_P [OF c]]
  show ?thesis by (simp only: sample_publish snd_conv)
qed

text \<open>
  Publishing the same record a second time succeeds and leaves the registry exactly as
  the first publication did, as long as the NIC table has not reached its limit.
\<close>

theorem register_nic_idempotent:
  assumes "register_nic rec e w b r = (Inr g, r')" "m_inv (reg_worker_nics r)"
    and "m_size (reg_nics r') < kMaxNics"
  shows "register_nic rec e w b r' = (Inr g, r')"
  using assms by (rule register_nic_twice)

theorem register_nic_idempotent_witness:
  "register_nic (sample_nic 9 4) (Id 7) (Id 1) (Id 10)
      (snd (register_nic (sample_nic 9 4) (Id 7) (Id 1) (Id 10) sample_registry)) =
    (Inr (Generation 4), snd (register_nic (sample_nic 9 4) (Id 7) (Id 1) (Id 10) sample_registry))"
proof -
  have "m_inv (reg_worker_nics sample_registry)" using reg_inv_unfold(3) [OF sample_registry_inv] .
  from register_nic_idempotent [OF sample_publish this] show ?thesis
    by (simp add: sample_publish m_size_def kMaxNics_def)
qed

end
