(* ===== verification/Registry_Invalidation.thy ===== *)
theory Registry_Invalidation
  imports Sample_States
begin

text \<open>
  Invalidation of dependent evidence: what advancing a generation, changing the topology,
  retiring a worker and restarting the coordinator do to the records that depend on it, and
  what they leave alone.
\<close>

section \<open>Generation advances\<close>

definition res_needs_revalidation :: "ResidencyRecord \<Rightarrow> bool" where
  "res_needs_revalidation x \<longleftrightarrow> res_state x = ResidencyState.kRevalidationRequired \<and>
     res_lifecycle x = LifecycleState.kRevalidationRequired"

text \<open>Every dependent of a NIC asks for revalidation.\<close>

definition nic_dependents_stale :: "NicId \<Rightarrow> NicRegistry \<Rightarrow> bool" where
  "nic_dependents_stale i r \<longleftrightarrow>
     (\<forall>k f. m_find (reg_functions r) k = Some f \<longrightarrow> fn_parent_nic f = i \<longrightarrow>
        fn_lifecycle f = LifecycleState.kRevalidationRequired) \<and>
     (\<forall>k q. m_find (reg_queues r) k = Some q \<longrightarrow> queue_parent_nic q = i \<longrightarrow>
        queue_lifecycle q = LifecycleState.kRevalidationRequired) \<and>
     (\<forall>k a. m_find (reg_attachments r) k = Some a \<longrightarrow> att_nic a = i \<longrightarrow>
        att_state a = AttachmentState.kStale) \<and>
     (\<forall>x \<in> set (reg_residencies r). res_nic x = i \<longrightarrow> res_needs_revalidation x)"

text \<open>What does not depend on the NIC is the same in both states.\<close>

definition other_nics_untouched :: "NicId \<Rightarrow> NicRegistry \<Rightarrow> NicRegistry \<Rightarrow> bool" where
  "other_nics_untouched i r s \<longleftrightarrow>
     (\<forall>k. k \<noteq> i \<longrightarrow> m_find (reg_nics s) k = m_find (reg_nics r) k) \<and>
     (\<forall>k f. m_find (reg_functions r) k = Some f \<longrightarrow> fn_parent_nic f \<noteq> i \<longrightarrow> m_find (reg_functions s) k = Some f) \<and>
     (\<forall>k q. m_find (reg_queues r) k = Some q \<longrightarrow> queue_parent_nic q \<noteq> i \<longrightarrow> m_find (reg_queues s) k = Some q) \<and>
     (\<forall>k a. m_find (reg_attachments r) k = Some a \<longrightarrow> att_nic a \<noteq> i \<longrightarrow> m_find (reg_attachments s) k = Some a) \<and>
     filter (\<lambda>x. res_nic x \<noteq> i) (reg_residencies s) = filter (\<lambda>x. res_nic x \<noteq> i) (reg_residencies r) \<and>
     reg_ports s = reg_ports r \<and> reg_gpus s = reg_gpus r \<and> reg_topology s = reg_topology r"

lemma advance_nic_success:
  assumes "advance_nic_generation i e w b r = (Inr u, s)"
  obtains n where "m_find (reg_nics r) i = Some n"
    "s = r\<lparr>reg_nics := m_put i (n\<lparr>nic_generation := gen_next (nic_generation n)\<rparr>) (reg_nics r),
       reg_functions := m_foreach (\<lambda>f. if fn_parent_nic f = i then fn_invalidate f else f) (reg_functions r),
       reg_queues := m_foreach (\<lambda>q. if queue_parent_nic q = i then queue_invalidate q else q) (reg_queues r),
       reg_attachments := m_foreach (\<lambda>a. if att_nic a = i then att_invalidate a else a) (reg_attachments r),
       reg_residencies := map (\<lambda>x. if res_nic x = i then res_invalidate x else x) (reg_residencies r)\<rparr>"
  using assms by (auto simp: advance_nic_generation_def split: sum.splits option.splits)

lemmas invalidate_defs = fn_invalidate_def queue_invalidate_def att_invalidate_def res_invalidate_def
  res_needs_revalidation_def

text \<open>What an update loop over a table or a list establishes everywhere.\<close>

lemma after_foreach: "(\<And>v. P (f v)) \<Longrightarrow> \<forall>k u. m_find (m_foreach f m) k = Some u \<longrightarrow> P u"
  by (clarsimp simp: m_find_foreach)

lemma after_map: "(\<And>x. P (f x)) \<Longrightarrow> \<forall>x \<in> set (map f xs). P x"
  by simp

lemmas after_loop = conjI after_foreach after_map

lemma filter_map_if:
  "(\<And>x. P (f x) = P x) \<Longrightarrow> filter P (map (\<lambda>x. if \<not> P x then f x else x) xs) = filter P xs"
  by (induction xs) auto

text \<open>
  C19: A successful \<^verbatim>\<open>advance_nic_generation\<close> advances the generation of that NIC by one and
  marks every function, queue, attachment and residency that depends on it as stale or
  requiring revalidation; NICs with other ids and everything that does not depend on the NIC
  stay exactly as they were.
\<close>

theorem advance_nic_invalidates:
  assumes "advance_nic_generation i e w b r = (Inr u, s)"
  shows "(\<exists>n. m_find (reg_nics r) i = Some n \<and>
      m_find (reg_nics s) i = Some (n\<lparr>nic_generation := gen_next (nic_generation n)\<rparr>)) \<and>
    nic_dependents_stale i s \<and> other_nics_untouched i r s"
proof -
  from assms obtain n where n: "m_find (reg_nics r) i = Some n" and s: "s = r\<lparr>
       reg_nics := m_put i (n\<lparr>nic_generation := gen_next (nic_generation n)\<rparr>) (reg_nics r),
       reg_functions := m_foreach (\<lambda>f. if fn_parent_nic f = i then fn_invalidate f else f) (reg_functions r),
       reg_queues := m_foreach (\<lambda>q. if queue_parent_nic q = i then queue_invalidate q else q) (reg_queues r),
       reg_attachments := m_foreach (\<lambda>a. if att_nic a = i then att_invalidate a else a) (reg_attachments r),
       reg_residencies := map (\<lambda>x. if res_nic x = i then res_invalidate x else x) (reg_residencies r)\<rparr>"
    by (rule advance_nic_success)
  have fields: "reg_functions s = m_foreach (\<lambda>f. if fn_parent_nic f = i then fn_invalidate f else f) (reg_functions r)"
    "reg_queues s = m_foreach (\<lambda>q. if queue_parent_nic q = i then queue_invalidate q else q) (reg_queues r)"
    "reg_attachments s = m_foreach (\<lambda>a. if att_nic a = i then att_invalidate a else a) (reg_attachments r)"
    "reg_residencies s = map (\<lambda>x. if res_nic x = i then res_invalidate x else x) (reg_residencies r)"
    "reg_nics s = m_put i (n\<lparr>nic_generation := gen_next (nic_generation n)\<rparr>) (reg_nics r)"
    "reg_ports s = reg_ports r" "reg_gpus s = reg_gpus r" "reg_topology s = reg_topology r"
    by (simp_all add: s)
  have "nic_dependents_stale i s" unfolding nic_dependents_stale_def fields
    by (intro after_loop) (simp_all add: invalidate_defs)
  moreover have "other_nics_untouched i r s" unfolding other_nics_untouched_def fields
    using filter_map_if [of "\<lambda>x. res_nic x \<noteq> i" res_invalidate "reg_residencies r"]
    by (intro conjI) (simp_all add: res_invalidate_def)
  ultimately show ?thesis by (simp add: n fields)
qed

theorem advance_nic_invalidates_witness:
  "nic_dependents_stale (Id 3) (snd (advance_nic_generation (Id 3) (Id 7) (Id 1) (Id 10) sample_registry))"
proof -
  have "advance_nic_generation (Id 3) (Id 7) (Id 1) (Id 10) sample_registry =
      (Inr (), snd (advance_nic_generation (Id 3) (Id 7) (Id 1) (Id 10) sample_registry))"
    unfolding advance_nic_generation_def sample_authority by (simp add: sample_registry_eq)
  from advance_nic_invalidates [OF this] show ?thesis by blast
qed

text \<open>
  A successful \<^verbatim>\<open>advance_function_generation\<close> advances that function by one generation and
  leaves no queue, attachment or residency of the function usable: queues require
  revalidation, attachments are stale, residencies require revalidation. NICs, ports,
  accelerators and the topology are untouched.
\<close>

theorem advance_function_invalidates:
  assumes "advance_function_generation i e w b r = (Inr u, s)"
  shows "(\<exists>f. m_find (reg_functions r) i = Some f \<and>
      m_find (reg_functions s) i = Some (f\<lparr>fn_generation := gen_next (fn_generation f)\<rparr>)) \<and>
    (\<forall>k q. m_find (reg_queues s) k = Some q \<longrightarrow> queue_parent_function q = i \<longrightarrow>
       queue_lifecycle q = LifecycleState.kRevalidationRequired) \<and>
    (\<forall>k a. m_find (reg_attachments s) k = Some a \<longrightarrow> att_function a = i \<longrightarrow>
       att_state a = AttachmentState.kStale) \<and>
    (\<forall>x \<in> set (reg_residencies s). res_function x = i \<longrightarrow> res_needs_revalidation x) \<and>
    reg_nics s = reg_nics r \<and> reg_ports s = reg_ports r \<and> reg_gpus s = reg_gpus r \<and>
    reg_topology s = reg_topology r"
proof -
  from assms obtain f where f: "m_find (reg_functions r) i = Some f" and s: "s = r\<lparr>
       reg_functions := m_put i (f\<lparr>fn_generation := gen_next (fn_generation f)\<rparr>) (reg_functions r),
       reg_queues := m_foreach (\<lambda>q. if queue_parent_function q = i then queue_invalidate q else q) (reg_queues r),
       reg_attachments := m_foreach (\<lambda>a. if att_function a = i then att_invalidate a else a) (reg_attachments r),
       reg_residencies := map (\<lambda>x. if res_function x = i then res_invalidate x else x) (reg_residencies r)\<rparr>"
    by (auto simp: advance_function_generation_def split: sum.splits option.splits)
  have fields: "reg_functions s = m_put i (f\<lparr>fn_generation := gen_next (fn_generation f)\<rparr>) (reg_functions r)"
    "reg_queues s = m_foreach (\<lambda>q. if queue_parent_function q = i then queue_invalidate q else q) (reg_queues r)"
    "reg_attachments s = m_foreach (\<lambda>a. if att_function a = i then att_invalidate a else a) (reg_attachments r)"
    "reg_residencies s = map (\<lambda>x. if res_function x = i then res_invalidate x else x) (reg_residencies r)"
    "reg_nics s = reg_nics r" "reg_ports s = reg_ports r" "reg_gpus s = reg_gpus r"
    "reg_topology s = reg_topology r"
    by (simp_all add: s)
  show ?thesis unfolding fields by (intro after_loop) (simp_all add: f invalidate_defs)
qed

theorem advance_function_invalidates_witness:
  "\<exists>f. m_find (reg_functions (snd (advance_function_generation (Id 30) (Id 7) (Id 1) (Id 10) sample_registry)))
      (Id 30) = Some f \<and> fn_generation f = Generation 2"
proof -
  have "advance_function_generation (Id 30) (Id 7) (Id 1) (Id 10) sample_registry =
      (Inr (), snd (advance_function_generation (Id 30) (Id 7) (Id 1) (Id 10) sample_registry))"
    unfolding advance_function_generation_def sample_authority by (simp add: sample_registry_eq)
  from advance_function_invalidates [OF this, THEN conjunct1]
  have "\<exists>f. m_find (reg_functions sample_registry) (Id 30) = Some f \<and>
      m_find (reg_functions (snd (advance_function_generation (Id 30) (Id 7) (Id 1) (Id 10) sample_registry)))
        (Id 30) = Some (f\<lparr>fn_generation := gen_next (fn_generation f)\<rparr>)" .
  then show ?thesis by (auto simp: sample_registry_eq sample_function_def gen_next_def)
qed

section \<open>Topology changes\<close>

text \<open>
  With authority, \<^verbatim>\<open>set_topology\<close> refuses exactly the topologies of a lower generation
  than the recorded one (STALE_TOPOLOGY, nothing changes); otherwise the new topology is
  recorded, every attachment becomes stale and every residency requires revalidation, and
  NICs, functions, ports, queues and accelerators are untouched.
\<close>

theorem set_topology_outcome:
  assumes "EnsureAuthority e w b r = Inr ()"
  shows "if (\<exists>t. reg_topology r = Some t \<and> top_generation tp < top_generation t)
    then (\<exists>err. set_topology tp e w b r = (Inl err, r) \<and> err_code err = ErrorCode.kStaleTopology)
    else (\<exists>s. set_topology tp e w b r = (Inr (), s) \<and> reg_topology s = Some tp \<and>
      (\<forall>k a. m_find (reg_attachments s) k = Some a \<longrightarrow> att_state a = AttachmentState.kStale) \<and>
      (\<forall>x \<in> set (reg_residencies s). res_needs_revalidation x) \<and>
      length (reg_residencies s) = length (reg_residencies r) \<and>
      reg_nics s = reg_nics r \<and> reg_functions s = reg_functions r \<and> reg_ports s = reg_ports r \<and>
      reg_queues s = reg_queues r \<and> reg_gpus s = reg_gpus r)"
  using assms by (auto simp: set_topology_def invalidate_defs split: option.splits)

theorem set_topology_outcome_witness:
  "\<exists>s. set_topology (topology_default\<lparr>top_generation := Generation 4\<rparr>) (Id 7) (Id 1) (Id 10) sample_registry
     = (Inr (), s) \<and> length (reg_residencies s) = 2"
proof -
  have "reg_topology sample_registry = None" "length (reg_residencies sample_registry) = 2"
    by (simp_all add: sample_registry_eq)
  with set_topology_outcome [OF sample_authority, of "topology_default\<lparr>top_generation := Generation 4\<rparr>"]
  show ?thesis by auto
qed

section \<open>Retirement and restart\<close>

text \<open>
  Retiring the registered boot of a worker removes the worker, puts every NIC on its
  publication list into REVALIDATION_REQUIRED with freshness 0 and drops the list, and leaves
  no attachment or residency owned by that boot; NICs not on the list keep their records.
  A retirement notice that names another boot than the registered one changes nothing.
\<close>

theorem worker_retired_effect:
  assumes "m_find (reg_workers r) w = Some h" "m_find (reg_worker_nics r) w = Some ids"
  shows "if wh_boot h \<noteq> b then worker_retired w b r = (Inr (), r)
    else (\<exists>s. worker_retired w b r = (Inr (), s) \<and> m_find (reg_workers s) w = None \<and>
      m_find (reg_worker_nics s) w = None \<and>
      (\<forall>k n. m_find (reg_nics s) k = Some n \<longrightarrow> k \<in> set ids \<longrightarrow>
         nic_lifecycle n = LifecycleState.kRevalidationRequired \<and> nic_freshness n = 0) \<and>
      (\<forall>k. k \<notin> set ids \<longrightarrow> m_find (reg_nics s) k = m_find (reg_nics r) k) \<and>
      (id_valid w \<longrightarrow>
        (\<forall>k a. m_find (reg_attachments s) k = Some a \<longrightarrow> \<not> (att_owner_worker a = w \<and> att_owner_boot a = b)) \<and>
        (\<forall>x \<in> set (reg_residencies s). \<not> (res_owner_worker x = w \<and> res_owner_boot x = b))))"
proof (cases "wh_boot h = b")
  case False
  with assms show ?thesis by (simp add: worker_retired_def)
next
  case True
  let ?s = "snd (worker_retired w b r)"
  have run: "worker_retired w b r = (Inr (), ?s)"
    and fields: "reg_workers ?s = m_erase w (reg_workers r)"
    "reg_worker_nics ?s = m_erase w (reg_worker_nics r)"
    "reg_nics ?s = revalidate_nics ids (reg_nics r)"
    "reg_attachments ?s = m_foreach (att_disown w b) (reg_attachments r)"
    "reg_residencies ?s = map (res_disown w b) (reg_residencies r)"
    using assms True by (simp_all add: worker_retired_def Let_def)
  have nics: "\<forall>k n. m_find (reg_nics ?s) k = Some n \<longrightarrow> k \<in> set ids \<longrightarrow>
      nic_lifecycle n = LifecycleState.kRevalidationRequired \<and> nic_freshness n = 0"
    "\<forall>k. k \<notin> set ids \<longrightarrow> m_find (reg_nics ?s) k = m_find (reg_nics r) k"
    unfolding fields by (auto simp: revalidate_nics_find nic_revalidate_def)
  have "\<forall>k a. m_find (reg_attachments ?s) k = Some a \<longrightarrow> \<not> (att_owner_worker a = w \<and> att_owner_boot a = b)"
    "\<forall>x \<in> set (reg_residencies ?s). \<not> (res_owner_worker x = w \<and> res_owner_boot x = b)" if "id_valid w"
  proof -
    from that have "w \<noteq> id_null" by auto
    then show "\<forall>k a. m_find (reg_attachments ?s) k = Some a \<longrightarrow>
        \<not> (att_owner_worker a = w \<and> att_owner_boot a = b)"
      "\<forall>x \<in> set (reg_residencies ?s). \<not> (res_owner_worker x = w \<and> res_owner_boot x = b)"
      unfolding fields by (intro after_loop; simp add: att_disown_def res_disown_def)+
  qed
  with nics run True show ?thesis
    by (intro if_not_P [THEN iffD2] exI [of _ ?s]) (simp_all add: fields(1,2))
qed

theorem worker_retired_effect_witness:
  "\<exists>s. worker_retired (Id 1) (Id 10) sample_registry = (Inr (), s) \<and> m_find (reg_workers s) (Id 1) = None"
proof -
  have "m_find (reg_workers sample_registry) (Id 1) = Some \<lparr>wh_worker = Id 1, wh_boot = Id 10\<rparr>"
    "m_find (reg_worker_nics sample_registry) (Id 1) = Some [Id 3, Id 5]"
    by (simp_all add: sample_registry_eq)
  from worker_retired_effect [OF this, of "Id 10"] show ?thesis by auto
qed

text \<open>
  A coordinator restart succeeds exactly for a larger epoch. It then owns nothing: no
  worker is registered, every function is unassigned, every attachment is stale without owner,
  every residency requires revalidation without owner, all under the new epoch. The NIC, port,
  queue and accelerator records and the topology are carried over unchanged.
\<close>

theorem coordinator_restart_effect:
  "if id_value (reg_epoch r) < id_value e
   then (\<exists>s. coordinator_restart e r = (Inr (), s) \<and> reg_epoch s = e \<and> reg_workers s = [] \<and>
      (\<forall>k f. m_find (reg_functions s) k = Some f \<longrightarrow>
         fn_ownership f = OwnershipState.kUnassigned \<and> \<not> id_valid (fn_owner_worker f) \<and> fn_epoch f = e) \<and>
      (\<forall>k a. m_find (reg_attachments s) k = Some a \<longrightarrow>
         att_state a = AttachmentState.kStale \<and> \<not> id_valid (att_owner_worker a) \<and> att_epoch a = e) \<and>
      (\<forall>x \<in> set (reg_residencies s).
         res_needs_revalidation x \<and> \<not> id_valid (res_owner_worker x) \<and> res_epoch x = e) \<and>
      reg_nics s = reg_nics r \<and> reg_ports s = reg_ports r \<and> reg_queues s = reg_queues r \<and>
      reg_gpus s = reg_gpus r \<and> reg_topology s = reg_topology r)
   else (\<exists>err. coordinator_restart e r = (Inl err, r) \<and> err_code err = ErrorCode.kStaleEpoch)"
  by (auto simp: coordinator_restart_def fn_restart_def att_restart_def res_restart_def
      res_needs_revalidation_def)

theorem coordinator_restart_effect_witness:
  "\<exists>s. coordinator_restart (Id 8) sample_registry = (Inr (), s) \<and> reg_epoch s = Id 8"
  using coordinator_restart_effect [of sample_registry "Id 8"] by (auto simp: sample_registry_eq)

text \<open>
  The publication list is extended before the record is validated: when an authorized
  worker publishes a stale generation of a NIC, the call raises STALE_NIC, and yet retiring
  that worker afterwards puts the NIC (whoever published it) into REVALIDATION_REQUIRED.
\<close>

theorem rejected_publication_still_listed:
  assumes "EnsureAuthority e w b r = Inr ()" "m_find (reg_nics r) (nic_id rec) = Some n"
    "nic_generation rec < nic_generation n" "id_valid (nic_id rec)" "m_size (reg_nics r) < kMaxNics"
  shows "\<exists>err s. register_nic rec e w b r = (Inl err, s) \<and> err_code err = ErrorCode.kStaleNic \<and>
    reg_nics s = reg_nics r \<and>
    m_find (reg_nics (snd (worker_retired w b s))) (nic_id rec) = Some (nic_revalidate n)"
proof -
  obtain h where h: "m_find (reg_workers r) w = Some h" "wh_boot h = b"
    using assms(1) by (auto simp: EnsureAuthority_Inr)
  define ids where "ids = s_insert (nic_id rec) (case m_find (reg_worker_nics r) w of Some x \<Rightarrow> x | None \<Rightarrow> [])"
  define s where "s = r\<lparr>reg_worker_nics := m_put w ids (reg_worker_nics r)\<rparr>"
  have run: "register_nic rec e w b r = (Inl (ResidencyError ErrorCode.kStaleNic
      ''stale NIC generation rejected'' (id_str (nic_id rec))), s)"
    using assms by (simp add: register_nic_def Let_def s_def ids_def)
  have "reg_nics (snd (worker_retired w b s)) = revalidate_nics ids (reg_nics r)"
    by (simp add: worker_retired_def Let_def s_def h)
  then have "m_find (reg_nics (snd (worker_retired w b s))) (nic_id rec) = Some (nic_revalidate n)"
    by (simp add: revalidate_nics_find ids_def assms(2))
  with run show ?thesis by (simp add: s_def)
qed

theorem rejected_publication_still_listed_witness:
  "\<exists>err s. register_nic (sample_nic 5 1) (Id 7) (Id 1) (Id 10) sample_registry = (Inl err, s) \<and>
     err_code err = ErrorCode.kStaleNic"
proof -
  have "m_find (reg_nics sample_registry) (nic_id (sample_nic 5 1)) = Some (sample_nic 5 2)"
    "nic_generation (sample_nic 5 1) < nic_generation (sample_nic 5 2)" "id_valid (nic_id (sample_nic 5 1))"
    "m_size (reg_nics sample_registry) < kMaxNics"
    by (simp_all add: sample_registry_eq sample_nic_def m_size_def kMaxNics_def)
  from rejected_publication_still_listed [OF sample_authority this] show ?thesis by blast
qed

section \<open>Residencies\<close>

text \<open>
  In every reachable state the records of one residency id stand in the log in the order
  of their generations, so that a publication can never slip in behind a newer record.
\<close>

theorem residency_log_ordered: "reg_reach r \<Longrightarrow> log_ordered (reg_residencies r)"
  by (rule reg_reach_log)

theorem residency_log_ordered_witness: "log_ordered (reg_residencies sample_registry)"
  by (rule residency_log_ordered [OF sample_registry_reach])

text \<open>
  Retiring a residency id touches only the first record with that id: after the same id
  has been published twice, the newer record is still there, unretired.
\<close>

theorem retire_residency_first_only:
  assumes "EnsureAuthority e w b r = Inr ()" "reg_residencies r = xs @ x # ys"
    "res_id x = i" "\<forall>y \<in> set xs. res_id y \<noteq> i"
  shows "retire_residency i e w b r = (Inr (), r\<lparr>reg_residencies :=
    xs @ x\<lparr>res_state := ResidencyState.kRetired, res_lifecycle := LifecycleState.kRetired\<rparr> # ys\<rparr>)"
proof -
  have "retire_first i (xs @ x # ys) =
      Some (xs @ x\<lparr>res_state := ResidencyState.kRetired, res_lifecycle := LifecycleState.kRetired\<rparr> # ys)"
    using assms(3,4) by (induction xs) auto
  with assms(1,2) show ?thesis by (simp add: retire_residency_def)
qed

theorem retire_residency_first_only_witness:
  "sample_residency 60 2 3 \<in> set (reg_residencies (snd
      (retire_residency (Id 60) (Id 7) (Id 1) (Id 10) sample_registry)))"
  using retire_residency_first_only [OF sample_authority, of "[]" "sample_residency 60 1 3"
      "[sample_residency 60 2 3]" "Id 60"]
  by (simp add: sample_registry_eq sample_residency_def)

end
