(* ===== verification/Authority_Spec.thy ===== *)
theory Authority_Spec
  imports Registry_Runs
begin

text \<open>
  The authority contract of the registry as an abstract machine: an epoch and, for each worker,
  the boot that speaks for it. Workers join and leave, a new epoch clears everybody, and a
  publication presents an epoch, a worker and a boot. The registry, with all its tables,
  implements this machine.
\<close>

section \<open>The abstract machine\<close>

record Authority =
  au_epoch :: CoordinatorEpoch
  au_boot :: "WorkerId \<rightharpoonup> WorkerBootId"

datatype auth_event =
    Join WorkerId WorkerBootId
  | Leave WorkerId WorkerBootId
  | NewEpoch CoordinatorEpoch
  | Present CoordinatorEpoch WorkerId WorkerBootId

text \<open>Whether the machine accepts an event, and the state it is in afterwards.\<close>

fun au_step :: "auth_event \<Rightarrow> Authority \<Rightarrow> bool \<times> Authority" where
  "au_step (Join w b) a =
     (if au_boot a w = None \<or> au_boot a w = Some b then (True, a\<lparr>au_boot := (au_boot a)(w \<mapsto> b)\<rparr>) else (False, a))"
| "au_step (Leave w b) a =
     (True, if au_boot a w = Some b then a\<lparr>au_boot := (au_boot a)(w := None)\<rparr> else a)"
| "au_step (NewEpoch e) a =
     (if au_epoch a < e then (True, \<lparr>au_epoch = e, au_boot = Map.empty\<rparr>) else (False, a))"
| "au_step (Present e w b) a = (e = au_epoch a \<and> au_boot a w = Some b, a)"

definition call_event :: "reg_call \<Rightarrow> auth_event" where
  "call_event c = (case call_auth c of
     Some (e, w, b) \<Rightarrow> Present e w b
   | None \<Rightarrow> (case c of RegisterWorker w b \<Rightarrow> Join w b | WorkerRetired w b \<Rightarrow> Leave w b
              | CoordinatorRestart e \<Rightarrow> NewEpoch e | _ \<Rightarrow> NewEpoch id_null))"

text \<open>The authority a registry stands for.\<close>

definition authority_of :: "NicRegistry \<Rightarrow> Authority" where
  "authority_of r = \<lparr>au_epoch = reg_epoch r, au_boot = (\<lambda>w. map_option wh_boot (m_find (reg_workers r) w))\<rparr>"

section \<open>The registry implements it\<close>

lemma authority_of_cong:
  "reg_epoch s = reg_epoch r \<Longrightarrow> reg_workers s = reg_workers r \<Longrightarrow> authority_of s = authority_of r"
  by (simp add: authority_of_def)

lemma present_refines:
  assumes "call_auth c = Some (e, w, b)"
  shows "authority_of (snd (exec_call c r)) = authority_of r"
    "fst (au_step (Present e w b) (authority_of r)) \<or> (\<exists>err. exec_call c r = (Some err, r))"
proof -
  show "authority_of (snd (exec_call c r)) = authority_of r"
    using exec_call_keeps_authority [OF assms] by (intro authority_of_cong) auto
  show "fst (au_step (Present e w b) (authority_of r)) \<or> (\<exists>err. exec_call c r = (Some err, r))"
  proof (cases "EnsureAuthority e w b r")
    case (Inl err)
    then show ?thesis using exec_call_fenced [OF assms] by blast
  next
    case (Inr u)
    then show ?thesis by (auto simp: EnsureAuthority_Inr authority_of_def)
  qed
qed

lemma join_refines:
  "authority_of (snd (register_worker w b r)) = snd (au_step (Join w b) (authority_of r))"
  "fst (au_step (Join w b) (authority_of r)) = (\<exists>u. fst (register_worker w b r) = Inr u)"
  by (auto simp: register_worker_def authority_of_def m_find_put fun_eq_iff split: option.split)

lemma leave_refines:
  "authority_of (snd (worker_retired w b r)) = snd (au_step (Leave w b) (authority_of r))"
  "\<exists>u. fst (worker_retired w b r) = Inr u"
proof -
  show "\<exists>u. fst (worker_retired w b r) = Inr u" by (simp add: worker_retired_def Let_def)
  have "reg_epoch (snd (worker_retired w b r)) = reg_epoch r \<and> reg_workers (snd (worker_retired w b r)) =
      (if (case m_find (reg_workers r) w of Some h \<Rightarrow> wh_boot h \<noteq> b | None \<Rightarrow> False) then reg_workers r
       else m_erase w (reg_workers r))"
    by (simp add: worker_retired_def Let_def split: option.split)
  then show "authority_of (snd (worker_retired w b r)) = snd (au_step (Leave w b) (authority_of r))"
    by (auto simp: authority_of_def m_find_erase fun_eq_iff split: option.splits)
qed

lemma epoch_refines:
  "authority_of (snd (coordinator_restart e r)) = snd (au_step (NewEpoch e) (authority_of r))"
  "fst (au_step (NewEpoch e) (authority_of r)) = (\<exists>u. fst (coordinator_restart e r) = Inr u)"
  by (simp_all add: coordinator_restart_def authority_of_def less_Id_def fun_eq_iff)

lemma call_refines: "authority_of (snd (exec_call c r)) = snd (au_step (call_event c) (authority_of r))"
proof (cases "call_auth c")
  case None
  then show ?thesis
    by (cases c) (simp_all add: call_event_def join_refines leave_refines epoch_refines del: au_step.simps)
next
  case (Some a)
  obtain e w b where "a = (e, w, b)" by (cases a)
  with Some show ?thesis using present_refines(1) by (simp add: call_event_def)
qed

lemma runs_refine:
  "authority_of (exec_calls cs r) = fold (\<lambda>c a. snd (au_step (call_event c) a)) cs (authority_of r)"
  by (induction cs arbitrary: r) (simp_all add: call_refines)

text \<open>
  C3: the registry refines the authority machine. After any sequence of calls the authority it
  stands for is the one the machine reaches on the same events. A publishing call that the
  machine does not accept raises and changes nothing at all; a worker registration, retirement
  or restart raises exactly when the machine refuses it.
\<close>

theorem registry_refines_authority:
  "authority_of (exec_calls cs r) = fold (\<lambda>c a. snd (au_step (call_event c) a)) cs (authority_of r) \<and>
   (case call_auth c of
      Some _ \<Rightarrow> fst (au_step (call_event c) (authority_of r)) \<or> (\<exists>err. exec_call c r = (Some err, r))
    | None \<Rightarrow> fst (au_step (call_event c) (authority_of r)) = (fst (exec_call c r) = None))"
proof (cases "call_auth c")
  case None
  then have "fst (au_step (call_event c) (authority_of r)) = (fst (exec_call c r) = None)"
    using leave_refines(2)
    by (cases c) (auto simp: call_event_def join_refines epoch_refines simp del: au_step.simps(1,3) split: sum.split)
  with None show ?thesis by (simp add: runs_refine)
next
  case (Some a)
  obtain e w b where a: "a = (e, w, b)" by (cases a)
  have "call_event c = Present e w b" using Some a by (simp add: call_event_def)
  then show ?thesis using Some present_refines(2) [of c e w b r] a by (simp add: runs_refine)
qed

end
