(* ===== verification/Residency_Policy.thy ===== *)
theory Residency_Policy
  imports Registry_Core
begin

text \<open>
  Residency decisions: the decision data of \<^verbatim>\<open>include/nicresidency/residency.hpp\<close> and the policy
  of \<^verbatim>\<open>include/nicresidency/policy.hpp\<close> and \<^verbatim>\<open>src/policy.cpp\<close>. A decision is a pure function
  of a registry snapshot and of the target. Ranking weights are \<^verbatim>\<open>std::int64_t\<close> in the source and
  \<^typ>\<open>int\<close> here; \<open>rank_bound\<close> shows when no intermediate sum leaves the 64-bit range.
\<close>

section \<open>Decision data\<close>

datatype ResidencyEligibility =
  kResidencyAllowed | kResidencyAllowedDegraded | kNotLocal | kNotReady | kStaleTopology
  | kStaleDevice | kStaleFunction | kStaleQueue | kStaleAttachment | kRevalidationRequired
  | kCapabilityMismatch | kPolicyRejected | kInsufficientEvidence | kUnsupported | kNotFound

fun ResidencyEligibility_str :: "ResidencyEligibility \<Rightarrow> string" where
  "ResidencyEligibility_str ResidencyEligibility.kResidencyAllowed = ''RESIDENCY_ALLOWED''"
| "ResidencyEligibility_str ResidencyEligibility.kResidencyAllowedDegraded = ''RESIDENCY_ALLOWED_DEGRADED''"
| "ResidencyEligibility_str ResidencyEligibility.kNotLocal = ''NOT_LOCAL''"
| "ResidencyEligibility_str ResidencyEligibility.kNotReady = ''NOT_READY''"
| "ResidencyEligibility_str ResidencyEligibility.kStaleTopology = ''STALE_TOPOLOGY''"
| "ResidencyEligibility_str ResidencyEligibility.kStaleDevice = ''STALE_DEVICE''"
| "ResidencyEligibility_str ResidencyEligibility.kStaleFunction = ''STALE_FUNCTION''"
| "ResidencyEligibility_str ResidencyEligibility.kStaleQueue = ''STALE_QUEUE''"
| "ResidencyEligibility_str ResidencyEligibility.kStaleAttachment = ''STALE_ATTACHMENT''"
| "ResidencyEligibility_str ResidencyEligibility.kRevalidationRequired = ''REVALIDATION_REQUIRED''"
| "ResidencyEligibility_str ResidencyEligibility.kCapabilityMismatch = ''CAPABILITY_MISMATCH''"
| "ResidencyEligibility_str ResidencyEligibility.kPolicyRejected = ''POLICY_REJECTED''"
| "ResidencyEligibility_str ResidencyEligibility.kInsufficientEvidence = ''INSUFFICIENT_EVIDENCE''"
| "ResidencyEligibility_str ResidencyEligibility.kUnsupported = ''UNSUPPORTED''"
| "ResidencyEligibility_str ResidencyEligibility.kNotFound = ''NOT_FOUND''"

record RejectionReason =
  rej_name :: string
  rej_detail :: string

abbreviation mk_rej :: "string \<Rightarrow> string \<Rightarrow> RejectionReason" where
  "mk_rej n d \<equiv> \<lparr>rej_name = n, rej_detail = d\<rparr>"

record CandidateResult =
  cr_nic :: NicId
  cr_function :: FunctionId
  cr_port :: PortId
  cr_queue :: QueueId
  cr_eligibility :: ResidencyEligibility
  cr_rank_score :: int
  cr_selected :: bool
  cr_rejections :: "RejectionReason list"
  cr_locality_summary :: string

record ResidencyDecision =
  dec_id :: DecisionId
  dec_workload :: WorkerId
  dec_target_gpu :: GpuId
  dec_target_numa :: NumaNodeId
  dec_target_endpoint :: EndpointId
  dec_selected :: NicId
  dec_selected_function :: FunctionId
  dec_selected_port :: PortId
  dec_selected_queue :: QueueId
  dec_topology_generation :: TopologyGeneration
  dec_nic_generation :: NicGeneration
  dec_function_generation :: FunctionGeneration
  dec_queue_generation :: QueueGeneration
  dec_attachment_generation :: AttachmentGeneration
  dec_capability_generation :: CapabilityGeneration
  dec_residency_generation :: ResidencyGeneration
  dec_policy :: PolicyId
  dec_candidates :: "NicId list"
  dec_evaluated :: "CandidateResult list"
  dec_overall :: ResidencyEligibility
  dec_epoch :: CoordinatorEpoch
  dec_authority_boot :: WorkerBootId
  dec_freshness :: u64
  dec_explanation :: string
  dec_authoritative :: bool

definition decision_default :: ResidencyDecision where
  "decision_default = \<lparr>dec_id = id_null, dec_workload = id_null, dec_target_gpu = id_null,
     dec_target_numa = id_null, dec_target_endpoint = id_null, dec_selected = id_null,
     dec_selected_function = id_null, dec_selected_port = id_null, dec_selected_queue = id_null,
     dec_topology_generation = gen_null, dec_nic_generation = gen_null,
     dec_function_generation = gen_null, dec_queue_generation = gen_null,
     dec_attachment_generation = gen_null, dec_capability_generation = gen_null,
     dec_residency_generation = gen_null, dec_policy = id_null, dec_candidates = [],
     dec_evaluated = [], dec_overall = ResidencyEligibility.kNotFound, dec_epoch = id_null,
     dec_authority_boot = id_null, dec_freshness = 0, dec_explanation = [],
     dec_authoritative = True\<rparr>"

section \<open>The policy object\<close>

record ResidencyPolicy =
  require_rdma :: bool
  require_sriov :: bool
  require_offload :: bool
  require_local_memory :: bool
  require_same_numa :: bool
  require_same_rc :: bool
  require_same_switch :: bool
  require_ready :: bool
  require_link_up :: bool
  freshness_limit :: u64
  max_candidates :: nat
  allow_synthetic :: bool
  excluded :: "NicId list"
  policy_id :: PolicyId
  w_same_switch :: int
  w_same_root :: int
  w_same_numa :: int
  w_accel :: int
  w_cpu_local :: int
  w_local_mem :: int
  w_cap :: int

definition policy_default :: ResidencyPolicy where
  "policy_default = \<lparr>require_rdma = False, require_sriov = False, require_offload = False,
     require_local_memory = False, require_same_numa = False, require_same_rc = False,
     require_same_switch = False, require_ready = False, require_link_up = False,
     freshness_limit = - 1, max_candidates = 1024, allow_synthetic = False, excluded = [],
     policy_id = Id 1, w_same_switch = - 40, w_same_root = - 20, w_same_numa = - 10,
     w_accel = - 50, w_cpu_local = - 5, w_local_mem = - 30, w_cap = 0\<rparr>"

definition exclude_nic :: "NicId \<Rightarrow> ResidencyPolicy \<Rightarrow> ResidencyPolicy" where
  "exclude_nic i p = p\<lparr>excluded := s_insert i (excluded p)\<rparr>"

section \<open>Snapshot lookups\<close>

definition snap_nic :: "RegistrySnapshot \<Rightarrow> NicId \<Rightarrow> NicRecord option" where
  "snap_nic s i = m_find (snap_nics s) i"

definition snap_function :: "RegistrySnapshot \<Rightarrow> FunctionId \<Rightarrow> FunctionRecord option" where
  "snap_function s i = m_find (snap_functions s) i"

definition snap_queue :: "RegistrySnapshot \<Rightarrow> QueueId \<Rightarrow> QueueRecord option" where
  "snap_queue s i = m_find (snap_queues s) i"

definition snap_gpu :: "RegistrySnapshot \<Rightarrow> GpuId \<Rightarrow> GpuRecord option" where
  "snap_gpu s i = m_find (snap_gpus s) i"

section \<open>Evaluation\<close>

fun severity :: "ResidencyEligibility \<Rightarrow> int" where
  "severity ResidencyEligibility.kStaleTopology = 30"
| "severity ResidencyEligibility.kStaleDevice = 31"
| "severity ResidencyEligibility.kStaleFunction = 32"
| "severity ResidencyEligibility.kStaleQueue = 33"
| "severity ResidencyEligibility.kStaleAttachment = 34"
| "severity ResidencyEligibility.kRevalidationRequired = 35"
| "severity ResidencyEligibility.kCapabilityMismatch = 40"
| "severity ResidencyEligibility.kNotReady = 41"
| "severity ResidencyEligibility.kNotLocal = 42"
| "severity ResidencyEligibility.kPolicyRejected = 43"
| "severity ResidencyEligibility.kInsufficientEvidence = 44"
| "severity ResidencyEligibility.kUnsupported = 45"
| "severity ResidencyEligibility.kNotFound = 46"
| "severity ResidencyEligibility.kResidencyAllowed = 1"
| "severity ResidencyEligibility.kResidencyAllowedDegraded = 2"

definition locality_of ::
    "RegistrySnapshot \<Rightarrow> NicRecord \<Rightarrow> GpuId \<Rightarrow> GpuRecord option \<Rightarrow> NumaNodeId \<Rightarrow> Locality" where
  "locality_of reg nic gpu gpu_rec target_numa =
     (case gpu_rec of
        Some g \<Rightarrow>
          (let loc =
             (case snap_topology reg of
                Some t \<Rightarrow> locality_between t (nic_pci nic) (gpu_pci g)
              | None \<Rightarrow>
                  (let same_numa0 =
                         id_valid target_numa \<and> id_valid (nic_numa_node nic) \<and>
                           nic_numa_node nic = target_numa \<or>
                         id_valid (gpu_numa_node g) \<and> id_valid (nic_numa_node nic) \<and>
                           gpu_numa_node g = nic_numa_node nic;
                       f = factors_default\<lparr>numa_same := same_numa0, cpu_local := same_numa0,
                             accelerator_affine := same_numa0,
                             fac_cost := distance_to (nic_pci nic) (gpu_pci g)\<rparr>
                   in mk_locality
                        (if same_numa0 then LocalityRelationship.kSameNumaNode
                         else LocalityRelationship.kUnknown)
                        (if same_numa0 then nic_numa_node nic else id_null) (gpu_pci g)
                        (mk_prov EvidenceKind.kReal [Source.kNuma, Source.kPci, Source.kDerived]) f));
               rec_same_numa =
                 id_valid (gpu_numa_node g) \<and> id_valid (nic_numa_node nic) \<and>
                   gpu_numa_node g = nic_numa_node nic \<or>
                 id_valid target_numa \<and> id_valid (nic_numa_node nic) \<and>
                   nic_numa_node nic = target_numa;
               f = loc_factors loc
           in if rec_same_numa then
                (let f' = f\<lparr>numa_same := True, cpu_local := True, accelerator_affine := True\<rparr>
                 in if loc_relationship loc = LocalityRelationship.kUnknown \<or>
                       loc_relationship loc = LocalityRelationship.kRemoteNuma \<or>
                       loc_relationship loc = LocalityRelationship.kHostLocal
                    then mk_locality LocalityRelationship.kSameNumaNode (nic_numa_node nic)
                           (gpu_pci g) (loc_provenance loc) f'
                    else mk_locality (loc_relationship loc) (nic_numa_node nic) (gpu_pci g)
                           (loc_provenance loc) f')
              else mk_locality (loc_relationship loc) (loc_numa_node loc) (gpu_pci g)
                     (loc_provenance loc) f)
      | None \<Rightarrow>
          (let same_numa = id_valid target_numa \<and> id_valid (nic_numa_node nic) \<and>
                 nic_numa_node nic = target_numa;
               f = factors_default\<lparr>numa_same := same_numa, cpu_local := same_numa\<rparr>
           in mk_locality
                (if same_numa then LocalityRelationship.kSameNumaNode else LocalityRelationship.kUnknown)
                (if same_numa then nic_numa_node nic else id_null) (nic_pci nic)
                (mk_prov EvidenceKind.kReal [Source.kNuma, Source.kDerived]) f))"

text \<open>The record of the target accelerator, when one is named and known.\<close>

definition target_gpu_rec :: "RegistrySnapshot \<Rightarrow> GpuId \<Rightarrow> GpuRecord option" where
  "target_gpu_rec reg gpu = (if id_valid gpu then snap_gpu reg gpu else None)"

definition hard_check ::
    "ResidencyPolicy \<Rightarrow> RegistrySnapshot \<Rightarrow> NicRecord \<Rightarrow> GpuId \<Rightarrow> NumaNodeId
      \<Rightarrow> ResidencyEligibility \<times> RejectionReason list" where
  "hard_check p reg nic gpu numa =
     (if prov_synthetic (nic_provenance nic) \<and> \<not> allow_synthetic p then
        (ResidencyEligibility.kInsufficientEvidence,
         [mk_rej ''SYNTHETIC'' ''synthetic evidence is not admissible for real residency''])
      else if prov_unsupported (nic_provenance nic) then
        (ResidencyEligibility.kUnsupported,
         [mk_rej ''UNSUPPORTED'' ''backend reported this capability as unsupported''])
      else if nic_id nic \<in> set (excluded p) then
        (ResidencyEligibility.kPolicyRejected, [mk_rej ''EXCLUDED'' ''NIC is excluded by policy''])
      else if \<not> id_valid (nic_id nic) then
        (ResidencyEligibility.kNotFound, [mk_rej ''NOT_FOUND'' ''invalid NIC id''])
      else if nic_lifecycle nic = LifecycleState.kRevalidationRequired \<or>
              nic_lifecycle nic = LifecycleState.kDetached then
        (ResidencyEligibility.kRevalidationRequired,
         [mk_rej ''STALE_DEVICE'' ''device requires revalidation''])
      else if nic_lifecycle nic = LifecycleState.kFailed then
        (ResidencyEligibility.kNotReady, [mk_rej ''NOT_READY'' ''device failed''])
      else if nic_lifecycle nic = LifecycleState.kRetired then
        (ResidencyEligibility.kNotFound, [mk_rej ''NOT_FOUND'' ''device retired''])
      else if nic_lifecycle nic = LifecycleState.kDiscovered then
        (ResidencyEligibility.kNotReady,
         [mk_rej ''NOT_READY'' ''device only discovered, not yet available''])
      else if require_rdma p \<and> \<not> cap_rdma (nic_capability nic) then
        (ResidencyEligibility.kCapabilityMismatch,
         [mk_rej ''CAPABILITY_RDMA'' ''REQUIRED RDMA capability absent''])
      else if require_sriov p \<and> \<not> cap_sr_iov (nic_capability nic) then
        (ResidencyEligibility.kCapabilityMismatch,
         [mk_rej ''CAPABILITY_SRIOV'' ''REQUIRED SR-IOV capability absent''])
      else if require_offload p \<and> \<not> cap_offload (nic_capability nic) then
        (ResidencyEligibility.kCapabilityMismatch,
         [mk_rej ''CAPABILITY_OFFLOAD'' ''REQUIRED offload capability absent''])
      else if require_local_memory p \<and> \<not> cap_local_memory (nic_capability nic) then
        (ResidencyEligibility.kCapabilityMismatch,
         [mk_rej ''CAPABILITY_LOCAL_MEMORY'' ''REQUIRED local-memory capability absent''])
      else if require_ready p \<and> nic_health nic \<noteq> HealthState.kReady then
        (ResidencyEligibility.kNotReady, [mk_rej ''NOT_READY'' ''device health is not READY''])
      else if require_link_up p \<and> nic_link_state nic \<noteq> LinkState.kUp then
        (ResidencyEligibility.kNotReady, [mk_rej ''NOT_READY_LINK'' ''link is not UP''])
      else if nic_freshness nic > freshness_limit p then
        (ResidencyEligibility.kRevalidationRequired,
         [mk_rej ''STALE_FRESHNESS'' ''device evidence is too old''])
      else
        (let loc = locality_of reg nic gpu (target_gpu_rec reg gpu) numa;
             same_numa = numa_same (loc_factors loc) \<or>
               id_valid numa \<and> id_valid (nic_numa_node nic) \<and> nic_numa_node nic = numa
         in if require_same_numa p \<and> \<not> same_numa then
              (ResidencyEligibility.kNotLocal,
               [mk_rej ''NOT_LOCAL_NUMA'' ''NIC is not on the required NUMA node''])
            else if require_same_rc p \<and> \<not> root_complex_same (loc_factors loc) then
              (ResidencyEligibility.kNotLocal,
               [mk_rej ''NOT_LOCAL_ROOT_COMPLEX'' ''NIC is not on the required root complex''])
            else if require_same_switch p \<and> \<not> pcie_switch_same (loc_factors loc) then
              (ResidencyEligibility.kNotLocal,
               [mk_rej ''NOT_LOCAL_SWITCH'' ''NIC is not on the required PCIe switch''])
            else if loc_relationship loc = LocalityRelationship.kRemoteNuma \<or>
                    loc_relationship loc = LocalityRelationship.kUnknown \<or>
                    loc_relationship loc = LocalityRelationship.kHostLocal then
              (ResidencyEligibility.kResidencyAllowedDegraded, [])
            else (ResidencyEligibility.kResidencyAllowed, [])))"

definition cap_count :: "CapabilitySet \<Rightarrow> int" where
  "cap_count c = of_bool (cap_rdma c) + of_bool (cap_sr_iov c) + of_bool (cap_offload c)
     + of_bool (cap_local_memory c) + of_bool (cap_accel_affinity c)"

definition rank :: "ResidencyPolicy \<Rightarrow> RegistrySnapshot \<Rightarrow> NicRecord \<Rightarrow> GpuId \<Rightarrow> NumaNodeId \<Rightarrow> int" where
  "rank p reg nic gpu numa =
     (let f = loc_factors (locality_of reg nic gpu (target_gpu_rec reg gpu) numa)
      in (if pcie_switch_same f then w_same_switch p else 0)
         + (if root_complex_same f then w_same_root p else 0)
         + (if numa_same f then w_same_numa p else 0)
         + (if accelerator_affine f then w_accel p else 0)
         + (if cpu_local f then w_cpu_local p else 0)
         + (if local_memory f then w_local_mem p else 0)
         + w_cap p * cap_count (nic_capability nic))"

definition is_allowed :: "ResidencyEligibility \<Rightarrow> bool" where
  "is_allowed e \<longleftrightarrow> e = ResidencyEligibility.kResidencyAllowed \<or>
     e = ResidencyEligibility.kResidencyAllowedDegraded"

text \<open>One iteration of the candidate loop: the \<^verbatim>\<open>CandidateResult\<close> of a NIC.\<close>

definition evaluate ::
    "ResidencyPolicy \<Rightarrow> RegistrySnapshot \<Rightarrow> GpuId \<Rightarrow> NumaNodeId \<Rightarrow> NicRecord \<Rightarrow> CandidateResult" where
  "evaluate p reg gpu numa nic =
     (let (elig, rejs) = hard_check p reg nic gpu numa
      in \<lparr>cr_nic = nic_id nic, cr_function = id_null, cr_port = id_null, cr_queue = id_null,
          cr_eligibility = elig,
          cr_rank_score = (if is_allowed elig then rank p reg nic gpu numa else 0),
          cr_selected = False, cr_rejections = rejs,
          cr_locality_summary =
            locality_str (locality_of reg nic gpu (target_gpu_rec reg gpu) numa)\<rparr>)"

text \<open>The loop over the NICs in key order: it stops after \<^verbatim>\<open>max_candidates_\<close> NICs and
  accumulates the evaluated results, the allowed ones and their ids.\<close>

fun candidate_loop ::
    "ResidencyPolicy \<Rightarrow> RegistrySnapshot \<Rightarrow> GpuId \<Rightarrow> NumaNodeId \<Rightarrow> (NicId, NicRecord) smap \<Rightarrow> nat
      \<Rightarrow> CandidateResult list \<Rightarrow> CandidateResult list \<Rightarrow> NicId list
      \<Rightarrow> CandidateResult list \<times> CandidateResult list \<times> NicId list" where
  "candidate_loop p reg gpu numa [] considered evaluated allowed candidates =
     (evaluated, allowed, candidates)"
| "candidate_loop p reg gpu numa ((k, nic) # nics) considered evaluated allowed candidates =
     (if considered \<ge> max_candidates p then (evaluated, allowed, candidates)
      else
        let cr = evaluate p reg gpu numa nic
        in if is_allowed (cr_eligibility cr)
           then candidate_loop p reg gpu numa nics (Suc considered) (evaluated @ [cr])
                  (allowed @ [cr]) (candidates @ [nic_id nic])
           else candidate_loop p reg gpu numa nics (Suc considered) (evaluated @ [cr])
                  allowed candidates)"

definition candidate_less :: "CandidateResult \<Rightarrow> CandidateResult \<Rightarrow> bool" where
  "candidate_less a b =
     (if cr_rank_score a \<noteq> cr_rank_score b then cr_rank_score a < cr_rank_score b
      else id_value (cr_nic a) < id_value (cr_nic b))"

text \<open>The loop that keeps the most severe eligibility.\<close>

fun worst_of :: "ResidencyEligibility \<Rightarrow> CandidateResult list \<Rightarrow> ResidencyEligibility" where
  "worst_of w [] = w"
| "worst_of w (c # cs) =
     worst_of (if severity (cr_eligibility c) < severity w then cr_eligibility c else w) cs"

definition build_explanation :: "ResidencyDecision \<Rightarrow> string" where
  "build_explanation d =
     (if id_valid (dec_selected d) then
        ''selected='' @ id_str (dec_selected d)
          @ (if id_valid (dec_selected_function d) then '' func='' @ id_str (dec_selected_function d) else [])
          @ (if id_valid (dec_selected_port d) then '' port='' @ id_str (dec_selected_port d) else [])
          @ (if id_valid (dec_selected_queue d) then '' queue='' @ id_str (dec_selected_queue d) else [])
          @ '' via '' @ ResidencyEligibility_str (dec_overall d)
      else ''no candidate selected; overall='' @ ResidencyEligibility_str (dec_overall d))"

definition mark_selected :: "CandidateResult \<Rightarrow> CandidateResult \<Rightarrow> CandidateResult" where
  "mark_selected best e =
     (if cr_nic e = cr_nic best
      then e\<lparr>cr_selected := True, cr_eligibility := cr_eligibility best\<rparr> else e)"

text \<open>The generations recorded for the selection.\<close>

definition record_generations :: "RegistrySnapshot \<Rightarrow> ResidencyDecision \<Rightarrow> ResidencyDecision" where
  "record_generations reg d =
     (case snap_nic reg (dec_selected d) of
        None \<Rightarrow> d
      | Some sel \<Rightarrow>
          (let d1 = d\<lparr>dec_nic_generation := nic_generation sel\<rparr>;
               d2 = (case (if id_valid (dec_selected_function d1)
                           then snap_function reg (dec_selected_function d1) else None) of
                       Some fr \<Rightarrow> d1\<lparr>dec_function_generation := fn_generation fr\<rparr> | None \<Rightarrow> d1)
           in (case (if id_valid (dec_selected_queue d2)
                     then snap_queue reg (dec_selected_queue d2) else None) of
                 Some qr \<Rightarrow> d2\<lparr>dec_queue_generation := queue_generation qr\<rparr> | None \<Rightarrow> d2)))"

definition decide ::
    "ResidencyPolicy \<Rightarrow> RegistrySnapshot \<Rightarrow> GpuId \<Rightarrow> NumaNodeId \<Rightarrow> EndpointId \<Rightarrow> WorkerId
      \<Rightarrow> ResidencyDecision" where
  "decide p reg target_gpu target_numa endpoint workload =
     (let (evaluated, allowed, candidates) =
            candidate_loop p reg target_gpu target_numa (snap_nics reg) 0 [] [] [];
          d = decision_default\<lparr>dec_id := Id 1, dec_workload := workload, dec_target_gpu := target_gpu,
                dec_target_numa := target_numa, dec_target_endpoint := endpoint,
                dec_topology_generation :=
                  (case snap_topology reg of Some t \<Rightarrow> top_generation t | None \<Rightarrow> gen_null),
                dec_policy := policy_id p, dec_epoch := snap_epoch reg,
                dec_candidates := candidates, dec_evaluated := evaluated\<rparr>
      in (case std_sort candidate_less allowed of
            best # _ \<Rightarrow>
              (let d1 = d\<lparr>dec_selected := cr_nic best, dec_selected_function := cr_function best,
                          dec_selected_port := cr_port best, dec_selected_queue := cr_queue best,
                          dec_overall := cr_eligibility best,
                          dec_evaluated := map (mark_selected best) evaluated\<rparr>;
                   d2 = record_generations reg d1
               in d2\<lparr>dec_explanation := build_explanation d2\<rparr>)
          | [] \<Rightarrow>
              (let d1 = d\<lparr>dec_overall :=
                     (case evaluated of [] \<Rightarrow> ResidencyEligibility.kNotFound
                      | c # cs \<Rightarrow> worst_of (cr_eligibility c) (c # cs))\<rparr>
               in d1\<lparr>dec_explanation := build_explanation d1\<rparr>)))"

end
