(* ===== verification/Residency_Selection.thy ===== *)
theory Residency_Selection
  imports Residency_Policy Registry_Generations
begin

text \<open>
  What a residency decision promises: the hard constraints as one predicate
  (\<open>admissible\<close>), the candidate loop as a filter over the first \<^verbatim>\<open>max_candidates_\<close> NICs, the
  selection as the least allowed candidate for (rank, id), and the consequences for
  registries in a reachable state.
\<close>

section \<open>Hard constraints\<close>

text \<open>The lifecycle states in which a device may be used.\<close>

definition usable_lifecycle :: "LifecycleState \<Rightarrow> bool" where
  "usable_lifecycle l \<longleftrightarrow> l \<in> {LifecycleState.kAvailable, LifecycleState.kReservedForAttachment,
     LifecycleState.kAttached, LifecycleState.kResident, LifecycleState.kDraining}"

definition capable :: "ResidencyPolicy \<Rightarrow> CapabilitySet \<Rightarrow> bool" where
  "capable p c \<longleftrightarrow> (require_rdma p \<longrightarrow> cap_rdma c) \<and> (require_sriov p \<longrightarrow> cap_sr_iov c) \<and>
     (require_offload p \<longrightarrow> cap_offload c) \<and> (require_local_memory p \<longrightarrow> cap_local_memory c)"

definition local_enough ::
    "ResidencyPolicy \<Rightarrow> RegistrySnapshot \<Rightarrow> NicRecord \<Rightarrow> GpuId \<Rightarrow> NumaNodeId \<Rightarrow> bool" where
  "local_enough p reg nic gpu numa \<longleftrightarrow>
     (let f = loc_factors (locality_of reg nic gpu (target_gpu_rec reg gpu) numa)
      in (require_same_numa p \<longrightarrow> numa_same f \<or> (id_valid numa \<and> nic_numa_node nic = numa)) \<and>
         (require_same_rc p \<longrightarrow> root_complex_same f) \<and>
         (require_same_switch p \<longrightarrow> pcie_switch_same f))"

definition admissible ::
    "ResidencyPolicy \<Rightarrow> RegistrySnapshot \<Rightarrow> NicRecord \<Rightarrow> GpuId \<Rightarrow> NumaNodeId \<Rightarrow> bool" where
  "admissible p reg nic gpu numa \<longleftrightarrow>
     (prov_kind (nic_provenance nic) = EvidenceKind.kReal \<or>
      prov_kind (nic_provenance nic) = EvidenceKind.kSynthetic \<and> allow_synthetic p) \<and>
     nic_id nic \<notin> set (excluded p) \<and> id_valid (nic_id nic) \<and>
     usable_lifecycle (nic_lifecycle nic) \<and> capable p (nic_capability nic) \<and>
     (require_ready p \<longrightarrow> nic_health nic = HealthState.kReady) \<and>
     (require_link_up p \<longrightarrow> nic_link_state nic = LinkState.kUp) \<and>
     nic_freshness nic \<le> freshness_limit p \<and> local_enough p reg nic gpu numa"

text \<open>The three stages of the check, each decided on its own.\<close>

lemma hard_check_inadmissible_device:
  "\<not> usable_lifecycle (nic_lifecycle nic) \<Longrightarrow>
     \<not> is_allowed (fst (hard_check p reg nic gpu numa)) \<and> snd (hard_check p reg nic gpu numa) \<noteq> []"
  by (cases "nic_lifecycle nic") (simp_all add: usable_lifecycle_def hard_check_def is_allowed_def)

definition device_ok :: "ResidencyPolicy \<Rightarrow> NicRecord \<Rightarrow> bool" where
  "device_ok p nic \<longleftrightarrow> \<not> (prov_synthetic (nic_provenance nic) \<and> \<not> allow_synthetic p) \<and>
     \<not> prov_unsupported (nic_provenance nic) \<and> nic_id nic \<notin> set (excluded p) \<and> id_valid (nic_id nic)"

lemma device_ok_kind:
  "device_ok p nic \<longleftrightarrow>
     (prov_kind (nic_provenance nic) = EvidenceKind.kReal \<or>
      prov_kind (nic_provenance nic) = EvidenceKind.kSynthetic \<and> allow_synthetic p) \<and>
     nic_id nic \<notin> set (excluded p) \<and> id_valid (nic_id nic)"
  by (cases "prov_kind (nic_provenance nic)")
    (auto simp: device_ok_def prov_synthetic_def prov_unsupported_def)

lemma hard_check_device:
  "\<not> device_ok p nic \<Longrightarrow>
     \<not> is_allowed (fst (hard_check p reg nic gpu numa)) \<and> snd (hard_check p reg nic gpu numa) \<noteq> []"
  by (auto simp: device_ok_def hard_check_def is_allowed_def)

definition runtime_ok :: "ResidencyPolicy \<Rightarrow> NicRecord \<Rightarrow> bool" where
  "runtime_ok p nic \<longleftrightarrow> capable p (nic_capability nic) \<and>
     (require_ready p \<longrightarrow> nic_health nic = HealthState.kReady) \<and>
     (require_link_up p \<longrightarrow> nic_link_state nic = LinkState.kUp) \<and>
     nic_freshness nic \<le> freshness_limit p"

lemma usable_lifecycle_neq:
  "usable_lifecycle l \<Longrightarrow> l \<noteq> LifecycleState.kRevalidationRequired \<and> l \<noteq> LifecycleState.kDetached \<and>
     l \<noteq> LifecycleState.kFailed \<and> l \<noteq> LifecycleState.kRetired \<and> l \<noteq> LifecycleState.kDiscovered"
  by (auto simp: usable_lifecycle_def)

lemma hard_check_runtime:
  assumes "device_ok p nic" "usable_lifecycle (nic_lifecycle nic)" "\<not> runtime_ok p nic"
  shows "\<not> is_allowed (fst (hard_check p reg nic gpu numa)) \<and> snd (hard_check p reg nic gpu numa) \<noteq> []"
  using assms(1,3) usable_lifecycle_neq [OF assms(2)]
  by (simp add: device_ok_def runtime_ok_def capable_def hard_check_def is_allowed_def not_le)
    (auto simp: not_le)

lemma locality_implies_numa:
  assumes "id_valid numa" "nic_numa_node nic = numa"
  shows "numa_same (loc_factors (locality_of reg nic gpu g numa))"
  using assms by (simp add: locality_of_def Let_def split: option.split)

lemma hard_check_locality:
  assumes "device_ok p nic" "usable_lifecycle (nic_lifecycle nic)" "runtime_ok p nic"
  shows "is_allowed (fst (hard_check p reg nic gpu numa)) = local_enough p reg nic gpu numa \<and>
    (snd (hard_check p reg nic gpu numa) = []) = local_enough p reg nic gpu numa"
proof -
  have pass: "\<not> (require_rdma p \<and> \<not> cap_rdma (nic_capability nic))"
    "\<not> (require_sriov p \<and> \<not> cap_sr_iov (nic_capability nic))"
    "\<not> (require_offload p \<and> \<not> cap_offload (nic_capability nic))"
    "\<not> (require_local_memory p \<and> \<not> cap_local_memory (nic_capability nic))"
    "\<not> (require_ready p \<and> nic_health nic \<noteq> HealthState.kReady)"
    "\<not> (require_link_up p \<and> nic_link_state nic \<noteq> LinkState.kUp)"
    "\<not> freshness_limit p < nic_freshness nic"
    using assms(3) by (auto simp: runtime_ok_def capable_def)
  have dev: "\<not> (prov_synthetic (nic_provenance nic) \<and> \<not> allow_synthetic p)"
    "\<not> prov_unsupported (nic_provenance nic)" "nic_id nic \<notin> set (excluded p)" "id_valid (nic_id nic)"
    using assms(1) by (auto simp: device_ok_def)
  note life = usable_lifecycle_neq [OF assms(2)]
  define loc where "loc = locality_of reg nic gpu (target_gpu_rec reg gpu) numa"
  have numa: "id_valid numa \<and> nic_numa_node nic = numa \<Longrightarrow> numa_same (loc_factors loc)"
    by (simp add: loc_def locality_implies_numa)
  show ?thesis
    unfolding hard_check_def local_enough_def Let_def loc_def [symmetric]
    by (simp only: pass dev life if_False simp_thms)
      (use numa in \<open>auto simp: is_allowed_def\<close>)
qed

lemma hard_check_admissible:
  "is_allowed (fst (hard_check p reg nic gpu numa)) = admissible p reg nic gpu numa"
  "(snd (hard_check p reg nic gpu numa) = []) = admissible p reg nic gpu numa"
proof -
  have adm: "admissible p reg nic gpu numa \<longleftrightarrow> device_ok p nic \<and>
      usable_lifecycle (nic_lifecycle nic) \<and> runtime_ok p nic \<and> local_enough p reg nic gpu numa"
    by (auto simp: admissible_def device_ok_kind runtime_ok_def)
  show "is_allowed (fst (hard_check p reg nic gpu numa)) = admissible p reg nic gpu numa"
    "(snd (hard_check p reg nic gpu numa) = []) = admissible p reg nic gpu numa"
    using hard_check_device [of p nic reg gpu numa] hard_check_inadmissible_device [of nic p reg gpu numa]
      hard_check_runtime [of p nic reg gpu numa] hard_check_locality [of p nic reg gpu numa]
    unfolding adm by blast+
qed

section \<open>The candidate loop and the order of candidates\<close>

abbreviation evaluations ::
    "ResidencyPolicy \<Rightarrow> RegistrySnapshot \<Rightarrow> GpuId \<Rightarrow> NumaNodeId \<Rightarrow> (NicId, NicRecord) smap \<Rightarrow> CandidateResult list" where
  "evaluations p reg gpu numa nics \<equiv> map (\<lambda>(k, n). evaluate p reg gpu numa n) nics"

lemma evaluate_fields [simp]:
  "cr_nic (evaluate p reg gpu numa n) = nic_id n"
  "cr_function (evaluate p reg gpu numa n) = id_null"
  "cr_port (evaluate p reg gpu numa n) = id_null"
  "cr_queue (evaluate p reg gpu numa n) = id_null"
  "cr_eligibility (evaluate p reg gpu numa n) = fst (hard_check p reg n gpu numa)"
  "cr_rejections (evaluate p reg gpu numa n) = snd (hard_check p reg n gpu numa)"
  "cr_selected (evaluate p reg gpu numa n) = False"
  by (simp_all add: evaluate_def split: prod.split)

lemma evaluate_rank:
  "admissible p reg n gpu numa \<Longrightarrow> cr_rank_score (evaluate p reg gpu numa n) = rank p reg n gpu numa"
  using hard_check_admissible(1) [of p reg n gpu numa] by (auto simp: evaluate_def split: prod.split)

lemma candidate_loop_eq:
  "candidate_loop p reg gpu numa nics c ev al ca =
     (let es = evaluations p reg gpu numa (take (max_candidates p - c) nics);
          as = filter (\<lambda>cr. is_allowed (cr_eligibility cr)) es
      in (ev @ es, al @ as, ca @ map cr_nic as))"
proof (induction nics arbitrary: c ev al ca)
  case (Cons kn nics)
  obtain k n where kn: "kn = (k, n)" by (cases kn)
  show ?case
  proof (cases "max_candidates p \<le> c")
    case False
    then have "max_candidates p - c = Suc (max_candidates p - Suc c)" by simp
    with False show ?thesis by (simp add: kn Cons.IH Let_def)
  qed (simp add: kn)
qed simp

interpretation cand: comparator candidate_less
  by unfold_locales (auto simp: candidate_less_def split: if_splits)

lemma candidate_less_total:
  "\<not> candidate_less a b \<Longrightarrow> \<not> candidate_less b a \<Longrightarrow> cr_nic a = cr_nic b"
  by (auto simp: candidate_less_def intro: Id.expand split: if_splits)

section \<open>Decisions\<close>

text \<open>The NICs a decision looks at, and the ones it may select.\<close>

definition considered_nics :: "ResidencyPolicy \<Rightarrow> RegistrySnapshot \<Rightarrow> NicRecord list" where
  "considered_nics p reg = map snd (take (max_candidates p) (snap_nics reg))"

definition allowed_nics ::
    "ResidencyPolicy \<Rightarrow> RegistrySnapshot \<Rightarrow> GpuId \<Rightarrow> NumaNodeId \<Rightarrow> NicRecord list" where
  "allowed_nics p reg gpu numa = filter (\<lambda>n. admissible p reg n gpu numa) (considered_nics p reg)"

text \<open>The order of the selection: smaller rank first, then the smaller id.\<close>

definition preferred ::
    "ResidencyPolicy \<Rightarrow> RegistrySnapshot \<Rightarrow> GpuId \<Rightarrow> NumaNodeId \<Rightarrow> NicRecord \<Rightarrow> NicRecord \<Rightarrow> bool" where
  "preferred p reg gpu numa n m \<longleftrightarrow> rank p reg n gpu numa < rank p reg m gpu numa \<or>
     rank p reg n gpu numa = rank p reg m gpu numa \<and> nic_id n \<le> nic_id m"

lemma decide_loop:
  "candidate_loop p reg gpu numa (snap_nics reg) 0 [] [] [] =
     (map (evaluate p reg gpu numa) (considered_nics p reg),
      map (evaluate p reg gpu numa) (allowed_nics p reg gpu numa),
      map nic_id (allowed_nics p reg gpu numa))"
proof -
  have *: "evaluations p reg gpu numa (take (max_candidates p) (snap_nics reg)) =
      map (evaluate p reg gpu numa) (considered_nics p reg)"
    by (simp add: considered_nics_def case_prod_beta)
  have **: "filter (\<lambda>cr. is_allowed (cr_eligibility cr)) (map (evaluate p reg gpu numa) ns) =
      map (evaluate p reg gpu numa) (filter (\<lambda>n. admissible p reg n gpu numa) ns)" for ns
    by (simp add: filter_map comp_def hard_check_admissible)
  show ?thesis
    by (simp add: candidate_loop_eq Let_def * ** allowed_nics_def)
qed

lemma record_generations_fields [simp]:
  "dec_selected (record_generations reg d) = dec_selected d"
  "dec_overall (record_generations reg d) = dec_overall d"
  "dec_evaluated (record_generations reg d) = dec_evaluated d"
  "dec_candidates (record_generations reg d) = dec_candidates d"
  "dec_epoch (record_generations reg d) = dec_epoch d"
  "dec_topology_generation (record_generations reg d) = dec_topology_generation d"
  "dec_nic_generation (record_generations reg d) =
     (case snap_nic reg (dec_selected d) of None \<Rightarrow> dec_nic_generation d | Some n \<Rightarrow> nic_generation n)"
  by (auto simp: record_generations_def Let_def split: option.split)

lemma decide_best:
  assumes "allowed_nics p reg gpu numa \<noteq> []"
  obtains n where "n \<in> set (allowed_nics p reg gpu numa)"
    "\<And>m. m \<in> set (allowed_nics p reg gpu numa) \<Longrightarrow> preferred p reg gpu numa n m"
    "std_sort candidate_less (map (evaluate p reg gpu numa) (allowed_nics p reg gpu numa)) =
       evaluate p reg gpu numa n #
       tl (std_sort candidate_less (map (evaluate p reg gpu numa) (allowed_nics p reg gpu numa)))"
proof -
  let ?A = "allowed_nics p reg gpu numa" and ?ev = "evaluate p reg gpu numa"
  obtain c cs where srt: "std_sort candidate_less (map ?ev ?A) = c # cs"
    using assms by (cases "std_sort candidate_less (map ?ev ?A)") auto
  then have "c \<in> set (map ?ev ?A)" by (metis list.set_intros(1) set_std_sort)
  then obtain n where n: "n \<in> set ?A" "c = ?ev n" by auto
  have "preferred p reg gpu numa n m" if "m \<in> set ?A" for m
  proof -
    have "\<not> candidate_less (?ev m) (?ev n)" using cand.head_least [OF srt] that n by auto
    moreover have "cr_rank_score (?ev x) = rank p reg x gpu numa" if "x \<in> set ?A" for x
      using that by (simp add: allowed_nics_def evaluate_rank)
    ultimately show ?thesis using n that
      by (auto simp: candidate_less_def preferred_def less_eq_Id_def split: if_splits)
  qed
  with n srt show thesis by (intro that [of n]) auto
qed

lemma decide_selected:
  assumes "std_sort candidate_less (map (evaluate p reg gpu numa) (allowed_nics p reg gpu numa)) =
      evaluate p reg gpu numa n # rest"
  shows "dec_selected (decide p reg gpu numa ep wl) = nic_id n"
    "dec_overall (decide p reg gpu numa ep wl) = fst (hard_check p reg n gpu numa)"
    "dec_evaluated (decide p reg gpu numa ep wl) =
       map (mark_selected (evaluate p reg gpu numa n)) (map (evaluate p reg gpu numa) (considered_nics p reg))"
    "snap_nic reg (nic_id n) = Some m \<Longrightarrow>
       dec_nic_generation (decide p reg gpu numa ep wl) = nic_generation m"
  using assms by (simp_all add: decide_def decide_loop Let_def)

lemma decide_frame:
  "dec_candidates (decide p reg gpu numa ep wl) = map nic_id (allowed_nics p reg gpu numa)"
  "dec_epoch (decide p reg gpu numa ep wl) = snap_epoch reg"
  "dec_topology_generation (decide p reg gpu numa ep wl) =
     (case snap_topology reg of Some t \<Rightarrow> top_generation t | None \<Rightarrow> gen_null)"
  by (simp_all add: decide_def decide_loop Let_def split: list.split)

lemma decide_unselected:
  assumes "allowed_nics p reg gpu numa = []"
  shows "dec_selected (decide p reg gpu numa ep wl) = id_null"
    "dec_evaluated (decide p reg gpu numa ep wl) = map (evaluate p reg gpu numa) (considered_nics p reg)"
    "dec_overall (decide p reg gpu numa ep wl) =
       (case map (evaluate p reg gpu numa) (considered_nics p reg) of
          [] \<Rightarrow> ResidencyEligibility.kNotFound | c # cs \<Rightarrow> worst_of (cr_eligibility c) (c # cs))"
  using assms by (simp_all add: decide_def decide_loop Let_def decision_default_def)

lemma worst_of_in: "worst_of w cs \<in> insert w (cr_eligibility ` set cs)"
  by (induction cs arbitrary: w) (fastforce)+

lemma worst_of_least: "x \<in> insert w (cr_eligibility ` set cs) \<Longrightarrow> severity (worst_of w cs) \<le> severity x"
proof (induction cs arbitrary: w x)
  case (Cons c cs)
  let ?v = "if severity (cr_eligibility c) < severity w then cr_eligibility c else w"
  have *: "severity (worst_of ?v cs) \<le> severity ?v" using Cons.IH [of ?v ?v] by simp
  from Cons.prems consider "x = w" | "x = cr_eligibility c" | "x \<in> cr_eligibility ` set cs" by auto
  then show ?case
  proof cases
    case 3
    then show ?thesis using Cons.IH [of x ?v] by simp
  qed (use * in \<open>simp_all split: if_splits\<close>)
qed simp

end
