(* ===== verification/Policy_Theorems.thy ===== *)
theory Policy_Theorems
  imports Residency_Selection Sample_States
begin

text \<open>
  The properties of residency decisions (\<^verbatim>\<open>src/policy.cpp\<close>) on the snapshots of reachable
  registries: fail-closed hard constraints, optimal and deterministic selection, independence
  of discovery order, and how decisions relate to generations and worker retirement.
\<close>

section \<open>Hard constraints\<close>

text \<open>
  What a hard check does not look at: the epoch, the other tables and the generation of the
  topology in a snapshot, and the generations of a NIC and of its capabilities.
\<close>

definition with_rest :: "RegistrySnapshot \<Rightarrow> TopologyGeneration \<Rightarrow> RegistrySnapshot \<Rightarrow> RegistrySnapshot" where
  "with_rest other g reg = reg\<lparr>snap_epoch := snap_epoch other, snap_nics := snap_nics other,
     snap_functions := snap_functions other, snap_ports := snap_ports other, snap_queues := snap_queues other,
     snap_attachments := snap_attachments other, snap_residencies := snap_residencies other,
     snap_topology := map_option (\<lambda>t. t\<lparr>top_generation := g\<rparr>) (snap_topology reg)\<rparr>"

definition with_generations :: "NicGeneration \<Rightarrow> CapabilityGeneration \<Rightarrow> NicRecord \<Rightarrow> NicRecord" where
  "with_generations g c nic = nic\<lparr>nic_generation := g, nic_capability := (nic_capability nic)\<lparr>cap_generation := c\<rparr>\<rparr>"

lemma locality_between_generation: "locality_between (t\<lparr>top_generation := g\<rparr>) a b = locality_between t a b"
proof -
  let ?t = "t\<lparr>top_generation := g\<rparr>"
  have q: "node_for_pci ?t = node_for_pci t" "root_complex_of ?t = root_complex_of t" "switch_of ?t = switch_of t"
    by (intro ext; simp add: node_for_pci_def root_complex_of_def switch_of_def)+
  have "same_root_complex ?t = same_root_complex t" "same_pcie_switch ?t = same_pcie_switch t"
    "same_numa_node ?t = same_numa_node t"
    by (intro ext; simp only: same_root_complex_def same_pcie_switch_def same_numa_node_def q)+
  with q show ?thesis by (simp only: locality_between_def)
qed

lemma with_rest_reads:
  "snap_topology (with_rest other g reg) = map_option (\<lambda>t. t\<lparr>top_generation := g\<rparr>) (snap_topology reg)"
  "target_gpu_rec (with_rest other g reg) gpu = target_gpu_rec reg gpu"
  by (simp_all add: with_rest_def target_gpu_rec_def snap_gpu_def)

lemma with_generations_reads:
  "nic_provenance (with_generations g c nic) = nic_provenance nic" "nic_id (with_generations g c nic) = nic_id nic"
  "nic_lifecycle (with_generations g c nic) = nic_lifecycle nic" "nic_health (with_generations g c nic) = nic_health nic"
  "nic_link_state (with_generations g c nic) = nic_link_state nic" "nic_freshness (with_generations g c nic) = nic_freshness nic"
  "nic_pci (with_generations g c nic) = nic_pci nic" "nic_numa_node (with_generations g c nic) = nic_numa_node nic"
  "cap_rdma (nic_capability (with_generations g c nic)) = cap_rdma (nic_capability nic)"
  "cap_sr_iov (nic_capability (with_generations g c nic)) = cap_sr_iov (nic_capability nic)"
  "cap_offload (nic_capability (with_generations g c nic)) = cap_offload (nic_capability nic)"
  "cap_local_memory (nic_capability (with_generations g c nic)) = cap_local_memory (nic_capability nic)"
  by (simp_all add: with_generations_def)

lemma locality_of_reads:
  "locality_of (with_rest other g reg) (with_generations h c nic) gpu rec numa = locality_of reg nic gpu rec numa"
proof -
  have "(case map_option (\<lambda>t. t\<lparr>top_generation := g\<rparr>) topo of Some t \<Rightarrow> locality_between t a b | None \<Rightarrow> x) =
      (case topo of Some t \<Rightarrow> locality_between t a b | None \<Rightarrow> x)" for topo a b x
    by (simp add: locality_between_generation split: option.split)
  then show ?thesis by (simp only: locality_of_def with_rest_reads with_generations_reads)
qed

lemma hard_check_reads:
  "hard_check p (with_rest other g reg) (with_generations h c nic) gpu numa = hard_check p reg nic gpu numa"
  by (simp only: hard_check_def locality_of_reads with_rest_reads with_generations_reads)

text \<open>
  C5: The chain of hard checks is exact: a NIC is allowed (fully or degraded) exactly when it
  meets every constraint that the code tests (admissible evidence, not excluded, valid id, usable
  lifecycle, required capability flags, health, link, freshness and locality), and a NIC that is
  not allowed always carries at least one named rejection reason, an allowed one none. There is
  no further constraint: the outcome is the same for any epoch, whatever the registry holds of
  other NICs, functions, ports, queues, attachments and residencies, and for any generation of
  the topology, the NIC and its capabilities. So currency and ownership, which the README
  lists among the hard constraints, are not tested here.
\<close>

theorem hard_check_fail_closed:
  "is_allowed (fst (hard_check p reg nic gpu numa)) = admissible p reg nic gpu numa \<and>
   (snd (hard_check p reg nic gpu numa) = []) = admissible p reg nic gpu numa \<and>
   hard_check p (with_rest other g reg) (with_generations h c nic) gpu numa = hard_check p reg nic gpu numa"
  using hard_check_admissible hard_check_reads by blast

section \<open>Selection\<close>

lemma reach_nics:
  assumes "reg_reach r"
  shows "m_inv (snap_nics (snapshot r))"
    "n \<in> set (considered_nics p (snapshot r)) \<Longrightarrow>
       snap_nic (snapshot r) (nic_id n) = Some n \<and> id_valid (nic_id n) \<and> nic_freshness n = 0"
proof -
  have inv: "nics_ok (reg_nics r)" using reg_inv_unfold(4) [OF reg_reach_inv [OF assms]] .
  then show "m_inv (snap_nics (snapshot r))" by (simp add: nics_ok_def snapshot_def)
  assume "n \<in> set (considered_nics p (snapshot r))"
  then obtain k where "(k, n) \<in> set (reg_nics r)"
    by (auto simp: considered_nics_def snapshot_def dest: in_set_takeD)
  then have "m_find (reg_nics r) k = Some n" using inv by (auto simp: nics_ok_def intro: m_in_find)
  with inv show "snap_nic (snapshot r) (nic_id n) = Some n \<and> id_valid (nic_id n) \<and> nic_freshness n = 0"
    by (auto simp: nics_ok_def snap_nic_def snapshot_def)
qed

lemma considered_ids:
  assumes "reg_reach r"
  shows "map nic_id (considered_nics p (snapshot r)) = map fst (take (max_candidates p) (reg_nics r))"
proof -
  have inv: "nics_ok (reg_nics r)" using reg_inv_unfold(4) [OF reg_reach_inv [OF assms]] .
  have "nic_id n = k" if "(k, n) \<in> set (reg_nics r)" for k n
    using inv m_in_find [of "reg_nics r" k n] that by (auto simp: nics_ok_def)
  then have "map (nic_id \<circ> snd) (take m (reg_nics r)) = map fst (take m (reg_nics r))" for m
    by (auto dest: in_set_takeD)
  then show ?thesis by (simp add: considered_nics_def snapshot_def)
qed

lemma considered_distinct:
  assumes "reg_reach r"
  shows "distinct (map nic_id (considered_nics p (snapshot r)))"
proof -
  have "m_inv (reg_nics r)" using reach_nics(1) [OF assms] by (simp add: snapshot_def)
  then have "distinct (map fst (reg_nics r))" by (rule m_inv_distinct)
  then show ?thesis unfolding considered_ids [OF assms] by (metis distinct_take take_map)
qed

lemma decide_reach_best:
  assumes "reg_reach r" "allowed_nics p (snapshot r) gpu numa \<noteq> []"
  obtains n where "n \<in> set (allowed_nics p (snapshot r) gpu numa)"
    "dec_selected (decide p (snapshot r) gpu numa ep wl) = nic_id n"
    "dec_overall (decide p (snapshot r) gpu numa ep wl) = fst (hard_check p (snapshot r) n gpu numa)"
    "dec_nic_generation (decide p (snapshot r) gpu numa ep wl) = nic_generation n"
    "m_find (reg_nics r) (nic_id n) = Some n"
    "\<And>m. m \<in> set (allowed_nics p (snapshot r) gpu numa) \<Longrightarrow> preferred p (snapshot r) gpu numa n m"
proof -
  from decide_best [OF assms(2)] obtain n rest where n: "n \<in> set (allowed_nics p (snapshot r) gpu numa)"
    "\<And>m. m \<in> set (allowed_nics p (snapshot r) gpu numa) \<Longrightarrow> preferred p (snapshot r) gpu numa n m"
    "std_sort candidate_less (map (evaluate p (snapshot r) gpu numa) (allowed_nics p (snapshot r) gpu numa)) =
       evaluate p (snapshot r) gpu numa n # rest" by metis
  have s: "snap_nic (snapshot r) (nic_id n) = Some n"
    using reach_nics(2) [OF assms(1)] n(1) by (auto simp: allowed_nics_def)
  show thesis
    by (rule that [OF n(1) _ _ _ _ n(2)])
      (use s decide_selected [OF n(3)] in \<open>simp_all add: snap_nic_def snapshot_def\<close>)
qed

text \<open>
  C6: On the snapshot of a reachable registry, when some considered NIC is admissible, the
  decision selects an admissible NIC that no other admissible NIC beats on (rank, id), reports
  that NIC's eligibility as the overall result, and records the NIC's current generation.
\<close>

theorem decide_selects_best:
  assumes "reg_reach r" "allowed_nics p (snapshot r) gpu numa \<noteq> []"
  shows "\<exists>n \<in> set (allowed_nics p (snapshot r) gpu numa).
    dec_selected (decide p (snapshot r) gpu numa ep wl) = nic_id n \<and>
    dec_overall (decide p (snapshot r) gpu numa ep wl) = fst (hard_check p (snapshot r) n gpu numa) \<and>
    dec_nic_generation (decide p (snapshot r) gpu numa ep wl) = nic_generation n \<and>
    m_find (reg_nics r) (nic_id n) = Some n \<and>
    (\<forall>m \<in> set (allowed_nics p (snapshot r) gpu numa). preferred p (snapshot r) gpu numa n m)"
proof -
  obtain n where n: "n \<in> set (allowed_nics p (snapshot r) gpu numa)"
    "dec_selected (decide p (snapshot r) gpu numa ep wl) = nic_id n"
    "dec_overall (decide p (snapshot r) gpu numa ep wl) = fst (hard_check p (snapshot r) n gpu numa)"
    "dec_nic_generation (decide p (snapshot r) gpu numa ep wl) = nic_generation n"
    "m_find (reg_nics r) (nic_id n) = Some n"
    "\<And>m. m \<in> set (allowed_nics p (snapshot r) gpu numa) \<Longrightarrow> preferred p (snapshot r) gpu numa n m"
    using decide_reach_best [OF assms, of ep wl] by metis
  then show ?thesis by (intro bexI [of _ n]) auto
qed

lemma sample_considered:
  "considered_nics policy_default (snapshot sample_registry) = [sample_nic 3 1, sample_nic 5 2]"
  by (simp add: considered_nics_def snapshot_def sample_registry_eq policy_default_def)

lemma sample_allowed:
  "allowed_nics policy_default (snapshot sample_registry) id_null id_null = [sample_nic 3 1, sample_nic 5 2]"
  unfolding allowed_nics_def sample_considered
  by (simp add: admissible_def usable_lifecycle_def capable_def local_enough_def Let_def
      policy_default_def sample_nic_def nic_default_def)

theorem decide_selects_best_witness:
  "\<exists>n \<in> {sample_nic 3 1, sample_nic 5 2}.
     dec_selected (decide policy_default (snapshot sample_registry) id_null id_null id_null id_null) = nic_id n"
  using decide_selects_best [OF sample_registry_reach, of policy_default id_null id_null]
  by (auto simp: sample_allowed)

text \<open>
  When no considered NIC is admissible nothing is selected, no candidate is listed, and the
  overall result is NOT_FOUND for an empty registry and otherwise the eligibility of lowest
  severity rank (the most severe one) among the considered NICs.
\<close>

theorem decide_none_reports_worst:
  assumes "allowed_nics p reg gpu numa = []"
  shows "\<not> id_valid (dec_selected (decide p reg gpu numa ep wl)) \<and>
    dec_candidates (decide p reg gpu numa ep wl) = [] \<and>
    (if considered_nics p reg = []
     then dec_overall (decide p reg gpu numa ep wl) = ResidencyEligibility.kNotFound
     else dec_overall (decide p reg gpu numa ep wl) \<in>
            (\<lambda>n. fst (hard_check p reg n gpu numa)) ` set (considered_nics p reg) \<and>
          (\<forall>n \<in> set (considered_nics p reg).
             severity (dec_overall (decide p reg gpu numa ep wl)) \<le> severity (fst (hard_check p reg n gpu numa))))"
proof (cases "considered_nics p reg")
  case Nil
  with assms show ?thesis by (simp add: decide_unselected decide_frame)
next
  case (Cons n ns)
  let ?es = "map (evaluate p reg gpu numa) (n # ns)"
  have o: "dec_overall (decide p reg gpu numa ep wl) = worst_of (cr_eligibility (hd ?es)) ?es"
    using decide_unselected(3) [OF assms] by (simp add: Cons)
  have "cr_eligibility ` set ?es = (\<lambda>m. fst (hard_check p reg m gpu numa)) ` set (n # ns)"
    by (simp only: set_map image_image evaluate_fields)
  then have i: "insert (cr_eligibility (hd ?es)) (cr_eligibility ` set ?es) =
      (\<lambda>m. fst (hard_check p reg m gpu numa)) ` set (n # ns)" by auto
  show ?thesis
    using worst_of_in [of "cr_eligibility (hd ?es)" ?es] worst_of_least [of _ "cr_eligibility (hd ?es)" ?es]
    unfolding i o [symmetric] Cons by (simp add: decide_unselected decide_frame assms)
qed

theorem decide_none_reports_worst_witness:
  "dec_overall (decide policy_default (snapshot (empty_registry 7)) id_null id_null id_null id_null)
     = ResidencyEligibility.kNotFound"
proof -
  have "considered_nics policy_default (snapshot (empty_registry 7)) = []"
    by (simp add: considered_nics_def snapshot_def empty_registry_def)
  then show ?thesis
    using decide_none_reports_worst [of policy_default "snapshot (empty_registry 7)" id_null id_null]
    by (simp add: allowed_nics_def)
qed

text \<open>
  The decision reports on every considered NIC exactly once, in id order, and marks exactly
  one of the reports as selected when a NIC is selected and none otherwise.
\<close>

theorem decide_marks_one:
  assumes "reg_reach r"
  shows "map cr_nic (dec_evaluated (decide p (snapshot r) gpu numa ep wl)) =
      map fst (take (max_candidates p) (reg_nics r)) \<and>
    map cr_nic (filter cr_selected (dec_evaluated (decide p (snapshot r) gpu numa ep wl))) =
      (if id_valid (dec_selected (decide p (snapshot r) gpu numa ep wl))
       then [dec_selected (decide p (snapshot r) gpu numa ep wl)] else [])"
proof (cases "allowed_nics p (snapshot r) gpu numa = []")
  case True
  then show ?thesis
    by (simp add: decide_unselected comp_def considered_ids [OF assms, symmetric] filter_empty_conv)
next
  case False
  let ?C = "considered_nics p (snapshot r)" and ?ev = "evaluate p (snapshot r) gpu numa"
  from decide_best [OF False] obtain n rest where n: "n \<in> set (allowed_nics p (snapshot r) gpu numa)"
    "std_sort candidate_less (map ?ev (allowed_nics p (snapshot r) gpu numa)) = ?ev n # rest" by metis
  then have nC: "n \<in> set ?C" by (simp add: allowed_nics_def)
  have ev: "map cr_nic (map (mark_selected (?ev n)) (map ?ev C)) = map nic_id C" for C
    by (simp add: comp_def mark_selected_def)
  have sel: "map cr_nic (filter cr_selected (map (mark_selected (?ev n)) (map ?ev C))) =
      filter (\<lambda>i. i = nic_id n) (map nic_id C)" for C
    by (induction C) (simp_all add: mark_selected_def)
  have "filter (\<lambda>i. i = x) xs = [x]" if "distinct xs" "x \<in> set xs" for x and xs :: "NicId list"
    using that by (induction xs) (auto simp: filter_empty_conv)
  with considered_distinct [OF assms] nC have "filter (\<lambda>i. i = nic_id n) (map nic_id ?C) = [nic_id n]"
    by simp
  moreover have "id_valid (nic_id n)" using reach_nics(2) [OF assms nC] by simp
  ultimately show ?thesis
    unfolding decide_selected(1,3) [OF n(2)] ev sel by (simp add: considered_ids [OF assms])
qed

theorem decide_marks_one_witness:
  "map cr_nic (dec_evaluated (decide policy_default (snapshot sample_registry) id_null id_null id_null id_null))
     = [Id 3, Id 5]"
  using decide_marks_one [OF sample_registry_reach, of policy_default]
  by (simp add: sample_registry_eq policy_default_def)

section \<open>Determinism\<close>

definition publish_all ::
    "NicRecord list \<Rightarrow> CoordinatorEpoch \<Rightarrow> WorkerId \<Rightarrow> WorkerBootId \<Rightarrow> reg_call list" where
  "publish_all ns e w b = map (\<lambda>n. RegisterNic n e w b) ns"

abbreviation put_nics :: "NicRecord list \<Rightarrow> (NicId, NicRecord) smap \<Rightarrow> (NicId, NicRecord) smap" where
  "put_nics \<equiv> m_load nic_id (\<lambda>n. n\<lparr>nic_freshness := 0\<rparr>)"

text \<open>A batch of new NICs that fits into the registry.\<close>

definition fresh_batch :: "NicRecord list \<Rightarrow> NicRegistry \<Rightarrow> bool" where
  "fresh_batch ns r \<longleftrightarrow> distinct (map nic_id ns) \<and> m_size (reg_nics r) + length ns \<le> kMaxNics \<and>
     (\<forall>n \<in> set ns. id_valid (nic_id n) \<and> gen_valid (nic_generation n) \<and> m_find (reg_nics r) (nic_id n) = None)"

lemma EnsureAuthority_cong:
  "reg_epoch s = reg_epoch r \<Longrightarrow> reg_workers s = reg_workers r \<Longrightarrow>
     EnsureAuthority e w b s = EnsureAuthority e w b r"
  by (simp add: EnsureAuthority_def)

lemma register_fresh:
  assumes "EnsureAuthority e w b r = Inr ()" "id_valid (nic_id n)" "gen_valid (nic_generation n)"
    "m_find (reg_nics r) (nic_id n) = None" "m_size (reg_nics r) < kMaxNics"
  shows "snapshot (snd (register_nic n e w b r)) =
      (snapshot r)\<lparr>snap_nics := m_put (nic_id n) (n\<lparr>nic_freshness := 0\<rparr>) (reg_nics r)\<rparr>"
    "EnsureAuthority e w b (snd (register_nic n e w b r)) = Inr ()"
proof -
  show "snapshot (snd (register_nic n e w b r)) =
      (snapshot r)\<lparr>snap_nics := m_put (nic_id n) (n\<lparr>nic_freshness := 0\<rparr>) (reg_nics r)\<rparr>"
    using assms by (simp add: register_nic_def Let_def snapshot_def)
  show "EnsureAuthority e w b (snd (register_nic n e w b r)) = Inr ()"
    using assms(1) g_nic.keeps_authority [of n e w b r] EnsureAuthority_cong by metis
qed

lemma publish_all_snapshot:
  "EnsureAuthority e w b r = Inr () \<Longrightarrow> m_inv (reg_nics r) \<Longrightarrow> fresh_batch ns r \<Longrightarrow>
     snapshot (exec_calls (publish_all ns e w b) r) = (snapshot r)\<lparr>snap_nics := put_nics ns (reg_nics r)\<rparr>"
proof (induction ns arbitrary: r)
  case Nil
  then show ?case by (simp add: publish_all_def snapshot_def)
next
  case (Cons n ns)
  let ?s = "snd (register_nic n e w b r)"
  have pre: "id_valid (nic_id n)" "gen_valid (nic_generation n)" "m_find (reg_nics r) (nic_id n) = None"
    "m_size (reg_nics r) < kMaxNics"
    using Cons.prems(3) by (auto simp: fresh_batch_def)
  note step = register_fresh [OF Cons.prems(1) pre]
  have nics: "reg_nics ?s = m_put (nic_id n) (n\<lparr>nic_freshness := 0\<rparr>) (reg_nics r)"
    using arg_cong [OF step(1), of snap_nics] by (simp add: snapshot_def)
  have "fresh_batch ns ?s"
    using Cons.prems(2,3) by (auto simp: fresh_batch_def nics) (metis imageI)
  with Cons.IH [OF step(2)] Cons.prems(2)
  have "snapshot (exec_calls (publish_all ns e w b) ?s) =
      (snapshot ?s)\<lparr>snap_nics := put_nics ns (reg_nics ?s)\<rparr>" by (simp add: nics)
  then show ?case by (simp add: publish_all_def step(1) nics)
qed

text \<open>
  C20: The order in which a worker publishes newly discovered NICs never changes a decision: any
  two permutations of the same batch lead to the same decision, explanation included, for
  every policy and target.
\<close>

theorem discovery_order_irrelevant:
  assumes "reg_reach r" "EnsureAuthority e w b r = Inr ()" "fresh_batch ns r" "mset ms = mset ns"
  shows "decide p (snapshot (exec_calls (publish_all ns e w b) r)) gpu numa ep wl =
    decide p (snapshot (exec_calls (publish_all ms e w b) r)) gpu numa ep wl"
proof -
  have inv: "m_inv (reg_nics r)" using reach_nics(1) [OF assms(1)] by (simp add: snapshot_def)
  have "distinct (map nic_id ms) = distinct (map nic_id ns)"
    using assms(4) by (metis mset_eq_imp_distinct_iff mset_map)
  then have ms: "fresh_batch ms r"
    using assms(3) mset_eq_setD [OF assms(4)] mset_eq_length [OF assms(4)] by (simp add: fresh_batch_def)
  have "put_nics ns (reg_nics r) = put_nics ms (reg_nics r)"
    by (rule m_load_perm [OF _ assms(4) inv, symmetric]) (use assms(3) in \<open>simp add: fresh_batch_def\<close>)
  then show ?thesis
    by (simp add: publish_all_snapshot [OF assms(2) inv assms(3)] publish_all_snapshot [OF assms(2) inv ms])
qed

theorem discovery_order_irrelevant_witness:
  "decide policy_default (snapshot (exec_calls (publish_all [sample_nic 8 1, sample_nic 9 1] (Id 7) (Id 1) (Id 10))
      sample_registry)) id_null id_null id_null id_null =
   decide policy_default (snapshot (exec_calls (publish_all [sample_nic 9 1, sample_nic 8 1] (Id 7) (Id 1) (Id 10))
      sample_registry)) id_null id_null id_null id_null"
  by (rule discovery_order_irrelevant [OF sample_registry_reach sample_authority])
    (simp_all add: fresh_batch_def sample_registry_eq sample_nic_def m_size_def kMaxNics_def)

section \<open>Decisions and the state of the registry\<close>

text \<open>
  A decision is detectably out of date once its NIC advances: after
  \<^verbatim>\<open>advance_nic_generation\<close> on the selected NIC the registry holds a strictly larger generation
  than the one the decision recorded (unless the counter wraps).
\<close>

theorem decision_outdated_by_advance:
  assumes "reg_reach r" "allowed_nics p (snapshot r) gpu numa \<noteq> []"
    and d: "d = decide p (snapshot r) gpu numa ep wl"
    and adv: "advance_nic_generation (dec_selected d) e w b r = (Inr u, s)"
    and nowrap: "\<not> wrapping_call (AdvanceNic (dec_selected d) e w b) r"
  shows "\<exists>n. m_find (reg_nics s) (dec_selected d) = Some n \<and> dec_nic_generation d < nic_generation n"
proof -
  obtain n where
    n: "dec_selected d = nic_id n" "dec_nic_generation d = nic_generation n"
      "m_find (reg_nics r) (nic_id n) = Some n"
    using decide_reach_best [OF assms(1,2), of ep wl] unfolding d by metis
  from adv n(3) have "m_find (reg_nics s) (nic_id n) = Some (n\<lparr>nic_generation := gen_next (nic_generation n)\<rparr>)"
    unfolding n(1) by (auto simp: advance_nic_generation_def split: sum.splits)
  moreover have "gen_value (nic_generation n) \<noteq> - 1" using nowrap n(3) by (simp add: n(1))
  ultimately show ?thesis by (simp add: n(1,2) gen_next_less)
qed

lemma sample_decision:
  "dec_selected (decide policy_default (snapshot sample_registry) id_null id_null id_null id_null) \<in> {Id 3, Id 5}"
  using decide_reach_best [OF sample_registry_reach, of policy_default id_null id_null id_null id_null]
  by (force simp: sample_allowed sample_nic_def)

theorem decision_outdated_by_advance_witness:
  "let d = decide policy_default (snapshot sample_registry) id_null id_null id_null id_null;
       s = snd (advance_nic_generation (dec_selected d) (Id 7) (Id 1) (Id 10) sample_registry)
   in \<exists>n. m_find (reg_nics s) (dec_selected d) = Some n \<and> dec_nic_generation d < nic_generation n"
proof -
  let ?d = "decide policy_default (snapshot sample_registry) id_null id_null id_null id_null"
  have run: "advance_nic_generation i (Id 7) (Id 1) (Id 10) sample_registry =
      (Inr (), snd (advance_nic_generation i (Id 7) (Id 1) (Id 10) sample_registry)) \<and>
      \<not> wrapping_call (AdvanceNic i (Id 7) (Id 1) (Id 10)) sample_registry"
    if "i \<in> {Id 3, Id 5}" for i
    unfolding advance_nic_generation_def sample_authority
    using that by (auto simp: sample_registry_eq sample_nic_def)
  have "allowed_nics policy_default (snapshot sample_registry) id_null id_null \<noteq> []"
    by (simp add: sample_allowed)
  from decision_outdated_by_advance [OF sample_registry_reach this refl
      run [OF sample_decision, THEN conjunct1] run [OF sample_decision, THEN conjunct2]]
  show ?thesis by (simp add: Let_def)
qed



section \<open>Dead and bounded parameters\<close>

lemma local_memory_never: "\<not> local_memory (loc_factors (locality_of reg nic gpu g numa))"
  by (simp add: locality_of_def Let_def locality_between_def factors_default_def split: option.split)

lemma if_between: "l \<le> (0 :: int) \<Longrightarrow> 0 \<le> u \<Longrightarrow> l \<le> x \<Longrightarrow> x \<le> u \<Longrightarrow>
    l \<le> (if c then x else 0) \<and> (if c then x else 0) \<le> u"
  by simp

lemma cap_count_range: "0 \<le> cap_count c \<and> cap_count c \<le> 5"
  by (auto simp: cap_count_def of_bool_def)

text \<open>Every factor contributes its weight or nothing.\<close>

lemma rank_between:
  assumes "\<And>x. x \<in> {w_same_switch p, w_same_root p, w_same_numa p, w_accel p, w_cpu_local p} \<Longrightarrow> l x \<le> 0 \<and> 0 \<le> u x \<and> l x \<le> x \<and> x \<le> u x"
    and "lc \<le> w_cap p * cap_count (nic_capability nic)" "w_cap p * cap_count (nic_capability nic) \<le> uc"
  shows "l (w_same_switch p) + l (w_same_root p) + l (w_same_numa p) + l (w_accel p) + l (w_cpu_local p) + lc
      \<le> rank p reg nic gpu numa \<and>
    rank p reg nic gpu numa \<le>
      u (w_same_switch p) + u (w_same_root p) + u (w_same_numa p) + u (w_accel p) + u (w_cpu_local p) + uc"
proof -
  have i: "l x \<le> (if c then x else 0) \<and> (if c then x else 0) \<le> u x"
    if "x \<in> {w_same_switch p, w_same_root p, w_same_numa p, w_accel p, w_cpu_local p}" for c x
    using assms(1) [OF that] if_between by blast
  show ?thesis
    unfolding rank_def Let_def if_not_P [OF local_memory_never] add_0_right
    by (intro conjI add_mono) (use i assms(2,3) in blast)+
qed

text \<open>
  C22: With every weight between -B and B the rank of a NIC is between -10 B and 10 B, whatever
  the registry holds, so that weights up to 2^59 in size cannot overflow the 64-bit score; with
  the default weights it is between -125 and 0. The weight for local memory has no influence.
\<close>

theorem rank_bounded:
  assumes "\<bar>w_same_switch p\<bar> \<le> B" "\<bar>w_same_root p\<bar> \<le> B" "\<bar>w_same_numa p\<bar> \<le> B"
    "\<bar>w_accel p\<bar> \<le> B" "\<bar>w_cpu_local p\<bar> \<le> B" "\<bar>w_cap p\<bar> \<le> B"
  shows "\<bar>rank p reg nic gpu numa\<bar> \<le> 10 * B \<and>
    rank (p\<lparr>w_local_mem := x\<rparr>) reg nic gpu numa = rank p reg nic gpu numa \<and>
    - 125 \<le> rank policy_default reg nic gpu numa \<and> rank policy_default reg nic gpu numa \<le> 0"
proof -
  have "\<bar>w_cap p * cap_count (nic_capability nic)\<bar> \<le> B * 5"
    unfolding abs_mult using cap_count_range [of "nic_capability nic"] assms(6) by (intro mult_mono) auto
  then have c: "- (5 * B) \<le> w_cap p * cap_count (nic_capability nic)"
    "w_cap p * cap_count (nic_capability nic) \<le> 5 * B" by (simp_all add: abs_le_iff)
  have "- B \<le> 0 \<and> 0 \<le> B \<and> - B \<le> y \<and> y \<le> B"
    if "y \<in> {w_same_switch p, w_same_root p, w_same_numa p, w_accel p, w_cpu_local p}" for y
    using that assms(1-5) by auto
  from rank_between [of p "\<lambda>_. - B" "\<lambda>_. B", OF this c, of reg gpu numa]
  have "\<bar>rank p reg nic gpu numa\<bar> \<le> 10 * B" by (simp add: abs_le_iff)
  moreover have "- 125 \<le> rank policy_default reg nic gpu numa \<and> rank policy_default reg nic gpu numa \<le> 0"
  proof -
    have w: "w_same_switch policy_default = - 40" "w_same_root policy_default = - 20"
      "w_same_numa policy_default = - 10" "w_accel policy_default = - 50"
      "w_cpu_local policy_default = - 5" "w_cap policy_default = 0"
      by (simp_all add: policy_default_def)
    have "y \<le> 0 \<and> 0 \<le> (0::int) \<and> y \<le> y \<and> y \<le> 0"
      if "y \<in> {w_same_switch policy_default, w_same_root policy_default, w_same_numa policy_default,
        w_accel policy_default, w_cpu_local policy_default}" for y
      using that w by auto
    from rank_between [of policy_default "\<lambda>x. x" "\<lambda>_. 0" 0 nic 0 reg gpu numa, OF this]
    show ?thesis by (simp add: w)
  qed
  moreover have "rank (p\<lparr>w_local_mem := x\<rparr>) reg nic gpu numa = rank p reg nic gpu numa"
    by (simp only: rank_def Let_def if_not_P [OF local_memory_never]) simp
  ultimately show ?thesis by auto
qed

theorem rank_bounded_witness: "\<bar>rank policy_default (snapshot sample_registry) (sample_nic 3 1) id_null id_null\<bar> \<le> 500"
  using rank_bounded [of policy_default 50 "snapshot sample_registry" "sample_nic 3 1" id_null id_null 0]
  by (simp add: policy_default_def)

text \<open>
  The freshness limit has no effect on decisions over a reachable registry: the registry
  stores every NIC with freshness 0, so that no limit ever rejects one.
\<close>

theorem freshness_limit_ineffective:
  assumes "reg_reach r"
  shows "decide (p\<lparr>freshness_limit := l\<rparr>) (snapshot r) gpu numa ep wl = decide p (snapshot r) gpu numa ep wl"
proof -
  have ev: "evaluate (p\<lparr>freshness_limit := l\<rparr>) reg gpu numa n = evaluate p reg gpu numa n"
    if "nic_freshness n = 0" for reg n
  proof -
    have "\<not> x < nic_freshness n" for x using that by simp
    then have "hard_check (p\<lparr>freshness_limit := l\<rparr>) reg n gpu numa = hard_check p reg n gpu numa"
      by (simp add: hard_check_def cong: if_cong split del: if_split)
    moreover have "rank (p\<lparr>freshness_limit := l\<rparr>) reg n gpu numa = rank p reg n gpu numa"
      by (simp add: rank_def Let_def cong: if_cong)
    ultimately show ?thesis by (simp only: evaluate_def)
  qed
  have cl: "candidate_loop (p\<lparr>freshness_limit := l\<rparr>) reg gpu numa nics c es as cs =
      candidate_loop p reg gpu numa nics c es as cs" if "\<forall>(k, n) \<in> set nics. nic_freshness n = 0"
    for reg nics c es as cs
    using that by (induction nics arbitrary: c es as cs) (auto simp: ev Let_def)
  have inv: "nics_ok (reg_nics r)" using reg_inv_unfold(4) [OF reg_reach_inv [OF assms]] .
  then have "\<forall>(k, n) \<in> set (snap_nics (snapshot r)). nic_freshness n = 0"
    by (auto simp: nics_ok_def snapshot_def dest: m_in_find)
  from cl [OF this] show ?thesis by (simp add: decide_def)
qed

theorem freshness_limit_ineffective_witness:
  "decide (policy_default\<lparr>freshness_limit := 0\<rparr>) (snapshot sample_registry) id_null id_null id_null id_null
     = decide policy_default (snapshot sample_registry) id_null id_null id_null id_null"
  by (rule freshness_limit_ineffective [OF sample_registry_reach])

end
