(* ===== verification/Byte_Codec.thy ===== *)
theory Byte_Codec
  imports Enums
begin

unbundle bit_operations_syntax

text \<open>
  Bytes on the wire and on disk, shared by \<^verbatim>\<open>src/authority.cpp\<close> and \<^verbatim>\<open>src/persistence.cpp\<close>:
  little-endian integers, the bounds-checked reader (both files have one of the same shape,
  differing in the exception it raises), FNV-1a, and the locale \<open>codec\<close> that states what a
  writer and a reader promise each other.
\<close>

section \<open>Little-endian integers\<close>

text \<open>The loops \<^verbatim>\<open>for (i < n) push_back((v >> (8*i)) & 0xFF)\<close> and
  \<^verbatim>\<open>for (i < n) v |= byte(d[p+i]) << (8*i)\<close>.\<close>

definition le_put :: "nat \<Rightarrow> 'a::len word \<Rightarrow> string" where
  "le_put n v = map (\<lambda>i. of_byte (ucast (drop_bit (8 * i) v AND 0xFF))) [0..<n]"

fun le_get_loop :: "string \<Rightarrow> nat \<Rightarrow> nat list \<Rightarrow> 'a::len word \<Rightarrow> 'a word" where
  "le_get_loop d p [] v = v"
| "le_get_loop d p (i # is) v =
     le_get_loop d p is (v OR push_bit (8 * i) (ucast (to_byte (d ! (p + i)))))"

definition le_get :: "nat \<Rightarrow> string \<Rightarrow> nat \<Rightarrow> 'a::len word" where
  "le_get n d p = le_get_loop d p [0..<n] 0"

lemma length_le_put [simp]: "length (le_put n v) = n"
  by (simp add: le_put_def)

lemma le_get_loop_append: "le_get_loop d p (is @ js) v = le_get_loop d p js (le_get_loop d p is v)"
  by (induction "is" arbitrary: v) auto

lemma bit_byte: "bit (b :: u8) k \<Longrightarrow> k < 8"
  using bit_imp_le_length [of b k] by simp

lemma bit_le_get:
  "bit (le_get n d p :: 'a::len word) k \<longleftrightarrow>
     k < LENGTH('a) \<and> k div 8 < n \<and> bit (to_byte (d ! (p + k div 8))) (k mod 8)"
proof (induction n)
  case 0
  then show ?case by (simp add: le_get_def)
next
  case (Suc n)
  have step: "le_get (Suc n) d p = (le_get n d p OR push_bit (8 * n) (ucast (to_byte (d ! (p + n)))) :: 'a word)"
    by (simp add: le_get_def le_get_loop_append)
  have "bit (push_bit (8 * n) (ucast (to_byte (d ! (p + n)))) :: 'a word) k \<longleftrightarrow>
      k < LENGTH('a) \<and> k div 8 = n \<and> bit (to_byte (d ! (p + k div 8))) (k mod 8)"
  proof (cases "k div 8 = n")
    case True
    then have "k = 8 * n + k mod 8" by (metis mult_div_mod_eq)
    then have "8 * n \<le> k" "k - 8 * n = k mod 8" by simp_all
    with True show ?thesis by (auto simp: bit_simps)
  next
    case False
    then have "\<not> (8 * n \<le> k \<and> k - 8 * n < 8)" by linarith
    with False show ?thesis by (auto simp: bit_simps dest: bit_byte)
  qed
  with Suc.IH show ?case unfolding step by (auto simp: bit_simps less_Suc_eq)
qed

lemma to_byte_le_put:
  "i < n \<Longrightarrow> bit (to_byte (le_put n v ! i)) j \<longleftrightarrow> j < 8 \<and> bit v (8 * i + j)"
proof -
  have m: "(0xFF :: 'a word) = take_bit 8 (- 1)"
    by (simp add: take_bit_minus_one_eq_mask mask_eq_exp_minus_1)
  show "i < n \<Longrightarrow> bit (to_byte (le_put n v ! i)) j \<longleftrightarrow> j < 8 \<and> bit v (8 * i + j)"
    unfolding le_put_def by (auto simp: bit_simps m dest: bit_imp_le_length)
qed

lemma le_get_put:
  assumes "LENGTH('a) \<le> 8 * n"
  shows "le_get n (p @ le_put n (v :: 'a::len word) @ s) (length p) = v"
proof (rule bit_word_eqI)
  fix k assume k: "k < LENGTH('a)"
  then have d: "k div 8 < n" using assms by linarith
  have "(p @ le_put n v @ s) ! (length p + k div 8) = le_put n v ! (k div 8)"
    using d by (simp add: nth_append)
  with k d show "bit (le_get n (p @ le_put n v @ s) (length p) :: 'a word) k = bit v k"
    by (simp add: bit_le_get to_byte_le_put)
qed

lemma le_put_get:
  assumes "LENGTH('a) = 8 * n" "p + n \<le> length d"
  shows "le_put n (le_get n d p :: 'a::len word) = take n (drop p d)"
proof (rule nth_equalityI)
  fix i assume "i < length (le_put n (le_get n d p :: 'a word))"
  then have i: "i < n" by simp
  have "to_byte (le_put n (le_get n d p :: 'a word) ! i) = to_byte (d ! (p + i))"
  proof (rule bit_word_eqI)
    fix j assume "j < LENGTH(8)"
    then have "(8 * i + j) div 8 = i" "(8 * i + j) mod 8 = j" "8 * i + j < LENGTH('a)" "j < 8"
      using i assms(1) by auto
    with i show "bit (to_byte (le_put n (le_get n d p :: 'a word) ! i)) j = bit (to_byte (d ! (p + i))) j"
      by (simp add: to_byte_le_put bit_le_get)
  qed
  then have "of_byte (to_byte (le_put n (le_get n d p :: 'a word) ! i)) = of_byte (to_byte (d ! (p + i)))"
    by simp
  with i assms(2) show "le_put n (le_get n d p :: 'a word) ! i = take n (drop p d) ! i"
    by simp
qed (use assms(2) in simp)

section \<open>The bounds-checked reader\<close>

record Reader =
  rd_data :: string
  rd_pos :: nat

type_synonym 'a reader = "(Reader, ResidencyError, 'a) exop"

definition rd_open :: "string \<Rightarrow> Reader" where
  "rd_open d = \<lparr>rd_data = d, rd_pos = 0\<rparr>"

definition rd_remaining :: "Reader \<Rightarrow> nat" where
  "rd_remaining r = length (rd_data r) - rd_pos r"

text \<open>\<^verbatim>\<open>need(n)\<close> throws \<open>err\<close> when fewer than \<open>n\<close> bytes remain.\<close>

definition rd_need :: "ResidencyError \<Rightarrow> nat \<Rightarrow> unit reader" where
  "rd_need err n r = (if n > length (rd_data r) - rd_pos r then (Inl err, r) else (Inr (), r))"

definition rd_u8 :: "ResidencyError \<Rightarrow> u8 reader" where
  "rd_u8 err = ex_bind (rd_need err 1)
     (\<lambda>_ r. (Inr (to_byte (rd_data r ! rd_pos r)), r\<lparr>rd_pos := rd_pos r + 1\<rparr>))"

definition rd_u32 :: "ResidencyError \<Rightarrow> u32 reader" where
  "rd_u32 err = ex_bind (rd_need err 4)
     (\<lambda>_ r. (Inr (le_get 4 (rd_data r) (rd_pos r)), r\<lparr>rd_pos := rd_pos r + 4\<rparr>))"

definition rd_u64 :: "ResidencyError \<Rightarrow> u64 reader" where
  "rd_u64 err = ex_bind (rd_need err 8)
     (\<lambda>_ r. (Inr (le_get 8 (rd_data r) (rd_pos r)), r\<lparr>rd_pos := rd_pos r + 8\<rparr>))"

text \<open>\<^verbatim>\<open>need(n); s = d.substr(p, n); p += n\<close>\<close>

definition rd_substr :: "ResidencyError \<Rightarrow> nat \<Rightarrow> string reader" where
  "rd_substr err n = ex_bind (rd_need err n)
     (\<lambda>_ r. (Inr (take n (drop (rd_pos r) (rd_data r))), r\<lparr>rd_pos := rd_pos r + n\<rparr>))"

text \<open>A reader that has consumed \<open>p\<close> and still has \<open>s\<close> before it.\<close>

definition rd_at :: "string \<Rightarrow> string \<Rightarrow> Reader" where
  "rd_at p s = \<lparr>rd_data = p @ s, rd_pos = length p\<rparr>"

lemma rd_open_at: "rd_open d = rd_at [] d"
  by (simp add: rd_open_def rd_at_def)

lemma rd_remaining_at [simp]: "rd_remaining (rd_at p s) = length s"
  by (simp add: rd_remaining_def rd_at_def)

section \<open>What writers and readers promise each other\<close>

locale codec =
  fixes enc :: "'a \<Rightarrow> string" and dec :: "'b reader" and view :: "'a \<Rightarrow> 'b" and ok :: "'a \<Rightarrow> bool"
  assumes rt: "ok x \<Longrightarrow> dec (rd_at p (enc x @ s)) = (Inr (view x), rd_at (p @ enc x) s)"
begin

lemma rt_end: "ok x \<Longrightarrow> dec (rd_at p (enc x)) = (Inr (view x), rd_at (p @ enc x) [])"
  using rt [of x p "[]"] by simp

lemma rt_bind: "ok x \<Longrightarrow> ex_bind dec f (rd_at p (enc x @ s)) = f (view x) (rd_at (p @ enc x) s)"
  by (rule ex_bind_Inr) (rule rt)

lemma rt_bind_end: "ok x \<Longrightarrow> ex_bind dec f (rd_at p (enc x)) = f (view x) (rd_at (p @ enc x) [])"
  by (rule ex_bind_Inr) (rule rt_end)

text \<open>A counted sequence of items.\<close>

lemma rt_times:
  "\<forall>x \<in> set xs. ok x \<Longrightarrow> ex_times (length xs) dec (rd_at p (concat (map enc xs) @ s)) =
     (Inr (map view xs), rd_at (p @ concat (map enc xs)) s)"
proof (induction xs arbitrary: p)
  case (Cons x xs)
  then have "ex_times (length xs) dec (rd_at (p @ enc x) (concat (map enc xs) @ s)) =
      (Inr (map view xs), rd_at ((p @ enc x) @ concat (map enc xs)) s)" by simp
  with Cons.prems show ?case by (simp add: rt_bind ex_bind_Inr)
qed simp

lemma rt_times_bind:
  "\<forall>x \<in> set xs. ok x \<Longrightarrow> n = length xs \<Longrightarrow>
     ex_bind (ex_times n dec) f (rd_at p (concat (map enc xs) @ s)) =
       f (map view xs) (rd_at (p @ concat (map enc xs)) s)"
  by (simp, rule ex_bind_Inr, rule rt_times)

lemma rt_times_bind_end:
  "\<forall>x \<in> set xs. ok x \<Longrightarrow> n = length xs \<Longrightarrow>
     ex_bind (ex_times n dec) f (rd_at p (concat (map enc xs))) =
       f (map view xs) (rd_at (p @ concat (map enc xs)) [])"
  using rt_times_bind [of xs n f p "[]"] by simp

text \<open>Encodings can be told apart even when more bytes follow.\<close>

lemma enc_prefix_free:
  assumes "ok x" "ok y" "enc x @ s = enc y @ t"
  shows "view x = view y \<and> enc x = enc y \<and> s = t"
proof -
  have "(Inr (view x), rd_at (enc x) s) = (Inr (view y), rd_at (enc y) t)"
    using rt [OF assms(1), of "[]" s] rt [OF assms(2), of "[]" t] assms(3) by simp
  then show ?thesis using assms(3) by (auto simp: rd_at_def)
qed

end

interpretation c_u8: codec "\<lambda>v. [of_byte v]" "rd_u8 err" "\<lambda>v. v" "\<lambda>_. True" for err
  by unfold_locales (simp add: rd_u8_def rd_need_def ex_bind_def rd_at_def)

interpretation c_u32: codec "le_put 4" "rd_u32 err" "\<lambda>v. v" "\<lambda>_. True" for err
  by unfold_locales (simp add: rd_u32_def rd_need_def ex_bind_def rd_at_def le_get_put)

interpretation c_u64: codec "le_put 8" "rd_u64 err" "\<lambda>v. v" "\<lambda>_. True" for err
  by unfold_locales (simp add: rd_u64_def rd_need_def ex_bind_def rd_at_def le_get_put)

lemma rd_substr_at: "length x = n \<Longrightarrow> rd_substr err n (rd_at p (x @ s)) = (Inr x, rd_at (p @ x) s)"
  by (auto simp: rd_substr_def rd_need_def ex_bind_def rd_at_def)

lemma rd_substr_bind:
  "length x = n \<Longrightarrow> ex_bind (rd_substr err n) f (rd_at p (x @ s)) = f x (rd_at (p @ x) s)"
  by (rule ex_bind_Inr) (rule rd_substr_at)

lemma rd_substr_bind_end:
  "length x = n \<Longrightarrow> ex_bind (rd_substr err n) f (rd_at p x) = f x (rd_at (p @ x) [])"
  using rd_substr_bind [of x n err f p "[]"] by simp

text \<open>The same laws with a single byte written as a list cell.\<close>

lemma rd_u8_bind: "ex_bind (rd_u8 err) f (rd_at p (of_byte b # s)) = f b (rd_at (p @ [of_byte b]) s)"
  using c_u8.rt_bind [of err f p b s] by simp

lemmas [codec_rt] = c_u8.rt c_u32.rt c_u64.rt c_u32.rt_bind c_u64.rt_bind c_u8.rt_bind
  c_u32.rt_bind_end c_u64.rt_bind_end rd_u8_bind rd_substr_bind rd_substr_bind_end

section \<open>Readers never invent bytes\<close>

text \<open>What a successful read consumed is the encoding of what it returned.\<close>

lemma rd_u64_sound:
  assumes "rd_u64 err (rd_at p s) = (Inr v, r)"
  obtains t where "s = le_put 8 v @ t" "r = rd_at (p @ le_put 8 v) t"
proof -
  have n: "8 \<le> length s" and v: "v = le_get 8 (p @ s) (length p)"
    and r: "r = \<lparr>rd_data = p @ s, rd_pos = length p + 8\<rparr>"
    using assms by (auto simp: rd_u64_def rd_need_def ex_bind_def rd_at_def split: if_splits)
  have put: "le_put 8 v = take 8 s"
    unfolding v using n le_put_get [where 'a = 64, of 8 "length p" "p @ s"] by simp
  then have "s = le_put 8 v @ drop 8 s" by simp
  with r n put show thesis by (intro that [of "drop 8 s"]) (auto simp: rd_at_def)
qed

lemma rd_u32_sound:
  assumes "rd_u32 err (rd_at p s) = (Inr v, r)"
  obtains t where "s = le_put 4 v @ t" "r = rd_at (p @ le_put 4 v) t"
proof -
  have n: "4 \<le> length s" and v: "v = le_get 4 (p @ s) (length p)"
    and r: "r = \<lparr>rd_data = p @ s, rd_pos = length p + 4\<rparr>"
    using assms by (auto simp: rd_u32_def rd_need_def ex_bind_def rd_at_def split: if_splits)
  have put: "le_put 4 v = take 4 s"
    unfolding v using n le_put_get [where 'a = 32, of 4 "length p" "p @ s"] by simp
  then have "s = le_put 4 v @ drop 4 s" by simp
  with r n put show thesis by (intro that [of "drop 4 s"]) (auto simp: rd_at_def)
qed

lemma rd_substr_sound:
  assumes "rd_substr err n (rd_at p s) = (Inr x, r)"
  obtains t where "s = x @ t" "length x = n" "r = rd_at (p @ x) t"
proof -
  have n: "n \<le> length s" and x: "x = take n s" and r: "r = \<lparr>rd_data = p @ s, rd_pos = length p + n\<rparr>"
    using assms by (auto simp: rd_substr_def rd_need_def ex_bind_def rd_at_def split: if_splits)
  then show thesis by (intro that [of "drop n s"]) (auto simp: rd_at_def)
qed

section \<open>FNV-1a\<close>

fun fnv1a_loop :: "u64 \<Rightarrow> string \<Rightarrow> u64" where
  "fnv1a_loop h [] = h"
| "fnv1a_loop h (c # cs) = fnv1a_loop ((h XOR ucast (to_byte c)) * 0x100000001b3) cs"

definition fnv1a :: "string \<Rightarrow> u64" where
  "fnv1a d = fnv1a_loop 0xcbf29ce484222325 d"

definition fnv_step :: "'a::len word \<Rightarrow> char \<Rightarrow> 'a word" where
  "fnv_step h c = (h XOR ucast (to_byte c)) * 0x100000001b3"

lemma fnv1a_foldl: "fnv1a_loop h d = foldl fnv_step h d"
  by (induction d arbitrary: h) (simp_all add: fnv_step_def)

text \<open>The low half of the 64-bit hash is the same hash computed on 32 bits.\<close>

lemma ucast_fnv_step: "(ucast (fnv_step (h :: u64) c) :: u32) = fnv_step (ucast h) c"
proof -
  have "(ucast (x XOR y) :: u32) = ucast x XOR ucast y" for x y :: u64
    by (rule bit_word_eqI) (auto simp: bit_simps)
  moreover have "(ucast (ucast b :: u64) :: u32) = ucast b" for b :: u8
    by (rule bit_word_eqI) (auto simp: bit_simps dest: bit_byte)
  moreover have "(ucast (x * y) :: u32) = ucast x * ucast y" for x y :: u64
  proof -
    have "(word_of_int (uint x * uint y mod 2 ^ 64) :: u32) = word_of_int (uint x * uint y)"
      by (simp add: word_of_int_eq_iff take_bit_eq_mod mod_mod_cancel del: of_int_mult)
    then have "(word_of_int (uint (x * y)) :: u32) = word_of_int (uint x * uint y)"
      unfolding uint_word_ariths by simp
    then show ?thesis unfolding ucast_eq of_int_mult .
  qed
  ultimately show ?thesis by (simp add: fnv_step_def)
qed


lemma ucast_fnv: "(ucast (foldl fnv_step (h :: u64) d) :: u32) = foldl fnv_step (ucast h) d"
  by (induction d arbitrary: h) (simp_all add: ucast_fnv_step)

text \<open>What makes the checksum notice a change: every step is injective in the running hash
  and, separately, in the byte.\<close>

locale mixing =
  fixes step :: "'h \<Rightarrow> char \<Rightarrow> 'h"
  assumes step_state: "step h c = step h' c \<Longrightarrow> h = h'"
    and step_byte: "step h c = step h c' \<Longrightarrow> c = c'"
begin

lemma fold_state: "foldl step h d = foldl step h' d \<Longrightarrow> h = h'"
  by (induction d arbitrary: h h') (auto dest: step_state)

lemma one_byte_changes:
  assumes "i < length d" "c \<noteq> d ! i"
  shows "foldl step h (d[i := c]) \<noteq> foldl step h d"
proof
  assume eq: "foldl step h (d[i := c]) = foldl step h d"
  have "d[i := c] = take i d @ c # drop (Suc i) d" using assms(1) by (simp add: upd_conv_take_nth_drop)
  moreover have "d = take i d @ d ! i # drop (Suc i) d" using assms(1) by (simp add: id_take_nth_drop)
  ultimately have "step (foldl step h (take i d)) c = step (foldl step h (take i d)) (d ! i)"
    using eq fold_state by (metis foldl_Cons foldl_append)
  with assms(2) show False using step_byte by blast
qed

end

lemma odd_mult_cancel:
  fixes a b k i :: "'a::len word"
  assumes "k * i = 1" "a * k = b * k"
  shows "a = b"
proof -
  have "a * k * i = b * k * i" using assms(2) by simp
  then show ?thesis using assms(1) by (simp add: mult.assoc)
qed

lemma to_byte_inj: "to_byte a = to_byte b \<Longrightarrow> a = b"
  by (metis of_byte_to_byte)

lemma xor_cancel: "(a :: 'a::len word) XOR c = b XOR c \<Longrightarrow> a = b"
  by (metis xor.assoc xor_self_eq xor.right_neutral)

lemma xor_byte_inj:
  assumes "8 \<le> LENGTH('a)" "(h :: 'a::len word) XOR ucast (to_byte c) = h XOR ucast (to_byte c')"
  shows "c = c'"
proof -
  have "(ucast (to_byte c) :: 'a word) = ucast (to_byte c')"
    using assms(2) xor_cancel [of "ucast (to_byte c)" h "ucast (to_byte c')"] by (simp add: xor.commute)
  then have eq: "bit (ucast (to_byte c) :: 'a word) k = bit (ucast (to_byte c') :: 'a word) k" for k
    by simp
  have "to_byte c = to_byte c'"
  proof (rule bit_word_eqI)
    fix k assume "k < LENGTH(8)"
    with assms(1) eq [of k] show "bit (to_byte c) k = bit (to_byte c') k" by (simp add: bit_simps)
  qed
  then show ?thesis by (rule to_byte_inj)
qed

interpretation mix64: mixing "fnv_step :: u64 \<Rightarrow> char \<Rightarrow> u64"
proof
  have k: "(0x100000001b3 :: u64) * 0xce965057aff6957b = 1" by simp
  show "h = h'" if "fnv_step h c = fnv_step h' c" for h h' :: u64 and c
    by (rule xor_cancel [of h "ucast (to_byte c)"], rule odd_mult_cancel [OF k], fold fnv_step_def, rule that)
  show "c = c'" if "fnv_step h c = fnv_step h c'" for h :: u64 and c c'
    by (rule xor_byte_inj [of h], simp, rule odd_mult_cancel [OF k], fold fnv_step_def, rule that)
qed

interpretation mix32: mixing "fnv_step :: u32 \<Rightarrow> char \<Rightarrow> u32"
proof
  have k: "(0x100000001b3 :: u32) * 0xaff6957b = 1" by simp
  show "h = h'" if "fnv_step h c = fnv_step h' c" for h h' :: u32 and c
    by (rule xor_cancel [of h "ucast (to_byte c)"], rule odd_mult_cancel [OF k], fold fnv_step_def, rule that)
  show "c = c'" if "fnv_step h c = fnv_step h c'" for h :: u32 and c c'
    by (rule xor_byte_inj [of h], simp, rule odd_mult_cancel [OF k], fold fnv_step_def, rule that)
qed

lemma fnv1a_one_byte: "i < length d \<Longrightarrow> c \<noteq> d ! i \<Longrightarrow> fnv1a (d[i := c]) \<noteq> fnv1a d"
  unfolding fnv1a_def fnv1a_foldl by (rule mix64.one_byte_changes)

lemma fnv1a_low_one_byte:
  "i < length d \<Longrightarrow> c \<noteq> d ! i \<Longrightarrow> (ucast (fnv1a (d[i := c])) :: u32) \<noteq> ucast (fnv1a d)"
  unfolding fnv1a_def fnv1a_foldl ucast_fnv by (rule mix32.one_byte_changes)

end
