(* ===== verification/Frame_Codec.thy ===== *)
theory Frame_Codec
  imports Byte_Codec Domain_Records
begin

unbundle bit_operations_syntax

text \<open>
  The framed authority protocol of \<^verbatim>\<open>include/nicresidency/authority.hpp\<close> and
  \<^verbatim>\<open>src/authority.cpp\<close>: the frame codec with its checksum, and the payloads of the messages a
  worker sends. A buffer \<^verbatim>\<open>(data, n)\<close> is the string of its \<open>n\<close> bytes. \<^verbatim>\<open>try_decode\<close> returns
  \<open>Inr None\<close> when more bytes are needed, \<open>Inr (Some (type, payload, consumed))\<close> for a frame, and
  \<open>Inl\<close> the exception otherwise.
\<close>

section \<open>Frames\<close>

datatype ProtocolMessageType =
  kHello | kRegisterWorker | kPublishNic | kQueryResidency | kRetireResidency | kReady | kAck | kError

fun ProtocolMessageType_code :: "ProtocolMessageType \<Rightarrow> u8" where
  "ProtocolMessageType_code kHello = 1"
| "ProtocolMessageType_code kRegisterWorker = 2"
| "ProtocolMessageType_code kPublishNic = 3"
| "ProtocolMessageType_code kQueryResidency = 4"
| "ProtocolMessageType_code kRetireResidency = 5"
| "ProtocolMessageType_code kReady = 6"
| "ProtocolMessageType_code kAck = 7"
| "ProtocolMessageType_code kError = 8"

text \<open>The cast back, used only on bytes accepted by \<^verbatim>\<open>is_valid_type\<close>.\<close>

definition ProtocolMessageType_of :: "u8 \<Rightarrow> ProtocolMessageType" where
  "ProtocolMessageType_of t =
     (if t = 1 then kHello else if t = 2 then kRegisterWorker else if t = 3 then kPublishNic
      else if t = 4 then kQueryResidency else if t = 5 then kRetireResidency
      else if t = 6 then kReady else if t = 7 then kAck else kError)"

definition kMagic :: u32 where "kMagic = 0x4E495243"

definition kMaxFrame :: nat where "kMaxFrame = 65536"

definition kHeaderSize :: nat where "kHeaderSize = 13"

abbreviation protocol_error :: "string \<Rightarrow> ResidencyError" where
  "protocol_error m \<equiv> ResidencyError ErrorCode.kProtocolError m []"

definition put_u8 :: "string \<Rightarrow> u8 \<Rightarrow> string" where
  "put_u8 s v = s @ [of_byte v]"

definition put_u32 :: "string \<Rightarrow> u32 \<Rightarrow> string" where
  "put_u32 s v = s @ le_put 4 v"

definition put_u64 :: "string \<Rightarrow> u64 \<Rightarrow> string" where
  "put_u64 s v = s @ le_put 8 v"

definition put_str :: "string \<Rightarrow> string \<Rightarrow> ResidencyError + string" where
  "put_str s v =
     (if length v > 0xFFFF then Inl (protocol_error ''string field too large for frame'')
      else Inr (put_u32 s (word_of_nat (length v)) @ v))"

definition to_u32_le :: "string \<Rightarrow> nat \<Rightarrow> u32" where
  "to_u32_le d p =
     ucast (to_byte (d ! p)) OR push_bit 8 (ucast (to_byte (d ! (p + 1)))) OR
     push_bit 16 (ucast (to_byte (d ! (p + 2)))) OR push_bit 24 (ucast (to_byte (d ! (p + 3))))"

definition header_length :: "string \<Rightarrow> ResidencyError + u32" where
  "header_length d =
     (if length d < 8 then Inr 0
      else if to_u32_le d 0 \<noteq> kMagic then Inl (protocol_error ''bad frame magic'')
      else
        let len = to_u32_le d 4
        in if unat len < kHeaderSize \<or> unat len > kMaxFrame
           then Inl (protocol_error ''frame length out of bounds'')
           else Inr len)"

definition is_valid_type :: "u8 \<Rightarrow> bool" where
  "is_valid_type t \<longleftrightarrow> t \<ge> 1 \<and> t \<le> 8"

definition encode :: "ProtocolMessageType \<Rightarrow> string \<Rightarrow> ResidencyError + string" where
  "encode type payload =
     (if length payload + kHeaderSize > kMaxFrame then
        Inl (ResidencyError ErrorCode.kResourceLimit ''frame too large'' [])
      else
        let s1 = put_u32 [] kMagic;
            s2 = put_u32 s1 (word_of_nat (kHeaderSize + length payload));
            s3 = put_u8 s2 (ProtocolMessageType_code type);
            s4 = put_u32 s3 (ucast (fnv1a payload AND 0xFFFFFFFF))
        in Inr (s4 @ payload))"

definition try_decode :: "string \<Rightarrow> ResidencyError + (ProtocolMessageType \<times> string \<times> nat) option" where
  "try_decode d =
     (if length d < kHeaderSize then Inr None
      else (case header_length d of
          Inl err \<Rightarrow> Inl err
        | Inr len \<Rightarrow>
            if unat len > length d then Inr None
            else if \<not> is_valid_type (to_byte (d ! 8)) then
              Inl (protocol_error ''invalid protocol message type'')
            else
              let payload = take (unat len - kHeaderSize) (drop kHeaderSize d)
              in if (ucast (fnv1a payload AND 0xFFFFFFFF) :: u32) \<noteq> to_u32_le d 9
                 then Inl (protocol_error ''frame checksum mismatch'')
                 else Inr (Some (ProtocolMessageType_of (to_byte (d ! 8)), payload, unat len))))"

section \<open>Payloads\<close>

definition frame_truncated :: ResidencyError where
  "frame_truncated = protocol_error ''protocol payload truncated''"

definition R_str :: "string reader" where
  "R_str = ex_bind (rd_u32 frame_truncated) (\<lambda>n. rd_substr frame_truncated (unat n))"

definition payload_register_worker :: "WorkerId \<Rightarrow> WorkerBootId \<Rightarrow> CoordinatorEpoch \<Rightarrow> string" where
  "payload_register_worker w b e =
     put_u64 (put_u64 (put_u64 [] (id_value w)) (id_value b)) (id_value e)"

text \<open>The parsers return \<^verbatim>\<open>false\<close> (\<^term>\<open>None\<close>) on an exception and on left-over bytes.\<close>

definition parse_all :: "'a reader \<Rightarrow> string \<Rightarrow> 'a option" where
  "parse_all m p = (case m (rd_open p) of
     (Inl _, _) \<Rightarrow> None
   | (Inr x, r) \<Rightarrow> if rd_remaining r = 0 then Some x else None)"

definition parse_register_worker :: "string \<Rightarrow> (WorkerId \<times> WorkerBootId \<times> CoordinatorEpoch) option" where
  "parse_register_worker p = parse_all
     (ex_bind (rd_u64 frame_truncated) (\<lambda>w.
      ex_bind (rd_u64 frame_truncated) (\<lambda>b.
      ex_bind (rd_u64 frame_truncated) (\<lambda>e.
      ex_return (Id w, Id b, Id e))))) p"

definition payload_publish_nic ::
    "WorkerId \<Rightarrow> WorkerBootId \<Rightarrow> CoordinatorEpoch \<Rightarrow> NicRecord \<Rightarrow> ResidencyError + string" where
  "payload_publish_nic w b e nic =
     (let s1 = put_u64 (put_u64 (put_u64 [] (id_value w)) (id_value b)) (id_value e);
          s2 = put_u64 (put_u64 s1 (id_value (nic_id nic))) (gen_value (nic_generation nic));
          s3 = put_u32 s2 (pci_numeric (nic_pci nic));
          s4 = put_u64 s3 (id_value (nic_numa_node nic))
      in put_str s4 (nic_os_name nic))"

text \<open>\<open>nic\<close> is the record the caller passes in; the fields the message does not carry stay.\<close>

definition parse_publish_nic ::
    "string \<Rightarrow> NicRecord \<Rightarrow> (WorkerId \<times> WorkerBootId \<times> CoordinatorEpoch \<times> NicRecord) option" where
  "parse_publish_nic p nic = parse_all
     (ex_bind (rd_u64 frame_truncated) (\<lambda>w.
      ex_bind (rd_u64 frame_truncated) (\<lambda>b.
      ex_bind (rd_u64 frame_truncated) (\<lambda>e.
      ex_bind (rd_u64 frame_truncated) (\<lambda>i.
      ex_bind (rd_u64 frame_truncated) (\<lambda>g.
      ex_bind (rd_u32 frame_truncated) (\<lambda>bdf.
      ex_bind (rd_u64 frame_truncated) (\<lambda>numa.
      ex_bind R_str (\<lambda>os_name.
      ex_return (Id w, Id b, Id e, nic\<lparr>nic_id := Id i, nic_generation := Generation g,
        nic_pci := from_bdf (ucast (drop_bit 16 bdf)) (ucast (bdf AND 0xFFFF)),
        nic_numa_node := Id numa, nic_os_name := os_name,
        nic_provenance := mk_prov EvidenceKind.kReal [Source.kRdmaProvider],
        nic_lifecycle := LifecycleState.kAvailable, nic_freshness := 1\<rparr>))))))))) ) p"

section \<open>Facts about frames\<close>

lemma to_u32_le_get: "to_u32_le d p = le_get 4 d p"
  by (simp add: to_u32_le_def le_get_def upt_rec or.assoc numeral_3_eq_3)

lemma type_code_of [simp]: "ProtocolMessageType_of (ProtocolMessageType_code t) = t"
  by (cases t) (simp_all add: ProtocolMessageType_of_def)

lemma type_code_valid [simp]: "is_valid_type (ProtocolMessageType_code t)"
  by (cases t) (simp_all add: is_valid_type_def)

lemma type_of_code:
  assumes "is_valid_type t"
  shows "ProtocolMessageType_code (ProtocolMessageType_of t) = t"
proof -
  have "unat t \<in> set [1..<9]"
    using assms by (auto simp: is_valid_type_def word_le_nat_alt)
  then have "t \<in> {1, 2, 3, 4, 5, 6, 7, 8}"
    by (auto simp: upt_rec word_unat_eq_iff)
  then show ?thesis by (auto simp: ProtocolMessageType_of_def)
qed

lemma ucast_low: "(ucast (h AND 0xFFFFFFFF :: u64) :: u32) = ucast h"
proof -
  have m: "(0xFFFFFFFF :: u64) = mask 32" by (simp add: mask_eq_exp_minus_1)
  show ?thesis unfolding m by (rule bit_word_eqI) (auto simp: bit_simps)
qed

text \<open>The thirteen header bytes with given fields.\<close>

definition frame_header :: "u32 \<Rightarrow> u32 \<Rightarrow> u8 \<Rightarrow> u32 \<Rightarrow> string" where
  "frame_header m n t c = le_put 4 m @ le_put 4 n @ [of_byte t] @ le_put 4 c"

abbreviation frame_bytes :: "ProtocolMessageType \<Rightarrow> string \<Rightarrow> string" where
  "frame_bytes t p \<equiv> frame_header kMagic (word_of_nat (kHeaderSize + length p))
     (ProtocolMessageType_code t) (ucast (fnv1a p)) @ p"

lemma length_frame_header [simp]: "length (frame_header m n t c) = kHeaderSize"
  by (simp add: frame_header_def kHeaderSize_def)

lemma encode_eq:
  "encode t p = (if length p + kHeaderSize > kMaxFrame
     then Inl (ResidencyError ErrorCode.kResourceLimit ''frame too large'' []) else Inr (frame_bytes t p))"
  by (simp add: encode_def Let_def put_u32_def put_u8_def ucast_low frame_header_def)

text \<open>Reading the header fields of a buffer that starts with given fields.\<close>

lemma header_fields:
  "to_u32_le (frame_header m n t c @ rest) 0 = m" "to_u32_le (frame_header m n t c @ rest) 4 = n"
  "to_byte ((frame_header m n t c @ rest) ! 8) = t" "to_u32_le (frame_header m n t c @ rest) 9 = c"
  "drop kHeaderSize (frame_header m n t c @ rest) = rest"
proof -
  show "to_u32_le (frame_header m n t c @ rest) 0 = m"
    using le_get_put [of 4 "[]" m] by (simp add: to_u32_le_get frame_header_def)
  show "to_u32_le (frame_header m n t c @ rest) 4 = n"
    using le_get_put [of 4 "le_put 4 m" n] by (simp add: to_u32_le_get frame_header_def)
  show "to_byte ((frame_header m n t c @ rest) ! 8) = t" by (simp add: frame_header_def nth_append)
  show "to_u32_le (frame_header m n t c @ rest) 9 = c"
    using le_get_put [of 4 "le_put 4 m @ le_put 4 n @ [of_byte t]" c]
    by (simp add: to_u32_le_get frame_header_def)
  show "drop kHeaderSize (frame_header m n t c @ rest) = rest" by simp
qed

lemma header_split:
  assumes "kHeaderSize \<le> length d"
  shows "d = frame_header (to_u32_le d 0) (to_u32_le d 4) (to_byte (d ! 8)) (to_u32_le d 9) @
    drop kHeaderSize d"
proof -
  have l: "13 \<le> length d" using assms by (simp add: kHeaderSize_def)
  have g: "le_put 4 (to_u32_le d p) = take 4 (drop p d)" if "p + 4 \<le> length d" for p
    using le_put_get [where 'a = 32, of 4 p d] that by (simp add: to_u32_le_get)
  have 1: "take 4 (drop 0 d) @ drop 4 d = d" by simp
  have 2: "take 4 (drop 4 d) @ drop 8 d = drop 4 d"
    using append_take_drop_id [of 4 "drop 4 d"] by simp
  have 3: "[d ! 8] @ drop 9 d = drop 8 d" using l Cons_nth_drop_Suc [of 8 d] by simp
  have 4: "take 4 (drop 9 d) @ drop 13 d = drop 9 d"
    using append_take_drop_id [of 4 "drop 9 d"] by simp
  show ?thesis
    using g [of 0] g [of 4] g [of 9] l 1 2 3 4 by (simp add: kHeaderSize_def frame_header_def)
qed

lemma unat_frame_length:
  "n \<le> kMaxFrame \<Longrightarrow> unat (word_of_nat n :: u32) = n"
  by (simp add: kMaxFrame_def unsigned_of_nat take_bit_eq_mod)

end
