(* ===== verification/Frame_Theorems.thy ===== *)
theory Frame_Theorems
  imports Frame_Codec
begin

unbundle bit_operations_syntax

text \<open>
  The properties of the framed protocol: frames survive the trip, partial frames ask for more
  bytes, what is accepted is a genuine frame, a damaged payload byte is always noticed, and the
  message payloads parse back to what was sent.
\<close>

section \<open>Frames\<close>

lemma header_length_ok:
  assumes "kHeaderSize \<le> n" "n \<le> kMaxFrame"
  shows "header_length (frame_header kMagic (word_of_nat n) t c @ rest) = Inr (word_of_nat n)"
  using assms unat_frame_length [of n]
  by (simp add: header_length_def header_fields Let_def) (simp add: kHeaderSize_def)

lemma try_decode_fields:
  assumes "kHeaderSize \<le> n" "n \<le> kMaxFrame" "n \<le> kHeaderSize + length rest"
  shows "try_decode (frame_header kMagic (word_of_nat n) t c @ rest) =
    (if \<not> is_valid_type t then Inl (protocol_error ''invalid protocol message type'')
     else if ucast (fnv1a (take (n - kHeaderSize) rest)) \<noteq> c
     then Inl (protocol_error ''frame checksum mismatch'')
     else Inr (Some (ProtocolMessageType_of t, take (n - kHeaderSize) rest, n)))"
  using assms header_length_ok [OF assms(1,2), of t c rest] unat_frame_length [of n]
  by (simp add: try_decode_def header_fields Let_def ucast_low)

lemma try_decode_bytes:
  "length p + kHeaderSize \<le> kMaxFrame \<Longrightarrow>
     try_decode (frame_bytes t p @ rest) = Inr (Some (t, p, length (frame_bytes t p)))"
  using try_decode_fields [of "kHeaderSize + length p" "p @ rest"] by simp

text \<open>
  C10: Encoding fails exactly for payloads above the frame limit, and then raises
  RESOURCE_LIMIT; otherwise decoding the frame, followed by any further bytes, returns the
  message type, the payload and the length of the frame.
\<close>

theorem frame_roundtrip:
  "case encode t p of
     Inl err \<Rightarrow> length p + kHeaderSize > kMaxFrame \<and> err_code err = ErrorCode.kResourceLimit
   | Inr f \<Rightarrow> length p + kHeaderSize \<le> kMaxFrame \<and> try_decode (f @ rest) = Inr (Some (t, p, length f))"
proof (cases "length p + kHeaderSize > kMaxFrame")
  case True
  then show ?thesis by (simp add: encode_eq)
next
  case False
  then show ?thesis using try_decode_bytes [of p t rest] by (simp add: encode_eq)
qed

text \<open>
  A proper prefix of a frame is never mistaken for a frame and never rejected: the decoder
  asks for more bytes.
\<close>

theorem partial_frame_incomplete:
  assumes "encode t p = Inr f" "k < length f"
  shows "try_decode (take k f) = Inr None"
proof (cases "k < kHeaderSize")
  case True
  with assms(2) show ?thesis by (simp add: try_decode_def)
next
  case False
  have f: "f = frame_bytes t p" "length p + kHeaderSize \<le> kMaxFrame"
    using assms(1) by (auto simp: encode_eq split: if_splits)
  then have k: "take k f = frame_header kMagic (word_of_nat (kHeaderSize + length p))
      (ProtocolMessageType_code t) (ucast (fnv1a p)) @ take (k - kHeaderSize) p"
    using False by simp
  show ?thesis
    using False header_length_ok [of "kHeaderSize + length p"] f(2) assms(2) unfolding k
    by (simp add: try_decode_def unat_frame_length f(1) del: of_nat_add)
qed

theorem partial_frame_incomplete_witness:
  "try_decode (take 14 (frame_bytes kHello ''abc'')) = Inr None"
  by (rule partial_frame_incomplete [of kHello "''abc''"])
    (simp_all add: encode_eq kHeaderSize_def kMaxFrame_def)

text \<open>
  C23: Whatever the decoder accepts is a genuine frame: the consumed bytes are exactly the
  encoding of the type and payload it returns, and they lie within the buffer.
\<close>

theorem decoded_frame_genuine:
  assumes "try_decode d = Inr (Some (t, p, n))"
  shows "n \<le> length d \<and> encode t p = Inr (take n d)"
proof -
  have l: "kHeaderSize \<le> length d" using assms by (auto simp: try_decode_def split: if_splits)
  then have "header_length d = Inr (to_u32_le d 4) \<and> to_u32_le d 0 = kMagic \<and>
      kHeaderSize \<le> unat (to_u32_le d 4) \<and> unat (to_u32_le d 4) \<le> kMaxFrame"
    using assms
    by (auto simp: try_decode_def header_length_def Let_def kHeaderSize_def split: if_splits sum.splits)
  then have h: "header_length d = Inr (to_u32_le d 4)" "to_u32_le d 0 = kMagic"
    "kHeaderSize \<le> unat (to_u32_le d 4)" "unat (to_u32_le d 4) \<le> kMaxFrame" by blast+
  then have n: "n = unat (to_u32_le d 4)" "n \<le> length d"
    "p = take (n - kHeaderSize) (drop kHeaderSize d)" "is_valid_type (to_byte (d ! 8))"
    "t = ProtocolMessageType_of (to_byte (d ! 8))" "ucast (fnv1a p) = to_u32_le d 9"
    using assms l by (auto simp: try_decode_def Let_def ucast_low split: if_splits)
  have lp: "kHeaderSize + length p = n" using n(2,3) h(3) l by (simp add: n(1))
  have len: "(word_of_nat (kHeaderSize + length p) :: u32) = to_u32_le d 4"
    unfolding lp n(1) by simp
  have split: "take n d =
      frame_header (to_u32_le d 0) (to_u32_le d 4) (to_byte (d ! 8)) (to_u32_le d 9) @ p"
  proof -
    have "take n (A @ drop kHeaderSize d) = A @ p" if "length A = kHeaderSize" for A
      using that h(3) n(1,3) by simp
    then show ?thesis using header_split [OF l] by (metis length_frame_header)
  qed
  have "frame_bytes t p = take n d"
    unfolding split len n(6) h(2) n(5) type_of_code [OF n(4)] by simp
  moreover have "length p + kHeaderSize \<le> kMaxFrame" using lp h(4) n(1) by simp
  ultimately show ?thesis using n(2) by (simp add: encode_eq)
qed

theorem decoded_frame_genuine_witness:
  "encode kHello ''abc'' = Inr (take 16 (frame_bytes kHello ''abc'' @ ''xyz''))"
proof -
  have "try_decode (frame_bytes kHello ''abc'' @ ''xyz'') = Inr (Some (kHello, ''abc'', 16))"
    using try_decode_fields [of 16 "''abcxyz''" "ProtocolMessageType_code kHello" "ucast (fnv1a ''abc'')"]
    by (simp add: kHeaderSize_def kMaxFrame_def is_valid_type_def ProtocolMessageType_of_def)
  from decoded_frame_genuine [OF this] show ?thesis by simp
qed

text \<open>
  C24: Damage to any single payload byte of a frame is always detected: the decoder raises a
  checksum error, whatever the other bytes of the payload and of the buffer are.
\<close>

theorem damaged_payload_detected:
  assumes "encode t p = Inr f" "i < length p" "c \<noteq> p ! i"
  shows "try_decode (f[kHeaderSize + i := c] @ rest) = Inl (protocol_error ''frame checksum mismatch'')"
proof -
  have f: "f = frame_bytes t p" "length p + kHeaderSize \<le> kMaxFrame"
    using assms(1) by (auto simp: encode_eq split: if_splits)
  have "f[kHeaderSize + i := c] @ rest = frame_header kMagic (word_of_nat (kHeaderSize + length p))
      (ProtocolMessageType_code t) (ucast (fnv1a p)) @ p[i := c] @ rest"
    unfolding f(1) by (simp add: list_update_append)
  then show ?thesis
    using try_decode_fields [of "kHeaderSize + length p" "p[i := c] @ rest"] f(2)
      fnv1a_low_one_byte [OF assms(2,3)] by simp
qed

theorem damaged_payload_detected_witness:
  "try_decode ((frame_bytes kAck ''abc'')[14 := CHR ''x'']) = Inl (protocol_error ''frame checksum mismatch'')"
  using damaged_payload_detected [of kAck "''abc''" "frame_bytes kAck ''abc''" 1 "CHR ''x''" "[]"]
  by (simp add: encode_eq kHeaderSize_def kMaxFrame_def)

section \<open>Payloads\<close>

lemma rd_u64_bind_sound:
  assumes "ex_bind (rd_u64 err) f (rd_at p s) = (Inr x, r)"
  obtains v t where "s = le_put 8 v @ t" "f v (rd_at (p @ le_put 8 v) t) = (Inr x, r)"
  using assms by (auto simp: ex_bind_eq_Inr elim!: rd_u64_sound)

text \<open>
  The worker registration payload and its parser are inverse to each other: a byte string
  parses to given identities exactly when it is the payload built from them, so that nothing
  else (truncated or with trailing bytes) is accepted.
\<close>

theorem register_worker_payload_iff:
  "parse_register_worker p = Some (w, b, e) \<longleftrightarrow> p = payload_register_worker w b e"
proof
  assume "p = payload_register_worker w b e"
  then have "p = le_put 8 (id_value w) @ le_put 8 (id_value b) @ le_put 8 (id_value e)"
    by (simp add: payload_register_worker_def put_u64_def)
  then show "parse_register_worker p = Some (w, b, e)"
    by (simp add: parse_register_worker_def parse_all_def rd_open_at codec_rt)
next
  assume a: "parse_register_worker p = Some (w, b, e)"
  let ?m = "ex_bind (rd_u64 frame_truncated) (\<lambda>w. ex_bind (rd_u64 frame_truncated) (\<lambda>b.
      ex_bind (rd_u64 frame_truncated) (\<lambda>e. ex_return (Id w :: WorkerId, Id b :: WorkerBootId,
        Id e :: CoordinatorEpoch))))"
  obtain r where r: "?m (rd_at [] p) = (Inr (w, b, e), r)" "rd_remaining r = 0"
    using a by (auto simp: parse_register_worker_def parse_all_def rd_open_at
        split: prod.splits sum.splits if_splits)
  from r(1) obtain v1 v2 v3 t where "p = le_put 8 v1 @ le_put 8 v2 @ le_put 8 v3 @ t"
      "w = Id v1" "b = Id v2" "e = Id v3" "r = rd_at (le_put 8 v1 @ le_put 8 v2 @ le_put 8 v3) t"
    by (auto elim!: rd_u64_bind_sound)
  with r(2) show "p = payload_register_worker w b e"
    by (simp add: payload_register_worker_def put_u64_def)
qed

text \<open>The bytes of a NIC publication, and what a receiver makes of them.\<close>

definition publish_bytes :: "WorkerId \<Rightarrow> WorkerBootId \<Rightarrow> CoordinatorEpoch \<Rightarrow> NicRecord \<Rightarrow> string" where
  "publish_bytes w b e nic = le_put 8 (id_value w) @ le_put 8 (id_value b) @ le_put 8 (id_value e) @
     le_put 8 (id_value (nic_id nic)) @ le_put 8 (gen_value (nic_generation nic)) @
     le_put 4 (pci_numeric (nic_pci nic)) @ le_put 8 (id_value (nic_numa_node nic)) @
     le_put 4 (word_of_nat (length (nic_os_name nic)) :: u32) @ nic_os_name nic"

definition received_nic :: "NicRecord \<Rightarrow> NicRecord \<Rightarrow> NicRecord" where
  "received_nic nic nic0 = nic0\<lparr>nic_id := nic_id nic,
      nic_generation := nic_generation nic, nic_pci := nic_pci nic, nic_numa_node := nic_numa_node nic,
      nic_os_name := nic_os_name nic,
      nic_provenance := mk_prov EvidenceKind.kReal [Source.kRdmaProvider],
      nic_lifecycle := LifecycleState.kAvailable, nic_freshness := 1\<rparr>"

lemma payload_publish_nic_eq:
  "length (nic_os_name nic) \<le> 0xFFFF \<Longrightarrow> payload_publish_nic w b e nic = Inr (publish_bytes w b e nic)"
  by (simp add: payload_publish_nic_def put_str_def put_u64_def put_u32_def publish_bytes_def)

lemma parse_publish_bytes:
  assumes "pci_canonical (nic_pci nic)" "length (nic_os_name nic) \<le> 0xFFFF"
  shows "parse_publish_nic (publish_bytes w b e nic) nic0 = Some (w, b, e, received_nic nic nic0)"
proof -
  have "unat (word_of_nat (length (nic_os_name nic)) :: u32) = length (nic_os_name nic)"
    using assms(2) by (intro unat_frame_length) (simp add: kMaxFrame_def)
  then show ?thesis
    using from_bdf_numeric [OF assms(1)]
    by (simp add: parse_publish_nic_def parse_all_def rd_open_at publish_bytes_def received_nic_def R_str_def
        ex_bind_assoc codec_rt)
qed

text \<open>
  C25: A NIC publication survives the wire: for a NIC with a canonical PCI address and a name of
  at most 65535 bytes the payload can be built, and parsing it returns the sender's authority
  and the NIC's id, generation, address, NUMA node and name; the receiver labels the record
  REAL evidence from the RDMA provider, available, with freshness 1, and keeps its own values of
  all other fields.
\<close>

theorem publish_nic_roundtrip:
  assumes "pci_canonical (nic_pci nic)" "length (nic_os_name nic) \<le> 0xFFFF"
  shows "\<exists>p. payload_publish_nic w b e nic = Inr p \<and>
    parse_publish_nic p nic0 = Some (w, b, e, nic0\<lparr>nic_id := nic_id nic,
      nic_generation := nic_generation nic, nic_pci := nic_pci nic, nic_numa_node := nic_numa_node nic,
      nic_os_name := nic_os_name nic,
      nic_provenance := mk_prov EvidenceKind.kReal [Source.kRdmaProvider],
      nic_lifecycle := LifecycleState.kAvailable, nic_freshness := 1\<rparr>)"
  using payload_publish_nic_eq [OF assms(2), of w b e] parse_publish_bytes [OF assms, of w b e nic0]
  by (simp add: received_nic_def)

theorem publish_nic_roundtrip_witness:
  "\<exists>p. payload_publish_nic (Id 1) (Id 10) (Id 7) (nic_default\<lparr>nic_id := Id 3, nic_os_name := ''eth0''\<rparr>) = Inr p"
  using publish_nic_roundtrip [of "nic_default\<lparr>nic_id := Id 3, nic_os_name := ''eth0''\<rparr>" "Id 1" "Id 10" "Id 7"
      nic_default]
  by (auto simp: nic_default_def pci_default_def pci_canonical_def)

end
