(* ===== verification/Persistence_Codec.thy ===== *)
theory Persistence_Codec
  imports Byte_Codec Domain_Records
begin

unbundle bit_operations_syntax

text \<open>
  The durable state of \<^verbatim>\<open>include/nicresidency/persistence.hpp\<close> and its checked serialization in
  \<^verbatim>\<open>src/persistence.cpp\<close>. Writers append to a buffer, readers consume one. The reader of 16-bit
  values casts a plain \<^verbatim>\<open>char\<close> to \<^verbatim>\<open>uint16_t\<close>, and whether \<^verbatim>\<open>char\<close> is signed is up to the
  platform: it is the parameter \<open>cs\<close> of every reader that goes through it.
\<close>

section \<open>Durable state\<close>

record PersistedPolicy =
  pp_require_rdma :: bool
  pp_require_sriov :: bool
  pp_require_offload :: bool
  pp_require_local_memory :: bool
  pp_require_same_numa :: bool
  pp_require_same_root_complex :: bool
  pp_require_same_pcie_switch :: bool
  pp_require_ready :: bool
  pp_require_link_up :: bool
  pp_allow_synthetic :: bool
  pp_freshness_limit :: u64

record PersistentState =
  ps_format_version :: u32
  ps_epoch :: CoordinatorEpoch
  ps_nics :: "NicRecord list"
  ps_gpus :: "GpuRecord list"
  ps_policy :: PersistedPolicy
  ps_history :: "ResidencyRecord list"

definition kPersistenceFormatVersion :: u32 where "kPersistenceFormatVersion = 1"

definition kMaxPersistNics :: nat where "kMaxPersistNics = 4096"

definition kMaxPersistGpus :: nat where "kMaxPersistGpus = 1024"

definition kMaxHistory :: nat where "kMaxHistory = 8192"

abbreviation integrity_error :: "string \<Rightarrow> ResidencyError" where
  "integrity_error m \<equiv> ResidencyError ErrorCode.kIntegrityFailure m []"

abbreviation resource_error :: "string \<Rightarrow> ResidencyError" where
  "resource_error m \<equiv> ResidencyError ErrorCode.kResourceLimit m []"

section \<open>Writer\<close>

type_synonym writer = "(string, ResidencyError, unit) exop"

definition wr_u8 :: "u8 \<Rightarrow> writer" where
  "wr_u8 v buf = (Inr (), buf @ [of_byte v])"

definition wr_u16 :: "u16 \<Rightarrow> writer" where
  "wr_u16 v = ex_then (wr_u8 (ucast (v AND 0xFF))) (wr_u8 (ucast (drop_bit 8 v AND 0xFF)))"

definition wr_u32 :: "u32 \<Rightarrow> writer" where
  "wr_u32 v buf = (Inr (), buf @ le_put 4 v)"

definition wr_u64 :: "u64 \<Rightarrow> writer" where
  "wr_u64 v buf = (Inr (), buf @ le_put 8 v)"

definition wr_str :: "string \<Rightarrow> writer" where
  "wr_str s =
     (if length s > 0xFFFF then ex_throw (resource_error ''string too large to persist'')
      else ex_then (wr_u16 (word_of_nat (length s))) (\<lambda>buf. (Inr (), buf @ s)))"

definition write_provenance :: "Provenance \<Rightarrow> writer" where
  "write_provenance p =
     ex_then (wr_u8 (EvidenceKind_code (prov_kind p)))
     (ex_then (wr_u32 (word_of_nat (length (prov_sources p))))
       (ex_each (\<lambda>s. wr_u8 (Source_code s)) (prov_sources p)))"

text \<open>\<^verbatim>\<open>if (b) flags |= m\<close>\<close>

definition flag :: "bool \<Rightarrow> u32 \<Rightarrow> u32 \<Rightarrow> u32" where
  "flag b m flags = (if b then flags OR m else flags)"

definition cap_flags :: "CapabilitySet \<Rightarrow> u32" where
  "cap_flags c = flag (cap_accel_affinity c) 16 (flag (cap_local_memory c) 8
     (flag (cap_offload c) 4 (flag (cap_sr_iov c) 2 (flag (cap_rdma c) 1 0))))"

definition write_capability :: "CapabilitySet \<Rightarrow> writer" where
  "write_capability c =
     ex_then (wr_u64 (gen_value (cap_generation c)))
     (ex_then (wr_u32 (cap_flags c)) (write_provenance (cap_provenance c)))"

definition write_pci :: "PciAddress \<Rightarrow> writer" where
  "write_pci p = ex_then (wr_u16 (pci_segment p)) (ex_then (wr_u8 (pci_bus p))
     (ex_then (wr_u8 (pci_device p)) (wr_u8 (pci_function p))))"

definition write_nic :: "NicRecord \<Rightarrow> writer" where
  "write_nic n =
     ex_then (wr_u64 (id_value (nic_id n))) (ex_then (wr_u64 (gen_value (nic_generation n)))
     (ex_then (wr_str (nic_os_name n)) (ex_then (wr_str (nic_os_description n))
     (ex_then (write_pci (nic_pci n))
     (ex_then (wr_u16 (nic_vendor_id n)) (ex_then (wr_u16 (nic_device_id n))
     (ex_then (wr_u16 (nic_subsystem_vendor_id n)) (ex_then (wr_u16 (nic_subsystem_id n))
     (ex_then (wr_u8 (nic_revision n))
     (ex_then (wr_u8 (DeviceKind_code (nic_device_kind n)))
     (ex_then (wr_u8 (FunctionClass_code (nic_function_class n)))
     (ex_then (write_capability (nic_capability n))
     (ex_then (wr_u64 (id_value (nic_numa_node n)))
       (write_provenance (nic_provenance n)))))))))))))))"

definition write_gpu :: "GpuRecord \<Rightarrow> writer" where
  "write_gpu g =
     ex_then (wr_u64 (id_value (gpu_id g))) (ex_then (wr_u64 (gen_value (gpu_generation g)))
     (ex_then (wr_str (gpu_name g)) (ex_then (write_pci (gpu_pci g))
     (ex_then (wr_u64 (id_value (gpu_cuda_device g)))
     (ex_then (wr_u8 (if gpu_cuda_verified g then 1 else 0))
     (ex_then (wr_u64 (id_value (gpu_numa_node g))) (write_provenance (gpu_provenance g))))))))"

definition write_history :: "ResidencyRecord \<Rightarrow> writer" where
  "write_history r =
     ex_then (wr_u64 (id_value (res_id r))) (ex_then (wr_u64 (gen_value (res_generation r)))
     (ex_then (wr_u64 (id_value (res_nic r))) (ex_then (wr_u64 (id_value (res_function r)))
     (ex_then (wr_u64 (id_value (res_port r))) (ex_then (wr_u64 (id_value (res_queue r)))
     (ex_then (wr_u64 (id_value (res_target_gpu r))) (ex_then (wr_u64 (id_value (res_target_numa r)))
     (ex_then (wr_u64 (id_value (res_target_endpoint r)))
     (ex_then (wr_u8 (ResidencyState_code (res_state r)))
     (ex_then (wr_u64 (gen_value (res_topology_generation r)))
     (ex_then (wr_u8 (OwnershipState_code (res_ownership r)))
     (ex_then (wr_u64 (id_value (res_owner_worker r))) (ex_then (wr_u64 (id_value (res_owner_boot r)))
     (ex_then (wr_u64 (id_value (res_epoch r)))
     (ex_then (wr_u8 (LifecycleState_code (res_lifecycle r)))
       (wr_str (res_explanation r)))))))))))))))))"

definition policy_flags :: "PersistedPolicy \<Rightarrow> u32" where
  "policy_flags p =
     flag (pp_allow_synthetic p) 512 (flag (pp_require_link_up p) 256 (flag (pp_require_ready p) 128
     (flag (pp_require_same_pcie_switch p) 64 (flag (pp_require_same_root_complex p) 32
     (flag (pp_require_same_numa p) 16 (flag (pp_require_local_memory p) 8
     (flag (pp_require_offload p) 4 (flag (pp_require_sriov p) 2 (flag (pp_require_rdma p) 1 0)))))))))"

text \<open>The three comparators order by id.\<close>

definition nic_before :: "NicRecord \<Rightarrow> NicRecord \<Rightarrow> bool" where
  "nic_before a b \<longleftrightarrow> id_value (nic_id a) < id_value (nic_id b)"

definition gpu_before :: "GpuRecord \<Rightarrow> GpuRecord \<Rightarrow> bool" where
  "gpu_before a b \<longleftrightarrow> id_value (gpu_id a) < id_value (gpu_id b)"

definition res_before :: "ResidencyRecord \<Rightarrow> ResidencyRecord \<Rightarrow> bool" where
  "res_before a b \<longleftrightarrow> id_value (res_id a) < id_value (res_id b)"

definition write_nics :: "NicRecord list \<Rightarrow> writer" where
  "write_nics xs =
     (let nics = std_sort nic_before xs
      in if length nics > kMaxPersistNics then ex_throw (resource_error ''NIC count exceeds persistence bound'')
         else ex_then (wr_u32 (word_of_nat (length nics))) (ex_each write_nic nics))"

definition write_gpus :: "GpuRecord list \<Rightarrow> writer" where
  "write_gpus xs =
     (let gpus = std_sort gpu_before xs
      in if length gpus > kMaxPersistGpus then ex_throw (resource_error ''GPU count exceeds persistence bound'')
         else ex_then (wr_u32 (word_of_nat (length gpus))) (ex_each write_gpu gpus))"

definition write_histories :: "ResidencyRecord list \<Rightarrow> writer" where
  "write_histories xs =
     (let hist = std_sort res_before xs
      in if length hist > kMaxHistory then ex_throw (resource_error ''history exceeds persistence bound'')
         else ex_then (wr_u32 (word_of_nat (length hist))) (ex_each write_history hist))"

definition serialize :: "PersistentState \<Rightarrow> ResidencyError + string" where
  "serialize st =
     (case ex_then (wr_u32 (ps_format_version st)) (ex_then (wr_u64 (id_value (ps_epoch st)))
          (ex_then (wr_u32 (policy_flags (ps_policy st)))
          (ex_then (wr_u64 (pp_freshness_limit (ps_policy st)))
          (ex_then (write_nics (ps_nics st)) (ex_then (write_gpus (ps_gpus st))
            (write_histories (ps_history st))))))) [] of
        (Inl err, _) \<Rightarrow> Inl err
      | (Inr _, buf) \<Rightarrow> Inr buf)"

section \<open>Reader\<close>

definition stream_truncated :: ResidencyError where
  "stream_truncated = integrity_error ''truncated persistence stream''"

abbreviation g8 :: "u8 reader" where "g8 \<equiv> rd_u8 stream_truncated"

abbreviation g32 :: "u32 reader" where "g32 \<equiv> rd_u32 stream_truncated"

abbreviation g64 :: "u64 reader" where "g64 \<equiv> rd_u64 stream_truncated"

text \<open>\<^verbatim>\<open>static_cast<std::uint16_t>(char)\<close>\<close>

definition char_to_u16 :: "bool \<Rightarrow> char \<Rightarrow> u16" where
  "char_to_u16 cs c = (if cs then scast (to_byte c) else ucast (to_byte c))"

definition rd_u16 :: "bool \<Rightarrow> u16 reader" where
  "rd_u16 cs = ex_bind (rd_need stream_truncated 2)
     (\<lambda>_ r. (Inr (char_to_u16 cs (rd_data r ! rd_pos r) OR
                  push_bit 8 (ucast (to_byte (rd_data r ! (rd_pos r + 1))))),
             r\<lparr>rd_pos := rd_pos r + 2\<rparr>))"

definition rd_str :: "bool \<Rightarrow> string reader" where
  "rd_str cs = ex_bind (rd_u16 cs) (\<lambda>n. rd_substr stream_truncated (unat n))"

definition rd_at_end :: "Reader \<Rightarrow> bool" where
  "rd_at_end r \<longleftrightarrow> rd_pos r = length (rd_data r)"

definition read_source :: "Source reader" where
  "read_source = ex_bind g8 (\<lambda>s.
     if s > Source_code Source.kSyntheticFixture then ex_throw (integrity_error ''invalid provenance source'')
     else ex_return (Source_of s))"

definition read_provenance :: "Provenance reader" where
  "read_provenance = ex_bind g8 (\<lambda>k.
     if k > EvidenceKind_code EvidenceKind.kUnsupported then ex_throw (integrity_error ''invalid evidence kind'')
     else ex_bind g32 (\<lambda>n.
       if n > 64 then ex_throw (integrity_error ''provenance source count too large'')
       else ex_bind (ex_times (unat n) read_source) (\<lambda>srcs.
         ex_return (mk_prov (EvidenceKind_of k) srcs))))"

definition read_capability :: "CapabilitySet reader" where
  "read_capability = ex_bind g64 (\<lambda>g. ex_bind g32 (\<lambda>flags. ex_bind read_provenance (\<lambda>p.
     ex_return \<lparr>cap_generation = Generation g, cap_rdma = (flags AND 1 \<noteq> 0),
       cap_sr_iov = (flags AND 2 \<noteq> 0), cap_offload = (flags AND 4 \<noteq> 0),
       cap_local_memory = (flags AND 8 \<noteq> 0), cap_accel_affinity = (flags AND 16 \<noteq> 0),
       cap_provenance = p\<rparr>)))"

definition read_pci :: "bool \<Rightarrow> PciAddress reader" where
  "read_pci cs = ex_bind (rd_u16 cs) (\<lambda>seg. ex_bind g8 (\<lambda>bus. ex_bind g8 (\<lambda>dev. ex_bind g8 (\<lambda>fn.
     ex_return (mk_pci seg bus dev fn)))))"

definition read_nic :: "bool \<Rightarrow> NicRecord reader" where
  "read_nic cs =
     ex_bind g64 (\<lambda>i. ex_bind g64 (\<lambda>g. ex_bind (rd_str cs) (\<lambda>nm. ex_bind (rd_str cs) (\<lambda>ds.
     ex_bind (read_pci cs) (\<lambda>pci. ex_bind (rd_u16 cs) (\<lambda>v. ex_bind (rd_u16 cs) (\<lambda>d.
     ex_bind (rd_u16 cs) (\<lambda>sv. ex_bind (rd_u16 cs) (\<lambda>sd. ex_bind g8 (\<lambda>rev.
     ex_bind g8 (\<lambda>dk. ex_bind g8 (\<lambda>fc.
     if dk > DeviceKind_code DeviceKind.kUnsupported then ex_throw (integrity_error ''invalid device kind'')
     else if fc > FunctionClass_code FunctionClass.kUnknown then ex_throw (integrity_error ''invalid function class'')
     else ex_bind read_capability (\<lambda>c. ex_bind g64 (\<lambda>numa. ex_bind read_provenance (\<lambda>p.
     ex_return \<lparr>nic_id = Id i, nic_generation = Generation g, nic_os_name = nm, nic_os_description = ds,
       nic_pci = pci, nic_vendor_id = v, nic_device_id = d, nic_subsystem_vendor_id = sv,
       nic_subsystem_id = sd, nic_revision = rev, nic_device_kind = DeviceKind_of dk,
       nic_function_class = FunctionClass_of fc, nic_capability = c, nic_numa_node = Id numa,
       nic_link_state = LinkState.kUnknown, nic_health = HealthState.kUnknown,
       nic_lifecycle = LifecycleState.kRevalidationRequired, nic_provenance = p,
       nic_freshness = 0\<rparr>)))))))))))))))"

definition read_gpu :: "bool \<Rightarrow> GpuRecord reader" where
  "read_gpu cs =
     ex_bind g64 (\<lambda>i. ex_bind g64 (\<lambda>g. ex_bind (rd_str cs) (\<lambda>nm. ex_bind (read_pci cs) (\<lambda>pci.
     ex_bind g64 (\<lambda>dev. ex_bind g8 (\<lambda>ver. ex_bind g64 (\<lambda>numa. ex_bind read_provenance (\<lambda>p.
     ex_return \<lparr>gpu_id = Id i, gpu_generation = Generation g, gpu_name = nm, gpu_pci = pci,
       gpu_cuda_device = Id dev, gpu_cuda_verified = (ver \<noteq> 0), gpu_numa_node = Id numa,
       gpu_provenance = p, gpu_freshness = 0\<rparr>))))))))"

definition read_history :: "bool \<Rightarrow> ResidencyRecord reader" where
  "read_history cs =
     ex_bind g64 (\<lambda>i. ex_bind g64 (\<lambda>g. ex_bind g64 (\<lambda>nic. ex_bind g64 (\<lambda>fn. ex_bind g64 (\<lambda>port.
     ex_bind g64 (\<lambda>q. ex_bind g64 (\<lambda>gpu. ex_bind g64 (\<lambda>numa. ex_bind g64 (\<lambda>ep. ex_bind g8 (\<lambda>s.
     if s > ResidencyState_code ResidencyState.kRetired then ex_throw (integrity_error ''invalid residency state'')
     else ex_bind g64 (\<lambda>tg. ex_bind g8 (\<lambda>ow.
     if ow > OwnershipState_code OwnershipState.kUnknown then ex_throw (integrity_error ''invalid ownership'')
     else ex_bind g64 (\<lambda>w. ex_bind g64 (\<lambda>b. ex_bind g64 (\<lambda>e. ex_bind g8 (\<lambda>lc.
     if lc > LifecycleState_code LifecycleState.kRetired then ex_throw (integrity_error ''invalid lifecycle'')
     else ex_bind (rd_str cs) (\<lambda>ex.
     ex_return (res_default\<lparr>res_id := Id i, res_generation := Generation g, res_nic := Id nic,
       res_function := Id fn, res_port := Id port, res_queue := Id q, res_target_gpu := Id gpu,
       res_target_numa := Id numa, res_target_endpoint := Id ep, res_state := ResidencyState_of s,
       res_topology_generation := Generation tg, res_ownership := OwnershipState_of ow,
       res_owner_worker := Id w, res_owner_boot := Id b, res_epoch := Id e,
       res_lifecycle := LifecycleState_of lc, res_explanation := ex\<rparr>))))))))))))))))))"

text \<open>The two record loops; \<^verbatim>\<open>seen\<close> holds the ids of the records read so far.\<close>

fun read_nics :: "bool \<Rightarrow> nat \<Rightarrow> NicRecord list \<Rightarrow> NicRecord list reader" where
  "read_nics cs 0 acc = ex_return acc"
| "read_nics cs (Suc n) acc = ex_bind (read_nic cs) (\<lambda>x.
     if \<not> id_valid (nic_id x) then ex_throw (integrity_error ''persisted NIC has invalid id'')
     else if nic_id x \<in> set (map nic_id acc) then ex_throw (integrity_error ''duplicate persisted NIC id'')
     else read_nics cs n (acc @ [x]))"

fun read_gpus :: "bool \<Rightarrow> nat \<Rightarrow> GpuRecord list \<Rightarrow> GpuRecord list reader" where
  "read_gpus cs 0 acc = ex_return acc"
| "read_gpus cs (Suc n) acc = ex_bind (read_gpu cs) (\<lambda>x.
     if \<not> id_valid (gpu_id x) then ex_throw (integrity_error ''persisted GPU has invalid id'')
     else if gpu_id x \<in> set (map gpu_id acc) then ex_throw (integrity_error ''duplicate persisted GPU id'')
     else read_gpus cs n (acc @ [x]))"

definition policy_of_flags :: "u32 \<Rightarrow> u64 \<Rightarrow> PersistedPolicy" where
  "policy_of_flags pflag limit = \<lparr>pp_require_rdma = (pflag AND 1 \<noteq> 0),
     pp_require_sriov = (pflag AND 2 \<noteq> 0), pp_require_offload = (pflag AND 4 \<noteq> 0),
     pp_require_local_memory = (pflag AND 8 \<noteq> 0), pp_require_same_numa = (pflag AND 16 \<noteq> 0),
     pp_require_same_root_complex = (pflag AND 32 \<noteq> 0),
     pp_require_same_pcie_switch = (pflag AND 64 \<noteq> 0), pp_require_ready = (pflag AND 128 \<noteq> 0),
     pp_require_link_up = (pflag AND 256 \<noteq> 0), pp_allow_synthetic = (pflag AND 512 \<noteq> 0),
     pp_freshness_limit = limit\<rparr>"

definition read_state :: "bool \<Rightarrow> PersistentState reader" where
  "read_state cs =
     ex_bind g32 (\<lambda>ver.
     if ver > kPersistenceFormatVersion then
       ex_throw (ResidencyError ErrorCode.kUnsupported ''unsupported future persistence format''
         (dec_digits (unat ver)))
     else ex_bind g64 (\<lambda>epoch. ex_bind g32 (\<lambda>pflag. ex_bind g64 (\<lambda>limit. ex_bind g32 (\<lambda>nics.
     if unat nics > kMaxPersistNics then ex_throw (integrity_error ''NIC count too large'')
     else ex_bind (read_nics cs (unat nics) []) (\<lambda>ns. ex_bind g32 (\<lambda>gpus.
     if unat gpus > kMaxPersistGpus then ex_throw (integrity_error ''GPU count too large'')
     else ex_bind (read_gpus cs (unat gpus) []) (\<lambda>gs. ex_bind g32 (\<lambda>hist.
     if unat hist > kMaxHistory then ex_throw (integrity_error ''history too large'')
     else ex_bind (ex_times (unat hist) (read_history cs)) (\<lambda>hs.
     ex_return \<lparr>ps_format_version = ver, ps_epoch = Id epoch, ps_nics = ns, ps_gpus = gs,
       ps_policy = policy_of_flags pflag limit, ps_history = hs\<rparr>))))))))))"

definition deserialize :: "bool \<Rightarrow> string \<Rightarrow> ResidencyError + PersistentState" where
  "deserialize cs input =
     (case read_state cs (rd_open input) of
        (Inl err, _) \<Rightarrow> Inl err
      | (Inr st, r) \<Rightarrow>
          if \<not> rd_at_end r then Inl (integrity_error ''trailing garbage after persistence payload'')
          else Inr st)"

end
