(* ===== verification/Persistence_Roundtrip.thy ===== *)
theory Persistence_Roundtrip
  imports Persistence_Codec
begin

unbundle bit_operations_syntax

text \<open>
  What the serializer writes, byte by byte, and that the reader gives back the durable part of
  it: one instance of the contract \<open>codec\<close> per record, from 16-bit values up to whole states.
  With a signed \<^verbatim>\<open>char\<close> a 16-bit value survives only when bit 7 of it is clear
  (\<open>u16_safe\<close>), which the instances carry as a condition.
\<close>

section \<open>16-bit values and strings\<close>

definition u16_safe :: "bool \<Rightarrow> u16 \<Rightarrow> bool" where
  "u16_safe cs v \<longleftrightarrow> \<not> (cs \<and> bit v 7)"

lemma wr_u16_eq: "wr_u16 v buf = (Inr (), buf @ le_put 2 v)"
  by (simp add: wr_u16_def ex_then_def ex_bind_def wr_u8_def le_put_def upt_rec)

lemma char_to_u16_signed:
  "char_to_u16 True c = (if bit (to_byte c) 7 then 0xFF00 OR ucast (to_byte c) else ucast (to_byte c))"
proof -
  have h: "(0xFF00 :: u16) = push_bit 8 (mask 8)" by (simp add: mask_eq_exp_minus_1)
  have m: "min 7 k = (if k < 8 then k else (7 :: nat))" for k by auto
  show ?thesis unfolding char_to_u16_def h
    by (auto simp: bit_eq_iff bit_simps m split: if_splits dest: bit_byte)
qed

lemma le_get_2: "(ucast (to_byte (d ! p)) OR push_bit 8 (ucast (to_byte (d ! (p + 1)))) :: u16) = le_get 2 d p"
  by (simp add: le_get_def upt_rec)

lemma bit7_le_put: "bit (to_byte (le_put 2 (v :: u16) ! 0)) 7 = bit v 7"
  by (simp add: to_byte_le_put)

text \<open>The reader on any stored value, for both kinds of \<^verbatim>\<open>char\<close>.\<close>

lemma rd_u16_stored:
  "rd_u16 cs (rd_at p (le_put 2 v @ s)) =
     (Inr (if u16_safe cs v then v else 0xFF00 OR v), rd_at (p @ le_put 2 v) s)"
proof -
  let ?d = "p @ le_put 2 v @ s"
  have low: "?d ! length p = le_put 2 v ! 0" by (simp add: nth_append)
  have "char_to_u16 cs (?d ! length p) =
      (if u16_safe cs v then ucast (to_byte (?d ! length p)) else 0xFF00 OR ucast (to_byte (?d ! length p)))"
    using char_to_u16_signed [of "?d ! length p"] bit7_le_put [of v]
    by (cases cs) (auto simp: u16_safe_def low char_to_u16_def)
  then have "char_to_u16 cs (?d ! length p) OR push_bit 8 (ucast (to_byte (?d ! (length p + 1)))) =
      (if u16_safe cs v then le_get 2 ?d (length p) else 0xFF00 OR le_get 2 ?d (length p))"
    by (simp add: le_get_2 [symmetric] or.assoc)
  also have "le_get 2 ?d (length p) = v" by (rule le_get_put) simp
  finally show ?thesis
    by (simp add: rd_u16_def rd_need_def ex_bind_def rd_at_def)
qed

interpretation c_u16: codec "le_put 2" "rd_u16 cs" "\<lambda>v. v" "u16_safe cs" for cs
  by unfold_locales (simp add: rd_u16_stored)

definition enc_str :: "string \<Rightarrow> string" where
  "enc_str s = le_put 2 (word_of_nat (length s) :: u16) @ s"

definition str_safe :: "bool \<Rightarrow> string \<Rightarrow> bool" where
  "str_safe cs s \<longleftrightarrow> length s \<le> 0xFFFF \<and> u16_safe cs (word_of_nat (length s))"

lemma unat_u16_length: "n \<le> 0xFFFF \<Longrightarrow> unat (word_of_nat n :: u16) = n"
  by (simp add: unsigned_of_nat take_bit_eq_mod)

interpretation c_str: codec enc_str "rd_str cs" "\<lambda>s. s" "str_safe cs" for cs
  by unfold_locales
    (simp add: rd_str_def enc_str_def str_safe_def c_u16.rt_bind rd_substr_at unat_u16_length)

lemmas [codec_rt] = c_u16.rt_bind c_str.rt_bind c_str.rt c_str.rt_bind_end c_str.rt_end

section \<open>Provenance, capabilities and addresses\<close>

interpretation c_src: codec "\<lambda>s. [of_byte (Source_code s)]" read_source "\<lambda>s. s" "\<lambda>_. True"
proof
  fix x p s
  have "Source_code x \<le> Source_code Source.kSyntheticFixture" by (cases x) simp_all
  then show "read_source (rd_at p ([of_byte (Source_code x)] @ s)) =
      (Inr x, rd_at (p @ [of_byte (Source_code x)]) s)"
    by (simp add: read_source_def codec_rt Source_of_def src.decode_code not_less)
qed

definition enc_prov :: "Provenance \<Rightarrow> string" where
  "enc_prov p = of_byte (EvidenceKind_code (prov_kind p)) #
     le_put 4 (word_of_nat (length (prov_sources p)) :: u32) @
     map (\<lambda>s. of_byte (Source_code s)) (prov_sources p)"

lemma read_sources_bind:
  "ex_bind (ex_times (length ss) read_source) f (rd_at p (map (\<lambda>s. of_byte (Source_code s)) ss @ t)) =
     f ss (rd_at (p @ map (\<lambda>s. of_byte (Source_code s)) ss) t)"
  using c_src.rt_times_bind [of ss "length ss" f p t] by simp

interpretation c_prov: codec enc_prov read_provenance "\<lambda>p. p" "\<lambda>p. length (prov_sources p) \<le> 64"
proof
  fix x :: Provenance and p s assume n: "length (prov_sources x) \<le> 64"
  have k: "EvidenceKind_code (prov_kind x) \<le> EvidenceKind_code EvidenceKind.kUnsupported"
    by (cases "prov_kind x") simp_all
  have u: "unat (word_of_nat (length (prov_sources x)) :: u32) = length (prov_sources x)"
    using n by (simp add: unsigned_of_nat take_bit_eq_mod)
  then have "(word_of_nat (length (prov_sources x)) :: u32) \<le> 64"
    using n by (simp add: word_le_nat_alt)
  with n k u show "read_provenance (rd_at p (enc_prov x @ s)) = (Inr x, rd_at (p @ enc_prov x) s)"
    by (simp add: read_provenance_def enc_prov_def codec_rt read_sources_bind EvidenceKind_of_def
        ek.decode_code not_less)
qed

text \<open>Flag words: each bit is read back as it was written.\<close>

lemma flag_bits: "bit (flag b m f) k \<longleftrightarrow> bit f k \<or> b \<and> bit m k"
  by (simp add: flag_def bit_simps)

lemma and_pow_bit: "(f AND 2 ^ k :: u32) \<noteq> 0 \<longleftrightarrow> bit f k"
  by (simp add: and_exp_eq_0_iff_not_bit)

lemma and_const_bit:
  fixes f :: u32
  shows "f AND 1 \<noteq> 0 \<longleftrightarrow> bit f 0" "f AND 2 \<noteq> 0 \<longleftrightarrow> bit f 1" "f AND 4 \<noteq> 0 \<longleftrightarrow> bit f 2"
    "f AND 8 \<noteq> 0 \<longleftrightarrow> bit f 3" "f AND 16 \<noteq> 0 \<longleftrightarrow> bit f 4" "f AND 32 \<noteq> 0 \<longleftrightarrow> bit f 5"
    "f AND 64 \<noteq> 0 \<longleftrightarrow> bit f 6" "f AND 128 \<noteq> 0 \<longleftrightarrow> bit f 7" "f AND 256 \<noteq> 0 \<longleftrightarrow> bit f 8"
    "f AND 512 \<noteq> 0 \<longleftrightarrow> bit f 9"
  using and_pow_bit [of f 0] and_pow_bit [of f 1] and_pow_bit [of f 2] and_pow_bit [of f 3]
    and_pow_bit [of f 4] and_pow_bit [of f 5] and_pow_bit [of f 6] and_pow_bit [of f 7]
    and_pow_bit [of f 8] and_pow_bit [of f 9]
  by simp_all

lemma cap_flags_bits:
  "cap_flags c AND 1 \<noteq> 0 \<longleftrightarrow> cap_rdma c" "cap_flags c AND 2 \<noteq> 0 \<longleftrightarrow> cap_sr_iov c"
  "cap_flags c AND 4 \<noteq> 0 \<longleftrightarrow> cap_offload c" "cap_flags c AND 8 \<noteq> 0 \<longleftrightarrow> cap_local_memory c"
  "cap_flags c AND 16 \<noteq> 0 \<longleftrightarrow> cap_accel_affinity c"
  unfolding cap_flags_def and_const_bit flag_bits by simp_all

lemma policy_flags_bits:
  "policy_of_flags (policy_flags p) (pp_freshness_limit p) = p"
proof -
  have b: "policy_flags p AND 1 \<noteq> 0 \<longleftrightarrow> pp_require_rdma p"
    "policy_flags p AND 2 \<noteq> 0 \<longleftrightarrow> pp_require_sriov p"
    "policy_flags p AND 4 \<noteq> 0 \<longleftrightarrow> pp_require_offload p"
    "policy_flags p AND 8 \<noteq> 0 \<longleftrightarrow> pp_require_local_memory p"
    "policy_flags p AND 16 \<noteq> 0 \<longleftrightarrow> pp_require_same_numa p"
    "policy_flags p AND 32 \<noteq> 0 \<longleftrightarrow> pp_require_same_root_complex p"
    "policy_flags p AND 64 \<noteq> 0 \<longleftrightarrow> pp_require_same_pcie_switch p"
    "policy_flags p AND 128 \<noteq> 0 \<longleftrightarrow> pp_require_ready p"
    "policy_flags p AND 256 \<noteq> 0 \<longleftrightarrow> pp_require_link_up p"
    "policy_flags p AND 512 \<noteq> 0 \<longleftrightarrow> pp_allow_synthetic p"
    unfolding policy_flags_def and_const_bit flag_bits by simp_all
  show ?thesis unfolding policy_of_flags_def b by simp
qed

definition enc_cap :: "CapabilitySet \<Rightarrow> string" where
  "enc_cap c = le_put 8 (gen_value (cap_generation c)) @ le_put 4 (cap_flags c) @ enc_prov (cap_provenance c)"

interpretation c_cap: codec enc_cap read_capability "\<lambda>c. c" "\<lambda>c. length (prov_sources (cap_provenance c)) \<le> 64"
  by unfold_locales
    (simp add: read_capability_def enc_cap_def codec_rt c_prov.rt_bind cap_flags_bits)

definition enc_pci :: "PciAddress \<Rightarrow> string" where
  "enc_pci p = le_put 2 (pci_segment p) @ [of_byte (pci_bus p), of_byte (pci_device p), of_byte (pci_function p)]"

interpretation c_pci: codec enc_pci "read_pci cs" "\<lambda>p. p" "\<lambda>p. u16_safe cs (pci_segment p)" for cs
  by unfold_locales (simp add: read_pci_def enc_pci_def codec_rt)

lemmas [codec_rt] = c_prov.rt_bind c_prov.rt_bind_end c_cap.rt_bind c_pci.rt_bind

section \<open>Records\<close>

text \<open>The durable part of a NIC: dynamic evidence is reset.\<close>

definition nic_durable :: "NicRecord \<Rightarrow> NicRecord" where
  "nic_durable n = n\<lparr>nic_link_state := LinkState.kUnknown, nic_health := HealthState.kUnknown,
     nic_lifecycle := LifecycleState.kRevalidationRequired, nic_freshness := 0\<rparr>"

definition nic_storable :: "bool \<Rightarrow> NicRecord \<Rightarrow> bool" where
  "nic_storable cs n \<longleftrightarrow> str_safe cs (nic_os_name n) \<and> str_safe cs (nic_os_description n) \<and>
     u16_safe cs (pci_segment (nic_pci n)) \<and> u16_safe cs (nic_vendor_id n) \<and>
     u16_safe cs (nic_device_id n) \<and> u16_safe cs (nic_subsystem_vendor_id n) \<and>
     u16_safe cs (nic_subsystem_id n) \<and> length (prov_sources (nic_provenance n)) \<le> 64 \<and>
     length (prov_sources (cap_provenance (nic_capability n))) \<le> 64"

definition enc_nic :: "NicRecord \<Rightarrow> string" where
  "enc_nic n = le_put 8 (id_value (nic_id n)) @ le_put 8 (gen_value (nic_generation n)) @
     enc_str (nic_os_name n) @ enc_str (nic_os_description n) @ enc_pci (nic_pci n) @
     le_put 2 (nic_vendor_id n) @ le_put 2 (nic_device_id n) @ le_put 2 (nic_subsystem_vendor_id n) @
     le_put 2 (nic_subsystem_id n) @ of_byte (nic_revision n) # of_byte (DeviceKind_code (nic_device_kind n)) #
     of_byte (FunctionClass_code (nic_function_class n)) # enc_cap (nic_capability n) @
     le_put 8 (id_value (nic_numa_node n)) @ enc_prov (nic_provenance n)"

interpretation c_nic: codec enc_nic "read_nic cs" nic_durable "nic_storable cs" for cs
proof
  fix n :: NicRecord and p s assume ok: "nic_storable cs n"
  have "DeviceKind_code (nic_device_kind n) \<le> DeviceKind_code DeviceKind.kUnsupported"
    by (cases "nic_device_kind n") simp_all
  moreover have "FunctionClass_code (nic_function_class n) \<le> FunctionClass_code FunctionClass.kUnknown"
    by (cases "nic_function_class n") simp_all
  ultimately show "read_nic cs (rd_at p (enc_nic n @ s)) = (Inr (nic_durable n), rd_at (p @ enc_nic n) s)"
    using ok
    by (simp add: read_nic_def enc_nic_def nic_storable_def codec_rt DeviceKind_of_def dk.decode_code
        FunctionClass_of_def fc.decode_code not_less nic_durable_def del: DeviceKind_code.simps
        FunctionClass_code.simps)
qed

definition gpu_durable :: "GpuRecord \<Rightarrow> GpuRecord" where
  "gpu_durable g = g\<lparr>gpu_freshness := 0\<rparr>"

definition gpu_storable :: "bool \<Rightarrow> GpuRecord \<Rightarrow> bool" where
  "gpu_storable cs g \<longleftrightarrow> str_safe cs (gpu_name g) \<and> u16_safe cs (pci_segment (gpu_pci g)) \<and>
     length (prov_sources (gpu_provenance g)) \<le> 64"

definition enc_gpu :: "GpuRecord \<Rightarrow> string" where
  "enc_gpu g = le_put 8 (id_value (gpu_id g)) @ le_put 8 (gen_value (gpu_generation g)) @
     enc_str (gpu_name g) @ enc_pci (gpu_pci g) @ le_put 8 (id_value (gpu_cuda_device g)) @
     of_byte (if gpu_cuda_verified g then 1 else 0) # le_put 8 (id_value (gpu_numa_node g)) @
     enc_prov (gpu_provenance g)"

interpretation c_gpu: codec enc_gpu "read_gpu cs" gpu_durable "gpu_storable cs" for cs
  by unfold_locales (simp add: read_gpu_def enc_gpu_def gpu_storable_def codec_rt gpu_durable_def)

text \<open>The fields of a residency that are written to the history.\<close>

definition history_durable :: "ResidencyRecord \<Rightarrow> ResidencyRecord" where
  "history_durable r = res_default\<lparr>res_id := res_id r, res_generation := res_generation r,
     res_nic := res_nic r, res_function := res_function r, res_port := res_port r,
     res_queue := res_queue r, res_target_gpu := res_target_gpu r, res_target_numa := res_target_numa r,
     res_target_endpoint := res_target_endpoint r, res_state := res_state r,
     res_topology_generation := res_topology_generation r, res_ownership := res_ownership r,
     res_owner_worker := res_owner_worker r, res_owner_boot := res_owner_boot r,
     res_epoch := res_epoch r, res_lifecycle := res_lifecycle r, res_explanation := res_explanation r\<rparr>"

definition enc_history :: "ResidencyRecord \<Rightarrow> string" where
  "enc_history r = le_put 8 (id_value (res_id r)) @ le_put 8 (gen_value (res_generation r)) @
     le_put 8 (id_value (res_nic r)) @ le_put 8 (id_value (res_function r)) @
     le_put 8 (id_value (res_port r)) @ le_put 8 (id_value (res_queue r)) @
     le_put 8 (id_value (res_target_gpu r)) @ le_put 8 (id_value (res_target_numa r)) @
     le_put 8 (id_value (res_target_endpoint r)) @ of_byte (ResidencyState_code (res_state r)) #
     le_put 8 (gen_value (res_topology_generation r)) @ of_byte (OwnershipState_code (res_ownership r)) #
     le_put 8 (id_value (res_owner_worker r)) @ le_put 8 (id_value (res_owner_boot r)) @
     le_put 8 (id_value (res_epoch r)) @ of_byte (LifecycleState_code (res_lifecycle r)) #
     enc_str (res_explanation r)"

interpretation c_hist: codec enc_history "read_history cs" history_durable "\<lambda>r. str_safe cs (res_explanation r)" for cs
proof
  fix r :: ResidencyRecord and p s assume ok: "str_safe cs (res_explanation r)"
  have "ResidencyState_code (res_state r) \<le> ResidencyState_code ResidencyState.kRetired"
    by (cases "res_state r") simp_all
  moreover have "OwnershipState_code (res_ownership r) \<le> OwnershipState_code OwnershipState.kUnknown"
    by (cases "res_ownership r") simp_all
  moreover have "LifecycleState_code (res_lifecycle r) \<le> LifecycleState_code LifecycleState.kRetired"
    by (cases "res_lifecycle r") simp_all
  ultimately show "read_history cs (rd_at p (enc_history r @ s)) =
      (Inr (history_durable r), rd_at (p @ enc_history r) s)"
    using ok
    by (simp add: read_history_def enc_history_def codec_rt ResidencyState_of_def rs.decode_code
        OwnershipState_of_def os.decode_code LifecycleState_of_def ls.decode_code not_less
        history_durable_def del: ResidencyState_code.simps OwnershipState_code.simps
        LifecycleState_code.simps)
qed

end
