(* ===== verification/Persistence_Store.thy ===== *)
theory Persistence_Store
  imports Persistence_Roundtrip
begin

unbundle bit_operations_syntax

text \<open>
  The file-backed store of \<^verbatim>\<open>src/persistence.cpp\<close> (\<^verbatim>\<open>save\<close>, \<^verbatim>\<open>load\<close>, \<^verbatim>\<open>recover\<close>). The file system is a
  map from paths to contents; what the stream and rename calls of the standard library report
  during one \<^verbatim>\<open>save\<close> is the argument \<open>io\<close>. A write that fails may leave any prefix of the data in
  the temporary file.
\<close>

section \<open>The store\<close>

type_synonym file_system = "string \<rightharpoonup> string"

record SaveIO =
  io_open :: bool
  io_write :: bool
  io_written :: nat
  io_rename :: bool

record RecoveryResult =
  rr_ok :: bool
  rr_epoch :: CoordinatorEpoch
  rr_nics :: "NicRecord list"
  rr_gpus :: "GpuRecord list"
  rr_policy :: PersistedPolicy
  rr_historical_decisions :: nat
  rr_message :: string

definition persisted_policy_default :: PersistedPolicy where
  "persisted_policy_default = \<lparr>pp_require_rdma = False, pp_require_sriov = False,
     pp_require_offload = False, pp_require_local_memory = False, pp_require_same_numa = False,
     pp_require_same_root_complex = False, pp_require_same_pcie_switch = False,
     pp_require_ready = False, pp_require_link_up = False, pp_allow_synthetic = False,
     pp_freshness_limit = 0\<rparr>"

definition recovery_default :: RecoveryResult where
  "recovery_default = \<lparr>rr_ok = False, rr_epoch = id_null, rr_nics = [], rr_gpus = [],
     rr_policy = persisted_policy_default, rr_historical_decisions = 0, rr_message = []\<rparr>"

definition kMagicBox :: string where
  "kMagicBox = ''NICRESIDENCYPERSIST''"

definition file_image :: "string \<Rightarrow> string" where
  "file_image payload = kMagicBox @ payload @ le_put 8 (fnv1a payload)"

definition store_exists :: "string \<Rightarrow> file_system \<Rightarrow> bool" where
  "store_exists path fs \<longleftrightarrow> fs path \<noteq> None"

definition save :: "SaveIO \<Rightarrow> string \<Rightarrow> PersistentState \<Rightarrow> (file_system, ResidencyError, unit) exop" where
  "save io path st fs =
     (case serialize st of
        Inl err \<Rightarrow> (Inl err, fs)
      | Inr payload \<Rightarrow>
          let file = file_image payload; tmp = path @ ''.tmp''
          in if \<not> io_open io then
               (Inl (ResidencyError ErrorCode.kBackendError ''cannot open persistence temp file'' tmp), fs)
             else if \<not> io_write io then
               (Inl (ResidencyError ErrorCode.kBackendError ''persistence write failed'' tmp),
                fs(tmp \<mapsto> take (io_written io) file))
             else if \<not> io_rename io then
               (Inl (ResidencyError ErrorCode.kBackendError ''persistence atomic replace failed'' path),
                fs(tmp := None))
             else (Inr (), (fs(path \<mapsto> file))(tmp := None)))"

definition load :: "bool \<Rightarrow> string \<Rightarrow> file_system \<Rightarrow> ResidencyError + PersistentState" where
  "load cs path fs =
     (case fs path of
        None \<Rightarrow> Inl (ResidencyError ErrorCode.kNotFound ''persistence file not found'' path)
      | Some data \<Rightarrow>
          if length data < length kMagicBox + 8 then Inl (integrity_error ''persistence file too short'')
          else if take (length kMagicBox) data \<noteq> kMagicBox then Inl (integrity_error ''bad persistence magic'')
          else
            let payload_len = length data - length kMagicBox - 8;
                payload = take payload_len (drop (length kMagicBox) data)
            in if fnv1a payload \<noteq> le_get 8 data (length data - 8)
               then Inl (integrity_error ''persistence checksum mismatch'')
               else deserialize cs payload)"

definition recover :: "bool \<Rightarrow> string \<Rightarrow> file_system \<Rightarrow> RecoveryResult" where
  "recover cs path fs =
     (if \<not> store_exists path fs then recovery_default\<lparr>rr_message := ''no persisted state''\<rparr>
      else (case load cs path fs of
          Inr st \<Rightarrow> recovery_default\<lparr>rr_ok := True, rr_epoch := ps_epoch st, rr_nics := ps_nics st,
            rr_gpus := ps_gpus st, rr_policy := ps_policy st,
            rr_historical_decisions := length (ps_history st),
            rr_message := ''recovered durable identity; dynamic evidence requires revalidation''\<rparr>
        | Inl err \<Rightarrow> recovery_default\<lparr>rr_ok := False, rr_message := ''recovery failed: '' @ err_what err\<rparr>))"

section \<open>What the serializer writes\<close>

lemma then_run: "m buf = (Inr (), buf') \<Longrightarrow> ex_then m k buf = k buf'"
  by (simp add: ex_then_def ex_bind_def)

lemma wr_str_eq: "length s \<le> 0xFFFF \<Longrightarrow> wr_str s buf = (Inr (), buf @ enc_str s)"
  by (simp add: wr_str_def then_run [OF wr_u16_eq] enc_str_def)

lemma each_run:
  "(\<And>x b. x \<in> set xs \<Longrightarrow> f x b = (Inr (), b @ enc x)) \<Longrightarrow> ex_each f xs buf = (Inr (), buf @ concat (map enc xs))"
proof (induction xs arbitrary: buf)
  case (Cons x xs)
  have "f x buf = (Inr (), buf @ enc x)" using Cons.prems by simp
  moreover have "ex_each f xs (buf @ enc x) = (Inr (), (buf @ enc x) @ concat (map enc xs))"
    using Cons by simp
  ultimately show ?case by (simp add: then_run)
qed simp

lemmas wr_steps = then_run [OF wr_u8_def] then_run [OF wr_u16_eq] then_run [OF wr_u32_def]
  then_run [OF wr_u64_def] wr_u8_def wr_u16_eq wr_u32_def wr_u64_def

lemma write_provenance_eq: "write_provenance p buf = (Inr (), buf @ enc_prov p)"
proof -
  have "ex_each (\<lambda>s. wr_u8 (Source_code s)) ss b =
      (Inr (), b @ concat (map (\<lambda>s. [of_byte (Source_code s)]) ss))" for ss b
    by (rule each_run) (simp add: wr_u8_def)
  then show ?thesis by (simp add: write_provenance_def wr_steps enc_prov_def)
qed

lemma write_capability_eq: "write_capability c buf = (Inr (), buf @ enc_cap c)"
  by (simp add: write_capability_def wr_steps write_provenance_eq enc_cap_def)

lemma write_pci_eq: "write_pci p buf = (Inr (), buf @ enc_pci p)"
  by (simp add: write_pci_def wr_steps enc_pci_def)

lemmas wr_record_steps = wr_steps then_run [OF wr_str_eq] wr_str_eq then_run [OF write_pci_eq]
  then_run [OF write_capability_eq] write_provenance_eq

lemma write_nic_eq:
  "length (nic_os_name n) \<le> 0xFFFF \<Longrightarrow> length (nic_os_description n) \<le> 0xFFFF \<Longrightarrow>
     write_nic n buf = (Inr (), buf @ enc_nic n)"
  by (simp add: write_nic_def wr_record_steps enc_nic_def)

lemma write_gpu_eq: "length (gpu_name g) \<le> 0xFFFF \<Longrightarrow> write_gpu g buf = (Inr (), buf @ enc_gpu g)"
  by (simp add: write_gpu_def wr_record_steps enc_gpu_def)

lemma write_history_eq:
  "length (res_explanation r) \<le> 0xFFFF \<Longrightarrow> write_history r buf = (Inr (), buf @ enc_history r)"
  by (simp add: write_history_def wr_record_steps enc_history_def)

definition enc_list :: "('a \<Rightarrow> string) \<Rightarrow> 'a list \<Rightarrow> string" where
  "enc_list enc xs = le_put 4 (word_of_nat (length xs) :: u32) @ concat (map enc xs)"

definition enc_state :: "PersistentState \<Rightarrow> string" where
  "enc_state st = le_put 4 (ps_format_version st) @ le_put 8 (id_value (ps_epoch st)) @
     le_put 4 (policy_flags (ps_policy st)) @ le_put 8 (pp_freshness_limit (ps_policy st)) @
     enc_list enc_nic (std_sort nic_before (ps_nics st)) @
     enc_list enc_gpu (std_sort gpu_before (ps_gpus st)) @
     enc_list enc_history (std_sort res_before (ps_history st))"

text \<open>The conditions under which a state can be stored and comes back.\<close>

definition state_storable :: "bool \<Rightarrow> PersistentState \<Rightarrow> bool" where
  "state_storable cs st \<longleftrightarrow> ps_format_version st \<le> kPersistenceFormatVersion \<and>
     length (ps_nics st) \<le> kMaxPersistNics \<and> length (ps_gpus st) \<le> kMaxPersistGpus \<and>
     length (ps_history st) \<le> kMaxHistory \<and>
     (\<forall>n \<in> set (ps_nics st). nic_storable cs n \<and> id_valid (nic_id n)) \<and> distinct (map nic_id (ps_nics st)) \<and>
     (\<forall>g \<in> set (ps_gpus st). gpu_storable cs g \<and> id_valid (gpu_id g)) \<and> distinct (map gpu_id (ps_gpus st)) \<and>
     (\<forall>r \<in> set (ps_history st). str_safe cs (res_explanation r))"

definition state_durable :: "PersistentState \<Rightarrow> PersistentState" where
  "state_durable st = st\<lparr>ps_nics := map nic_durable (std_sort nic_before (ps_nics st)),
     ps_gpus := map gpu_durable (std_sort gpu_before (ps_gpus st)),
     ps_history := map history_durable (std_sort res_before (ps_history st))\<rparr>"

lemma serialize_eq:
  assumes "state_storable cs st"
  shows "serialize st = Inr (enc_state st)"
proof -
  have "write_nics (ps_nics st) buf = (Inr (), buf @ enc_list enc_nic (std_sort nic_before (ps_nics st)))" for buf
    using assms each_run [of "std_sort nic_before (ps_nics st)" write_nic enc_nic]
    by (simp add: write_nics_def Let_def wr_steps write_nic_eq enc_list_def state_storable_def
        nic_storable_def str_safe_def)
  moreover have "write_gpus (ps_gpus st) buf = (Inr (), buf @ enc_list enc_gpu (std_sort gpu_before (ps_gpus st)))" for buf
    using assms each_run [of "std_sort gpu_before (ps_gpus st)" write_gpu enc_gpu]
    by (simp add: write_gpus_def Let_def wr_steps write_gpu_eq enc_list_def state_storable_def
        gpu_storable_def str_safe_def)
  moreover have "write_histories (ps_history st) buf =
      (Inr (), buf @ enc_list enc_history (std_sort res_before (ps_history st)))" for buf
    using assms each_run [of "std_sort res_before (ps_history st)" write_history enc_history]
    by (simp add: write_histories_def Let_def wr_steps write_history_eq enc_list_def state_storable_def
        str_safe_def)
  ultimately show ?thesis by (simp add: serialize_def wr_steps then_run enc_state_def)
qed

section \<open>What the reader gives back\<close>

lemma read_nics_stored:
  assumes "\<forall>n \<in> set xs. nic_storable cs n \<and> id_valid (nic_id n)" "distinct (map nic_id acc @ map nic_id xs)"
  shows "read_nics cs (length xs) acc (rd_at p (concat (map enc_nic xs) @ s)) =
    (Inr (acc @ map nic_durable xs), rd_at (p @ concat (map enc_nic xs)) s)"
  using assms
proof (induction xs arbitrary: acc p)
  case (Cons x xs)
  have "nic_id (nic_durable x) = nic_id x" by (simp add: nic_durable_def)
  with Cons.prems Cons.IH [of "acc @ [nic_durable x]" "p @ enc_nic x"] show ?case
    by (simp add: c_nic.rt_bind)
qed simp

lemma read_gpus_stored:
  assumes "\<forall>g \<in> set xs. gpu_storable cs g \<and> id_valid (gpu_id g)" "distinct (map gpu_id acc @ map gpu_id xs)"
  shows "read_gpus cs (length xs) acc (rd_at p (concat (map enc_gpu xs) @ s)) =
    (Inr (acc @ map gpu_durable xs), rd_at (p @ concat (map enc_gpu xs)) s)"
  using assms
proof (induction xs arbitrary: acc p)
  case (Cons x xs)
  have "gpu_id (gpu_durable x) = gpu_id x" by (simp add: gpu_durable_def)
  with Cons.prems Cons.IH [of "acc @ [gpu_durable x]" "p @ enc_gpu x"] show ?case
    by (simp add: c_gpu.rt_bind)
qed simp

lemma distinct_std_sort: "distinct (map f (std_sort lt xs)) = distinct (map f xs)"
  by (metis mset_eq_imp_distinct_iff mset_map mset_std_sort)

lemma unat_count: "n \<le> 8192 \<Longrightarrow> unat (word_of_nat n :: u32) = n"
  by (simp add: unsigned_of_nat take_bit_eq_mod)

lemma read_state_stored:
  assumes "state_storable cs st"
  shows "read_state cs (rd_at [] (enc_state st)) = (Inr (state_durable st), rd_at (enc_state st) [])"
proof -
  let ?N = "std_sort nic_before (ps_nics st)" and ?G = "std_sort gpu_before (ps_gpus st)"
    and ?H = "std_sort res_before (ps_history st)"
  note ok = assms [unfolded state_storable_def]
  have cnt: "unat (word_of_nat (length (ps_nics st)) :: u32) = length (ps_nics st)"
    "unat (word_of_nat (length (ps_gpus st)) :: u32) = length (ps_gpus st)"
    "unat (word_of_nat (length (ps_history st)) :: u32) = length (ps_history st)"
    using ok by (auto intro!: unat_count simp: kMaxPersistNics_def kMaxPersistGpus_def kMaxHistory_def)
  have nics: "ex_bind (read_nics cs (length (ps_nics st)) []) f (rd_at p (concat (map enc_nic ?N) @ s)) =
      f (map nic_durable ?N) (rd_at (p @ concat (map enc_nic ?N)) s)" for f p s
    by (rule ex_bind_Inr) (use ok read_nics_stored [of ?N cs "[]" p s] in \<open>simp add: distinct_std_sort\<close>)
  have gpus: "ex_bind (read_gpus cs (length (ps_gpus st)) []) f (rd_at p (concat (map enc_gpu ?G) @ s)) =
      f (map gpu_durable ?G) (rd_at (p @ concat (map enc_gpu ?G)) s)" for f p s
    by (rule ex_bind_Inr) (use ok read_gpus_stored [of ?G cs "[]" p s] in \<open>simp add: distinct_std_sort\<close>)
  have hist: "ex_bind (ex_times (length (ps_history st)) (read_history cs)) f
      (rd_at p (concat (map enc_history ?H))) =
      f (map history_durable ?H) (rd_at (p @ concat (map enc_history ?H)) [])" for f p
    by (rule c_hist.rt_times_bind_end) (use ok in simp_all)
  show ?thesis
    using ok
    by (simp add: read_state_def enc_state_def enc_list_def codec_rt policy_flags_bits state_durable_def
        not_less cnt nics gpus hist)
qed

lemma deserialize_serialize:
  "state_storable cs st \<Longrightarrow> deserialize cs (enc_state st) = Inr (state_durable st)"
  by (simp add: deserialize_def rd_open_at read_state_stored rd_at_end_def) (simp add: rd_at_def)

end
