(* ===== verification/Persistence_Theorems.thy ===== *)
theory Persistence_Theorems
  imports Persistence_Store
begin

unbundle bit_operations_syntax

text \<open>
  The properties of the durable store: what is saved comes back, a save is all or nothing, a
  damaged file is refused, and nothing that is loaded, from whatever bytes, counts as current
  evidence.
\<close>

section \<open>Sample state\<close>

definition sample_stored_nic :: NicRecord where
  "sample_stored_nic = nic_default\<lparr>nic_id := Id 3, nic_generation := Generation 2,
     nic_os_name := ''eth0'', nic_vendor_id := 0x1077, nic_lifecycle := LifecycleState.kAvailable\<rparr>"

definition sample_state :: PersistentState where
  "sample_state = \<lparr>ps_format_version = 1, ps_epoch = Id 7, ps_nics = [sample_stored_nic], ps_gpus = [],
     ps_policy = persisted_policy_default, ps_history = []\<rparr>"

definition good_io :: SaveIO where
  "good_io = \<lparr>io_open = True, io_write = True, io_written = 0, io_rename = True\<rparr>"

lemma sample_state_storable: "state_storable True sample_state"
  by (simp add: state_storable_def sample_state_def sample_stored_nic_def nic_storable_def str_safe_def
      u16_safe_def nic_default_def cap_default_def prov_default_def pci_default_def
      kPersistenceFormatVersion_def kMaxPersistNics_def)

section \<open>Round trip and atomicity\<close>

lemma load_image:
  assumes "fs path = Some (file_image payload)"
  shows "load cs path fs = deserialize cs payload"
proof -
  have "le_get 8 ((kMagicBox @ payload) @ le_put 8 (fnv1a payload) @ []) (length (kMagicBox @ payload)) = fnv1a payload"
    by (rule le_get_put) simp
  then show ?thesis by (simp add: load_def assms file_image_def)
qed

lemma save_good:
  assumes "state_storable cs st" "io_open io" "io_write io" "io_rename io"
  shows "save io path st fs = (Inr (), (fs(path \<mapsto> file_image (enc_state st)))(path @ ''.tmp'' := None))"
  using assms by (simp add: save_def serialize_eq Let_def)

text \<open>
  C9: Saving a storable state succeeds when the file operations do, and loading the file gives
  back its durable part: epoch, policy and format version, and the NICs, accelerators and
  history entries in id order, with every dynamic field reset. A state is storable when it keeps
  the limits on counts and string lengths, its format version is supported, its NICs and
  accelerators have valid and different ids, and, where plain \<^verbatim>\<open>char\<close> is signed, none of its 16-bit
  values and string lengths has bit 7 set (\<open>stored_u16_read_back\<close> says what becomes of one that
  has). Generations and references may be anything: they are stored and loaded unchecked
  (\<open>unchecked_state_loads\<close>).
\<close>

theorem save_load_roundtrip:
  assumes "state_storable cs st" "io_open io" "io_write io" "io_rename io"
  shows "\<exists>fs'. save io path st fs = (Inr (), fs') \<and> load cs path fs' = Inr (state_durable st)"
proof -
  have "path \<noteq> path @ ''.tmp''" by simp
  then show ?thesis
    using load_image [of "((fs(path \<mapsto> file_image (enc_state st)))(path @ ''.tmp'' := None))" path "enc_state st"]
    by (simp add: save_good [OF assms] deserialize_serialize [OF assms(1)] del: append_self_conv2)
qed

theorem save_load_roundtrip_witness:
  "\<exists>fs'. save good_io ''state.bin'' sample_state Map.empty = (Inr (), fs') \<and>
     load True ''state.bin'' fs' = Inr (state_durable sample_state)"
  by (rule save_load_roundtrip [OF sample_state_storable]) (simp_all add: good_io_def)

text \<open>
  C26: A save is all or nothing, whatever the file operations do: the target file ends up with
  the complete new image when the call returns, and with exactly its previous content when it
  raises. No file other than the target and the temporary file is touched, and a successful
  save leaves no temporary file behind.
\<close>

theorem save_atomic:
  assumes "save io path st fs = (res, fs')"
  shows "(case res of
      Inr _ \<Rightarrow> (\<exists>payload. serialize st = Inr payload \<and> fs' path = Some (file_image payload)) \<and>
        fs' (path @ ''.tmp'') = None
    | Inl _ \<Rightarrow> fs' path = fs path) \<and>
    (\<forall>f. f \<notin> {path, path @ ''.tmp''} \<longrightarrow> fs' f = fs f)"
  using assms by (auto simp: save_def Let_def split: sum.splits if_splits)

theorem save_atomic_witness:
  "snd (save (good_io\<lparr>io_write := False, io_written := 5\<rparr>) ''state.bin'' sample_state (Map.empty(''state.bin'' \<mapsto> ''old'')))
     ''state.bin'' = Some ''old''"
proof -
  let ?r = "save (good_io\<lparr>io_write := False, io_written := 5\<rparr>) ''state.bin'' sample_state (Map.empty(''state.bin'' \<mapsto> ''old''))"
  have "\<exists>err. fst ?r = Inl err"
    by (simp add: save_def serialize_eq [OF sample_state_storable] good_io_def Let_def)
  then obtain err where "?r = (Inl err, snd ?r)" by (metis prod.collapse)
  from save_atomic [OF this] show ?thesis by simp
qed

text \<open>
  A state whose NIC has the invalid generation 0 and whose history refers to a NIC that does not
  exist is saved and loads again with both.
\<close>

definition unchecked_state :: PersistentState where
  "unchecked_state = sample_state\<lparr>ps_nics := [sample_stored_nic\<lparr>nic_generation := gen_null\<rparr>],
     ps_history := [res_default\<lparr>res_id := Id 1, res_nic := Id 99\<rparr>]\<rparr>"

theorem unchecked_state_loads:
  "\<exists>fs' st. save good_io ''state.bin'' unchecked_state Map.empty = (Inr (), fs') \<and>
     load True ''state.bin'' fs' = Inr st \<and> map nic_id (ps_nics st) = [Id 3] \<and>
     map nic_generation (ps_nics st) = [gen_null] \<and> map res_nic (ps_history st) = [Id 99]"
proof -
  have ok: "state_storable True unchecked_state"
    using sample_state_storable
    by (simp add: state_storable_def unchecked_state_def sample_state_def nic_storable_def sample_stored_nic_def
        res_default_def str_safe_def u16_safe_def kMaxHistory_def)
  have "load True ''state.bin'' ((Map.empty(''state.bin'' \<mapsto> file_image (enc_state unchecked_state)))(''state.bin'' @ ''.tmp'' := None)) =
      Inr (state_durable unchecked_state)"
    by (simp add: load_image deserialize_serialize [OF ok])
  moreover have "map nic_id (ps_nics (state_durable unchecked_state)) = [Id 3]"
    "map nic_generation (ps_nics (state_durable unchecked_state)) = [gen_null]"
    "map res_nic (ps_history (state_durable unchecked_state)) = [Id 99]"
    by (simp_all add: state_durable_def unchecked_state_def nic_durable_def history_durable_def sample_stored_nic_def)
  moreover have "save good_io ''state.bin'' unchecked_state Map.empty =
      (Inr (), (Map.empty(''state.bin'' \<mapsto> file_image (enc_state unchecked_state)))(''state.bin'' @ ''.tmp'' := None))"
    by (rule save_good [OF ok]) (simp_all add: good_io_def)
  ultimately show ?thesis by - (intro exI conjI; assumption)
qed

section \<open>Damaged and hostile files\<close>

text \<open>
  Damage to any single byte of the stored payload is always detected: loading raises an
  integrity failure.
\<close>

theorem damaged_file_detected:
  assumes "fs path = Some ((file_image payload)[length kMagicBox + i := c])" "i < length payload" "c \<noteq> payload ! i"
  shows "load cs path fs = Inl (integrity_error ''persistence checksum mismatch'')"
proof -
  have d: "(file_image payload)[length kMagicBox + i := c] = kMagicBox @ payload[i := c] @ le_put 8 (fnv1a payload)"
    using assms(2) by (simp add: file_image_def list_update_append)
  have "le_get 8 ((kMagicBox @ payload[i := c]) @ le_put 8 (fnv1a payload) @ [])
      (length (kMagicBox @ payload[i := c])) = fnv1a payload"
    by (rule le_get_put) simp
  then show ?thesis
    using fnv1a_one_byte [OF assms(2,3)] by (simp add: load_def assms(1) d)
qed

theorem damaged_file_detected_witness:
  "load True ''f'' (Map.empty(''f'' \<mapsto> (file_image ''abc'')[20 := CHR ''x'']))
     = Inl (integrity_error ''persistence checksum mismatch'')"
proof (rule damaged_file_detected)
  have "length kMagicBox + 1 = 20" by (simp add: kMagicBox_def)
  then show "(Map.empty(''f'' \<mapsto> (file_image ''abc'')[20 := CHR ''x''])) ''f'' =
      Some ((file_image ''abc'')[length kMagicBox + 1 := CHR ''x''])" by simp
qed simp_all

lemma read_nic_durable: "read_nic cs r = (Inr n, r') \<Longrightarrow> nic_durable n = n"
  by (auto simp: read_nic_def ex_bind_eq_Inr nic_durable_def split: if_splits)

lemma read_nics_sound:
  "read_nics cs k acc r = (Inr ns, r') \<Longrightarrow> \<forall>n \<in> set acc. nic_durable n = n \<and> id_valid (nic_id n) \<Longrightarrow>
     distinct (map nic_id acc) \<Longrightarrow>
     (\<forall>n \<in> set ns. nic_durable n = n \<and> id_valid (nic_id n)) \<and> distinct (map nic_id ns) \<and>
     length ns = length acc + k"
proof (induction k arbitrary: acc r)
  case (Suc k)
  from Suc.prems(1) obtain x r1 where x: "read_nic cs r = (Inr x, r1)" "id_valid (nic_id x)"
      "nic_id x \<notin> set (map nic_id acc)" "read_nics cs k (acc @ [x]) r1 = (Inr ns, r')"
    by (auto simp: ex_bind_eq_Inr split: if_splits)
  from Suc.IH [OF x(4)] Suc.prems(2,3) x(2,3) read_nic_durable [OF x(1)] show ?case by auto
qed simp

lemma read_gpus_sound:
  "read_gpus cs k acc r = (Inr gs, r') \<Longrightarrow> \<forall>g \<in> set acc. id_valid (gpu_id g) \<Longrightarrow> distinct (map gpu_id acc) \<Longrightarrow>
     (\<forall>g \<in> set gs. id_valid (gpu_id g)) \<and> distinct (map gpu_id gs) \<and> length gs = length acc + k"
proof (induction k arbitrary: acc r)
  case (Suc k)
  from Suc.prems(1) obtain x r1 where "read_gpu cs r = (Inr x, r1)" "id_valid (gpu_id x)"
      "gpu_id x \<notin> set (map gpu_id acc)" "read_gpus cs k (acc @ [x]) r1 = (Inr gs, r')"
    by (auto simp: ex_bind_eq_Inr split: if_splits)
  with Suc.IH [of "acc @ [x]" r1] Suc.prems(2,3) show ?case by auto
qed simp

lemmas read_nics_all = read_nics_sound [where acc = "[]", simplified]

lemmas read_gpus_all = read_gpus_sound [where acc = "[]", simplified]

lemma ex_times_length: "ex_times k m r = (Inr xs, r') \<Longrightarrow> length xs = k"
  by (induction k arbitrary: r xs r') (auto simp: ex_bind_eq_Inr)

definition state_wellformed :: "PersistentState \<Rightarrow> bool" where
  "state_wellformed st \<longleftrightarrow> ps_format_version st \<le> kPersistenceFormatVersion \<and>
     length (ps_nics st) \<le> kMaxPersistNics \<and> length (ps_gpus st) \<le> kMaxPersistGpus \<and>
     length (ps_history st) \<le> kMaxHistory \<and>
     (\<forall>n \<in> set (ps_nics st). nic_durable n = n \<and> id_valid (nic_id n)) \<and> distinct (map nic_id (ps_nics st)) \<and>
     (\<forall>g \<in> set (ps_gpus st). id_valid (gpu_id g)) \<and> distinct (map gpu_id (ps_gpus st))"

lemma read_state_wellformed:
  assumes "read_state cs r = (Inr st, r')"
  shows "state_wellformed st"
  using assms unfolding read_state_def
  by (auto simp: ex_bind_eq_Inr not_less state_wellformed_def split: if_splits
      dest!: read_nics_all read_gpus_all ex_times_length)

lemma load_wellformed:
  assumes "load cs path fs = Inr st"
  shows "state_wellformed st"
proof -
  obtain payload where "deserialize cs payload = Inr st"
    using assms by (auto simp: load_def Let_def split: option.splits if_splits)
  then obtain r where "read_state cs (rd_open payload) = (Inr st, r)"
    by (auto simp: deserialize_def split: prod.splits sum.splits if_splits)
  then show ?thesis by (rule read_state_wellformed)
qed

lemma wellformed_nic:
  assumes "state_wellformed st" "n \<in> set (ps_nics st)"
  shows "nic_lifecycle n = LifecycleState.kRevalidationRequired" "nic_link_state n = LinkState.kUnknown"
    "nic_health n = HealthState.kUnknown" "nic_freshness n = 0"
proof -
  have "nic_durable n = n" using assms by (simp add: state_wellformed_def)
  then obtain m where "n = nic_durable m" by metis
  then show "nic_lifecycle n = LifecycleState.kRevalidationRequired" "nic_link_state n = LinkState.kUnknown"
    "nic_health n = HealthState.kUnknown" "nic_freshness n = 0" by (simp_all add: nic_durable_def)
qed

text \<open>
  C27: Whatever bytes the file holds, a state that loads is well formed and carries no current
  evidence: supported format version, counts within the limits, valid and pairwise distinct ids,
  and every NIC with unknown link and health, in REVALIDATION_REQUIRED and with freshness 0.
\<close>

theorem loaded_state_wellformed:
  assumes "load cs path fs = Inr st"
  shows "state_wellformed st \<and> (\<forall>n \<in> set (ps_nics st).
    nic_lifecycle n = LifecycleState.kRevalidationRequired \<and> nic_link_state n = LinkState.kUnknown \<and>
    nic_health n = HealthState.kUnknown \<and> nic_freshness n = 0)"
  using load_wellformed [OF assms] wellformed_nic by blast

theorem loaded_state_wellformed_witness:
  "state_wellformed (state_durable sample_state)"
proof -
  have "load True ''f'' (Map.empty(''f'' \<mapsto> file_image (enc_state sample_state))) = Inr (state_durable sample_state)"
    by (simp add: load_image deserialize_serialize [OF sample_state_storable])
  from loaded_state_wellformed [OF this] show ?thesis by blast
qed

section \<open>Recovery and 16-bit values\<close>

text \<open>
  Recovery never raises. It reports success exactly when the file loads, and then returns
  the loaded epoch, devices and policy; a missing file, and any error of loading it, gives an
  unsuccessful result without any device.
\<close>

theorem recover_reports_load:
  "case load cs path fs of
     Inr st \<Rightarrow> rr_ok (recover cs path fs) \<and> rr_epoch (recover cs path fs) = ps_epoch st \<and>
       rr_nics (recover cs path fs) = ps_nics st \<and> rr_gpus (recover cs path fs) = ps_gpus st \<and>
       rr_policy (recover cs path fs) = ps_policy st \<and>
       rr_historical_decisions (recover cs path fs) = length (ps_history st)
   | Inl err \<Rightarrow> \<not> rr_ok (recover cs path fs) \<and> rr_nics (recover cs path fs) = [] \<and>
       rr_gpus (recover cs path fs) = [] \<and> \<not> id_valid (rr_epoch (recover cs path fs))"
proof (cases "fs path")
  case None
  then show ?thesis by (simp add: recover_def load_def store_exists_def recovery_default_def)
next
  case (Some d)
  then show ?thesis by (simp add: recover_def store_exists_def recovery_default_def split: sum.split)
qed

text \<open>
  On platforms where \<^verbatim>\<open>char\<close> is signed the 16-bit reader does not invert the writer: every
  value whose bit 7 is set comes back with its high byte forced to 0xFF; with an unsigned
  \<^verbatim>\<open>char\<close>, and for all other values, it comes back unchanged.
\<close>

theorem stored_u16_read_back:
  "fst (rd_u16 cs (rd_open (snd (wr_u16 v [])))) = Inr (if cs \<and> bit v 7 then 0xFF00 OR v else v)"
  using rd_u16_stored [of cs "[]" v "[]"] by (simp add: wr_u16_eq rd_open_at u16_safe_def)

lemma intel_vendor_id_stored:
  "fst (rd_u16 True (rd_open (snd (wr_u16 0x8086 [])))) = Inr 0xFF86"
  using rd_u16_stored [of True "[]" "0x8086" "[]"] by (simp add: wr_u16_eq rd_open_at u16_safe_def)

end
