(* ===== verification/Topology_Theorems.thy ===== *)
theory Topology_Theorems
  imports Topology_Graph
begin

text \<open>
  What a topology snapshot promises: exactly which staged topologies finish building, which
  ancestors a finished snapshot reports for a node, and the symmetry and evidence label of
  the locality statement between two addresses.
\<close>

section \<open>Building returns unless parent links form a cycle\<close>

definition parent_cycle :: "node_map \<Rightarrow> PciNodeId set \<Rightarrow> bool" where
  "parent_cycle nodes S \<longleftrightarrow> S \<noteq> {} \<and>
     (\<forall>i \<in> S. id_valid i \<and> (\<exists>n. m_find nodes i = Some n \<and> tn_parent n \<in> S))"

lemma no_chain_end_step:
  assumes "\<not> chain_ends nodes i"
  shows "id_valid i \<and> (\<exists>n. m_find nodes i = Some n \<and> \<not> chain_ends nodes (tn_parent n))"
  using assms chain_ends.null chain_ends.unknown chain_ends.step by (metis option.exhaust)

lemma parent_cycle_iff: "(\<exists>S. parent_cycle nodes S) \<longleftrightarrow> (\<exists>i. \<not> chain_ends nodes i)"
proof
  assume "\<exists>S. parent_cycle nodes S"
  then obtain S i where S: "parent_cycle nodes S" and i: "i \<in> S" by (auto simp: parent_cycle_def)
  have "\<not> chain_ends nodes i"
    by (rule cycle_not_chain_ends [of S, OF _ i]) (use S in \<open>auto simp: parent_cycle_def\<close>)
  then show "\<exists>i. \<not> chain_ends nodes i" ..
next
  assume "\<exists>i. \<not> chain_ends nodes i"
  then have "parent_cycle nodes {i. \<not> chain_ends nodes i}"
    unfolding parent_cycle_def using no_chain_end_step by blast
  then show "\<exists>S. parent_cycle nodes S" ..
qed

text \<open>
  C28: building a topology fails to return exactly when some staged nodes form a closed chain of
  parent links; every other staged topology, with dangling or null parents included, is built.
\<close>

theorem topology_build_diverges_iff:
  "build g b = None \<longleftrightarrow> (\<exists>S. parent_cycle (tb_nodes b) S)"
proof -
  have key: "i \<in> fst ` set (tb_nodes b)" if "\<not> chain_ends (tb_nodes b) i" for i
    using no_chain_end_step [OF that] by (metis domI dom_map_of_conv_image_fst)
  show ?thesis unfolding parent_cycle_iff build_None_iff using key by blast
qed

text \<open>A switch staged as its own parent passes validation, and the build then loops.\<close>

definition self_parent :: TopologyNode where
  "self_parent = mk_node (Id 4) pci_default TopologyNodeKind.kSwitch (Id 4) id_null prov_default"

theorem topology_build_diverges_iff_witness:
  "fst (add_node self_parent builder_default) = Inr () \<and>
   build (Generation 1) (snd (add_node self_parent builder_default)) = None"
proof
  let ?b = "snd (add_node self_parent builder_default)"
  show "fst (add_node self_parent builder_default) = Inr ()"
    by (simp add: add_node_def builder_default_def m_size_def m_has_def kMaxNodes_def)
  have "tb_nodes ?b = [(Id 4, self_parent)]"
    by (simp add: add_node_def builder_default_def m_size_def m_has_def kMaxNodes_def self_parent_def)
  then have "parent_cycle (tb_nodes ?b) {Id 4}"
    by (simp add: parent_cycle_def self_parent_def id_valid_def)
  then show "build (Generation 1) ?b = None" unfolding topology_build_diverges_iff by blast
qed

section \<open>Which ancestors a snapshot reports\<close>

text \<open>
  C29: in a built snapshot every node has a finite path of parent links, and the root complex and
  switch it reports are the last ones on that path, the outermost rather than the nearest, or
  null when the path has none.
\<close>

theorem reported_ancestors_outermost:
  assumes "build g b = Some t" and "builder_inv b" and "m_has (tb_nodes b) k"
  shows "\<exists>ns. parent_path (tb_nodes b) k ns \<and>
     root_complex_of t k = last (id_null # root_ids ns) \<and>
     switch_of t k = last (id_null # switch_ids ns)"
proof -
  have "k \<in> fst ` set (tb_nodes b)"
    using assms(3) unfolding m_has_def by (metis map_of_eq_None_iff)
  then have "chain_ends (tb_nodes b) k" using assms(1) build_None_iff [of g b] by auto
  then obtain ns where "parent_path (tb_nodes b) k ns" using chain_ends_path by blast
  with build_ancestors [OF assms this] show ?thesis by blast
qed

text \<open>A device below two nested switches.\<close>

definition nested_switches :: TopologyBuilder where
  "nested_switches = \<lparr>tb_nodes =
     [(Id 1, mk_node (Id 1) pci_default TopologyNodeKind.kSwitch id_null id_null prov_default),
      (Id 2, mk_node (Id 2) pci_default TopologyNodeKind.kSwitch (Id 1) id_null prov_default),
      (Id 3, mk_node (Id 3) pci_default TopologyNodeKind.kDevice (Id 2) id_null prov_default)],
     tb_edges = []\<rparr>"

lemma nested_switches_inv: "builder_inv nested_switches"
  by (auto simp: builder_inv_def nested_switches_def m_inv_def m_size_def kMaxNodes_def
      less_Id_def split: if_splits)

lemma nested_switches_path:
  "parent_path (tb_nodes nested_switches) (Id 3) (map snd (rev (tb_nodes nested_switches)))"
  unfolding nested_switches_def
  by (simp, (rule parent_path.up, simp add: id_valid_def, simp, simp)+, rule parent_path.stop)
    (simp add: id_valid_def id_null_def)

theorem reported_ancestors_outermost_witness:
  "\<exists>t. build (Generation 1) nested_switches = Some t \<and> switch_of t (Id 3) = Id 1 \<and>
     tn_parent (the (top_node t (Id 3))) = Id 2"
proof -
  let ?m = "tb_nodes nested_switches"
  have c3: "chain_ends ?m (Id 3)" using nested_switches_path by (rule path_chain_ends)
  have c2: "chain_ends ?m (Id 2)"
    using c3 by (rule chain_endsE) (auto simp: nested_switches_def id_valid_def)
  have c1: "chain_ends ?m (Id 1)"
    using c2 by (rule chain_endsE) (auto simp: nested_switches_def id_valid_def)
  have "fst ` set ?m = {Id 1, Id 2, Id 3}" by (simp add: nested_switches_def)
  with c1 c2 c3 obtain t where t: "build (Generation 1) nested_switches = Some t"
    using build_None_iff [of "Generation 1" nested_switches] by auto
  have k: "m_has (tb_nodes nested_switches) (Id 3)"
    by (simp add: m_has_def nested_switches_def)
  from reported_ancestors_outermost [OF t nested_switches_inv k]
  obtain ns where ns: "parent_path ?m (Id 3) ns" and sw: "switch_of t (Id 3) = last (id_null # switch_ids ns)"
    by blast
  have "switch_of t (Id 3) = Id 1"
    unfolding sw parent_path_fun [OF ns nested_switches_path] by (simp add: nested_switches_def)
  moreover have "tn_parent (the (top_node t (Id 3))) = Id 2"
    by (simp add: top_node_def build_fields [OF t]) (simp add: nested_switches_def)
  ultimately show ?thesis using t by blast
qed

section \<open>Locality statements\<close>

lemma locality_provenance_sym: "locality_provenance x y = locality_provenance y x"
  by (auto simp: locality_provenance_def Let_def split: option.splits)

lemma pci_eq_commute: "pci_eq a b = pci_eq b a"
  by (auto simp: pci_eq_def)

lemma locality_cost:
  "fac_cost (loc_factors (locality_between t a b)) =
     (if node_for_pci t a \<noteq> None \<and> node_for_pci t b \<noteq> None
      then cost_between t a b else distance_to a b)"
  by (auto simp: locality_between_def Let_def cost_between_def derivable_cost_def
      factors_default_def FastCost_def)

lemma cost_between_sym:
  "node_for_pci t a \<noteq> None \<Longrightarrow> node_for_pci t b \<noteq> None \<Longrightarrow> cost_between t a b = cost_between t b a"
  by (auto simp: cost_between_def same_syms [of t a b])

lemma distance_to_antisym: "distance_to a b = - distance_to b a"
  by (simp add: distance_to_def algebra_simps)

text \<open>
  The relationship, the evidence label and every factor of a locality statement do not
  depend on the order of the two addresses; the cost does not either when both addresses are in
  the topology, and changes its sign when one is not.
\<close>

theorem locality_symmetric:
  fixes t a b
  defines "l \<equiv> locality_between t a b" and "r \<equiv> locality_between t b a"
  shows "loc_relationship l = loc_relationship r \<and> loc_provenance l = loc_provenance r \<and>
     (loc_factors l)\<lparr>fac_cost := 0\<rparr> = (loc_factors r)\<lparr>fac_cost := 0\<rparr> \<and>
     fac_cost (loc_factors l) =
       (if node_for_pci t a \<noteq> None \<and> node_for_pci t b \<noteq> None then fac_cost (loc_factors r)
        else - fac_cost (loc_factors r))"
proof -
  have "(\<exists>x y. node_for_pci t a = Some x \<and> node_for_pci t b = Some y \<and>
           id_valid (tn_numa x) \<and> id_valid (tn_numa y) \<and> tn_numa x \<noteq> tn_numa y) \<longleftrightarrow>
        (\<exists>x y. node_for_pci t b = Some x \<and> node_for_pci t a = Some y \<and>
           id_valid (tn_numa x) \<and> id_valid (tn_numa y) \<and> tn_numa x \<noteq> tn_numa y)"
    by auto
  then have "loc_relationship l = loc_relationship r"
    unfolding l_def r_def locality_between_rel
    by (simp only: same_syms [of t a b] pci_eq_commute [of a b])
  moreover have "loc_provenance l = loc_provenance r"
    unfolding l_def r_def by (simp add: locality_provenance_sym)
  moreover have "(loc_factors l)\<lparr>fac_cost := 0\<rparr> = (loc_factors r)\<lparr>fac_cost := 0\<rparr>"
    by (rule LocalityFactors.equality)
      (simp_all add: l_def r_def same_syms [of t a b] pci_eq_commute [of a b])
  moreover have "fac_cost (loc_factors l) =
       (if node_for_pci t a \<noteq> None \<and> node_for_pci t b \<noteq> None then fac_cost (loc_factors r)
        else - fac_cost (loc_factors r))"
    unfolding l_def r_def locality_cost
    using cost_between_sym [of t a b] distance_to_antisym [of a b] by simp
  ultimately show ?thesis by blast
qed

text \<open>
  A locality statement is labelled synthetic only when both addresses are known and both
  nodes are synthetic; in every other case it is labelled real, and it names the derived source
  exactly when it does not rest on two real or two synthetic nodes.
\<close>

theorem locality_label:
  fixes t a b
  defines "p \<equiv> loc_provenance (locality_between t a b)"
  shows "(prov_kind p = EvidenceKind.kSynthetic \<longleftrightarrow>
            (\<exists>x y. node_for_pci t a = Some x \<and> node_for_pci t b = Some y \<and>
               prov_synthetic (tn_provenance x) \<and> prov_synthetic (tn_provenance y))) \<and>
         (prov_kind p = EvidenceKind.kReal \<longleftrightarrow> prov_kind p \<noteq> EvidenceKind.kSynthetic) \<and>
         (has_source p Source.kDerived \<longleftrightarrow>
            \<not> (\<exists>x y. node_for_pci t a = Some x \<and> node_for_pci t b = Some y \<and>
               prov_kind (tn_provenance x) = prov_kind (tn_provenance y) \<and>
               (prov_synthetic (tn_provenance x) \<or> prov_authoritative (tn_provenance x))))"
  unfolding p_def locality_between_provenance
  by (auto simp: locality_provenance_def has_source_set prov_synthetic_def
      prov_authoritative_def split: option.splits)

end
