(* ===== verification/Backends.thy ===== *)
theory Backends
  imports Topology_Graph
begin

unbundle bit_operations_syntax

text \<open>
  The discovery backends: the interface of \<^verbatim>\<open>include/nicresidency/backend.hpp\<close>, the explicit
  no-op backend (\<^verbatim>\<open>unsupported_backend.hpp\<close>), the fixture backend (\<^verbatim>\<open>synthetic_backend.hpp\<close>,
  \<^verbatim>\<open>src/synthetic_backend.cpp\<close>) and the derived PCI hierarchy of the Windows backend
  (\<^verbatim>\<open>SystemBackend::build_topology\<close> in \<^verbatim>\<open>src/system_backend.cpp\<close>), whose list of PCI addresses
  comes from the operating system and is an argument here.
  A backend that builds a topology returns \<^term>\<open>None\<close> when the build does not return, and
  otherwise an exception (\<^term>\<open>Inl\<close>) or a result (\<^term>\<open>Inr\<close>).
\<close>

section \<open>The interface\<close>

datatype BackendKind = kSystem | kNvidiaAffinity | kSynthetic | kUnsupported

fun BackendKind_str :: "BackendKind \<Rightarrow> string" where
  "BackendKind_str BackendKind.kSystem = ''SYSTEM''"
| "BackendKind_str BackendKind.kNvidiaAffinity = ''NVIDIA_AFFINITY''"
| "BackendKind_str BackendKind.kSynthetic = ''SYNTHETIC''"
| "BackendKind_str BackendKind.kUnsupported = ''UNSUPPORTED''"

record DiscoveryContext =
  ctx_topology_generation :: TopologyGeneration
  ctx_max_nics :: nat
  ctx_max_gpus :: nat
  ctx_max_functions :: nat
  ctx_max_ports :: nat
  ctx_max_queues :: nat
  ctx_max_topology_nodes :: nat
  ctx_label_as_synthetic :: bool
  ctx_freshness :: u64

definition context_default :: DiscoveryContext where
  "context_default = \<lparr>ctx_topology_generation = Generation 1, ctx_max_nics = 256,
     ctx_max_gpus = 64, ctx_max_functions = 2048, ctx_max_ports = 2048, ctx_max_queues = 4096,
     ctx_max_topology_nodes = 4096, ctx_label_as_synthetic = False, ctx_freshness = 1\<rparr>"

record DiscoveryResult =
  dr_nics :: "NicRecord list"
  dr_functions :: "FunctionRecord list"
  dr_ports :: "PortRecord list"
  dr_queues :: "QueueRecord list"
  dr_gpus :: "GpuRecord list"
  dr_topology :: "TopologySnapshot option"
  dr_notes :: "string list"

definition discovery_default :: DiscoveryResult where
  "discovery_default = \<lparr>dr_nics = [], dr_functions = [], dr_ports = [], dr_queues = [],
     dr_gpus = [], dr_topology = None, dr_notes = []\<rparr>"

definition unsupported_discover :: "DiscoveryContext \<Rightarrow> DiscoveryResult" where
  "unsupported_discover ctx =
     discovery_default\<lparr>dr_notes := [''unsupported backend: no capabilities claimed'']\<rparr>"

section \<open>Fixture records\<close>

datatype SyntheticScenario =
  kOneNicLocalToOneGpu | kTwoNicsDifferentNuma | kSameRootComplexPreference
  | kSamePcieSwitchPreference | kRemoteNumaFallback | kSmartNicLocalMemory | kDpuLikeLocalMemory
  | kPfWithMultipleVfs | kDenseCandidateSet | kUnsupportedCapability

fun SyntheticScenario_str :: "SyntheticScenario \<Rightarrow> string" where
  "SyntheticScenario_str kOneNicLocalToOneGpu = ''ONE_NIC_LOCAL_TO_ONE_GPU''"
| "SyntheticScenario_str kTwoNicsDifferentNuma = ''TWO_NICS_DIFFERENT_NUMA''"
| "SyntheticScenario_str kSameRootComplexPreference = ''SAME_ROOT_COMPLEX_PREFERENCE''"
| "SyntheticScenario_str kSamePcieSwitchPreference = ''SAME_PCIE_SWITCH_PREFERENCE''"
| "SyntheticScenario_str kRemoteNumaFallback = ''REMOTE_NUMA_FALLBACK''"
| "SyntheticScenario_str kSmartNicLocalMemory = ''SMARTNIC_LOCAL_MEMORY''"
| "SyntheticScenario_str kDpuLikeLocalMemory = ''DPU_LIKE_LOCAL_MEMORY''"
| "SyntheticScenario_str kPfWithMultipleVfs = ''PF_WITH_MULTIPLE_VFS''"
| "SyntheticScenario_str kDenseCandidateSet = ''DENSE_CANDIDATE_SET''"
| "SyntheticScenario_str kUnsupportedCapability = ''UNSUPPORTED_CAPABILITY''"

text \<open>\<^verbatim>\<open>NumaNodeId(0)\<close> is null, so the fixtures use one-based NUMA ids.\<close>

definition numa :: "u64 \<Rightarrow> NumaNodeId" where
  "numa v = Id (v + 1)"

definition syn :: Provenance where
  "syn = mk_prov EvidenceKind.kSynthetic [Source.kSyntheticFixture]"

definition make_nic ::
    "u64 \<Rightarrow> string \<Rightarrow> PciAddress \<Rightarrow> NumaNodeId \<Rightarrow> DiscoveryContext \<Rightarrow> bool \<Rightarrow> bool \<Rightarrow> NicRecord" where
  "make_nic i name pci n ctx rdma local_mem =
     nic_default\<lparr>nic_id := Id i, nic_generation := Generation 1, nic_os_name := name,
       nic_os_description := ''synthetic NIC fixture'', nic_pci := pci, nic_vendor_id := 0x1DB6,
       nic_device_id := 0x1001, nic_device_kind := DeviceKind.kNic,
       nic_function_class := FunctionClass.kPhysicalFunction,
       nic_capability := cap_default\<lparr>cap_rdma := rdma, cap_offload := True,
         cap_local_memory := local_mem, cap_accel_affinity := True,
         cap_generation := Generation 1, cap_provenance := syn\<rparr>,
       nic_numa_node := n, nic_link_state := LinkState.kUp, nic_health := HealthState.kReady,
       nic_lifecycle := LifecycleState.kAvailable, nic_provenance := syn,
       nic_freshness := ctx_freshness ctx\<rparr>"

definition make_port :: "u64 \<Rightarrow> NicId \<Rightarrow> FunctionId \<Rightarrow> DiscoveryContext \<Rightarrow> PortRecord" where
  "make_port i nic func ctx =
     port_default\<lparr>port_id := Id i, port_generation := Generation 1, port_parent_nic := nic,
       port_parent_function := func, port_os_name := ''synth-port'' @ std_to_string i,
       port_link_state := LinkState.kUp, port_link_speed_mbps := 100000,
       port_lifecycle := LifecycleState.kAvailable, port_provenance := syn,
       port_freshness := ctx_freshness ctx\<rparr>"

definition make_queue :: "u64 \<Rightarrow> FunctionId \<Rightarrow> NicId \<Rightarrow> string \<Rightarrow> DiscoveryContext \<Rightarrow> QueueRecord" where
  "make_queue i func nic kind ctx =
     queue_default\<lparr>queue_id := Id i, queue_generation := Generation 1,
       queue_parent_function := func, queue_parent_nic := nic, queue_kind := kind,
       queue_lifecycle := LifecycleState.kAvailable, queue_provenance := syn,
       queue_freshness := ctx_freshness ctx\<rparr>"

text \<open>The fixture functions of the scenarios: one with the NIC's capabilities, and the VFs.\<close>

definition make_function :: "u64 \<Rightarrow> NicRecord \<Rightarrow> FunctionClass \<Rightarrow> CapabilitySet \<Rightarrow> DiscoveryContext \<Rightarrow> FunctionRecord" where
  "make_function i nic cls cap ctx =
     fn_default\<lparr>fn_id := Id i, fn_generation := Generation 1, fn_parent_nic := nic_id nic,
       fn_class := cls, fn_numa_node := numa 0, fn_capability := cap,
       fn_lifecycle := LifecycleState.kAvailable, fn_provenance := syn,
       fn_freshness := ctx_freshness ctx\<rparr>"

definition make_gpu :: "u64 \<Rightarrow> PciAddress \<Rightarrow> NumaNodeId \<Rightarrow> DiscoveryContext \<Rightarrow> GpuRecord" where
  "make_gpu i pci n ctx =
     gpu_default\<lparr>gpu_id := Id i, gpu_generation := Generation 1,
       gpu_name := ''synth-gpu'' @ std_to_string i, gpu_pci := pci, gpu_cuda_device := Id 0,
       gpu_cuda_verified := True, gpu_numa_node := n, gpu_provenance := syn,
       gpu_freshness := ctx_freshness ctx\<rparr>"

section \<open>Staging a topology\<close>

definition build_topology ::
    "TopologyGeneration \<Rightarrow> TopologyNode list \<Rightarrow> (PciNodeId \<times> PciNodeId) list
      \<Rightarrow> (ResidencyError + TopologySnapshot) option" where
  "build_topology gen nodes edges =
     (case ex_then (ex_each add_node nodes) (ex_each (\<lambda>(a, c). add_edge a c) edges) builder_default of
        (Inl err, _) \<Rightarrow> Some (Inl err)
      | (Inr _, b) \<Rightarrow> map_option Inr (build gen b))"

section \<open>The fixture backend\<close>

text \<open>The local variables of \<^verbatim>\<open>discover\<close> that its lambdas capture.\<close>

record Fixture =
  fx_out :: DiscoveryResult
  fx_nodes :: "TopologyNode list"
  fx_edges :: "(PciNodeId \<times> PciNodeId) list"

definition rc0 :: PciNodeId where "rc0 = Id 1"

definition rc1 :: PciNodeId where "rc1 = Id 2"

definition sw0 :: PciNodeId where "sw0 = Id 101"

definition sw1 :: PciNodeId where "sw1 = Id 102"

definition sw2 :: PciNodeId where "sw2 = Id 103"

definition sw3 :: PciNodeId where "sw3 = Id 104"

definition base_nodes :: "TopologyNode list" where
  "base_nodes =
     [mk_node rc0 (mk_pci 0 0x00 0 0) TopologyNodeKind.kRootComplex id_null (numa 0) syn,
      mk_node rc1 (mk_pci 0 0x80 0 0) TopologyNodeKind.kRootComplex id_null (numa 1) syn,
      mk_node sw0 (mk_pci 0 0x01 0 0) TopologyNodeKind.kSwitch rc0 (numa 0) syn,
      mk_node sw1 (mk_pci 0 0x02 0 0) TopologyNodeKind.kSwitch rc0 (numa 0) syn,
      mk_node sw2 (mk_pci 0 0x81 0 0) TopologyNodeKind.kSwitch rc1 (numa 1) syn,
      mk_node sw3 (mk_pci 0 0x82 0 0) TopologyNodeKind.kSwitch rc1 (numa 1) syn]"

definition base_edges :: "(PciNodeId \<times> PciNodeId) list" where
  "base_edges = [(sw0, rc0), (sw2, rc1)]"

definition fixture_start :: "SyntheticScenario \<Rightarrow> Fixture" where
  "fixture_start sc = \<lparr>fx_out = discovery_default\<lparr>dr_notes :=
       [''synthetic fixture scenario: '' @ SyntheticScenario_str sc]\<rparr>,
     fx_nodes = base_nodes, fx_edges = base_edges\<rparr>"

definition add_dev_node :: "PciNodeId \<Rightarrow> PciAddress \<Rightarrow> PciNodeId \<Rightarrow> NumaNodeId \<Rightarrow> Fixture \<Rightarrow> Fixture" where
  "add_dev_node i pci parent n fx =
     fx\<lparr>fx_nodes := fx_nodes fx @ [mk_node i pci TopologyNodeKind.kDevice parent n syn],
        fx_edges := fx_edges fx @ [(i, parent)]\<rparr>"

definition push_nic :: "NicRecord \<Rightarrow> Fixture \<Rightarrow> Fixture" where
  "push_nic n fx = fx\<lparr>fx_out := (fx_out fx)\<lparr>dr_nics := dr_nics (fx_out fx) @ [n]\<rparr>\<rparr>"

definition push_function :: "FunctionRecord \<Rightarrow> PortRecord \<Rightarrow> QueueRecord \<Rightarrow> Fixture \<Rightarrow> Fixture" where
  "push_function f p q fx = fx\<lparr>fx_out := (fx_out fx)\<lparr>
     dr_functions := dr_functions (fx_out fx) @ [f], dr_ports := dr_ports (fx_out fx) @ [p],
     dr_queues := dr_queues (fx_out fx) @ [q]\<rparr>\<rparr>"

definition add_gpu :: "u64 \<Rightarrow> PciAddress \<Rightarrow> NumaNodeId \<Rightarrow> DiscoveryContext \<Rightarrow> Fixture \<Rightarrow> Fixture" where
  "add_gpu i pci n ctx fx =
     fx\<lparr>fx_out := (fx_out fx)\<lparr>dr_gpus := dr_gpus (fx_out fx) @ [make_gpu i pci n ctx]\<rparr>\<rparr>"

definition finish :: "DiscoveryContext \<Rightarrow> Fixture \<Rightarrow> (ResidencyError + DiscoveryResult) option" where
  "finish ctx fx =
     (case build_topology (ctx_topology_generation ctx) (fx_nodes fx) (fx_edges fx) of
        None \<Rightarrow> None
      | Some (Inl err) \<Rightarrow> Some (Inl err)
      | Some (Inr t) \<Rightarrow> Some (Inr ((fx_out fx)\<lparr>dr_topology := Some t\<rparr>)))"

text \<open>One round of the loop over the virtual functions, and one of the dense scenario.\<close>

definition vf_round :: "DiscoveryContext \<Rightarrow> NicRecord \<Rightarrow> u64 \<Rightarrow> Fixture \<Rightarrow> Fixture" where
  "vf_round ctx nic i =
     (let fr = make_function (700 + i) nic FunctionClass.kVirtualFunction cap_default ctx
      in push_function fr (make_port (700 + i) (nic_id nic) (fn_id fr) ctx)
           (make_queue (700 + i) (fn_id fr) (nic_id nic) ''RDMA'' ctx))"

definition dense_round :: "DiscoveryContext \<Rightarrow> u64 \<Rightarrow> Fixture \<Rightarrow> Fixture" where
  "dense_round ctx i fx =
     (let bus = (if i mod 2 = 0 then 0x01 else 0x81 :: u64);
          parent = (if i mod 2 = 0 then sw0 else sw2);
          n = (if i mod 2 = 0 then numa 0 else numa 1);
          dev = (ucast ((i div 2) AND 0x1F) :: u8);
          fn = (ucast (i mod 8) :: u8);
          pci = mk_pci 0 (ucast bus) dev fn
      in push_nic (make_nic (200 + i) ''synth-dense'' pci n ctx True False)
           (add_dev_node (Id (2000 + i)) pci parent n fx))"

text \<open>A counted \<^verbatim>\<open>for\<close> loop over \<open>0, \<dots>, n - 1\<close>.\<close>

fun for_loop :: "(u64 \<Rightarrow> 's \<Rightarrow> 's) \<Rightarrow> nat list \<Rightarrow> 's \<Rightarrow> 's" where
  "for_loop f [] s = s"
| "for_loop f (i # is) s = for_loop f is (f (word_of_nat i) s)"

text \<open>The two preference scenarios share one case of the \<^verbatim>\<open>switch\<close>.\<close>

definition preference_body :: "DiscoveryContext \<Rightarrow> Fixture \<Rightarrow> Fixture" where
  "preference_body ctx fx =
     (let fx1 = add_dev_node (Id 1000) (mk_pci 0 0x01 0 0) sw0 (numa 0) fx;
          fx2 = add_dev_node (Id 1001) (mk_pci 0 0x02 0 0) sw1 (numa 0) fx1;
          fx3 = add_dev_node (Id 1002) (mk_pci 0 0x01 0 1) sw0 (numa 0) fx2;
          fx4 = push_nic (make_nic 30 ''synth-nic-sw0'' (mk_pci 0 0x01 0 0) (numa 0) ctx True False) fx3;
          fx5 = push_nic (make_nic 31 ''synth-nic-sw1'' (mk_pci 0 0x02 0 0) (numa 0) ctx True False) fx4
      in add_gpu 102 (mk_pci 0 0x01 0 1) (numa 0) ctx fx5)"

fun scenario_body :: "SyntheticScenario \<Rightarrow> DiscoveryContext \<Rightarrow> Fixture \<Rightarrow> Fixture" where
  "scenario_body kOneNicLocalToOneGpu ctx fx =
     (let fx1 = add_dev_node (Id 1000) (mk_pci 0 0x01 0 0) sw0 (numa 0) fx;
          fx2 = add_dev_node (Id 1001) (mk_pci 0 0x01 0 1) sw0 (numa 0) fx1;
          nic = make_nic 10 ''synth-nic0'' (mk_pci 0 0x01 0 0) (numa 0) ctx True False;
          fx3 = push_nic nic fx2;
          fn = make_function 10 nic FunctionClass.kPhysicalFunction (nic_capability nic) ctx;
          fx4 = push_function fn (make_port 10 (nic_id nic) (fn_id fn) ctx)
                  (make_queue 10 (fn_id fn) (nic_id nic) ''RX'' ctx) fx3
      in add_gpu 100 (mk_pci 0 0x01 0 1) (numa 0) ctx fx4)"
| "scenario_body kTwoNicsDifferentNuma ctx fx =
     (let fx1 = add_dev_node (Id 1000) (mk_pci 0 0x01 0 0) sw0 (numa 0) fx;
          fx2 = add_dev_node (Id 1001) (mk_pci 0 0x81 0 0) sw2 (numa 1) fx1;
          fx3 = push_nic (make_nic 20 ''synth-nic-numa0'' (mk_pci 0 0x01 0 0) (numa 0) ctx True False) fx2;
          fx4 = push_nic (make_nic 21 ''synth-nic-numa1'' (mk_pci 0 0x81 0 0) (numa 1) ctx True False) fx3
      in add_gpu 101 (mk_pci 0 0x01 0 1) (numa 0) ctx fx4)"
| "scenario_body kSameRootComplexPreference ctx fx = preference_body ctx fx"
| "scenario_body kSamePcieSwitchPreference ctx fx = preference_body ctx fx"
| "scenario_body kRemoteNumaFallback ctx fx =
     (let fx1 = add_dev_node (Id 1000) (mk_pci 0 0x81 0 0) sw2 (numa 1) fx;
          fx2 = add_dev_node (Id 1001) (mk_pci 0 0x01 0 1) sw0 (numa 0) fx1;
          fx3 = push_nic (make_nic 40 ''synth-nic-remote'' (mk_pci 0 0x81 0 0) (numa 1) ctx True False) fx2
      in add_gpu 103 (mk_pci 0 0x01 0 1) (numa 0) ctx fx3)"
| "scenario_body kSmartNicLocalMemory ctx fx =
     (let fx1 = add_dev_node (Id 1000) (mk_pci 0 0x01 0 0) sw0 (numa 0) fx;
          nic0 = make_nic 50 ''synth-smartnic'' (mk_pci 0 0x01 0 0) (numa 0) ctx True True;
          nic = nic0\<lparr>nic_device_kind := DeviceKind.kSmartNic,
                 nic_capability := (nic_capability nic0)\<lparr>cap_offload := True\<rparr>\<rparr>
      in add_gpu 104 (mk_pci 0 0x01 0 1) (numa 0) ctx (push_nic nic fx1))"
| "scenario_body kDpuLikeLocalMemory ctx fx =
     (let fx1 = add_dev_node (Id 1000) (mk_pci 0 0x01 0 0) sw0 (numa 0) fx;
          nic0 = make_nic 60 ''synth-dpu'' (mk_pci 0 0x01 0 0) (numa 0) ctx True True;
          nic = nic0\<lparr>nic_device_kind := DeviceKind.kDpu,
                 nic_capability := (nic_capability nic0)\<lparr>cap_offload := True\<rparr>\<rparr>
      in add_gpu 105 (mk_pci 0 0x01 0 1) (numa 0) ctx (push_nic nic fx1))"
| "scenario_body kPfWithMultipleVfs ctx fx =
     (let fx1 = add_dev_node (Id 1000) (mk_pci 0 0x01 0 0) sw0 (numa 0) fx;
          nic0 = make_nic 70 ''synth-pf'' (mk_pci 0 0x01 0 0) (numa 0) ctx True False;
          nic = nic0\<lparr>nic_function_class := FunctionClass.kPhysicalFunction,
                 nic_capability := (nic_capability nic0)\<lparr>cap_sr_iov := True\<rparr>\<rparr>;
          fx2 = for_loop (vf_round ctx nic) [0..<4] (push_nic nic fx1)
      in add_gpu 106 (mk_pci 0 0x01 0 1) (numa 0) ctx fx2)"
| "scenario_body kDenseCandidateSet ctx fx =
     add_gpu 107 (mk_pci 0 0x01 0 1) (numa 0) ctx (for_loop (dense_round ctx) [0..<200] fx)"
| "scenario_body kUnsupportedCapability ctx fx =
     (let fx1 = add_dev_node (Id 1000) (mk_pci 0 0x01 0 0) sw0 (numa 0) fx;
          nic0 = make_nic 80 ''synth-unsupported'' (mk_pci 0 0x01 0 0) (numa 0) ctx False False;
          nic = nic0\<lparr>nic_capability := (nic_capability nic0)\<lparr>cap_provenance :=
                  mk_prov EvidenceKind.kUnsupported [Source.kPci]\<rparr>\<rparr>
      in add_gpu 108 (mk_pci 0 0x01 0 1) (numa 0) ctx (push_nic nic fx1))"

definition synthetic_discover ::
    "SyntheticScenario \<Rightarrow> DiscoveryContext \<Rightarrow> (ResidencyError + DiscoveryResult) option" where
  "synthetic_discover sc ctx = finish ctx (scenario_body sc ctx (fixture_start sc))"

section \<open>The derived hierarchy of the system backend\<close>

record SysTopo =
  st_bus_switch :: "(u32, PciNodeId) smap"
  st_seg_rc :: "(u16, PciNodeId) smap"
  st_nc :: u64
  st_builder :: TopologyBuilder

definition systopo_default :: SysTopo where
  "systopo_default = \<lparr>st_bus_switch = [], st_seg_rc = [], st_nc = 1, st_builder = builder_default\<rparr>"

definition sys_add_node :: "TopologyNode \<Rightarrow> (SysTopo, ResidencyError, unit) exop" where
  "sys_add_node n s =
     (let (res, b) = add_node n (st_builder s) in (res, s\<lparr>st_builder := b\<rparr>))"

definition sys_add_edge :: "PciNodeId \<Rightarrow> PciNodeId \<Rightarrow> (SysTopo, ResidencyError, unit) exop" where
  "sys_add_edge x y s =
     (let (res, b) = add_edge x y (st_builder s) in (res, s\<lparr>st_builder := b\<rparr>))"

text \<open>The switch of a bus and the root complex of a segment, created at first use.\<close>

definition sys_switch :: "PciAddress \<Rightarrow> (SysTopo, ResidencyError, PciNodeId) exop" where
  "sys_switch pci s =
     (case m_find (st_bus_switch s) (ucast (pci_bus pci)) of
        Some sw \<Rightarrow> (Inr sw, s)
      | None \<Rightarrow>
          let sw = Id (st_nc s)
          in ex_bind (sys_add_node (mk_node sw (mk_pci (pci_segment pci) (pci_bus pci) 0 0)
                 TopologyNodeKind.kSwitch id_null id_null
                 (mk_prov EvidenceKind.kReal [Source.kPci, Source.kDerived])))
               (\<lambda>_. ex_return sw)
               (s\<lparr>st_nc := st_nc s + 1,
                  st_bus_switch := m_put (ucast (pci_bus pci)) sw (st_bus_switch s)\<rparr>))"

definition sys_root :: "PciAddress \<Rightarrow> (SysTopo, ResidencyError, PciNodeId) exop" where
  "sys_root pci s =
     (case m_find (st_seg_rc s) (pci_segment pci) of
        Some rc \<Rightarrow> (Inr rc, s)
      | None \<Rightarrow>
          let rc = Id (st_nc s)
          in ex_bind (sys_add_node (mk_node rc (mk_pci (pci_segment pci) 0 0 0)
                 TopologyNodeKind.kRootComplex id_null id_null
                 (mk_prov EvidenceKind.kReal [Source.kPci, Source.kDerived])))
               (\<lambda>_. ex_return rc)
               (s\<lparr>st_nc := st_nc s + 1, st_seg_rc := m_put (pci_segment pci) rc (st_seg_rc s)\<rparr>))"

definition sys_device :: "PciNodeId \<Rightarrow> PciAddress \<Rightarrow> (SysTopo, ResidencyError, unit) exop" where
  "sys_device sw pci s =
     (let dev = Id (st_nc s)
      in ex_then (sys_add_node (mk_node dev pci TopologyNodeKind.kDevice sw id_null
             (mk_prov EvidenceKind.kReal [Source.kPci])))
           (sys_add_edge dev sw) (s\<lparr>st_nc := st_nc s + 1\<rparr>))"

definition sys_place :: "PciAddress \<Rightarrow> (SysTopo, ResidencyError, unit) exop" where
  "sys_place pci =
     ex_bind (sys_switch pci) (\<lambda>sw.
     ex_bind (sys_root pci) (\<lambda>rc.
     ex_then (sys_add_edge sw rc) (sys_device sw pci)))"

definition system_build_topology ::
    "TopologyGeneration \<Rightarrow> PciAddress list \<Rightarrow> (ResidencyError + TopologySnapshot) option" where
  "system_build_topology gen addrs =
     (case ex_each sys_place addrs systopo_default of
        (Inl err, _) \<Rightarrow> Some (Inl err)
      | (Inr _, s) \<Rightarrow> map_option Inr (build gen (st_builder s)))"

end
