(* ===== verification/System_Topology.thy ===== *)
theory System_Topology
  imports Backends Topology_Theorems
begin

text \<open>
  The derived PCI hierarchy of the system backend, for every list of addresses the operating
  system may report: the loop keeps an invariant, so the build returns and can only be refused
  for its size, and a finished hierarchy gives each device its bus switch and no root complex.
\<close>

section \<open>Operations that can only run out of room\<close>

definition limited :: "('s \<Rightarrow> bool) \<Rightarrow> ('s, ResidencyError, 'a) exop \<Rightarrow> ('a \<Rightarrow> 's \<Rightarrow> bool) \<Rightarrow> bool" where
  "limited P m Q \<longleftrightarrow> (\<forall>s. P s \<longrightarrow> (case m s of
     (Inl err, _) \<Rightarrow> err_code err = ErrorCode.kResourceLimit | (Inr x, t) \<Rightarrow> Q x t))"

lemma limited_bind:
  assumes "limited P m Q" "\<And>x. limited (Q x) (f x) R"
  shows "limited P (ex_bind m f) R"
  unfolding limited_def
proof (intro allI impI)
  fix s assume "P s"
  then show "case ex_bind m f s of
      (Inl err, _) \<Rightarrow> err_code err = ErrorCode.kResourceLimit | (Inr x, t) \<Rightarrow> R x t"
    using assms unfolding limited_def ex_bind_def
    by (cases "m s"; cases "fst (m s)") fastforce+
qed

lemma limited_pre: "limited P m Q \<Longrightarrow> (\<And>s. P' s \<Longrightarrow> P s) \<Longrightarrow> limited P' m Q"
  by (simp add: limited_def)

lemma limited_then: "limited P m (\<lambda>_. Q) \<Longrightarrow> limited Q k R \<Longrightarrow> limited P (ex_then m k) R"
  unfolding ex_then_def by (rule limited_bind)

lemma limited_each: "(\<And>x. limited P (f x) (\<lambda>_. P)) \<Longrightarrow> limited P (ex_each f xs) (\<lambda>_. P)"
proof (induction xs)
  case Nil
  then show ?case by (simp add: limited_def)
next
  case (Cons x xs)
  then show ?case by (auto intro: limited_then)
qed

section \<open>The invariant of the loop\<close>

abbreviation st_nodes :: "SysTopo \<Rightarrow> node_map" where
  "st_nodes s \<equiv> tb_nodes (st_builder s)"

definition is_switch :: "node_map \<Rightarrow> PciNodeId \<Rightarrow> bool" where
  "is_switch m i \<longleftrightarrow> (\<exists>n. m_find m i = Some n \<and> tn_kind n = TopologyNodeKind.kSwitch)"

text \<open>Switches and root complexes have no parent, and a device hangs below a switch.\<close>

definition flat_node :: "node_map \<Rightarrow> TopologyNode \<Rightarrow> bool" where
  "flat_node m n \<longleftrightarrow> id_valid (tn_id n) \<and>
     (tn_kind n \<in> {TopologyNodeKind.kSwitch, TopologyNodeKind.kRootComplex} \<and> tn_parent n = id_null \<or>
      tn_kind n = TopologyNodeKind.kDevice \<and> is_switch m (tn_parent n))"

definition sys_ok :: "SysTopo \<Rightarrow> bool" where
  "sys_ok s \<longleftrightarrow> builder_inv (st_builder s) \<and> unat (st_nc s) = m_size (st_nodes s) + 1 \<and>
     (\<forall>k. m_has (st_nodes s) k \<longrightarrow> id_value k < st_nc s) \<and>
     (\<forall>k n. m_find (st_nodes s) k = Some n \<longrightarrow> flat_node (st_nodes s) n) \<and>
     (\<forall>bus sw. m_find (st_bus_switch s) bus = Some sw \<longrightarrow> is_switch (st_nodes s) sw) \<and>
     (\<forall>seg rc. m_find (st_seg_rc s) seg = Some rc \<longrightarrow> m_has (st_nodes s) rc)"

lemma sys_ok_default: "sys_ok systopo_default"
  using builder_inv_default
  by (simp add: sys_ok_def systopo_default_def builder_default_def m_size_def m_has_def)

lemma is_switch_put: "is_switch m i \<Longrightarrow> \<not> m_has m k \<Longrightarrow> is_switch (m_put k n m) i"
  by (auto simp: is_switch_def m_has_def)

lemma flat_node_put: "flat_node m x \<Longrightarrow> \<not> m_has m k \<Longrightarrow> flat_node (m_put k n m) x"
  by (auto simp: flat_node_def intro: is_switch_put)

text \<open>The state after a node with the next id was added.\<close>

definition sys_grow :: "TopologyNode \<Rightarrow> SysTopo \<Rightarrow> SysTopo" where
  "sys_grow n s = s\<lparr>st_nc := st_nc s + 1,
     st_builder := (st_builder s)\<lparr>tb_nodes := m_put (tn_id n) n (st_nodes s)\<rparr>\<rparr>"

lemma sys_fresh: "sys_ok s \<Longrightarrow> \<not> m_has (st_nodes s) (Id (st_nc s))"
  by (force simp: sys_ok_def)

lemma sys_grow_ok:
  assumes "sys_ok s" "tn_id n = Id (st_nc s)" "m_size (st_nodes s) < kMaxNodes"
    and "tn_kind n \<in> {TopologyNodeKind.kSwitch, TopologyNodeKind.kRootComplex} \<and> tn_parent n = id_null \<or>
      tn_kind n = TopologyNodeKind.kDevice \<and> is_switch (st_nodes s) (tn_parent n)"
  shows "sys_ok (sys_grow n s)"
proof -
  let ?m = "st_nodes s" and ?m' = "m_put (tn_id n) n (st_nodes s)"
  note ok = assms(1) [unfolded sys_ok_def]
  have fr: "\<not> m_has ?m (tn_id n)" using sys_fresh [OF assms(1)] assms(2) by simp
  have "add_node n (st_builder s) = (Inr (), (st_builder s)\<lparr>tb_nodes := ?m'\<rparr>)"
    using fr assms(3) by (simp add: add_node_def)
  then have inv: "builder_inv ((st_builder s)\<lparr>tb_nodes := ?m'\<rparr>)"
    using add_node_inv [of "st_builder s" n] ok by simp
  have nc: "unat (st_nc s + 1) = unat (st_nc s) + 1" "st_nc s < st_nc s + 1" "st_nc s \<noteq> 0"
  proof -
    have lt: "unat (st_nc s) < 5000" using ok assms(3) by (simp add: kMaxNodes_def)
    then show "unat (st_nc s + 1) = unat (st_nc s) + 1"
      by (simp add: unat_word_ariths)
    then show "st_nc s < st_nc s + 1" by (simp add: word_less_nat_alt)
    show "st_nc s \<noteq> 0" using ok by auto
  qed
  have size: "m_size ?m' = Suc (m_size ?m)"
    using ok fr by (simp add: builder_inv_def m_has_def)
  have below: "id_value k < st_nc s + 1" if "m_has ?m' k" for k
    using that ok nc(2) assms(2) less_trans [OF _ nc(2)] by auto
  have new: "flat_node ?m' n"
    using assms(2,4) nc(3) fr by (auto simp: flat_node_def intro: is_switch_put)
  have "flat_node ?m' x" if "m_find ?m' k = Some x" for k x
    using that ok new fr by (auto intro: flat_node_put split: if_splits)
  moreover have "is_switch ?m' sw" if "m_find (st_bus_switch s) bus = Some sw" for bus sw
    using that ok fr by (blast intro: is_switch_put)
  moreover have "m_has ?m' rc" if "m_find (st_seg_rc s) seg = Some rc" for seg rc
    using that ok by auto
  ultimately show ?thesis using inv nc(1) size below ok by (simp add: sys_ok_def sys_grow_def)
qed

section \<open>The steps keep it\<close>

text \<open>Adding the next node, whatever was written to the bus and segment tables before.\<close>

lemma sys_add_node_new:
  assumes "sys_ok s" "tn_id n = Id (st_nc s)"
  shows "sys_add_node n (s\<lparr>st_nc := st_nc s + 1, st_bus_switch := B, st_seg_rc := R\<rparr>) =
    (if m_size (st_nodes s) \<ge> kMaxNodes
     then (Inl (ResidencyError ErrorCode.kResourceLimit ''topology node limit exceeded'' []),
           s\<lparr>st_nc := st_nc s + 1, st_bus_switch := B, st_seg_rc := R\<rparr>)
     else (Inr (), (sys_grow n s)\<lparr>st_bus_switch := B, st_seg_rc := R\<rparr>))"
  using sys_fresh [OF assms(1)] assms(2) by (simp add: sys_add_node_def add_node_def sys_grow_def)

lemma sys_tables_ok:
  assumes "sys_ok s" "\<And>bus sw. m_find B bus = Some sw \<Longrightarrow> is_switch (st_nodes s) sw"
    and "\<And>seg rc. m_find R seg = Some rc \<Longrightarrow> m_has (st_nodes s) rc"
  shows "sys_ok (s\<lparr>st_bus_switch := B, st_seg_rc := R\<rparr>)"
  using assms by (simp add: sys_ok_def)

lemma sys_grow_nodes [simp]: "st_nodes (sys_grow n s) = m_put (tn_id n) n (st_nodes s)"
  by (simp add: sys_grow_def)

lemma sys_grow_tables [simp]:
  "st_bus_switch (sys_grow n s) = st_bus_switch s" "st_seg_rc (sys_grow n s) = st_seg_rc s"
  by (simp_all add: sys_grow_def)

lemma sys_switch_limited:
  "limited sys_ok (sys_switch pci) (\<lambda>sw t. sys_ok t \<and> is_switch (st_nodes t) sw)"
  unfolding limited_def
proof (intro allI impI)
  fix s assume ok: "sys_ok s"
  let ?bus = "ucast (pci_bus pci) :: u32" and ?sw = "Id (st_nc s)"
  define n where "n = mk_node ?sw (mk_pci (pci_segment pci) (pci_bus pci) 0 0) TopologyNodeKind.kSwitch
    id_null id_null (mk_prov EvidenceKind.kReal [Source.kPci, Source.kDerived])"
  let ?B = "m_put ?bus ?sw (st_bus_switch s)"
  have n: "tn_id n = ?sw" "tn_kind n = TopologyNodeKind.kSwitch" "tn_parent n = id_null"
    by (simp_all add: n_def)
  show "case sys_switch pci s of (Inl err, _) \<Rightarrow> err_code err = ErrorCode.kResourceLimit
      | (Inr sw, t) \<Rightarrow> sys_ok t \<and> is_switch (st_nodes t) sw"
  proof (cases "m_find (st_bus_switch s) ?bus")
    case (Some sw)
    then show ?thesis using ok by (auto simp: sys_switch_def sys_ok_def)
  next
    case None
    have eq: "sys_switch pci s =
        ex_bind (sys_add_node n) (\<lambda>_. ex_return ?sw)
          (s\<lparr>st_nc := st_nc s + 1, st_bus_switch := ?B, st_seg_rc := st_seg_rc s\<rparr>)"
      using None by (simp add: sys_switch_def n_def Let_def)
    show ?thesis
    proof (cases "m_size (st_nodes s) \<ge> kMaxNodes")
      case True
      then show ?thesis unfolding eq ex_bind_def sys_add_node_new [OF ok n(1)] by simp
    next
      case False
      then have grow: "sys_ok (sys_grow n s)" using ok n by (intro sys_grow_ok) auto
      have sw: "is_switch (st_nodes (sys_grow n s)) ?sw" using n by (simp add: is_switch_def)
      have "sys_ok ((sys_grow n s)\<lparr>st_bus_switch := ?B, st_seg_rc := st_seg_rc s\<rparr>)"
        by (rule sys_tables_ok [OF grow])
          (use grow sw in \<open>auto simp: sys_ok_def split: if_splits\<close>)
      with False sw show ?thesis unfolding eq ex_bind_def sys_add_node_new [OF ok n(1)] by simp
    qed
  qed
qed

lemma sys_root_limited:
  "limited (\<lambda>s. sys_ok s \<and> is_switch (st_nodes s) sw) (sys_root pci)
     (\<lambda>rc t. sys_ok t \<and> is_switch (st_nodes t) sw \<and> m_has (st_nodes t) rc)"
  unfolding limited_def
proof (intro allI impI)
  fix s assume "sys_ok s \<and> is_switch (st_nodes s) sw"
  then have ok: "sys_ok s" and sw: "is_switch (st_nodes s) sw" by auto
  let ?rc = "Id (st_nc s)"
  define n where "n = mk_node ?rc (mk_pci (pci_segment pci) 0 0 0) TopologyNodeKind.kRootComplex
    id_null id_null (mk_prov EvidenceKind.kReal [Source.kPci, Source.kDerived])"
  let ?R = "m_put (pci_segment pci) ?rc (st_seg_rc s)"
  have n: "tn_id n = ?rc" "tn_kind n = TopologyNodeKind.kRootComplex" "tn_parent n = id_null"
    by (simp_all add: n_def)
  show "case sys_root pci s of (Inl err, _) \<Rightarrow> err_code err = ErrorCode.kResourceLimit
      | (Inr rc, t) \<Rightarrow> sys_ok t \<and> is_switch (st_nodes t) sw \<and> m_has (st_nodes t) rc"
  proof (cases "m_find (st_seg_rc s) (pci_segment pci)")
    case (Some rc)
    then show ?thesis using ok sw by (auto simp: sys_root_def sys_ok_def)
  next
    case None
    have eq: "sys_root pci s =
        ex_bind (sys_add_node n) (\<lambda>_. ex_return ?rc)
          (s\<lparr>st_nc := st_nc s + 1, st_bus_switch := st_bus_switch s, st_seg_rc := ?R\<rparr>)"
      using None by (simp add: sys_root_def n_def Let_def)
    show ?thesis
    proof (cases "m_size (st_nodes s) \<ge> kMaxNodes")
      case True
      then show ?thesis unfolding eq ex_bind_def sys_add_node_new [OF ok n(1)] by simp
    next
      case False
      then have grow: "sys_ok (sys_grow n s)" using ok n by (intro sys_grow_ok) auto
      have sw': "is_switch (st_nodes (sys_grow n s)) sw"
        using sw n sys_fresh [OF ok] by (simp add: is_switch_put)
      have "sys_ok ((sys_grow n s)\<lparr>st_bus_switch := st_bus_switch s, st_seg_rc := ?R\<rparr>)"
        by (rule sys_tables_ok [OF grow])
          (use grow n in \<open>auto simp: sys_ok_def split: if_splits\<close>)
      with False sw' n show ?thesis unfolding eq ex_bind_def sys_add_node_new [OF ok n(1)] by simp
    qed
  qed
qed

lemma sys_add_edge_limited:
  "limited (\<lambda>s. sys_ok s \<and> is_switch (st_nodes s) sw \<and> m_has (st_nodes s) a \<and> m_has (st_nodes s) c)
     (sys_add_edge a c) (\<lambda>_ t. sys_ok t \<and> is_switch (st_nodes t) sw)"
  unfolding limited_def
proof (intro allI impI)
  fix s assume s: "sys_ok s \<and> is_switch (st_nodes s) sw \<and> m_has (st_nodes s) a \<and> m_has (st_nodes s) c"
  obtain res b where e: "add_edge a c (st_builder s) = (res, b)" by fastforce
  have nodes: "tb_nodes b = st_nodes s" using e by (auto simp: add_edge_def split: if_splits)
  have "builder_inv b" using add_edge_inv [of "st_builder s" a c] s e by (simp add: sys_ok_def)
  then have "sys_ok (s\<lparr>st_builder := b\<rparr>)" using s nodes by (simp add: sys_ok_def)
  with e nodes s show "case sys_add_edge a c s of
      (Inl err, _) \<Rightarrow> err_code err = ErrorCode.kResourceLimit
    | (Inr x, t) \<Rightarrow> sys_ok t \<and> is_switch (st_nodes t) sw"
    by (cases res) (auto simp: sys_add_edge_def add_edge_def split: if_splits)
qed

lemma is_switch_has: "is_switch m i \<Longrightarrow> m_has m i"
  by (auto simp: is_switch_def m_has_def)

lemma sys_device_limited:
  "limited (\<lambda>s. sys_ok s \<and> is_switch (st_nodes s) sw) (sys_device sw pci) (\<lambda>_. sys_ok)"
  unfolding limited_def
proof (intro allI impI)
  fix s assume "sys_ok s \<and> is_switch (st_nodes s) sw"
  then have ok: "sys_ok s" and sw: "is_switch (st_nodes s) sw" by auto
  define n where "n = mk_node (Id (st_nc s)) pci TopologyNodeKind.kDevice sw id_null
    (mk_prov EvidenceKind.kReal [Source.kPci])"
  have n: "tn_id n = Id (st_nc s)" "tn_kind n = TopologyNodeKind.kDevice" "tn_parent n = sw"
    by (simp_all add: n_def)
  have eq: "sys_device sw pci s = ex_bind (sys_add_node n) (\<lambda>_. sys_add_edge (Id (st_nc s)) sw)
      (s\<lparr>st_nc := st_nc s + 1, st_bus_switch := st_bus_switch s, st_seg_rc := st_seg_rc s\<rparr>)"
    by (simp add: sys_device_def n_def Let_def ex_then_def)
  show "case sys_device sw pci s of
      (Inl err, _) \<Rightarrow> err_code err = ErrorCode.kResourceLimit | (Inr x, t) \<Rightarrow> sys_ok t"
  proof (cases "m_size (st_nodes s) \<ge> kMaxNodes")
    case True
    then show ?thesis unfolding eq ex_bind_def sys_add_node_new [OF ok n(1)] by simp
  next
    case False
    then have grow: "sys_ok (sys_grow n s)" using ok n sw by (intro sys_grow_ok) auto
    have sw': "is_switch (st_nodes (sys_grow n s)) sw"
      using sw n sys_fresh [OF ok] by (simp add: is_switch_put)
    have "case sys_add_edge (Id (st_nc s)) sw (sys_grow n s) of
        (Inl err, _) \<Rightarrow> err_code err = ErrorCode.kResourceLimit | (Inr x, t) \<Rightarrow> sys_ok t"
      using sys_add_edge_limited [of sw "Id (st_nc s)" sw] grow sw' is_switch_has [OF sw'] n
      unfolding limited_def by (fastforce split: prod.splits sum.splits)
    moreover have same: "(sys_grow n s)\<lparr>st_bus_switch := st_bus_switch s, st_seg_rc := st_seg_rc s\<rparr> = sys_grow n s"
      by (simp add: sys_grow_def)
    ultimately show ?thesis
      unfolding eq ex_bind_def sys_add_node_new [OF ok n(1)] if_not_P [OF False] same by simp
  qed
qed

lemma sys_place_limited: "limited sys_ok (sys_place pci) (\<lambda>_. sys_ok)"
proof -
  have edge: "limited (\<lambda>s. sys_ok s \<and> is_switch (st_nodes s) sw \<and> m_has (st_nodes s) rc)
      (sys_add_edge sw rc) (\<lambda>_ t. sys_ok t \<and> is_switch (st_nodes t) sw)" for sw rc
    by (rule limited_pre [OF sys_add_edge_limited [of sw sw rc]]) (auto intro: is_switch_has)
  show ?thesis unfolding sys_place_def
    by (intro limited_bind [OF sys_switch_limited] limited_bind [OF sys_root_limited]
        limited_then [OF edge] sys_device_limited)
qed

section \<open>What a finished hierarchy says\<close>

lemma flat_path:
  assumes "sys_ok s" "m_find (st_nodes s) k = Some n"
  shows "parent_path (st_nodes s) k
    (n # (if tn_kind n = TopologyNodeKind.kDevice then [the (m_find (st_nodes s) (tn_parent n))] else []))"
proof -
  let ?m = "st_nodes s"
  have flat: "flat_node ?m x" "tn_id x = j" if "m_find ?m j = Some x" for j x
    using assms(1) that by (auto simp: sys_ok_def builder_inv_def)
  have top: "parent_path ?m (tn_parent x) []" if "m_find ?m j = Some x"
    "tn_kind x \<noteq> TopologyNodeKind.kDevice" for j x
    using flat(1) [OF that(1)] that(2) by (auto simp: flat_node_def intro: parent_path.stop)
  have k: "id_valid k" using flat [OF assms(2)] by (auto simp: flat_node_def)
  show ?thesis
  proof (cases "tn_kind n = TopologyNodeKind.kDevice")
    case True
    then obtain w where w: "m_find ?m (tn_parent n) = Some w" "tn_kind w = TopologyNodeKind.kSwitch"
      using flat(1) [OF assms(2)] by (auto simp: flat_node_def is_switch_def)
    then have "id_valid (tn_parent n)" using flat [OF w(1)] by (auto simp: flat_node_def)
    then show ?thesis using True k assms(2) w top [OF w(1)] by (auto intro: parent_path.up)
  next
    case False
    then show ?thesis using k assms(2) top [OF assms(2)] by (auto intro: parent_path.up)
  qed
qed

lemma flat_build:
  assumes "sys_ok s"
  obtains t where "build gen (st_builder s) = Some t" "top_nodes t = st_nodes s"
    "\<And>k n. m_find (st_nodes s) k = Some n \<Longrightarrow>
       root_complex_of t k = (if tn_kind n = TopologyNodeKind.kRootComplex then k else id_null) \<and>
       switch_of t k = (if tn_kind n = TopologyNodeKind.kDevice then tn_parent n
         else if tn_kind n = TopologyNodeKind.kSwitch then k else id_null)"
proof -
  have inv: "builder_inv (st_builder s)" using assms by (simp add: sys_ok_def)
  have ends: "chain_ends (st_nodes s) k" for k
    using path_chain_ends [OF flat_path [OF assms]] chain_ends.unknown by (metis option.exhaust)
  then obtain t where t: "build gen (st_builder s) = Some t"
    using build_None_iff [of gen "st_builder s"] by auto
  show thesis
  proof (rule that [OF t build_fields(2) [OF t]])
    fix k n assume n: "m_find (st_nodes s) k = Some n"
    have id: "tn_id x = j" if "m_find (st_nodes s) j = Some x" for j x
      using inv that by (simp add: builder_inv_def)
    have "flat_node (st_nodes s) n" using assms n by (simp add: sys_ok_def)
    then obtain w where w: "tn_kind n = TopologyNodeKind.kDevice \<Longrightarrow>
        m_find (st_nodes s) (tn_parent n) = Some w \<and> tn_kind w = TopologyNodeKind.kSwitch"
      "tn_kind n \<noteq> TopologyNodeKind.kDevice \<Longrightarrow>
        tn_kind n \<in> {TopologyNodeKind.kSwitch, TopologyNodeKind.kRootComplex}"
      by (auto simp: flat_node_def is_switch_def)
    have "m_has (st_nodes s) k" using n by (simp add: m_has_def)
    from build_ancestors [OF t inv this flat_path [OF assms n]]
    show "root_complex_of t k = (if tn_kind n = TopologyNodeKind.kRootComplex then k else id_null) \<and>
       switch_of t k = (if tn_kind n = TopologyNodeKind.kDevice then tn_parent n
         else if tn_kind n = TopologyNodeKind.kSwitch then k else id_null)"
      using w id n by (cases "tn_kind n = TopologyNodeKind.kDevice") auto
  qed
qed

lemma system_run:
  obtains err where "system_build_topology gen addrs = Some (Inl err)" "err_code err = ErrorCode.kResourceLimit"
  | s t where "sys_ok s" "system_build_topology gen addrs = Some (Inr t)" "build gen (st_builder s) = Some t"
proof -
  let ?run = "ex_each sys_place addrs systopo_default"
  have "limited sys_ok (ex_each sys_place addrs) (\<lambda>_. sys_ok)"
    by (rule limited_each) (rule sys_place_limited)
  then have run: "case ?run of (Inl err, _) \<Rightarrow> err_code err = ErrorCode.kResourceLimit | (Inr x, t) \<Rightarrow> sys_ok t"
    using sys_ok_default by (simp add: limited_def)
  obtain res s where r: "?run = (res, s)" by fastforce
  show thesis
  proof (cases res)
    case (Inl err)
    with run r show thesis by (intro that(1) [of err]) (simp_all add: system_build_topology_def)
  next
    case (Inr x)
    then have ok: "sys_ok s" using run r by simp
    obtain t where "build gen (st_builder s) = Some t" using flat_build [OF ok] by metis
    with ok r Inr show thesis by (intro that(2) [of s t]) (simp_all add: system_build_topology_def)
  qed
qed

text \<open>
  For every list of PCI addresses the derived hierarchy is built or refused with
  RESOURCE_LIMIT, and the build always returns. In a built hierarchy every device reports its
  parent switch and no root complex at all, so that two addresses count as sharing a root
  complex only when they resolve to one and the same node.
\<close>

theorem system_topology_outcome:
  "case system_build_topology gen addrs of
     None \<Rightarrow> False
   | Some (Inl err) \<Rightarrow> err_code err = ErrorCode.kResourceLimit
   | Some (Inr t) \<Rightarrow>
       (\<forall>k n. top_node t k = Some n \<and> tn_kind n = TopologyNodeKind.kDevice \<longrightarrow>
          root_complex_of t k = id_null \<and> switch_of t k = tn_parent n) \<and>
       (\<forall>a b. same_root_complex t a b \<longrightarrow> node_for_pci t a = node_for_pci t b)"
proof (rule system_run [of gen addrs])
  fix s t assume ok: "sys_ok s" and t: "system_build_topology gen addrs = Some (Inr t)"
    and b: "build gen (st_builder s) = Some t"
  from flat_build [OF ok, of gen] b have nodes: "top_nodes t = st_nodes s" and
    anc: "\<And>k n. m_find (st_nodes s) k = Some n \<Longrightarrow>
       root_complex_of t k = (if tn_kind n = TopologyNodeKind.kRootComplex then k else id_null) \<and>
       switch_of t k = (if tn_kind n = TopologyNodeKind.kDevice then tn_parent n
         else if tn_kind n = TopologyNodeKind.kSwitch then k else id_null)"
    by (metis option.inject)+
  have inv: "builder_inv (st_builder s)" using ok by (simp add: sys_ok_def)
  have found: "m_find (st_nodes s) (tn_id x) = Some x" if at: "node_for_pci t a = Some x" for a x
  proof -
    obtain k where "(k, x) \<in> set (st_nodes s)"
      using first_pci_Some [of "top_nodes t" a x] at by (auto simp: node_for_pci_def nodes)
    then have "m_find (st_nodes s) k = Some x" using inv by (auto simp: builder_inv_def intro: m_in_find)
    moreover from this have "tn_id x = k" using inv by (simp add: builder_inv_def)
    ultimately show ?thesis by simp
  qed
  have "node_for_pci t a = node_for_pci t c" if same: "same_root_complex t a c" for a c
  proof -
    obtain x y where xy: "node_for_pci t a = Some x" "node_for_pci t c = Some y"
      and "id_valid (root_complex_of t (tn_id x))" "root_complex_of t (tn_id x) = root_complex_of t (tn_id y)"
      using same by (auto simp: same_root_complex_def Let_def split: option.splits)
    then have eq: "tn_id x = tn_id y"
      using anc [OF found [OF xy(1)]] anc [OF found [OF xy(2)]] by (auto split: if_splits)
    have "Some x = Some y" using found [OF xy(1)] found [OF xy(2)] unfolding eq by (rule subst)
    then show ?thesis unfolding xy .
  qed
  moreover have "root_complex_of t k = id_null \<and> switch_of t k = tn_parent n"
    if "top_node t k = Some n \<and> tn_kind n = TopologyNodeKind.kDevice" for k n
    using anc [of k n] that by (simp add: top_node_def nodes)
  ultimately show ?thesis unfolding t option.case sum.case by blast
qed simp

text \<open>Two functions of one card share their bus switch but, for the hierarchy, no root complex.\<close>

theorem system_topology_outcome_witness:
  "\<exists>t. system_build_topology (Generation 1) [mk_pci 0 1 0 0, mk_pci 0 1 0 1] = Some (Inr t) \<and>
     root_complex_of t (Id 3) = id_null \<and> switch_of t (Id 3) = Id 1 \<and> switch_of t (Id 4) = Id 1"
proof -
  let ?r = "system_build_topology (Generation 1) [mk_pci 0 1 0 0, mk_pci 0 1 0 1]"
  have "case ?r of Some (Inr t) \<Rightarrow>
      map_option (\<lambda>n. (tn_kind n, tn_parent n)) (top_node t (Id 3)) = Some (TopologyNodeKind.kDevice, Id 1) \<and>
      map_option (\<lambda>n. (tn_kind n, tn_parent n)) (top_node t (Id 4)) = Some (TopologyNodeKind.kDevice, Id 1)
    | _ \<Rightarrow> False"
    by code_simp
  then obtain t where t: "?r = Some (Inr t)"
    and n: "map_option (\<lambda>n. (tn_kind n, tn_parent n)) (top_node t (Id 3)) = Some (TopologyNodeKind.kDevice, Id 1)"
      "map_option (\<lambda>n. (tn_kind n, tn_parent n)) (top_node t (Id 4)) = Some (TopologyNodeKind.kDevice, Id 1)"
    by (auto split: option.splits sum.splits)
  from system_topology_outcome [of "Generation 1" "[mk_pci 0 1 0 0, mk_pci 0 1 0 1]"] t n
  show ?thesis by auto
qed

end
