(* ===== verification/C_Library.thy ===== *)
theory C_Library
  imports NR_Prelude
begin

unbundle bit_operations_syntax

text \<open>
  What the programs use of the C library: the scanning functions that read numbers out of text,
  on wide and on narrow strings, and the conversions of \<^verbatim>\<open>printf\<close>.
\<close>

section \<open>Scanning\<close>

type_synonym wstring = "u16 list"

definition wide :: "string \<Rightarrow> wstring" where
  "wide s = map (\<lambda>c. ucast (to_byte c)) s"

definition wspace :: "u16 \<Rightarrow> bool" where
  "wspace c \<longleftrightarrow> c = 32 \<or> 9 \<le> c \<and> c \<le> 13"

fun skip_space :: "wstring \<Rightarrow> wstring" where
  "skip_space [] = []"
| "skip_space (c # s) = (if wspace c then skip_space s else c # s)"

definition digit_value :: "bool \<Rightarrow> u16 \<Rightarrow> nat option" where
  "digit_value hex c =
     (if 48 \<le> c \<and> c \<le> 57 then Some (unat c - 48)
      else if hex \<and> 65 \<le> c \<and> c \<le> 70 then Some (unat c - 55)
      else if hex \<and> 97 \<le> c \<and> c \<le> 102 then Some (unat c - 87)
      else None)"

text \<open>The longest run of digits: its value and what follows it.\<close>

fun scan_digits :: "bool \<Rightarrow> nat \<Rightarrow> wstring \<Rightarrow> nat \<times> wstring" where
  "scan_digits hex acc [] = (acc, [])"
| "scan_digits hex acc (c # s) =
     (case digit_value hex c of
        None \<Rightarrow> (acc, c # s)
      | Some d \<Rightarrow> scan_digits hex (acc * (if hex then 16 else 10) + d) s)"

text \<open>
  The conversions \<^verbatim>\<open>%u\<close> and \<^verbatim>\<open>%x\<close>: blanks, an optional sign, for \<^verbatim>\<open>%x\<close> an optional prefix, and at
  least one digit. The C standard leaves open what a number too large for the variable yields;
  the model reduces it modulo \<open>2 ^ 32\<close>.
\<close>

definition scan_sign :: "wstring \<Rightarrow> bool \<times> wstring" where
  "scan_sign s = (case s of c # t \<Rightarrow> if c = 45 then (True, t) else if c = 43 then (False, t) else (False, s)
     | [] \<Rightarrow> (False, []))"

definition scan_prefix :: "bool \<Rightarrow> wstring \<Rightarrow> wstring" where
  "scan_prefix hex s = (case s of c # d # t \<Rightarrow> if hex \<and> c = 48 \<and> (d = 120 \<or> d = 88) then t else s | _ \<Rightarrow> s)"

definition scan_unsigned :: "bool \<Rightarrow> wstring \<Rightarrow> (u32 \<times> wstring) option" where
  "scan_unsigned hex s =
     (let (neg, s1) = scan_sign (skip_space s); s2 = scan_prefix hex s1 in
      case s2 of
        [] \<Rightarrow> None
      | c # _ \<Rightarrow>
          if digit_value hex c = None then None
          else let (n, t) = scan_digits hex 0 s2; v = word_of_nat n
            in Some (if neg then - v else v, t))"

text \<open>The part of \<^verbatim>\<open>swscanf\<close> the source uses. The result lists the values stored, in order.\<close>

datatype scan_item = ScanChar u16 | ScanSpace | ScanUnsigned | ScanHex

fun swscanf :: "scan_item list \<Rightarrow> wstring \<Rightarrow> u32 list" where
  "swscanf [] s = []"
| "swscanf (ScanChar c # f) s = (case s of [] \<Rightarrow> [] | x # t \<Rightarrow> if x = c then swscanf f t else [])"
| "swscanf (ScanSpace # f) s = swscanf f (skip_space s)"
| "swscanf (ScanUnsigned # f) s = (case scan_unsigned False s of None \<Rightarrow> [] | Some (v, t) \<Rightarrow> v # swscanf f t)"
| "swscanf (ScanHex # f) s = (case scan_unsigned True s of None \<Rightarrow> [] | Some (v, t) \<Rightarrow> v # swscanf f t)"

definition scan_text :: "string \<Rightarrow> scan_item list" where
  "scan_text s = map (\<lambda>c. if wspace c then ScanSpace else ScanChar c) (wide s)"

fun contains :: "wstring \<Rightarrow> wstring \<Rightarrow> bool" where
  "contains p [] \<longleftrightarrow> p = []"
| "contains p (c # s) \<longleftrightarrow> take (length p) (c # s) = p \<or> contains p s"

section \<open>Numbers in arguments\<close>

text \<open>\<^verbatim>\<open>strtoul(s, nullptr, 10)\<close>: no digits give 0, and a number too large the largest value.\<close>

definition strtoul10 :: "string \<Rightarrow> u32" where
  "strtoul10 s =
     (let (neg, t) = scan_sign (skip_space (wide s)); n = fst (scan_digits False 0 t)
      in if 2 ^ 32 \<le> int n then - 1 else if neg then - word_of_nat n else word_of_nat n)"

text \<open>
  \<^verbatim>\<open>strtoull(s, nullptr, 0)\<close>: blanks, a sign, then a prefix that fixes the base; no digits give 0
  and a number too large the largest value.
\<close>

fun scan_base :: "nat \<Rightarrow> nat \<Rightarrow> wstring \<Rightarrow> nat" where
  "scan_base base acc [] = acc"
| "scan_base base acc (c # s) =
     (case digit_value True c of
        None \<Rightarrow> acc
      | Some d \<Rightarrow> if d < base then scan_base base (acc * base + d) s else acc)"

definition strtoull0 :: "string \<Rightarrow> u64" where
  "strtoull0 s =
     (let (neg, t) = scan_sign (skip_space (wide s));
          u = scan_prefix True t;
          n = (if u \<noteq> t then scan_base 16 0 u
               else if t \<noteq> [] \<and> hd t = 48 then scan_base 8 0 t else scan_base 10 0 t)
      in if 2 ^ 64 \<le> int n then - 1 else if neg then - word_of_nat n else word_of_nat n)"

section \<open>Formatting\<close>

definition newline :: string where
  "newline = [CHR 0x0A]"

definition quote :: string where
  "quote = [CHR 0x22]"

text \<open>A string passed to \<^verbatim>\<open>%s\<close> ends at its first NUL byte.\<close>

definition c_str :: "string \<Rightarrow> string" where
  "c_str s = takeWhile (\<lambda>c. c \<noteq> CHR 0x00) s"

definition fmt_int :: "int \<Rightarrow> string" where
  "fmt_int i = (if i < 0 then ''-'' @ dec_digits (nat (- i)) else dec_digits (nat i))"

end
