(* ===== verification/Host_Backends.thy ===== *)
theory Host_Backends
  imports Backends C_Library
begin

unbundle bit_operations_syntax

text \<open>
  The backends that look at the real host: network adapters through the Windows device APIs
  (\<^verbatim>\<open>src/system_backend.cpp\<close>) and accelerators through NVML (\<^verbatim>\<open>src/nvidia_backend.cpp\<close>). What these
  foreign interfaces report is an argument of the model, as a record of their answers; what the
  sources make of the answers is modelled here. The device files include \<^verbatim>\<open>windows.h\<close>, so \<^verbatim>\<open>wchar_t\<close> has 16 and \<^verbatim>\<open>unsigned long\<close>
  32 bits.
\<close>

section \<open>Formats\<close>

definition location_format :: "scan_item list" where
  "location_format = scan_text ''PCI bus '' @ [ScanUnsigned] @ scan_text '', device '' @ [ScanUnsigned] @
     scan_text '', function '' @ [ScanUnsigned]"

definition hardware_format :: "scan_item list" where
  "hardware_format = scan_text ''PCI'' @ [ScanChar 92] @ scan_text ''VEN_'' @ [ScanHex] @ scan_text ''&DEV_'' @ [ScanHex] @
     scan_text ''&SUBSYS_'' @ [ScanHex] @ scan_text ''&REV_'' @ [ScanHex]"

section \<open>Adapters\<close>

definition parse_location :: "wstring \<Rightarrow> PciAddress option" where
  "parse_location raw =
     (if raw = [] then None
      else if \<not> contains (wide ''PCI'') raw then None
      else (case swscanf location_format raw of
          [bus, dev, fn] \<Rightarrow> Some (mk_pci 0 (ucast (bus AND 0xFF)) (ucast (dev AND 0x1F)) (ucast (fn AND 0x7)))
        | _ \<Rightarrow> None))"

text \<open>
  A registry property of a device: \<^term>\<open>None\<close> when the device has none, else the words of its
  value. The call fails when the value does not fit the buffer of 1024 words. The source puts a
  NUL over the last word that was written and reads up to the first NUL.
\<close>

definition reg_prop_string :: "wstring option \<Rightarrow> wstring" where
  "reg_prop_string prop =
     (case prop of
        None \<Rightarrow> []
      | Some value \<Rightarrow> if length value > 1024 then []
          else if length value \<ge> 1 then takeWhile (\<lambda>c. c \<noteq> 0) (value[length value - 1 := 0])
          else [])"

text \<open>
  The answers of the operating system. A device is given by its registry properties. The
  adapter list pairs an optional friendly name with whether the adapter is operational.
\<close>

record SetupDevice =
  pr_desc :: "wstring option"
  pr_friendly :: "wstring option"
  pr_location :: "wstring option"
  pr_hw_id :: "wstring option"

definition sd_desc :: "SetupDevice \<Rightarrow> wstring" where
  "sd_desc d = reg_prop_string (pr_desc d)"

definition sd_friendly :: "SetupDevice \<Rightarrow> wstring" where
  "sd_friendly d = reg_prop_string (pr_friendly d)"

definition sd_location :: "SetupDevice \<Rightarrow> wstring" where
  "sd_location d = reg_prop_string (pr_location d)"

definition sd_hw_id :: "SetupDevice \<Rightarrow> wstring" where
  "sd_hw_id d = reg_prop_string (pr_hw_id d)"

record HostApi =
  ha_adapters_ok :: bool
  ha_adapters :: "(wstring option \<times> bool) list"
  ha_net_devices :: "SetupDevice list option"
  ha_enum_error :: bool
  ha_all_devices :: "SetupDevice list option"
  ha_utf8 :: "wstring \<Rightarrow> string"

definition to_utf8 :: "HostApi \<Rightarrow> wstring \<Rightarrow> string" where
  "to_utf8 h w = (if w = [] then [] else ha_utf8 h w)"

fun link_of :: "(wstring option \<times> bool) list \<Rightarrow> wstring \<Rightarrow> LinkState" where
  "link_of [] friendly = LinkState.kUnknown"
| "link_of ((name, up) # aa) friendly =
     (if name = Some friendly then (if up then LinkState.kUp else LinkState.kDown) else link_of aa friendly)"

definition on_pci :: "SetupDevice \<Rightarrow> bool" where
  "on_pci d \<longleftrightarrow> 5 \<le> length (sd_hw_id d) \<and> sd_hw_id d ! 3 = 92"

text \<open>The \<open>i\<close>-th value scanned from the hardware id; a variable that was not reached stays 0.\<close>

definition hw_field :: "nat \<Rightarrow> SetupDevice \<Rightarrow> u32" where
  "hw_field i d = (let vs = swscanf hardware_format (sd_hw_id d) in if i < length vs then vs ! i else 0)"

definition system_nic :: "HostApi \<Rightarrow> DiscoveryContext \<Rightarrow> SetupDevice \<Rightarrow> PciAddress \<Rightarrow> NicRecord" where
  "system_nic h ctx d pci =
     (let friendly = (if sd_friendly d = [] then sd_desc d else sd_friendly d) in
      nic_default\<lparr>nic_pci := pci,
        nic_vendor_id := ucast (hw_field 0 d AND 0xFFFF), nic_device_id := ucast (hw_field 1 d AND 0xFFFF),
        nic_subsystem_id := ucast (hw_field 2 d AND 0xFFFF),
        nic_subsystem_vendor_id := ucast (drop_bit 16 (hw_field 2 d) AND 0xFFFF),
        nic_revision := ucast (hw_field 3 d AND 0xFF),
        nic_id := Id (ucast (pci_numeric pci)), nic_generation := Generation 1,
        nic_os_name := to_utf8 h (if friendly = [] then sd_desc d else friendly),
        nic_os_description := to_utf8 h (sd_desc d),
        nic_device_kind := DeviceKind.kNic, nic_function_class := FunctionClass.kUnknown,
        nic_capability := (nic_capability nic_default)\<lparr>cap_generation := Generation 1,
          cap_accel_affinity := False,
          cap_provenance := mk_prov EvidenceKind.kReal [Source.kNetAdapterApi, Source.kPci]\<rparr>,
        nic_numa_node := id_null, nic_link_state := link_of (ha_adapters h) friendly,
        nic_health := HealthState.kReady, nic_lifecycle := LifecycleState.kAvailable,
        nic_provenance := mk_prov EvidenceKind.kReal [Source.kOperatingSystem, Source.kNetAdapterApi],
        nic_freshness := ctx_freshness ctx\<rparr>)"

abbreviation add_note :: "string \<Rightarrow> DiscoveryResult \<Rightarrow> DiscoveryResult" where
  "add_note n d \<equiv> d\<lparr>dr_notes := dr_notes d @ [n]\<rparr>"

fun system_enumerate :: "HostApi \<Rightarrow> DiscoveryContext \<Rightarrow> SetupDevice list \<Rightarrow> DiscoveryResult \<Rightarrow> DiscoveryResult" where
  "system_enumerate h ctx [] out = out"
| "system_enumerate h ctx (d # ds) out =
     (if length (dr_nics out) \<ge> ctx_max_nics ctx then add_note ''NIC enumeration truncated at max_nics'' out
      else if \<not> on_pci d then system_enumerate h ctx ds out
      else (case parse_location (sd_location d) of
          None \<Rightarrow> system_enumerate h ctx ds (add_note ''one NIC had no parseable PCI location; skipped'' out)
        | Some pci \<Rightarrow> system_enumerate h ctx ds (out\<lparr>dr_nics := dr_nics out @ [system_nic h ctx d pci]\<rparr>)))"

text \<open>
  The addresses of all PCI devices. The limit is compared with the number of nodes of a builder
  that is still empty here, so it stops the loop only when it is 0.
\<close>

fun collect_addresses :: "nat \<Rightarrow> SetupDevice list \<Rightarrow> PciAddress list" where
  "collect_addresses max_nodes [] = []"
| "collect_addresses max_nodes (d # ds) =
     (if \<not> on_pci d then collect_addresses max_nodes ds
      else (case parse_location (sd_location d) of
          None \<Rightarrow> collect_addresses max_nodes ds
        | Some pci \<Rightarrow> pci # (if m_size (tb_nodes builder_default) \<ge> max_nodes then []
                          else collect_addresses max_nodes ds)))"

definition system_topology ::
    "HostApi \<Rightarrow> TopologyGeneration \<Rightarrow> nat \<Rightarrow> (ResidencyError + TopologySnapshot option) option" where
  "system_topology h gen max_nodes =
     (case ha_all_devices h of
        None \<Rightarrow> Some (Inr None)
      | Some ds \<Rightarrow> map_option (map_sum id Some) (system_build_topology gen (collect_addresses max_nodes ds)))"

definition system_discover :: "HostApi \<Rightarrow> DiscoveryContext \<Rightarrow> (ResidencyError + DiscoveryResult) option" where
  "system_discover h ctx =
     (let out0 = add_note ''windows-system backend: REAL host enumeration'' discovery_default;
          out1 = (if ha_adapters_ok h then out0
                  else add_note ''GetAdaptersAddresses failed; link state UNKNOWN'' out0)
      in case ha_net_devices h of
           None \<Rightarrow> Some (Inl (ResidencyError ErrorCode.kBackendUnavailable
                     ''SetupDiGetClassDevs(net) failed to enumerate NICs'' []))
         | Some ds \<Rightarrow>
             let out2 = system_enumerate h ctx ds out1
             in if ha_enum_error h \<and> dr_nics out2 = [] then
                  Some (Inl (ResidencyError ErrorCode.kBackendError ''SetupAPI NIC enumeration error'' []))
                else (case system_topology h (ctx_topology_generation ctx) (ctx_max_topology_nodes ctx) of
                    None \<Rightarrow> None
                  | Some (Inl err) \<Rightarrow> Some (Inl err)
                  | Some (Inr t) \<Rightarrow>
                      let out3 = out2\<lparr>dr_topology := t\<rparr>
                      in Some (Inr (if t = None then add_note ''no PCI topology available'' out3 else out3))))"

section \<open>Accelerators\<close>

text \<open>
  The NVML library: the names it exports, \<^term>\<open>None\<close> when it cannot be loaded, and what its
  functions answer: whether it initializes, the device count and, for each index, whether there
  is a handle, the name (up to its terminator), the PCI information and the NUMA node, each
  \<^term>\<open>None\<close> when the call fails.
\<close>

record NvmlPciInfoV2 =
  np_domain :: u32
  np_bus :: u32
  np_device :: u32
  np_busId :: string

record NvmlDevice =
  nd_handle :: bool
  nd_name :: string
  nd_pci :: "NvmlPciInfoV2 option"
  nd_numa :: "u32 option"

record NvmlLibrary =
  nl_exports :: "string list option"
  nl_init :: bool
  nl_count :: "u32 option"
  nl_device :: "u32 \<Rightarrow> NvmlDevice"

text \<open>The table of entry points; a field says that the pointer is not null.\<close>

record NvmlApi =
  nv_ok :: bool
  nv_init :: bool
  nv_shutdown :: bool
  nv_getCount :: bool
  nv_getHandleByIndex :: bool
  nv_getName :: bool
  nv_getPciInfo :: bool
  nv_getNumaNode :: bool

definition NvmlApi_default :: NvmlApi where
  "NvmlApi_default = \<lparr>nv_ok = False, nv_init = False, nv_shutdown = False, nv_getCount = False,
     nv_getHandleByIndex = False, nv_getName = False, nv_getPciInfo = False, nv_getNumaNode = False\<rparr>"

definition NvmlApi_load :: "NvmlLibrary \<Rightarrow> NvmlApi" where
  "NvmlApi_load l =
     (case nl_exports l of
        None \<Rightarrow> NvmlApi_default
      | Some exports \<Rightarrow>
          let sym = (\<lambda>name. name \<in> set exports);
              a = NvmlApi_default\<lparr>nv_init := sym ''nvmlInit_v2'', nv_shutdown := sym ''nvmlShutdown'',
                nv_getCount := sym ''nvmlDeviceGetCount_v2'',
                nv_getHandleByIndex := sym ''nvmlDeviceGetHandleByIndex_v2'',
                nv_getName := sym ''nvmlDeviceGetName'', nv_getPciInfo := sym ''nvmlDeviceGetPciInfo_v2'',
                nv_getNumaNode := sym ''nvmlDeviceGetNumaNode''\<rparr>
          in if \<not> nv_init a \<or> \<not> nv_shutdown a \<or> \<not> nv_getCount a \<or> \<not> nv_getHandleByIndex a \<or> \<not> nv_getPciInfo a
             then a else a\<lparr>nv_ok := True\<rparr>)"

definition nvidia_available :: "NvmlLibrary \<Rightarrow> bool" where
  "nvidia_available l \<longleftrightarrow> nv_ok (NvmlApi_load l) \<and> nl_init l"

text \<open>What follows the last dot of the bus id, if it has one.\<close>

fun after_last_dot :: "string \<Rightarrow> string option" where
  "after_last_dot [] = None"
| "after_last_dot (c # s) =
     (case after_last_dot s of Some t \<Rightarrow> Some t | None \<Rightarrow> if c = CHR ''.'' then Some s else None)"

definition nvml_function :: "NvmlPciInfoV2 \<Rightarrow> u32" where
  "nvml_function p = (case after_last_dot (np_busId p) of None \<Rightarrow> 0 | Some t \<Rightarrow> strtoul10 t)"

definition nvml_gpu_id :: "u32 \<Rightarrow> NvmlPciInfoV2 \<Rightarrow> GpuId" where
  "nvml_gpu_id i p =
     (let v = push_bit 16 (ucast (np_domain p)) OR push_bit 8 (ucast (np_bus p)) OR
              push_bit 3 (ucast (np_device p)) OR (ucast (nvml_function p) :: u64)
      in if id_valid (Id v :: GpuId) then Id v else Id (ucast (i + 1)))"

definition nvml_gpu :: "NvmlApi \<Rightarrow> DiscoveryContext \<Rightarrow> u32 \<Rightarrow> NvmlDevice \<Rightarrow> NvmlPciInfoV2 \<Rightarrow> GpuRecord" where
  "nvml_gpu a ctx i d p = gpu_default\<lparr>gpu_id := nvml_gpu_id i p, gpu_generation := Generation 1,
     gpu_name := (if nd_name d \<noteq> [] then nd_name d else ''gpu'' @ dec_digits (unat i)),
     gpu_pci := mk_pci (ucast (np_domain p)) (ucast (np_bus p AND 0xFF)) (ucast (np_device p AND 0x1F))
       (ucast (nvml_function p AND 0x7)),
     gpu_cuda_device := Id (ucast i), gpu_cuda_verified := True,
     gpu_numa_node := (case nd_numa d of
         Some node \<Rightarrow> if nv_getNumaNode a \<and> node < 0x00FFFFFF then Id (ucast node + 1) else id_null
       | None \<Rightarrow> id_null),
     gpu_provenance := mk_prov EvidenceKind.kReal [Source.kNvml], gpu_freshness := ctx_freshness ctx\<rparr>"

text \<open>
  The rounds of the loop. The name function is called without a test, although a library that
  lacks it is accepted: \<^term>\<open>None\<close> stands for that call through a null pointer.
\<close>

fun nvidia_rounds ::
    "NvmlApi \<Rightarrow> NvmlLibrary \<Rightarrow> DiscoveryContext \<Rightarrow> nat list \<Rightarrow> DiscoveryResult \<Rightarrow> DiscoveryResult option" where
  "nvidia_rounds a l ctx [] out = Some out"
| "nvidia_rounds a l ctx (k # ks) out =
     (let i = word_of_nat k; d = nl_device l i in
      if \<not> nd_handle d then nvidia_rounds a l ctx ks out
      else if \<not> nv_getName a then None
      else (case nd_pci d of
          None \<Rightarrow> nvidia_rounds a l ctx ks out
        | Some p \<Rightarrow> nvidia_rounds a l ctx ks (out\<lparr>dr_gpus := dr_gpus out @ [nvml_gpu a ctx i d p]\<rparr>)))"

definition nvidia_discover :: "NvmlLibrary \<Rightarrow> DiscoveryContext \<Rightarrow> (ResidencyError + DiscoveryResult) option" where
  "nvidia_discover l ctx =
     (let a = NvmlApi_load l in
      if \<not> nv_ok a then
        Some (Inl (ResidencyError ErrorCode.kBackendUnavailable
               ''NVML is not available; accelerator affinity UNSUPPORTED'' []))
      else if \<not> nl_init l then
        Some (Inl (ResidencyError ErrorCode.kBackendUnavailable ''NVML init failed'' []))
      else (case nl_count l of
          None \<Rightarrow> Some (Inl (ResidencyError ErrorCode.kBackendError ''NVML device count failed'' []))
        | Some n \<Rightarrow>
            map_option Inr (nvidia_rounds a l ctx [0..<min (unat n) (ctx_max_gpus ctx)]
                  (add_note (''nvidia-affinity backend: NVML present, '' @ dec_digits (unat n) @ '' device(s)'')
                     discovery_default))))"

end
