(* ===== verification/Engine.thy ===== *)
theory Engine
  imports Backends Sample_States
begin

unbundle bit_operations_syntax

text \<open>
  The composition layer (\<^verbatim>\<open>include/nicresidency/engine.hpp\<close>, \<^verbatim>\<open>src/engine.cpp\<close>): boot
  identities and the ingestion of a discovery result into the registry. The engine object holds
  nothing but its registry. The process id, the clock and the two entropy values that
  \<^verbatim>\<open>fresh_boot_id\<close> reads are arguments.
\<close>

section \<open>Operations\<close>

definition fresh_boot_id :: "u64 \<Rightarrow> u64 \<Rightarrow> u32 \<Rightarrow> u32 \<Rightarrow> WorkerBootId" where
  "fresh_boot_id pid now r1 r2 =
     (let rand_part = push_bit 32 (ucast r1) XOR ucast r2;
          v = (pid XOR (now AND 0x7FFFFFFFFFFFFFFF)) XOR rand_part
      in Id (if v = 0 then 1 else v))"

definition register_host_worker :: "WorkerBootId \<Rightarrow> WorkerId \<Rightarrow> WorkerBootId reg_op" where
  "register_host_worker boot worker = ex_then (register_worker worker boot) (ex_return boot)"

definition ingest :: "DiscoveryResult \<Rightarrow> WorkerId \<Rightarrow> WorkerBootId \<Rightarrow> CoordinatorEpoch \<Rightarrow> unit reg_op" where
  "ingest d w b e =
     ex_then (ex_each (\<lambda>nic. register_nic nic e w b) (dr_nics d))
     (ex_then (ex_each (\<lambda>gpu. register_gpu gpu e w b) (dr_gpus d))
     (ex_then (case dr_topology d of None \<Rightarrow> ex_return () | Some t \<Rightarrow> set_topology t e w b)
     (ex_then (ex_each (\<lambda>func. register_function func e w b) (dr_functions d))
     (ex_then (ex_each (\<lambda>port. register_port port e w b) (dr_ports d))
       (ex_each (\<lambda>q. register_queue q e w b) (dr_queues d))))))"

definition ingest_current :: "DiscoveryResult \<Rightarrow> WorkerId \<Rightarrow> WorkerBootId \<Rightarrow> unit reg_op" where
  "ingest_current d w b r = ingest d w b (reg_epoch r) r"

section \<open>Ingestion as a run of registry calls\<close>

text \<open>The specification: calls one after another until one of them raises.\<close>

fun run_calls :: "reg_call list \<Rightarrow> NicRegistry \<Rightarrow> ResidencyError option \<times> NicRegistry" where
  "run_calls [] r = (None, r)"
| "run_calls (c # cs) r = (case exec_call c r of (Some err, s) \<Rightarrow> (Some err, s) | (None, s) \<Rightarrow> run_calls cs s)"

definition ingest_calls :: "DiscoveryResult \<Rightarrow> WorkerId \<Rightarrow> WorkerBootId \<Rightarrow> CoordinatorEpoch \<Rightarrow> reg_call list" where
  "ingest_calls d w b e =
     map (\<lambda>x. RegisterNic x e w b) (dr_nics d) @ map (\<lambda>x. RegisterGpu x e w b) (dr_gpus d) @
     (case dr_topology d of None \<Rightarrow> [] | Some t \<Rightarrow> [SetTopology t e w b]) @
     map (\<lambda>x. RegisterFunction x e w b) (dr_functions d) @ map (\<lambda>x. RegisterPort x e w b) (dr_ports d) @
     map (\<lambda>x. RegisterQueue x e w b) (dr_queues d)"

lemma run_calls_append:
  "run_calls (cs @ ds) r = (case run_calls cs r of (Some err, s) \<Rightarrow> (Some err, s) | (None, s) \<Rightarrow> run_calls ds s)"
  by (induction cs arbitrary: r) (auto split: prod.split option.split)

lemma outcome_then:
  "outcome (ex_then m k r) = (case outcome (m r) of (Some err, s) \<Rightarrow> (Some err, s) | (None, s) \<Rightarrow> outcome (k s))"
  by (auto simp: ex_then_def ex_bind_def outcome_def split: prod.split sum.split)

lemma outcome_each:
  "(\<And>x s. outcome (f x s) = exec_call (call x) s) \<Longrightarrow> outcome (ex_each f xs r) = run_calls (map call xs) r"
proof (induction xs arbitrary: r)
  case Nil
  then show ?case by (simp add: outcome_def)
next
  case (Cons x xs)
  then show ?case by (simp add: outcome_then split: prod.split option.split)
qed

lemma outcome_chain:
  "(\<And>s. outcome (m s) = run_calls cs s) \<Longrightarrow> (\<And>s. outcome (k s) = run_calls ds s) \<Longrightarrow>
     outcome (ex_then m k r) = run_calls (cs @ ds) r"
  by (simp add: outcome_then run_calls_append split: prod.split option.split)

lemma ingest_run: "outcome (ingest d w b e r) = run_calls (ingest_calls d w b e) r"
  unfolding ingest_def ingest_calls_def
proof (intro outcome_chain)
  show "outcome ((case dr_topology d of None \<Rightarrow> ex_return () | Some t \<Rightarrow> set_topology t e w b) s) =
      run_calls (case dr_topology d of None \<Rightarrow> [] | Some t \<Rightarrow> [SetTopology t e w b]) s" for s
    by (auto simp: outcome_def split: option.split prod.split)
qed (rule outcome_each; simp)+

lemma run_calls_prefix: "\<exists>k. snd (run_calls cs r) = exec_calls (take k cs) r"
proof (induction cs arbitrary: r)
  case (Cons c cs)
  obtain o' s where c: "exec_call c r = (o', s)" by fastforce
  show ?case
  proof (cases o')
    case None
    obtain k where "snd (run_calls cs s) = exec_calls (take k cs) s" using Cons.IH by blast
    then have "snd (run_calls (c # cs) r) = exec_calls (take (Suc k) (c # cs)) r" by (simp add: c None)
    then show ?thesis by blast
  next
    case (Some err)
    have "snd (run_calls (c # cs) r) = exec_calls (take 1 (c # cs)) r" by (simp add: c Some)
    then show ?thesis by blast
  qed
qed simp

lemma ingest_reach: "reg_reach r \<Longrightarrow> reg_reach (snd (ingest d w b e r))"
  using run_calls_prefix [of "ingest_calls d w b e" r] ingest_run [of d w b e r] reg_reach_calls
  by (metis snd_outcome)

section \<open>Loading fresh records into a table\<close>

text \<open>
  A registering operation that, with current authority and room in its table, stores any record
  whose key is new and whose references are good, as \<open>val\<close> says. \<open>frame\<close> is the part of the
  registry the operation does not touch.
\<close>

locale fresh_loader =
  fixes run :: "'x \<Rightarrow> 'a reg_op"
    and key :: "'x \<Rightarrow> 'k::linorder"
    and val :: "'x \<Rightarrow> 'v"
    and tbl :: "NicRegistry \<Rightarrow> ('k, 'v) smap"
    and limit :: nat
    and frame :: "NicRegistry \<Rightarrow> NicRegistry"
    and ok :: "NicRegistry \<Rightarrow> 'x \<Rightarrow> bool"
    and auth :: "NicRegistry \<Rightarrow> bool"
  assumes step: "auth r \<Longrightarrow> m_inv (tbl r) \<Longrightarrow> m_size (tbl r) < limit \<Longrightarrow>
      m_find (tbl r) (key x) = None \<Longrightarrow> ok (frame r) x \<Longrightarrow>
      \<exists>y s. run x r = (Inr y, s) \<and> auth s \<and> frame s = frame r \<and> tbl s = m_put (key x) (val x) (tbl r)"
begin

lemma load:
  "auth r \<Longrightarrow> m_inv (tbl r) \<Longrightarrow> m_size (tbl r) + length xs \<le> limit \<Longrightarrow> distinct (map key xs) \<Longrightarrow>
     key ` set xs \<inter> dom (m_find (tbl r)) = {} \<Longrightarrow> \<forall>x \<in> set xs. ok (frame r) x \<Longrightarrow>
     \<exists>s. ex_each run xs r = (Inr (), s) \<and> auth s \<and> frame s = frame r \<and> tbl s = m_load key val xs (tbl r)"
proof (induction xs arbitrary: r)
  case (Cons x xs)
  have none: "m_find (tbl r) (key x) = None" using Cons.prems(5) by auto
  obtain y s where s: "run x r = (Inr y, s)" "auth s" "frame s = frame r" "tbl s = m_put (key x) (val x) (tbl r)"
    using step [of r x] Cons.prems none by auto
  have d: "dom (m_find (tbl s)) = insert (key x) (dom (m_find (tbl r)))"
    unfolding s(4) by (auto split: if_splits)
  have "\<exists>t. ex_each run xs s = (Inr (), t) \<and> auth t \<and> frame t = frame s \<and> tbl t = m_load key val xs (tbl s)"
  proof (rule Cons.IH [OF s(2)])
    show "m_inv (tbl s)" "m_size (tbl s) + length xs \<le> limit"
      unfolding s(4) using Cons.prems(2,3) none by simp_all
    show "key ` set xs \<inter> dom (m_find (tbl s)) = {}"
      unfolding d using Cons.prems(4,5) by auto
  qed (use Cons.prems s(3) in auto)
  then show ?case by (auto simp: ex_then_def ex_bind_def s)
qed simp

end

abbreviation has_authority :: "CoordinatorEpoch \<Rightarrow> WorkerId \<Rightarrow> WorkerBootId \<Rightarrow> NicRegistry \<Rightarrow> bool" where
  "has_authority e w b r \<equiv> EnsureAuthority e w b r = Inr ()"

lemma EnsureAuthority_update [simp]:
  "EnsureAuthority e w b (r\<lparr>reg_worker_nics := c, reg_nics := a\<rparr>) = EnsureAuthority e w b r"
  "EnsureAuthority e w b (r\<lparr>reg_gpus := g\<rparr>) = EnsureAuthority e w b r"
  "EnsureAuthority e w b (r\<lparr>reg_functions := f\<rparr>) = EnsureAuthority e w b r"
  "EnsureAuthority e w b (r\<lparr>reg_ports := p\<rparr>) = EnsureAuthority e w b r"
  "EnsureAuthority e w b (r\<lparr>reg_queues := q\<rparr>) = EnsureAuthority e w b r"
  by (simp_all add: EnsureAuthority_def)

interpretation load_nic: fresh_loader "\<lambda>n. register_nic n e w b" nic_id "\<lambda>n. n\<lparr>nic_freshness := 0\<rparr>" reg_nics kMaxNics
    "\<lambda>r. r\<lparr>reg_nics := [], reg_worker_nics := []\<rparr>" "\<lambda>_ n. id_valid (nic_id n) \<and> gen_valid (nic_generation n)"
    "has_authority e w b"
  for e w b
  by unfold_locales (auto simp: register_nic_def Let_def)

interpretation load_gpu: fresh_loader "\<lambda>g. register_gpu g e w b" gpu_id "\<lambda>g. g" reg_gpus kMaxGpus
    "\<lambda>r. r\<lparr>reg_gpus := []\<rparr>" "\<lambda>_ g. id_valid (gpu_id g) \<and> gen_valid (gpu_generation g)" "has_authority e w b"
  for e w b
  by unfold_locales (auto simp: register_gpu_def)

interpretation load_fn: fresh_loader "\<lambda>f. register_function f e w b" fn_id "\<lambda>f. f" reg_functions kMaxFunctions
    "\<lambda>r. r\<lparr>reg_functions := []\<rparr>"
    "\<lambda>r f. id_valid (fn_id f) \<and> id_valid (fn_parent_nic f) \<and> gen_valid (fn_generation f) \<and>
       m_has (reg_nics r) (fn_parent_nic f)" "has_authority e w b"
  for e w b
  by unfold_locales (auto simp: register_function_def)

interpretation load_port: fresh_loader "\<lambda>p. register_port p e w b" port_id "\<lambda>p. p" reg_ports kMaxPorts
    "\<lambda>r. r\<lparr>reg_ports := []\<rparr>"
    "\<lambda>r p. id_valid (port_id p) \<and> id_valid (port_parent_nic p) \<and> gen_valid (port_generation p) \<and>
       m_has (reg_nics r) (port_parent_nic p) \<and>
       (id_valid (port_parent_function p) \<longrightarrow> m_has (reg_functions r) (port_parent_function p))"
    "has_authority e w b"
  for e w b
  by unfold_locales (auto simp: register_port_def)

interpretation load_queue: fresh_loader "\<lambda>q. register_queue q e w b" queue_id "\<lambda>q. q" reg_queues kMaxQueues
    "\<lambda>r. r\<lparr>reg_queues := []\<rparr>"
    "\<lambda>r q. id_valid (queue_id q) \<and> id_valid (queue_parent_function q) \<and> id_valid (queue_parent_nic q) \<and>
       gen_valid (queue_generation q) \<and> m_has (reg_functions r) (queue_parent_function q) \<and>
       m_has (reg_nics r) (queue_parent_nic q)"
    "has_authority e w b"
  for e w b
  by unfold_locales (auto simp: register_queue_def)

end
