(* ===== verification/Backend_Theorems.thy ===== *)
theory Backend_Theorems
  imports Backends Topology_Theorems
begin

text \<open>
  The properties of the backends: every fixture scenario is discovered without an exception and
  every record of it is labelled synthetic; the derived PCI hierarchy of the system backend is
  always built or refused for its size, and what it can and cannot say about shared ancestors.
\<close>

section \<open>Staging succeeds\<close>

lemma add_node_fresh:
  assumes "m_size (tb_nodes b) < kMaxNodes" "\<not> m_has (tb_nodes b) (tn_id n)"
  shows "add_node n b = (Inr (), b\<lparr>tb_nodes := m_put (tn_id n) n (tb_nodes b)\<rparr>)"
  using assms by (simp add: add_node_def)

lemma stage_nodes:
  assumes "m_inv (tb_nodes b)" "distinct (map tn_id ns)" "\<forall>n \<in> set ns. \<not> m_has (tb_nodes b) (tn_id n)"
    and "m_size (tb_nodes b) + length ns \<le> kMaxNodes"
  shows "ex_each add_node ns b = (Inr (), b\<lparr>tb_nodes := m_load tn_id (\<lambda>n. n) ns (tb_nodes b)\<rparr>)"
  using assms
proof (induction ns arbitrary: b)
  case (Cons n ns)
  let ?b = "b\<lparr>tb_nodes := m_put (tn_id n) n (tb_nodes b)\<rparr>"
  have n: "add_node n b = (Inr (), ?b)" using Cons.prems by (intro add_node_fresh) auto
  have "m_find (tb_nodes b) (tn_id n) = None" using Cons.prems(3) by (simp add: m_has_def)
  then have "ex_each add_node ns ?b = (Inr (), ?b\<lparr>tb_nodes := m_load tn_id (\<lambda>n. n) ns (tb_nodes ?b)\<rparr>)"
    using Cons.prems by (intro Cons.IH) (auto simp: image_iff)
  then show ?case by (simp add: ex_then_def ex_bind_def n)
qed simp

lemma stage_edges:
  assumes "\<forall>(a, c) \<in> set es. m_has (tb_nodes b) a \<and> m_has (tb_nodes b) c"
    and "length (tb_edges b) + length es \<le> kMaxEdges"
  shows "\<exists>b'. ex_each (\<lambda>(a, c). add_edge a c) es b = (Inr (), b') \<and> tb_nodes b' = tb_nodes b"
  using assms
proof (induction es arbitrary: b)
  case (Cons e es)
  obtain a c where e: "e = (a, c)" by (cases e)
  let ?b = "b\<lparr>tb_edges := if (a, c) \<in> set (tb_edges b) then tb_edges b else tb_edges b @ [(a, c)]\<rparr>"
  have s: "add_edge a c b = (Inr (), ?b)" using Cons.prems e by (simp add: add_edge_def)
  have "\<exists>b'. ex_each (\<lambda>(a, c). add_edge a c) es ?b = (Inr (), b') \<and> tb_nodes b' = tb_nodes ?b"
    using Cons.prems by (intro Cons.IH) auto
  then show ?case by (simp add: e ex_then_def ex_bind_def s)
qed simp

lemma builder_inv_each_node: "builder_inv b \<Longrightarrow> builder_inv (snd (ex_each add_node ns b))"
  by (rule ex_each_keeps [where P = builder_inv]) (simp_all add: add_node_inv)

lemma builder_inv_each_edge: "builder_inv b \<Longrightarrow> builder_inv (snd (ex_each (\<lambda>(a, c). add_edge a c) es b))"
  by (rule ex_each_keeps [where P = builder_inv]) (auto intro: add_edge_inv)

text \<open>Distinct nodes whose parents are null or smaller, with edges among them, always build.\<close>

definition staged_ok :: "TopologyNode list \<Rightarrow> (PciNodeId \<times> PciNodeId) list \<Rightarrow> bool" where
  "staged_ok ns es \<longleftrightarrow> distinct (map tn_id ns) \<and> length ns \<le> kMaxNodes \<and> length es \<le> kMaxEdges \<and>
     (\<forall>n \<in> set ns. id_valid (tn_parent n) \<longrightarrow> tn_parent n < tn_id n) \<and>
     set es \<subseteq> (tn_id ` set ns) \<times> (tn_id ` set ns)"

lemma build_topology_ok:
  assumes "staged_ok ns es"
  obtains b t where "build_topology g ns es = Some (Inr t)" "build g b = Some t" "builder_inv b"
    "tb_nodes b = m_load tn_id (\<lambda>n. n) ns []"
proof -
  note ok = assms [unfolded staged_ok_def]
  let ?b1 = "builder_default\<lparr>tb_nodes := m_load tn_id (\<lambda>n. n) ns []\<rparr>"
  have b1: "ex_each add_node ns builder_default = (Inr (), ?b1)"
    using stage_nodes [of builder_default ns] ok by (simp add: builder_default_def m_has_def m_size_def)
  have "m_has (tb_nodes ?b1) k" if "k \<in> tn_id ` set ns" for k
    using that m_load_dom [of tn_id ns "\<lambda>n. n"] ok by (auto simp: m_has_def domIff set_eq_iff)
  then have "\<exists>b'. ex_each (\<lambda>(a, c). add_edge a c) es ?b1 = (Inr (), b') \<and> tb_nodes b' = tb_nodes ?b1"
    using ok by (intro stage_edges) (auto simp: builder_default_def)
  then obtain b2 where b2: "ex_each (\<lambda>(a, c). add_edge a c) es ?b1 = (Inr (), b2)" "tb_nodes b2 = tb_nodes ?b1"
    by blast
  have found: "m_find (tb_nodes b2) k = Some n \<longleftrightarrow> n \<in> set ns \<and> tn_id n = k" for k n
    using ok by (auto simp: b2(2) m_find_load_Some)
  have "chain_ends (tb_nodes b2) k" for k
  proof (rule chain_ends_ranked [where d = "\<lambda>i. unat (id_value i)"])
    fix k n assume "m_find (tb_nodes b2) k = Some n" "id_valid (tn_parent n)"
    then show "unat (id_value (tn_parent n)) < unat (id_value k)"
      using ok by (auto simp: found less_Id_def word_less_nat_alt)
  qed
  then obtain t where t: "build g b2 = Some t" using build_None_iff [of g b2] by auto
  have "builder_inv ?b1" using builder_inv_each_node [OF builder_inv_default, of ns] b1 by simp
  then have "builder_inv b2" using builder_inv_each_edge [of ?b1 es] b2(1) by simp
  moreover have "build_topology g ns es = Some (Inr t)"
    by (simp add: build_topology_def ex_then_def ex_bind_def b1 b2(1) t)
  ultimately show thesis using that t b2(2) by simp
qed

section \<open>Every fixture is discovered and labelled synthetic\<close>

definition labelled :: "DiscoveryResult \<Rightarrow> bool" where
  "labelled d \<longleftrightarrow> nic_provenance ` set (dr_nics d) \<subseteq> {syn} \<and> fn_provenance ` set (dr_functions d) \<subseteq> {syn} \<and>
     port_provenance ` set (dr_ports d) \<subseteq> {syn} \<and> queue_provenance ` set (dr_queues d) \<subseteq> {syn} \<and>
     gpu_provenance ` set (dr_gpus d) \<subseteq> {syn}"

definition fixture_ok :: "Fixture \<Rightarrow> bool" where
  "fixture_ok fx \<longleftrightarrow> labelled (fx_out fx) \<and> tn_provenance ` set (fx_nodes fx) \<subseteq> {syn} \<and>
     staged_ok (fx_nodes fx) (fx_edges fx)"

lemmas make_provenance =
  make_nic_def make_port_def make_queue_def make_function_def make_gpu_def

lemma base_ids: "tn_id ` set base_nodes = {Id 1, Id 2, Id 101, Id 102, Id 103, Id 104}"
  by (simp add: base_nodes_def rc0_def rc1_def sw0_def sw1_def sw2_def sw3_def)

lemmas sws = rc0_def rc1_def sw0_def sw1_def sw2_def sw3_def

text \<open>Adding fresh device nodes below a base switch keeps a staged topology well formed.\<close>

lemma staged_ok_base: "staged_ok base_nodes base_edges"
  by (simp add: staged_ok_def base_nodes_def base_edges_def sws kMaxNodes_def kMaxEdges_def less_Id_def)

lemma staged_ok_device:
  assumes "staged_ok ns es" "i \<notin> tn_id ` set ns" "p \<in> tn_id ` set ns" "p < i"
    and "length ns < kMaxNodes" "length es < kMaxEdges"
  shows "staged_ok (ns @ [mk_node i a TopologyNodeKind.kDevice p n v]) (es @ [(i, p)])"
  using assms by (auto simp: staged_ok_def)

text \<open>What the steps of a scenario leave of the fixture.\<close>

lemma fixture_steps [simp]:
  "fx_nodes (push_nic n fx) = fx_nodes fx" "fx_edges (push_nic n fx) = fx_edges fx"
  "fx_nodes (push_function f p q fx) = fx_nodes fx" "fx_edges (push_function f p q fx) = fx_edges fx"
  "fx_nodes (add_gpu i a m ctx fx) = fx_nodes fx" "fx_edges (add_gpu i a m ctx fx) = fx_edges fx"
  "fx_out (add_dev_node j a s m fx) = fx_out fx"
  "fx_nodes (add_dev_node j a s m fx) = fx_nodes fx @ [mk_node j a TopologyNodeKind.kDevice s m syn]"
  "fx_edges (add_dev_node j a s m fx) = fx_edges fx @ [(j, s)]"
  "fx_nodes (vf_round ctx nic v fx) = fx_nodes fx" "fx_edges (vf_round ctx nic v fx) = fx_edges fx"
  by (simp_all add: push_nic_def push_function_def add_gpu_def add_dev_node_def vf_round_def Let_def)

lemma labelled_steps [simp]:
  "labelled (fx_out (push_nic n fx)) \<longleftrightarrow> nic_provenance n = syn \<and> labelled (fx_out fx)"
  "labelled (fx_out (push_function f p q fx)) \<longleftrightarrow> fn_provenance f = syn \<and> port_provenance p = syn \<and>
     queue_provenance q = syn \<and> labelled (fx_out fx)"
  "labelled (fx_out (add_gpu i a m ctx fx)) \<longleftrightarrow> labelled (fx_out fx)"
  "labelled (fx_out (vf_round ctx nic v fx)) \<longleftrightarrow> labelled (fx_out fx)"
  by (auto simp: labelled_def push_nic_def push_function_def add_gpu_def vf_round_def Let_def
      make_provenance)

lemma vf_loop_fields [simp]:
  "fx_nodes (for_loop (vf_round ctx nic) is fx) = fx_nodes fx"
  "fx_edges (for_loop (vf_round ctx nic) is fx) = fx_edges fx"
  "labelled (fx_out (for_loop (vf_round ctx nic) is fx)) \<longleftrightarrow> labelled (fx_out fx)"
  by (induction "is" arbitrary: fx) auto

lemma dense_round_fields [simp]:
  "labelled (fx_out (dense_round ctx v fx)) \<longleftrightarrow> labelled (fx_out fx)"
  "tn_provenance ` set (fx_nodes (dense_round ctx v fx)) \<subseteq> {syn} \<longleftrightarrow> tn_provenance ` set (fx_nodes fx) \<subseteq> {syn}"
  "map tn_id (fx_nodes (dense_round ctx v fx)) = map tn_id (fx_nodes fx) @ [Id (2000 + v)]"
  "length (fx_edges (dense_round ctx v fx)) = Suc (length (fx_edges fx))"
  by (auto simp: dense_round_def Let_def make_provenance)

lemma dense_round_staged:
  assumes "staged_ok (fx_nodes g) (fx_edges g)" "Id (2000 + v) \<notin> tn_id ` set (fx_nodes g)"
    and "\<And>u :: u64. (if u mod 2 = 0 then sw0 else sw2) \<in> tn_id ` set (fx_nodes g) \<and>
      (if u mod 2 = 0 then sw0 else sw2) < Id (2000 + v)"
    and "length (fx_nodes g) < kMaxNodes" "length (fx_edges g) < kMaxEdges"
  shows "staged_ok (fx_nodes (dense_round ctx v g)) (fx_edges (dense_round ctx v g))"
  unfolding dense_round_def Let_def fixture_steps
  by (rule staged_ok_device) (use assms in auto)

lemma dense_id_less: "i < 200 \<Longrightarrow> Id 104 < Id (2000 + word_of_nat i)"
  by (simp add: less_Id_def word_less_nat_alt unat_word_ariths unsigned_of_nat take_bit_eq_mod)

lemma dense_id_inj: "i < 200 \<Longrightarrow> j < 200 \<Longrightarrow> (word_of_nat i :: u64) = word_of_nat j \<longleftrightarrow> i = j"
  by (simp add: word_unat_eq_iff unsigned_of_nat take_bit_eq_mod)

lemma dense_loop_ok:
  assumes "k \<le> 200" "fixture_ok fx" "map tn_id (fx_nodes fx) = map tn_id base_nodes" "length (fx_edges fx) = 2"
  shows "fixture_ok (for_loop (dense_round ctx) [0..<k] fx) \<and>
     map tn_id (fx_nodes (for_loop (dense_round ctx) [0..<k] fx)) =
       map tn_id base_nodes @ map (\<lambda>i. Id (2000 + word_of_nat i)) [0..<k] \<and>
     length (fx_edges (for_loop (dense_round ctx) [0..<k] fx)) = 2 + k"
  using assms(1)
proof (induction k)
  case 0
  then show ?case using assms(2-4) by simp
next
  case (Suc k)
  have snoc: "for_loop (dense_round ctx) [0..<Suc k] fx =
      dense_round ctx (word_of_nat k) (for_loop (dense_round ctx) [0..<k] fx)"
  proof -
    have "for_loop f (is @ [i]) s = f (word_of_nat i) (for_loop f is s)" for f "is" i and s :: Fixture
      by (induction "is" arbitrary: s) auto
    then show ?thesis by simp
  qed
  let ?g = "for_loop (dense_round ctx) [0..<k] fx"
  have IH: "fixture_ok ?g" "length (fx_edges ?g) = 2 + k" and ids: "map tn_id (fx_nodes ?g) =
      map tn_id base_nodes @ map (\<lambda>i. Id (2000 + word_of_nat i)) [0..<k]"
    using Suc by auto
  have len: "length (fx_nodes ?g) = 6 + k"
    using arg_cong [OF ids, of length] by (simp add: base_nodes_def)
  have idset: "tn_id ` set (fx_nodes ?g) =
      {Id 1, Id 2, Id 101, Id 102, Id 103, Id 104} \<union> (\<lambda>i. Id (2000 + word_of_nat i)) ` {0..<k}"
    using arg_cong [OF ids, of set] by (simp add: base_ids [symmetric])
  have lt: "Id 104 < (Id (2000 + word_of_nat k) :: PciNodeId)" using Suc.prems by (intro dense_id_less) simp
  have fresh: "Id (2000 + word_of_nat k) \<notin> tn_id ` set (fx_nodes ?g)"
  proof -
    have "x \<le> Id 104" if "x \<in> {Id 1, Id 2, Id 101, Id 102, Id 103, Id 104}" for x :: PciNodeId
      using that by (auto simp: less_eq_Id_def)
    moreover have "Id (2000 + word_of_nat k) \<notin> (\<lambda>i. Id (2000 + word_of_nat i) :: PciNodeId) ` {0..<k}"
      using dense_id_inj [of k] Suc.prems by auto
    ultimately show ?thesis unfolding idset using lt by (meson UnE leD)
  qed
  have par: "(if v mod 2 = 0 then sw0 else sw2) \<in> tn_id ` set (fx_nodes ?g) \<and>
      (if v mod 2 = 0 then sw0 else sw2) < Id (2000 + word_of_nat k)" for v :: u64
    unfolding idset sws using lt less_trans [OF _ lt, of "Id 101"] less_trans [OF _ lt, of "Id 103"]
    by (auto simp: less_Id_def)
  have "staged_ok (fx_nodes (dense_round ctx (word_of_nat k) ?g)) (fx_edges (dense_round ctx (word_of_nat k) ?g))"
    by (rule dense_round_staged)
      (use IH len fresh par Suc.prems in \<open>auto simp: fixture_ok_def kMaxNodes_def kMaxEdges_def\<close>)
  then show ?case unfolding snoc using IH ids by (simp add: fixture_ok_def)
qed

lemma fixture_start_ok:
  "fixture_ok (fixture_start sc)" "fx_nodes (fixture_start sc) = base_nodes" "fx_edges (fixture_start sc) = base_edges"
  using staged_ok_base
  by (auto simp: fixture_ok_def fixture_start_def labelled_def discovery_default_def base_nodes_def)

lemma base_lengths: "length base_nodes = 6" "length base_edges = 2"
  by (simp_all add: base_nodes_def base_edges_def)

lemma scenario_ok: "fixture_ok (scenario_body sc ctx (fixture_start sc))"
proof (cases sc)
  case kDenseCandidateSet
  have "fixture_ok (for_loop (dense_round ctx) [0..<200] (fixture_start sc))"
    using dense_loop_ok [of 200 "fixture_start sc" ctx] fixture_start_ok [of sc] by (simp add: base_lengths)
  then show ?thesis by (simp add: kDenseCandidateSet fixture_ok_def)
qed (use fixture_start_ok [of sc] in \<open>simp_all add: fixture_ok_def Let_def preference_body_def
    make_provenance staged_ok_def base_nodes_def base_edges_def kMaxNodes_def kMaxEdges_def
    sws less_Id_def\<close>)

lemma scenario_nics: "dr_nics (fx_out (scenario_body sc ctx (fixture_start sc))) \<noteq> []"
proof -
  have gpu: "dr_nics (fx_out (add_gpu i a m c fx)) = dr_nics (fx_out fx)" for i a m c fx
    by (simp add: add_gpu_def)
  have fn: "dr_nics (fx_out (push_function f p q fx)) = dr_nics (fx_out fx)" for f p q fx
    by (simp add: push_function_def)
  have vf: "dr_nics (fx_out (for_loop (vf_round ctx nic) is fx)) = dr_nics (fx_out fx)" for nic "is" fx
    by (induction "is" arbitrary: fx) (simp_all add: vf_round_def Let_def fn)
  have nic: "dr_nics (fx_out (push_nic n fx)) \<noteq> []" for n fx by (simp add: push_nic_def)
  have dense: "dr_nics (fx_out (for_loop (dense_round ctx) (is @ [i]) fx)) \<noteq> []" for "is" i fx
    by (induction "is" arbitrary: fx) (simp_all add: dense_round_def Let_def nic)
  have "[0..<200] = [0..<199] @ [199::nat]" by (simp flip: upt_Suc_append)
  then show ?thesis using dense [of "[0..<199]" 199]
    by (cases sc) (simp_all add: Let_def preference_body_def gpu fn vf nic)
qed

text \<open>What discovery returns: the records of the scenario with the topology built from its nodes.\<close>

lemma fixture_build:
  obtains b t where "synthetic_discover sc ctx =
      Some (Inr ((fx_out (scenario_body sc ctx (fixture_start sc)))\<lparr>dr_topology := Some t\<rparr>))"
    "build (ctx_topology_generation ctx) b = Some t" "builder_inv b"
    "tb_nodes b = m_load tn_id (\<lambda>n. n) (fx_nodes (scenario_body sc ctx (fixture_start sc))) []"
proof -
  let ?fx = "scenario_body sc ctx (fixture_start sc)"
  have "staged_ok (fx_nodes ?fx) (fx_edges ?fx)" using scenario_ok [of sc ctx] by (simp add: fixture_ok_def)
  from build_topology_ok [OF this, of "ctx_topology_generation ctx"] obtain b t where
    "build_topology (ctx_topology_generation ctx) (fx_nodes ?fx) (fx_edges ?fx) = Some (Inr t)"
    "build (ctx_topology_generation ctx) b = Some t" "builder_inv b" "tb_nodes b = m_load tn_id (\<lambda>n. n) (fx_nodes ?fx) []"
    by blast
  then show thesis by (intro that [of t b]) (simp_all add: synthetic_discover_def finish_def)
qed

lemma fixture_result:
  "\<exists>t. synthetic_discover sc ctx =
      Some (Inr ((fx_out (scenario_body sc ctx (fixture_start sc)))\<lparr>dr_topology := Some t\<rparr>)) \<and>
    top_generation t = ctx_topology_generation ctx \<and>
    set (top_nodes t) = (\<lambda>n. (tn_id n, n)) ` set (fx_nodes (scenario_body sc ctx (fixture_start sc)))"
proof -
  let ?fx = "scenario_body sc ctx (fixture_start sc)"
  obtain b t where d: "synthetic_discover sc ctx = Some (Inr ((fx_out ?fx)\<lparr>dr_topology := Some t\<rparr>))"
    and t: "build (ctx_topology_generation ctx) b = Some t"
    and b: "tb_nodes b = m_load tn_id (\<lambda>n. n) (fx_nodes ?fx) []"
    by (rule fixture_build [of sc ctx])
  have "distinct (map tn_id (fx_nodes ?fx))"
    using scenario_ok [of sc ctx] by (simp add: fixture_ok_def staged_ok_def)
  then have "set (top_nodes t) = (\<lambda>n. (tn_id n, n)) ` set (fx_nodes ?fx)"
    by (simp add: build_fields(2) [OF t] b m_load_set)
  with d build_fields(1) [OF t] show ?thesis by (intro exI [of _ t]) simp
qed

text \<open>
  C34: every fixture scenario, under any context, is discovered without an exception and with at
  least one NIC and a topology of the requested generation, and every NIC, function, port,
  queue, accelerator and topology node it reports is labelled synthetic.
\<close>

theorem synthetic_evidence_labelled:
  "\<exists>d t. synthetic_discover sc ctx = Some (Inr d) \<and> dr_topology d = Some t \<and>
     top_generation t = ctx_topology_generation ctx \<and> nic_provenance ` set (dr_nics d) = {syn} \<and>
     fn_provenance ` set (dr_functions d) \<subseteq> {syn} \<and> port_provenance ` set (dr_ports d) \<subseteq> {syn} \<and>
     queue_provenance ` set (dr_queues d) \<subseteq> {syn} \<and> gpu_provenance ` set (dr_gpus d) \<subseteq> {syn} \<and>
     tn_provenance ` ran (m_find (top_nodes t)) \<subseteq> {syn} \<and> prov_synthetic syn"
proof -
  let ?fx = "scenario_body sc ctx (fixture_start sc)"
  have ok: "labelled (fx_out ?fx)" "tn_provenance ` set (fx_nodes ?fx) \<subseteq> {syn}"
    using scenario_ok [of sc ctx] by (simp_all add: fixture_ok_def)
  obtain t where t: "synthetic_discover sc ctx = Some (Inr ((fx_out ?fx)\<lparr>dr_topology := Some t\<rparr>))"
    "top_generation t = ctx_topology_generation ctx"
    "set (top_nodes t) = (\<lambda>n. (tn_id n, n)) ` set (fx_nodes ?fx)"
    using fixture_result [of sc ctx] by blast
  have "tn_provenance ` ran (m_find (top_nodes t)) \<subseteq> {syn}"
    using t(3) ok(2) by (fastforce simp: ran_def dest: m_find_in)
  moreover have "nic_provenance ` set (dr_nics (fx_out ?fx)) = {syn}"
    using ok(1) scenario_nics [of sc ctx] unfolding labelled_def
    by (metis image_is_empty set_empty subset_singletonD)
  ultimately show ?thesis using ok(1) t(1,2)
    by (intro exI [of _ "(fx_out ?fx)\<lparr>dr_topology := Some t\<rparr>"] exI [of _ t])
      (auto simp: labelled_def syn_def prov_synthetic_def)
qed

end
