(* ===== verification/Engine_Theorems.thy ===== *)
theory Engine_Theorems
  imports Engine Backend_Theorems Policy_Theorems
begin

unbundle bit_operations_syntax

text \<open>
  The engine end to end: a consistent discovery is accepted completely by a fresh engine, and
  synthetic evidence that went through discovery and ingestion is never selected by a policy
  that does not admit it.
\<close>

section \<open>Ingestion\<close>

text \<open>The conditions a discovery result meets when its records fit together.\<close>

definition discovery_ok :: "DiscoveryResult \<Rightarrow> bool" where
  "discovery_ok d \<longleftrightarrow>
     length (dr_nics d) \<le> kMaxNics \<and> distinct (map nic_id (dr_nics d)) \<and>
     (\<forall>n \<in> set (dr_nics d). id_valid (nic_id n) \<and> gen_valid (nic_generation n)) \<and>
     length (dr_gpus d) \<le> kMaxGpus \<and> distinct (map gpu_id (dr_gpus d)) \<and>
     (\<forall>g \<in> set (dr_gpus d). id_valid (gpu_id g) \<and> gen_valid (gpu_generation g)) \<and>
     length (dr_functions d) \<le> kMaxFunctions \<and> distinct (map fn_id (dr_functions d)) \<and>
     (\<forall>f \<in> set (dr_functions d). id_valid (fn_id f) \<and> gen_valid (fn_generation f) \<and>
        fn_parent_nic f \<in> nic_id ` set (dr_nics d)) \<and>
     length (dr_ports d) \<le> kMaxPorts \<and> distinct (map port_id (dr_ports d)) \<and>
     (\<forall>p \<in> set (dr_ports d). id_valid (port_id p) \<and> gen_valid (port_generation p) \<and>
        port_parent_nic p \<in> nic_id ` set (dr_nics d) \<and>
        (id_valid (port_parent_function p) \<longrightarrow> port_parent_function p \<in> fn_id ` set (dr_functions d))) \<and>
     length (dr_queues d) \<le> kMaxQueues \<and> distinct (map queue_id (dr_queues d)) \<and>
     (\<forall>q \<in> set (dr_queues d). id_valid (queue_id q) \<and> gen_valid (queue_generation q) \<and>
        queue_parent_function q \<in> fn_id ` set (dr_functions d) \<and>
        queue_parent_nic q \<in> nic_id ` set (dr_nics d))"

text \<open>An engine right after its host worker was registered.\<close>

definition fresh_engine :: "CoordinatorEpoch \<Rightarrow> WorkerId \<Rightarrow> WorkerBootId \<Rightarrow> NicRegistry \<Rightarrow> bool" where
  "fresh_engine e w b r \<longleftrightarrow> (\<exists>r0. NicRegistry_new e = Inr r0 \<and> register_host_worker b w r0 = (Inr b, r))"

lemma fresh_engine_fields:
  assumes "fresh_engine e w b r"
  shows "has_authority e w b r" "reg_epoch r = e" "reg_nics r = []" "reg_gpus r = []" "reg_functions r = []"
    "reg_ports r = []" "reg_queues r = []" "reg_topology r = None" "reg_reach r"
proof -
  obtain r0 where r0: "NicRegistry_new e = Inr r0" "register_host_worker b w r0 = (Inr b, r)"
    using assms by (auto simp: fresh_engine_def)
  have n: "r0 = empty_registry (id_value e)"
    using r0(1) by (auto simp: NicRegistry_new_def EnsureNextEpoch_def empty_registry_def split: if_splits)
  have r: "r = snd (register_worker w b r0)"
    using r0(2) by (auto simp: register_host_worker_def ex_then_def ex_bind_eq_Inr)
  then show "has_authority e w b r" "reg_epoch r = e" "reg_nics r = []" "reg_gpus r = []" "reg_functions r = []"
    "reg_ports r = []" "reg_queues r = []" "reg_topology r = None"
    by (simp_all add: n register_worker_def empty_registry_def EnsureAuthority_def)
  show "reg_reach r"
    using reg_reach.call [OF reg_reach.start [OF r0(1)], of "RegisterWorker w b"] r by simp
qed

lemma fresh_engine_empty:
  assumes "fresh_engine e w b r"
  shows "reg_attachments r = []" "reg_residencies r = []"
  using assms by (auto simp: fresh_engine_def NicRegistry_new_def EnsureNextEpoch_def register_host_worker_def
      ex_then_def ex_bind_eq_Inr register_worker_def split: if_splits option.splits)

lemma ex_then_Inr: "m s = (Inr x, t) \<Longrightarrow> ex_then m k s = k t"
  by (simp add: ex_then_def ex_bind_def)

lemma m_has_load [simp]: "distinct (map key xs) \<Longrightarrow> m_has (m_load key val xs []) k \<longleftrightarrow> k \<in> key ` set xs"
  using m_load_dom [of key xs val] by (auto simp: m_has_def domIff set_eq_iff)

text \<open>The registry after everything a discovery reports was stored, and its two halves.\<close>

definition with_devices :: "DiscoveryResult \<Rightarrow> NicRegistry \<Rightarrow> NicRegistry" where
  "with_devices d r = r\<lparr>reg_nics := m_load nic_id (\<lambda>n. n\<lparr>nic_freshness := 0\<rparr>) (dr_nics d) [],
     reg_gpus := m_load gpu_id (\<lambda>g. g) (dr_gpus d) [], reg_topology := dr_topology d\<rparr>"

definition with_children :: "DiscoveryResult \<Rightarrow> NicRegistry \<Rightarrow> NicRegistry" where
  "with_children d r = r\<lparr>reg_functions := m_load fn_id (\<lambda>f. f) (dr_functions d) [],
     reg_ports := m_load port_id (\<lambda>p. p) (dr_ports d) [], reg_queues := m_load queue_id (\<lambda>q. q) (dr_queues d) []\<rparr>"

lemma frames:
  "s\<lparr>reg_nics := [], reg_worker_nics := []\<rparr> = r\<lparr>reg_nics := [], reg_worker_nics := []\<rparr> \<Longrightarrow> reg_nics s = a \<Longrightarrow>
     s = r\<lparr>reg_nics := a, reg_worker_nics := reg_worker_nics s\<rparr>"
  "s\<lparr>reg_gpus := []\<rparr> = r\<lparr>reg_gpus := []\<rparr> \<Longrightarrow> reg_gpus s = g \<Longrightarrow> s = r\<lparr>reg_gpus := g\<rparr>"
  "s\<lparr>reg_functions := []\<rparr> = r\<lparr>reg_functions := []\<rparr> \<Longrightarrow> reg_functions s = f \<Longrightarrow> s = r\<lparr>reg_functions := f\<rparr>"
  "s\<lparr>reg_ports := []\<rparr> = r\<lparr>reg_ports := []\<rparr> \<Longrightarrow> reg_ports s = p \<Longrightarrow> s = r\<lparr>reg_ports := p\<rparr>"
  "s\<lparr>reg_queues := []\<rparr> = r\<lparr>reg_queues := []\<rparr> \<Longrightarrow> reg_queues s = q \<Longrightarrow> s = r\<lparr>reg_queues := q\<rparr>"
  by (cases s, cases r, simp)+

abbreviation load_topology :: "TopologySnapshot option \<Rightarrow> CoordinatorEpoch \<Rightarrow> WorkerId \<Rightarrow> WorkerBootId \<Rightarrow> unit reg_op" where
  "load_topology topo e w b \<equiv> (case topo of None \<Rightarrow> ex_return () | Some t \<Rightarrow> set_topology t e w b)"

lemma EnsureAuthority_children [simp]:
  "EnsureAuthority e w b (with_children d r) = EnsureAuthority e w b r"
  "EnsureAuthority e w b ((with_devices d r)\<lparr>reg_worker_nics := m\<rparr>) = EnsureAuthority e w b r"
  by (simp_all add: EnsureAuthority_def with_children_def with_devices_def)

lemma load_topology_fresh:
  assumes "has_authority e w b r" "reg_topology r = None" "reg_attachments r = []" "reg_residencies r = []"
  shows "load_topology topo e w b r = (Inr (), r\<lparr>reg_topology := topo\<rparr>)"
  using assms by (cases topo) (simp_all add: set_topology_def m_foreach_def)

lemma ingest_devices:
  assumes "fresh_engine e w b r" and "discovery_ok d"
  obtains r1 r2 m where "ex_each (\<lambda>n. register_nic n e w b) (dr_nics d) r = (Inr (), r1)"
    "ex_each (\<lambda>g. register_gpu g e w b) (dr_gpus d) r1 = (Inr (), r2)"
    "load_topology (dr_topology d) e w b r2 = (Inr (), (with_devices d r)\<lparr>reg_worker_nics := m\<rparr>)"
proof -
  note fr = fresh_engine_fields [OF assms(1)] fresh_engine_empty [OF assms(1)]
    and ok = assms(2) [unfolded discovery_ok_def]
  let ?nics = "m_load nic_id (\<lambda>n. n\<lparr>nic_freshness := 0\<rparr>) (dr_nics d) []"
  obtain r1 where r1: "ex_each (\<lambda>n. register_nic n e w b) (dr_nics d) r = (Inr (), r1)" "has_authority e w b r1"
    "r1\<lparr>reg_nics := [], reg_worker_nics := []\<rparr> = r\<lparr>reg_nics := [], reg_worker_nics := []\<rparr>" "reg_nics r1 = ?nics"
    using load_nic.load [of e w b r "dr_nics d"] fr ok by (auto simp: m_size_def)
  note e1 = frames(1) [OF r1(3,4)]
  have f1: "reg_gpus r1 = []" "reg_topology r1 = None" "reg_attachments r1 = []" "reg_residencies r1 = []"
    using fr by (subst e1, simp)+
  obtain r2 where r2: "ex_each (\<lambda>g. register_gpu g e w b) (dr_gpus d) r1 = (Inr (), r2)" "has_authority e w b r2"
    "r2\<lparr>reg_gpus := []\<rparr> = r1\<lparr>reg_gpus := []\<rparr>" "reg_gpus r2 = m_load gpu_id (\<lambda>g. g) (dr_gpus d) []"
    using load_gpu.load [of e w b r1 "dr_gpus d"] r1(2) f1 ok by (auto simp: m_size_def)
  note e2 = frames(2) [OF r2(3,4)]
  have "reg_topology r2 = None" "reg_attachments r2 = []" "reg_residencies r2 = []"
    using f1 by (subst e2, simp)+
  from load_topology_fresh [OF r2(2) this, of "dr_topology d"]
  have "load_topology (dr_topology d) e w b r2 = (Inr (), r2\<lparr>reg_topology := dr_topology d\<rparr>)" .
  moreover have "r2\<lparr>reg_topology := dr_topology d\<rparr> = (with_devices d r)\<lparr>reg_worker_nics := reg_worker_nics r1\<rparr>"
    by (subst e2, subst e1) (simp add: with_devices_def)
  ultimately show thesis using that [OF r1(1) r2(1)] by simp
qed

lemma ingest_children:
  assumes "has_authority e w b r" and "discovery_ok d"
    and nics: "reg_nics r = m_load nic_id v (dr_nics d) []"
    and "reg_functions r = []" "reg_ports r = []" "reg_queues r = []"
  obtains r1 r2 where "ex_each (\<lambda>f. register_function f e w b) (dr_functions d) r = (Inr (), r1)"
    "ex_each (\<lambda>p. register_port p e w b) (dr_ports d) r1 = (Inr (), r2)"
    "ex_each (\<lambda>q. register_queue q e w b) (dr_queues d) r2 = (Inr (), with_children d r)"
proof -
  note ok = assms(2) [unfolded discovery_ok_def]
  have nic_valid: "id_valid i" if "i \<in> nic_id ` set (dr_nics d)" for i using ok that by auto
  have fn_valid: "id_valid i" if "i \<in> fn_id ` set (dr_functions d)" for i using ok that by auto
  have has_nic: "m_has (reg_nics r) i \<longleftrightarrow> i \<in> nic_id ` set (dr_nics d)" for i using ok by (simp add: nics)
  have "\<forall>f \<in> set (dr_functions d). id_valid (fn_id f) \<and> id_valid (fn_parent_nic f) \<and>
      gen_valid (fn_generation f) \<and> m_has (reg_nics r) (fn_parent_nic f)"
    using ok nic_valid unfolding has_nic by blast
  then obtain r1 where r1: "ex_each (\<lambda>f. register_function f e w b) (dr_functions d) r = (Inr (), r1)"
    "has_authority e w b r1" "r1\<lparr>reg_functions := []\<rparr> = r\<lparr>reg_functions := []\<rparr>"
    "reg_functions r1 = m_load fn_id (\<lambda>f. f) (dr_functions d) []"
    using load_fn.load [of e w b r "dr_functions d"] assms(1,4) ok by (auto simp: m_size_def)
  note e1 = frames(3) [OF r1(3,4)]
  have f1: "reg_nics r1 = reg_nics r" "reg_ports r1 = []" "reg_queues r1 = []"
    using assms by (subst e1, simp)+
  have has_fn: "m_has (reg_functions r1) i \<longleftrightarrow> i \<in> fn_id ` set (dr_functions d)" for i using ok by (simp add: r1(4))
  have "\<forall>p \<in> set (dr_ports d). id_valid (port_id p) \<and> id_valid (port_parent_nic p) \<and>
      gen_valid (port_generation p) \<and> m_has (reg_nics r1) (port_parent_nic p) \<and>
      (id_valid (port_parent_function p) \<longrightarrow> m_has (reg_functions r1) (port_parent_function p))"
    using ok nic_valid unfolding f1 has_nic has_fn by blast
  then obtain r2 where r2: "ex_each (\<lambda>p. register_port p e w b) (dr_ports d) r1 = (Inr (), r2)"
    "has_authority e w b r2" "r2\<lparr>reg_ports := []\<rparr> = r1\<lparr>reg_ports := []\<rparr>"
    "reg_ports r2 = m_load port_id (\<lambda>p. p) (dr_ports d) []"
    using load_port.load [of e w b r1 "dr_ports d"] r1(2) f1 ok by (auto simp: m_size_def)
  note e2 = frames(4) [OF r2(3,4)]
  have f2: "reg_nics r2 = reg_nics r" "reg_functions r2 = reg_functions r1" "reg_queues r2 = []"
    using f1 by (subst e2, simp)+
  have "\<forall>q \<in> set (dr_queues d). id_valid (queue_id q) \<and> id_valid (queue_parent_function q) \<and>
      id_valid (queue_parent_nic q) \<and> gen_valid (queue_generation q) \<and>
      m_has (reg_functions r2) (queue_parent_function q) \<and> m_has (reg_nics r2) (queue_parent_nic q)"
    using ok nic_valid fn_valid unfolding f2 has_nic has_fn by blast
  then obtain r3 where r3: "ex_each (\<lambda>q. register_queue q e w b) (dr_queues d) r2 = (Inr (), r3)"
    "r3\<lparr>reg_queues := []\<rparr> = r2\<lparr>reg_queues := []\<rparr>" "reg_queues r3 = m_load queue_id (\<lambda>q. q) (dr_queues d) []"
    using load_queue.load [of e w b r2 "dr_queues d"] r2(2) f2 ok by (auto simp: m_size_def)
  have "r3 = with_children d r"
    by (subst frames(5) [OF r3(2,3)], subst e2, subst e1) (simp add: with_children_def)
  with r3(1) show thesis using that [OF r1(1) r2(1)] by simp
qed

text \<open>A fresh engine ends up with exactly the discovered records.\<close>

lemma ingest_fresh:
  assumes "fresh_engine e w b r" and "discovery_ok d"
  obtains m where "ingest d w b e r = (Inr (), with_children d ((with_devices d r)\<lparr>reg_worker_nics := m\<rparr>))"
proof -
  note fr = fresh_engine_fields [OF assms(1)]
  obtain r1 r2 m where dev: "ex_each (\<lambda>n. register_nic n e w b) (dr_nics d) r = (Inr (), r1)"
    "ex_each (\<lambda>g. register_gpu g e w b) (dr_gpus d) r1 = (Inr (), r2)"
    "load_topology (dr_topology d) e w b r2 = (Inr (), (with_devices d r)\<lparr>reg_worker_nics := m\<rparr>)"
    by (rule ingest_devices [OF assms])
  let ?r3 = "(with_devices d r)\<lparr>reg_worker_nics := m\<rparr>"
  have f3: "reg_nics ?r3 = m_load nic_id (\<lambda>n. n\<lparr>nic_freshness := 0\<rparr>) (dr_nics d) []"
    "reg_functions ?r3 = []" "reg_ports ?r3 = []" "reg_queues ?r3 = []"
    using fr by (simp_all add: with_devices_def)
  have "has_authority e w b ?r3" using fr(1) by simp
  from ingest_children [OF this assms(2) f3] obtain r4 r5 where ch:
    "ex_each (\<lambda>f. register_function f e w b) (dr_functions d) ?r3 = (Inr (), r4)"
    "ex_each (\<lambda>p. register_port p e w b) (dr_ports d) r4 = (Inr (), r5)"
    "ex_each (\<lambda>q. register_queue q e w b) (dr_queues d) r5 = (Inr (), with_children d ?r3)" .
  have "ingest d w b e r = (Inr (), with_children d ?r3)"
    unfolding ingest_def ex_then_def ex_bind_def by (simp add: dev ch)
  then show thesis by (rule that)
qed

text \<open>
  C13: a fresh engine accepts a consistent discovery completely: ingestion returns without an
  exception, and afterwards the tables hold exactly the discovered NICs (with their freshness
  cleared), accelerators, functions, ports and queues, each under its id and unchanged, the
  discovered topology, if any, is current, and nothing is attached or resident. The records are
  taken in whole, with the health, link and lifecycle that the backend reports, although the
  comment in \<^verbatim>\<open>engine.hpp\<close> says that only durable identity is registered.
\<close>

theorem consistent_discovery_ingested:
  assumes "fresh_engine e w b r" and "discovery_ok d"
  shows "\<exists>s. ingest d w b e r = (Inr (), s) \<and>
     set (reg_nics s) = (\<lambda>n. (nic_id n, n\<lparr>nic_freshness := 0\<rparr>)) ` set (dr_nics d) \<and>
     set (reg_gpus s) = (\<lambda>g. (gpu_id g, g)) ` set (dr_gpus d) \<and>
     set (reg_functions s) = (\<lambda>f. (fn_id f, f)) ` set (dr_functions d) \<and>
     set (reg_ports s) = (\<lambda>p. (port_id p, p)) ` set (dr_ports d) \<and>
     set (reg_queues s) = (\<lambda>q. (queue_id q, q)) ` set (dr_queues d) \<and>
     reg_topology s = dr_topology d \<and> reg_attachments s = [] \<and> reg_residencies s = []"
proof -
  obtain m where s: "ingest d w b e r = (Inr (), with_children d ((with_devices d r)\<lparr>reg_worker_nics := m\<rparr>))"
    by (rule ingest_fresh [OF assms])
  show ?thesis
  proof (intro exI conjI)
    show "ingest d w b e r = (Inr (), with_children d ((with_devices d r)\<lparr>reg_worker_nics := m\<rparr>))" by (rule s)
  qed (use assms(2) fresh_engine_empty [OF assms(1)] in
      \<open>simp_all add: with_children_def with_devices_def m_load_set discovery_ok_def\<close>)
qed

section \<open>Fixtures through the engine\<close>

text \<open>Every fixture scenario reports records that fit together.\<close>

lemma dense_loop_nics:
  "map nic_id (dr_nics (fx_out (for_loop (dense_round ctx) is fx))) =
     map nic_id (dr_nics (fx_out fx)) @ map (\<lambda>i. Id (200 + word_of_nat i)) is"
  "set (dr_nics (fx_out fx)) \<subseteq> {n. gen_valid (nic_generation n)} \<Longrightarrow>
     set (dr_nics (fx_out (for_loop (dense_round ctx) is fx))) \<subseteq> {n. gen_valid (nic_generation n)}"
  by (induction "is" arbitrary: fx)
    (simp_all add: dense_round_def Let_def push_nic_def add_dev_node_def make_nic_def gen_valid_def)

lemma dense_loop_others:
  "dr_gpus (fx_out (for_loop (dense_round ctx) is fx)) = dr_gpus (fx_out fx)"
  "dr_functions (fx_out (for_loop (dense_round ctx) is fx)) = dr_functions (fx_out fx)"
  "dr_ports (fx_out (for_loop (dense_round ctx) is fx)) = dr_ports (fx_out fx)"
  "dr_queues (fx_out (for_loop (dense_round ctx) is fx)) = dr_queues (fx_out fx)"
  by (induction "is" arbitrary: fx)
    (simp_all add: dense_round_def Let_def push_nic_def add_dev_node_def)

lemma nic_id_valid: "i < 200 \<Longrightarrow> id_valid (Id (200 + word_of_nat i))"
proof -
  assume "i < 200"
  then have "unat (200 + word_of_nat i :: u64) = 200 + i"
    by (simp add: unat_word_ariths unsigned_of_nat take_bit_eq_mod)
  then show ?thesis by (auto simp: id_valid_def)
qed

lemmas fixture_defs = push_nic_def push_function_def add_gpu_def add_dev_node_def fixture_start_def
  discovery_default_def make_nic_def make_function_def make_port_def make_queue_def make_gpu_def
  vf_round_def preference_body_def Let_def

lemmas registry_limits = kMaxNics_def kMaxGpus_def kMaxFunctions_def kMaxPorts_def kMaxQueues_def

lemma dense_consistent: "discovery_ok (fx_out (scenario_body kDenseCandidateSet ctx (fixture_start kDenseCandidateSet)))"
proof -
  let ?fx = "for_loop (dense_round ctx) [0..<200] (fixture_start kDenseCandidateSet)"
  have ids: "map nic_id (dr_nics (fx_out ?fx)) = map (\<lambda>i. Id (200 + word_of_nat i)) [0..<200]"
    by (simp only: dense_loop_nics) (simp add: fixture_start_def discovery_default_def)
  have gens: "set (dr_nics (fx_out ?fx)) \<subseteq> {n. gen_valid (nic_generation n)}"
    by (rule dense_loop_nics(2)) (simp add: fixture_start_def discovery_default_def)
  have "nic_id ` set (dr_nics (fx_out ?fx)) = (\<lambda>i. Id (200 + word_of_nat i)) ` {0..<200}"
    using arg_cong [OF ids, of set] by simp
  then have valid: "id_valid (nic_id n)" if "n \<in> set (dr_nics (fx_out ?fx))" for n
    using that nic_id_valid by (metis (no_types, lifting) atLeastLessThan_iff image_iff)
  have "distinct (map (\<lambda>i. Id (200 + word_of_nat i) :: NicId) [0..<200])"
    using dense_id_inj by (auto simp: distinct_map inj_on_def)
  then have dist: "distinct (map nic_id (dr_nics (fx_out ?fx)))" unfolding ids .
  have len: "length (dr_nics (fx_out ?fx)) = 200" using arg_cong [OF ids, of length] by simp
  have others: "dr_gpus (fx_out ?fx) = []" "dr_functions (fx_out ?fx) = []" "dr_ports (fx_out ?fx) = []"
    "dr_queues (fx_out ?fx) = []"
    unfolding dense_loop_others by (simp_all add: fixture_start_def discovery_default_def)
  show ?thesis
    using gens valid dist len others
    by (auto simp: discovery_ok_def add_gpu_def make_gpu_def gen_valid_def registry_limits)
qed

lemma upt_four: "[0..<4] = [0, 1, 2, 3 :: nat]"
  by (simp add: upt_rec)

lemma scenario_consistent: "discovery_ok (fx_out (scenario_body sc ctx (fixture_start sc)))"
proof (cases sc)
  case kDenseCandidateSet
  then show ?thesis using dense_consistent by simp
qed (simp_all add: discovery_ok_def fixture_defs registry_limits gen_valid_def upt_four)

lemma fixture_consistent: "synthetic_discover sc ctx = Some (Inr d) \<Longrightarrow> discovery_ok d"
  using scenario_consistent [of sc ctx]
  by (auto simp: synthetic_discover_def finish_def discovery_ok_def split: option.splits sum.splits)

lemma fresh_engine_sample: "\<exists>r. fresh_engine (Id 7) (Id 1) (Id 10) r"
proof -
  let ?r = "snd (register_worker (Id 1) (Id 10) (empty_registry 7))"
  have "register_host_worker (Id 10) (Id 1) (empty_registry 7) = (Inr (Id 10), ?r)"
    by (simp add: register_host_worker_def ex_then_def ex_bind_def register_worker_def empty_registry_def)
  moreover have "NicRegistry_new (Id 7) = Inr (empty_registry 7)" by (rule NicRegistry_new_eq) simp
  ultimately show ?thesis unfolding fresh_engine_def by blast
qed

theorem consistent_discovery_ingested_witness:
  "\<exists>d r s. synthetic_discover kPfWithMultipleVfs context_default = Some (Inr d) \<and>
     fresh_engine (Id 7) (Id 1) (Id 10) r \<and> ingest d (Id 1) (Id 10) (Id 7) r = (Inr (), s)"
proof -
  obtain d where d: "synthetic_discover kPfWithMultipleVfs context_default = Some (Inr d)"
    using fixture_result [of kPfWithMultipleVfs context_default] by metis
  obtain r where fresh: "fresh_engine (Id 7) (Id 1) (Id 10) r" using fresh_engine_sample by blast
  obtain s where "ingest d (Id 1) (Id 10) (Id 7) r = (Inr (), s)"
    using consistent_discovery_ingested [OF fresh fixture_consistent [OF d]] by (elim exE conjE)
  with d fresh show ?thesis by (intro exI conjI)
qed

section \<open>Synthetic evidence stays out of real decisions\<close>

definition all_synthetic :: "NicRegistry \<Rightarrow> bool" where
  "all_synthetic r \<longleftrightarrow> nic_provenance ` snd ` set (reg_nics r) \<subseteq> {syn}"

lemma set_m_put: "set (m_put k v m) \<subseteq> insert (k, v) (set m)"
  by (induction m) (auto split: if_splits)

lemma all_synthetic_nic:
  assumes "all_synthetic r" "nic_provenance n = syn"
  shows "all_synthetic (snd (register_nic n e w b r))"
proof -
  have "set (reg_nics (snd (register_nic n e w b r))) \<subseteq> insert (nic_id n, n\<lparr>nic_freshness := 0\<rparr>) (set (reg_nics r))"
    using set_m_put [of "nic_id n" "n\<lparr>nic_freshness := 0\<rparr>" "reg_nics r"]
    by (auto simp: register_nic_def Let_def split: sum.splits option.splits if_splits)
  then show ?thesis using assms unfolding all_synthetic_def by fastforce
qed

text \<open>The other steps of ingestion leave the NIC table alone.\<close>

lemma ingest_steps_nics:
  "reg_nics (snd (register_gpu g e w b r)) = reg_nics r"
  "reg_nics (snd (set_topology t e w b r)) = reg_nics r"
  "reg_nics (snd (register_function f e w b r)) = reg_nics r"
  "reg_nics (snd (register_port p e w b r)) = reg_nics r"
  "reg_nics (snd (register_queue q e w b r)) = reg_nics r"
  by (simp_all add: register_gpu_def set_topology_def register_function_def register_port_def
      register_queue_def split: sum.split option.split)

lemma ingest_all_synthetic:
  assumes "nic_provenance ` set (dr_nics d) \<subseteq> {syn}" "all_synthetic r"
  shows "all_synthetic (snd (ingest d w b e r))"
  unfolding ingest_def
proof (intro ex_then_keeps [where P = all_synthetic] ex_each_keeps [where P = all_synthetic])
  show "all_synthetic (snd (load_topology (dr_topology d) e w b s))" if "all_synthetic s" for s
    using that by (cases "dr_topology d") (simp_all add: all_synthetic_def ingest_steps_nics)
  show "all_synthetic (snd (register_nic n e w b s))" if "n \<in> set (dr_nics d)" "all_synthetic s" for n s
    using assms(1) that by (intro all_synthetic_nic) auto
qed (use assms(2) in \<open>simp_all add: all_synthetic_def ingest_steps_nics\<close>)

lemma all_synthetic_none_allowed:
  assumes "all_synthetic r" "\<not> allow_synthetic p"
  shows "allowed_nics p (snapshot r) gpu n = []"
proof -
  have "\<not> admissible p (snapshot r) x gpu n" if "x \<in> set (considered_nics p (snapshot r))" for x
  proof -
    have "nic_provenance x = syn"
      using that assms(1) by (force simp: considered_nics_def snapshot_def all_synthetic_def dest: in_set_takeD)
    then show ?thesis using assms(2) by (simp add: admissible_def syn_def)
  qed
  then show ?thesis by (simp add: allowed_nics_def filter_empty_conv)
qed

text \<open>
  C14: evidence from a fixture scenario never wins real residency: after any scenario is
  discovered and ingested by a fresh engine, a policy that does not admit synthetic evidence
  selects nothing, whatever its other settings and the target, and its overall result is not
  an allowance.
\<close>

theorem synthetic_never_selected:
  assumes "synthetic_discover sc ctx = Some (Inr d)" "fresh_engine e w b r" "\<not> allow_synthetic p"
  shows "\<not> id_valid (dec_selected (decide p (snapshot (snd (ingest d w b e r))) gpu n ep wl)) \<and>
    \<not> is_allowed (dec_overall (decide p (snapshot (snd (ingest d w b e r))) gpu n ep wl))"
proof -
  let ?s = "snd (ingest d w b e r)"
  obtain t where "d = (fx_out (scenario_body sc ctx (fixture_start sc)))\<lparr>dr_topology := t\<rparr>"
    using assms(1) fixture_result [of sc ctx] by auto
  then have "nic_provenance ` set (dr_nics d) \<subseteq> {syn}"
    using scenario_ok [of sc ctx] by (simp add: fixture_ok_def labelled_def)
  moreover have "all_synthetic r" using fresh_engine_fields(3) [OF assms(2)] by (simp add: all_synthetic_def)
  ultimately have "all_synthetic ?s" by (rule ingest_all_synthetic)
  then have none: "allowed_nics p (snapshot ?s) gpu n = []" using assms(3) by (rule all_synthetic_none_allowed)
  have "\<not> is_allowed x" if "x \<in> (\<lambda>m. fst (hard_check p (snapshot ?s) m gpu n)) ` set (considered_nics p (snapshot ?s))" for x
    using that none hard_check_admissible(1) by (auto simp: allowed_nics_def filter_empty_conv)
  then show ?thesis
    using decide_unselected(1,3) [OF none, of ep wl] worst_of_in
    by (cases "considered_nics p (snapshot ?s)") (fastforce simp: is_allowed_def)+
qed

theorem synthetic_never_selected_witness:
  "\<exists>d r. synthetic_discover kDenseCandidateSet context_default = Some (Inr d) \<and>
     fresh_engine (Id 7) (Id 1) (Id 10) r \<and>
     dec_selected (decide policy_default (snapshot (snd (ingest d (Id 1) (Id 10) (Id 7) r))) id_null id_null
       id_null id_null) = id_null"
proof -
  obtain d where d: "synthetic_discover kDenseCandidateSet context_default = Some (Inr d)"
    using fixture_result [of kDenseCandidateSet context_default] by metis
  obtain r where r: "fresh_engine (Id 7) (Id 1) (Id 10) r" using fresh_engine_sample by blast
  have "\<not> allow_synthetic policy_default" by (simp add: policy_default_def)
  from synthetic_never_selected [OF d r this, of id_null id_null id_null id_null]
  have "dec_selected (decide policy_default (snapshot (snd (ingest d (Id 1) (Id 10) (Id 7) r))) id_null id_null
       id_null id_null) = id_null"
    by (simp add: id_valid_def id_null_def) (metis Id.collapse)
  with d r show ?thesis by (intro exI conjI)
qed

end
