(* ===== verification/Host_Theorems.thy ===== *)
theory Host_Theorems
  imports Host_Backends Engine_Theorems System_Topology
begin

unbundle bit_operations_syntax

text \<open>
  The host backends: the location strings of the operating system are read back exactly, real
  discovery always returns with labelled records or a documented error, and what it returns is
  taken in completely by a fresh engine.
\<close>

section \<open>Reading decimal numbers\<close>

lemma wide_append [simp]: "wide (s @ t) = wide s @ wide t"
  by (simp add: wide_def)

lemma digit_value_dec: "d < 10 \<Longrightarrow> digit_value False (ucast (to_byte (char_of (48 + d)))) = Some d"
proof -
  assume "d < 10"
  then have "d \<in> set [0..<10]" by simp
  then show ?thesis
    by (simp add: upt_rec) (elim disjE; simp add: digit_value_def to_byte_def)
qed

definition no_digit :: "wstring \<Rightarrow> bool" where
  "no_digit s \<longleftrightarrow> (case s of [] \<Rightarrow> True | c # _ \<Rightarrow> digit_value False c = None)"

lemma scan_digits_stop: "no_digit s \<Longrightarrow> scan_digits False acc s = (acc, s)"
  by (cases s) (simp_all add: no_digit_def)

lemma scan_digits_dec:
  "scan_digits False acc (wide (dec_digits n) @ s) = scan_digits False (acc * 10 ^ length (dec_digits n) + n) s"
proof (induction n arbitrary: acc s rule: dec_digits.induct)
  case (1 n)
  show ?case
  proof (cases "n < 10")
    case True
    then show ?thesis by (simp add: dec_digits.simps [of n] wide_def digit_value_dec)
  next
    case False
    have "scan_digits False acc (wide (dec_digits (n div 10)) @ wide [char_of (48 + n mod 10)] @ s) =
        scan_digits False (acc * 10 ^ length (dec_digits (n div 10)) + n div 10) (wide [char_of (48 + n mod 10)] @ s)"
      using 1 [OF False] .
    also have "\<dots> = scan_digits False ((acc * 10 ^ length (dec_digits (n div 10)) + n div 10) * 10 + n mod 10) s"
      by (simp add: wide_def digit_value_dec)
    also have "(acc * 10 ^ length (dec_digits (n div 10)) + n div 10) * 10 + n mod 10 =
        acc * 10 ^ Suc (length (dec_digits (n div 10))) + n"
      by (simp add: algebra_simps)
    finally show ?thesis using False by (simp add: dec_digits.simps [of n])
  qed
qed

lemma dec_digits_first: "\<exists>(d :: nat) t. d < 10 \<and> dec_digits n = char_of (48 + d) # t"
proof (induction n rule: dec_digits.induct)
  case (1 n)
  show ?case
  proof (cases "n < 10")
    case True
    then show ?thesis by (auto simp: dec_digits.simps [of n])
  next
    case False
    then show ?thesis using 1 by (auto simp: dec_digits.simps [of n])
  qed
qed

lemma digit_plain: "(d :: nat) < 10 \<Longrightarrow> \<not> wspace (ucast (to_byte (char_of (48 + d)))) \<and>
    ucast (to_byte (char_of (48 + d))) \<noteq> (45 :: u16) \<and> ucast (to_byte (char_of (48 + d))) \<noteq> (43 :: u16)"
proof -
  assume "d < 10"
  then have "d \<in> set [0..<10]" by simp
  then show ?thesis by (simp add: upt_rec) (elim disjE; simp add: wspace_def to_byte_def)
qed

lemma scan_unsigned_dec:
  assumes "no_digit s" "n < 2 ^ 32"
  shows "scan_unsigned False (wide (dec_digits n) @ s) = Some (word_of_nat n, s)"
proof -
  obtain d :: nat and t where d: "d < 10" "dec_digits n = char_of (48 + d) # t" using dec_digits_first by blast
  define c where "c = (ucast (to_byte (char_of (48 + d))) :: u16)"
  have w: "wide (dec_digits n) @ s = c # wide t @ s" by (simp add: d(2) wide_def c_def)
  have "scan_digits False 0 (c # wide t @ s) = (n, s)"
    unfolding w [symmetric] by (simp add: scan_digits_dec scan_digits_stop [OF assms(1)])
  moreover have "digit_value False c = Some d" using digit_value_dec [OF d(1)] by (simp add: c_def)
  moreover have "skip_space (c # wide t @ s) = c # wide t @ s" "scan_sign (c # wide t @ s) = (False, c # wide t @ s)"
    using digit_plain [OF d(1)] by (simp_all add: c_def scan_sign_def)
  moreover have "scan_prefix False u = u" for u by (simp add: scan_prefix_def split: list.split)
  ultimately show ?thesis unfolding w by (simp add: scan_unsigned_def)
qed

section \<open>Locations\<close>

definition render_location :: "PciAddress \<Rightarrow> string" where
  "render_location p = ''PCI bus '' @ dec_digits (unat (pci_bus p)) @ '', device '' @
     dec_digits (unat (pci_device p)) @ '', function '' @ dec_digits (unat (pci_function p))"

lemma swscanf_number:
  "no_digit s \<Longrightarrow> n < 2 ^ 32 \<Longrightarrow> swscanf (ScanUnsigned # f) (wide (dec_digits n) @ s) = word_of_nat n # swscanf f s"
  by (simp add: scan_unsigned_dec)

lemma unat_small: "unat (b :: u8) < 2 ^ 32"
proof -
  have "unat b < 2 ^ LENGTH(8)" by (rule unsigned_less)
  then show ?thesis by simp
qed

lemma low_bits: "(v :: u8) < 2 ^ k \<Longrightarrow> k < 8 \<Longrightarrow> ucast ((word_of_nat (unat v) :: u32) AND mask k) = v"
  using word_bit_below [of v k] by (intro bit_word_eqI) (auto simp: bit_simps)

lemma skip_space_dec: "skip_space (wide (dec_digits n) @ s) = wide (dec_digits n) @ s"
proof -
  obtain d :: nat and t where d: "d < 10" "dec_digits n = char_of (48 + d) # t" using dec_digits_first by blast
  then show ?thesis using digit_plain [OF d(1)] by (simp add: wide_def)
qed

text \<open>
  The location strings of the operating system are read back exactly: for every address of
  segment 0 with a device number below 32 and a function number below 8, parsing the text
  \<^verbatim>\<open>PCI bus X, device Y, function Z\<close> gives the address.
\<close>

theorem location_roundtrip:
  assumes "pci_canonical p" "pci_segment p = 0"
  shows "parse_location (wide (render_location p)) = Some p"
proof -
  let ?B = "dec_digits (unat (pci_bus p))" and ?D = "dec_digits (unat (pci_device p))"
    and ?F = "dec_digits (unat (pci_function p))"
  have tx: "wide (render_location p) = wide ''PCI bus '' @ wide ?B @ wide '', device '' @ wide ?D @
      wide '', function '' @ wide ?F @ []"
    by (simp only: render_location_def wide_append append_assoc append_Nil2)
  have stop: "no_digit (wide '', device '' @ x)" "no_digit (wide '', function '' @ x)" "no_digit []" for x
    by (simp_all add: no_digit_def wide_def to_byte_def digit_value_def)
  have skip: "swscanf (scan_text ''PCI bus '' @ f) (wide ''PCI bus '' @ x) = swscanf f (skip_space x)"
    "swscanf (scan_text '', device '' @ f) (wide '', device '' @ x) = swscanf f (skip_space x)"
    "swscanf (scan_text '', function '' @ f) (wide '', function '' @ x) = swscanf f (skip_space x)" for f x
    by (simp_all add: scan_text_def wide_def wspace_def to_byte_def)
  have scan: "swscanf location_format (wide (render_location p)) =
      [word_of_nat (unat (pci_bus p)), word_of_nat (unat (pci_device p)), word_of_nat (unat (pci_function p))]"
    unfolding tx location_format_def
    by (simp add: skip skip_space_dec swscanf_number [OF stop(1) unat_small]
        swscanf_number [OF stop(2) unat_small] del: swscanf.simps(4))
      (simp add: skip_space_dec [of _ "[]", simplified] scan_unsigned_dec [OF stop(3) unat_small, simplified])
  have "wide (render_location p) \<noteq> []" "contains (wide ''PCI'') (wide (render_location p))"
    unfolding tx by (simp_all add: wide_def)
  moreover have "ucast ((word_of_nat (unat (pci_bus p)) :: u32) AND 0xFF) = pci_bus p"
    "ucast ((word_of_nat (unat (pci_device p)) :: u32) AND 0x1F) = pci_device p"
    "ucast ((word_of_nat (unat (pci_function p)) :: u32) AND 0x7) = pci_function p"
  proof -
    have m: "(0xFF :: u32) = mask 8" "(0x1F :: u32) = mask 5" "(0x7 :: u32) = mask 3"
      by (simp_all add: mask_eq_exp_minus_1)
    show "ucast ((word_of_nat (unat (pci_bus p)) :: u32) AND 0xFF) = pci_bus p"
      unfolding m by (intro bit_word_eqI) (auto simp: bit_simps)
    show "ucast ((word_of_nat (unat (pci_device p)) :: u32) AND 0x1F) = pci_device p"
      "ucast ((word_of_nat (unat (pci_function p)) :: u32) AND 0x7) = pci_function p"
      unfolding m using assms(1) low_bits [of "pci_device p" 5] low_bits [of "pci_function p" 3]
      by (simp_all add: pci_canonical_def)
  qed
  ultimately show ?thesis using assms(2) by (simp add: parse_location_def scan)
qed

theorem location_roundtrip_witness:
  "parse_location (wide (render_location (mk_pci 0 3 0 1))) = Some (mk_pci 0 3 0 1)"
  by (rule location_roundtrip) (simp_all add: pci_canonical_def)

section \<open>System discovery\<close>

text \<open>
  A property value that ends with a NUL is read as it is; without one it loses its last word.
\<close>

lemma reg_prop_unterminated:
  "length s < 1024 \<Longrightarrow> 0 \<notin> set s \<Longrightarrow> reg_prop_string (Some (s @ [c])) = s"
proof -
  assume "length s < 1024" and nz: "0 \<notin> set s"
  moreover have "takeWhile (\<lambda>c. c \<noteq> 0) (s @ [0]) = s"
    using nz by (subst takeWhile_append2) auto
  ultimately show ?thesis by (simp add: reg_prop_string_def)
qed

lemma wide_nul: "(ucast (to_byte c) :: u16) = 0 \<longleftrightarrow> c = CHR 0x00"
proof
  assume a: "(ucast (to_byte c) :: u16) = 0"
  have "(ucast (ucast x :: u16) :: u8) = x" for x :: u8
    by (rule bit_word_eqI) (auto simp: bit_simps)
  then have "to_byte c = 0" using a by (metis unsigned_0)
  then have "to_byte c = to_byte CHR 0x00" by (simp add: to_byte_def)
  then show "c = CHR 0x00" by (metis of_byte_to_byte)
qed (simp add: to_byte_def)

lemma wide_no_nul: "CHR 0x00 \<notin> set s \<Longrightarrow> 0 \<notin> set (wide s)"
  by (auto simp: wide_def wide_nul dest: sym)

lemma reg_prop_terminated:
  "length s < 1024 \<Longrightarrow> CHR 0x00 \<notin> set s \<Longrightarrow> reg_prop_string (Some (wide s @ [0])) = wide s"
  using reg_prop_unterminated [of "wide s" 0] wide_no_nul [of s] by (simp add: wide_def)

text \<open>What a record of the system backend looks like.\<close>

definition host_nic :: "NicRecord \<Rightarrow> bool" where
  "host_nic n \<longleftrightarrow> nic_id n = Id (ucast (pci_numeric (nic_pci n))) \<and> pci_canonical (nic_pci n) \<and>
     pci_segment (nic_pci n) = 0 \<and> nic_generation n = Generation 1 \<and>
     nic_provenance n = mk_prov EvidenceKind.kReal [Source.kOperatingSystem, Source.kNetAdapterApi] \<and>
     nic_numa_node n = id_null \<and> nic_lifecycle n = LifecycleState.kAvailable"

lemma masked_small:
  "(ucast ((x :: u32) AND 0x1F) :: u8) < 32" "(ucast (x AND 0x7) :: u8) < 8"
proof -
  have m: "(0x1F :: u32) = mask 5" "(0x7 :: u32) = mask 3" by (simp_all add: mask_eq_exp_minus_1)
  have "(ucast (x AND mask 5) :: u8) = take_bit 5 (ucast x)" "(ucast (x AND mask 3) :: u8) = take_bit 3 (ucast x)"
    by (rule bit_word_eqI; auto simp: bit_simps)+
  then show "(ucast (x AND 0x1F) :: u8) < 32" "(ucast (x AND 0x7) :: u8) < 8"
    unfolding m using and_mask_less' [of 5 "ucast x :: u8"] and_mask_less' [of 3 "ucast x :: u8"]
    by (simp_all add: word_size take_bit_eq_mask)
qed

lemma parse_location_canonical: "parse_location raw = Some p \<Longrightarrow> pci_canonical p \<and> pci_segment p = 0"
  by (auto simp: parse_location_def pci_canonical_def masked_small split: if_splits list.splits)

lemma system_enumerate_ok:
  assumes "\<forall>n \<in> set (dr_nics out). host_nic n" "length (dr_nics out) \<le> ctx_max_nics ctx"
  shows "(\<forall>n \<in> set (dr_nics (system_enumerate h ctx ds out)). host_nic n) \<and>
    length (dr_nics (system_enumerate h ctx ds out)) \<le> ctx_max_nics ctx"
  using assms
proof (induction h ctx ds out rule: system_enumerate.induct)
  case (2 h ctx d ds out)
  have "host_nic (system_nic h ctx d p)" if "parse_location (sd_location d) = Some p" for p
    using parse_location_canonical [OF that] by (simp add: system_nic_def host_nic_def Let_def)
  then show ?case using 2 by (auto split: option.split)
qed simp

lemma system_enumerate_rest:
  "dr_gpus (system_enumerate h ctx ds out) = dr_gpus out"
  "dr_functions (system_enumerate h ctx ds out) = dr_functions out"
  "dr_ports (system_enumerate h ctx ds out) = dr_ports out"
  "dr_queues (system_enumerate h ctx ds out) = dr_queues out"
  by (induction h ctx ds out rule: system_enumerate.induct; simp split: option.split)+

lemma system_topology_returns:
  "\<exists>r. system_topology h gen k = Some r \<and> (\<forall>err. r = Inl err \<longrightarrow> err_code err = ErrorCode.kResourceLimit)"
proof (cases "ha_all_devices h")
  case (Some ds)
  then show ?thesis
    by (rule_tac system_run [of gen "collect_addresses k ds"]) (auto simp: system_topology_def)
qed (simp add: system_topology_def)

lemma system_discover_Inr:
  assumes "system_discover h ctx = Some (Inr d)"
  shows "\<forall>n \<in> set (dr_nics d). host_nic n" "length (dr_nics d) \<le> ctx_max_nics ctx"
    "dr_gpus d = []" "dr_functions d = []" "dr_ports d = []" "dr_queues d = []"
proof -
  define out where "out = (let out0 = add_note ''windows-system backend: REAL host enumeration'' discovery_default
    in if ha_adapters_ok h then out0 else add_note ''GetAdaptersAddresses failed; link state UNKNOWN'' out0)"
  have out: "dr_nics out = []" "dr_gpus out = []" "dr_functions out = []" "dr_ports out = []" "dr_queues out = []"
    by (simp_all add: out_def Let_def discovery_default_def)
  obtain ds t where "d = (system_enumerate h ctx ds out)\<lparr>dr_topology := t\<rparr> \<or>
      d = add_note ''no PCI topology available'' ((system_enumerate h ctx ds out)\<lparr>dr_topology := t\<rparr>)"
    using assms unfolding system_discover_def Let_def out_def [unfolded Let_def, symmetric]
    by (auto split: option.splits if_splits sum.splits)
  then show "\<forall>n \<in> set (dr_nics d). host_nic n" "length (dr_nics d) \<le> ctx_max_nics ctx"
    "dr_gpus d = []" "dr_functions d = []" "dr_ports d = []" "dr_queues d = []"
    using system_enumerate_ok [of out ctx h ds] out by (auto simp: system_enumerate_rest)
qed

lemma system_discover_returns: "system_discover h ctx \<noteq> None"
proof -
  obtain r where "system_topology h (ctx_topology_generation ctx) (ctx_max_topology_nodes ctx) = Some r"
    using system_topology_returns by blast
  then show ?thesis by (simp add: system_discover_def Let_def split: option.split sum.split)
qed

lemma system_discover_Inl:
  assumes "system_discover h ctx = Some (Inl err)"
  shows "err_code err \<in> {ErrorCode.kBackendUnavailable, ErrorCode.kBackendError, ErrorCode.kResourceLimit}"
proof -
  obtain r where r: "system_topology h (ctx_topology_generation ctx) (ctx_max_topology_nodes ctx) = Some r"
      "\<forall>err. r = Inl err \<longrightarrow> err_code err = ErrorCode.kResourceLimit"
    using system_topology_returns by blast
  with assms show ?thesis by (auto simp: system_discover_def Let_def split: option.splits sum.splits if_splits)
qed

text \<open>
  System discovery always returns. When it raises, the platform or its enumeration
  was not available or the hierarchy exceeds the limits of the builder; otherwise it reports at
  most the permitted number of NICs, each labelled as real evidence, without a NUMA claim, and
  identified by its PCI address.
\<close>

theorem system_discovery_outcome:
  "case system_discover h ctx of
     None \<Rightarrow> False
   | Some (Inl err) \<Rightarrow>
       err_code err \<in> {ErrorCode.kBackendUnavailable, ErrorCode.kBackendError, ErrorCode.kResourceLimit}
   | Some (Inr d) \<Rightarrow> length (dr_nics d) \<le> ctx_max_nics ctx \<and> set (dr_nics d) \<subseteq> Collect host_nic"
  using system_discover_returns [of h ctx] system_discover_Inl [of h ctx] system_discover_Inr(1,2) [of h ctx]
  by (cases "system_discover h ctx") (auto split: sum.split)

lemma widen_inj: "(ucast (a :: u32) :: u64) = ucast b \<longleftrightarrow> a = b"
proof -
  have "(ucast (ucast x :: u64) :: u32) = x" for x :: u32
    by (rule bit_word_eqI) (auto simp: bit_simps)
  then show ?thesis by metis
qed

lemma host_nic_ids:
  assumes "\<forall>n \<in> set ns. host_nic n" "distinct (map nic_pci ns)"
  shows "distinct (map nic_id ns)"
proof -
  have "nic_pci n = nic_pci m" if "n \<in> set ns" "m \<in> set ns" "nic_id n = nic_id m" for n m
  proof -
    have "(ucast (pci_numeric (nic_pci n)) :: u64) = ucast (pci_numeric (nic_pci m))"
      using assms(1) that by (auto simp: host_nic_def)
    then have "pci_numeric (nic_pci n) = pci_numeric (nic_pci m)"
      by (simp only: widen_inj)
    then show ?thesis
      using assms(1) that pci_eq_canonical [of "nic_pci n" "nic_pci m"] by (simp add: pci_eq_def host_nic_def)
  qed
  with assms(2) show ?thesis unfolding distinct_map inj_on_def by blast
qed

lemma host_nic_valid:
  assumes "host_nic n" "nic_pci n \<noteq> mk_pci 0 0 0 0"
  shows "id_valid (nic_id n)"
proof -
  have "pci_numeric (nic_pci n) \<noteq> pci_numeric (mk_pci 0 0 0 0)"
    using assms pci_eq_canonical [of "nic_pci n" "mk_pci 0 0 0 0"]
    by (simp add: host_nic_def pci_eq_def) (simp add: pci_canonical_def)
  then have "pci_numeric (nic_pci n) \<noteq> 0" by (simp add: pci_numeric_def)
  then have "(ucast (pci_numeric (nic_pci n)) :: u64) \<noteq> 0"
    using widen_inj [of "pci_numeric (nic_pci n)" 0] by simp
  then show ?thesis using assms(1) by (simp add: host_nic_def)
qed

text \<open>
  C36: real discovery reaches the registry: when the adapters found on the host have pairwise
  different PCI addresses, none of them sits at 0000:00:00.0, and the context asks for no more
  NICs than a registry can hold, a fresh engine takes in the whole result and afterwards holds
  exactly the discovered NICs as they were reported (AVAILABLE, with their health and link state;
  only their freshness is cleared). An adapter at 0000:00:00.0 would get the null id, which the
  registry refuses.
\<close>

theorem system_discovery_ingested:
  assumes "system_discover h ctx = Some (Inr d)" "ctx_max_nics ctx \<le> kMaxNics"
    "distinct (map nic_pci (dr_nics d))" "mk_pci 0 0 0 0 \<notin> nic_pci ` set (dr_nics d)" "fresh_engine e w b r"
  shows "\<exists>s. ingest d w b e r = (Inr (), s) \<and>
    set (reg_nics s) = (\<lambda>n. (nic_id n, n\<lparr>nic_freshness := 0\<rparr>)) ` set (dr_nics d) \<and>
    reg_topology s = dr_topology d"
proof -
  note d = system_discover_Inr [OF assms(1)]
  have "id_valid (nic_id n) \<and> gen_valid (nic_generation n)" if "n \<in> set (dr_nics d)" for n
    using host_nic_valid [of n] d(1) that assms(4) by (force simp: host_nic_def gen_valid_def)
  then have ok: "discovery_ok d"
    using d(2-6) assms(2) host_nic_ids [OF d(1) assms(3)] by (simp add: discovery_ok_def)
  obtain m where s: "ingest d w b e r = (Inr (), with_children d ((with_devices d r)\<lparr>reg_worker_nics := m\<rparr>))"
    by (rule ingest_fresh [OF assms(5) ok])
  show ?thesis
    by (rule exI, rule conjI, rule s) (use ok in \<open>simp add: with_children_def with_devices_def m_load_set discovery_ok_def\<close>)
qed

theorem system_discovery_ingested_witness:
  "\<exists>h d r s. system_discover h context_default = Some (Inr d) \<and> length (dr_nics d) = 1 \<and>
     fresh_engine (Id 7) (Id 1) (Id 10) r \<and> ingest d (Id 1) (Id 10) (Id 7) r = (Inr (), s)"
proof -
  define dev where "dev = \<lparr>pr_desc = Some (wide ''NIC'' @ [0]), pr_friendly = None,
    pr_location = Some (wide ''PCI bus 3, device 0, function 1'' @ [0]),
    pr_hw_id = Some (wide ''PCI'' @ [92] @ wide ''VEN_8086'' @ [0, 0])\<rparr>"
  define h where "h = \<lparr>ha_adapters_ok = True, ha_adapters = [], ha_net_devices = Some [dev], ha_enum_error = False,
    ha_all_devices = None, ha_utf8 = (\<lambda>_. ''nic'')\<rparr>"
  have "parse_location (wide ''PCI bus 3, device 0, function 1'') = Some (mk_pci 0 3 0 1)" by code_simp
  then have loc: "parse_location (sd_location dev) = Some (mk_pci 0 3 0 1)"
    by (simp add: dev_def sd_location_def reg_prop_terminated)
  have "sd_hw_id dev = wide ''PCI'' @ [92] @ wide ''VEN_8086''"
    by (simp add: dev_def sd_hw_id_def reg_prop_string_def wide_def to_byte_def)
  then have pci: "on_pci dev" by (simp add: on_pci_def wide_def)
  obtain d where d: "system_discover h context_default = Some (Inr d)" "dr_nics d = [system_nic h context_default dev (mk_pci 0 3 0 1)]"
    by (simp add: system_discover_def h_def system_topology_def pci loc context_default_def discovery_default_def)
  obtain r where r: "fresh_engine (Id 7) (Id 1) (Id 10) r" using fresh_engine_sample by blast
  have "\<exists>s. ingest d (Id 1) (Id 10) (Id 7) r = (Inr (), s) \<and>
    set (reg_nics s) = (\<lambda>n. (nic_id n, n\<lparr>nic_freshness := 0\<rparr>)) ` set (dr_nics d) \<and>
    reg_topology s = dr_topology d"
    by (rule system_discovery_ingested [OF d(1) _ _ _ r])
      (simp_all add: d(2) system_nic_def Let_def context_default_def kMaxNics_def)
  then obtain s where "ingest d (Id 1) (Id 10) (Id 7) r = (Inr (), s)" by blast
  with d r show ?thesis by (intro exI conjI) simp_all
qed

section \<open>Accelerator discovery\<close>

definition host_gpu :: "GpuRecord \<Rightarrow> bool" where
  "host_gpu g \<longleftrightarrow> id_valid (gpu_id g) \<and> gpu_generation g = Generation 1 \<and> pci_canonical (gpu_pci g) \<and>
     gpu_name g \<noteq> [] \<and> gpu_cuda_verified g \<and> gpu_provenance g = mk_prov EvidenceKind.kReal [Source.kNvml]"

lemma nvml_gpu_ok: "k < unat (n :: u32) \<Longrightarrow> host_gpu (nvml_gpu a ctx (word_of_nat k) d p)"
proof -
  assume k: "k < unat n"
  have "unat n < 2 ^ LENGTH(32)" by (rule unsigned_less)
  then have "Suc k < 2 ^ 32" using k by simp
  then have "unat (word_of_nat (Suc k) :: u32) = Suc k"
    by (simp only: unsigned_of_nat take_bit_eq_mod len_num1 len_bit0) simp
  then have "(word_of_nat k + 1 :: u32) \<noteq> 0" by (metis of_nat_Suc add.commute unsigned_0 nat.distinct(1))
  then have "(ucast (word_of_nat k + 1 :: u32) :: u64) \<noteq> 0"
    using widen_inj [of "word_of_nat k + 1" 0] by auto
  then show ?thesis
    using dec_digits_first [of "unat (word_of_nat k :: u32)"]
    by (auto simp: host_gpu_def nvml_gpu_def nvml_gpu_id_def Let_def pci_canonical_def masked_small)
qed

lemma nvidia_rounds_ok:
  assumes "nvidia_rounds a l ctx is out = Some out'" "set is \<subseteq> {..<unat (n :: u32)}"
    "set (dr_gpus out) \<subseteq> Collect host_gpu"
  shows "set (dr_gpus out') \<subseteq> Collect host_gpu \<and> length (dr_gpus out') \<le> length (dr_gpus out) + length is \<and>
    dr_nics out' = dr_nics out \<and> dr_functions out' = dr_functions out \<and> dr_ports out' = dr_ports out \<and>
    dr_queues out' = dr_queues out \<and> dr_topology out' = dr_topology out"
  using assms
proof (induction a l ctx "is" out rule: nvidia_rounds.induct)
  case (2 a l ctx k ks out)
  have "host_gpu (nvml_gpu a ctx (word_of_nat k) d p)" for d p using 2(5) nvml_gpu_ok [of k n] by simp
  with 2 show ?case by (force simp: Let_def split: if_splits option.splits)
qed simp

text \<open>
  A library that lacks only the name function is accepted; with it, the first device that has a
  handle makes the loop call through a null pointer.
\<close>

definition name_missing :: "NvmlLibrary \<Rightarrow> DiscoveryContext \<Rightarrow> bool" where
  "name_missing l ctx \<longleftrightarrow> nvidia_available l \<and> \<not> nv_getName (NvmlApi_load l) \<and>
     (\<exists>n k. nl_count l = Some n \<and> k < min (unat n) (ctx_max_gpus ctx) \<and> nd_handle (nl_device l (word_of_nat k)))"

lemma nvidia_rounds_None:
  "nvidia_rounds a l ctx is out = None \<longleftrightarrow> \<not> nv_getName a \<and> (\<exists>k \<in> set is. nd_handle (nl_device l (word_of_nat k)))"
  by (induction a l ctx "is" out rule: nvidia_rounds.induct) (auto simp: Let_def split: option.split)

lemma nvidia_discover_None: "nvidia_discover l ctx = None \<longleftrightarrow> name_missing l ctx"
  by (auto simp: nvidia_discover_def Let_def nvidia_rounds_None name_missing_def nvidia_available_def
      split: option.split)

lemma nvidia_discover_Inr:
  assumes "nvidia_discover l ctx = Some (Inr d)"
  shows "length (dr_gpus d) \<le> ctx_max_gpus ctx" "set (dr_gpus d) \<subseteq> Collect host_gpu" "dr_nics d = []"
    "dr_functions d = []" "dr_ports d = []" "dr_queues d = []" "dr_topology d = None"
proof -
  obtain n where n: "nl_count l = Some n"
    using assms by (auto simp: nvidia_discover_def Let_def split: if_splits option.splits)
  define x where "x = ''nvidia-affinity backend: NVML present, '' @ dec_digits (unat n) @ '' device(s)''"
  have d: "nvidia_rounds (NvmlApi_load l) l ctx [0..<min (unat n) (ctx_max_gpus ctx)]
      (add_note x discovery_default) = Some d"
    using assms by (simp add: nvidia_discover_def Let_def n x_def split: if_splits)
  have "set [0..<min (unat n) (ctx_max_gpus ctx)] \<subseteq> {..<unat n}" by auto
  from nvidia_rounds_ok [OF d this]
  show "length (dr_gpus d) \<le> ctx_max_gpus ctx" "set (dr_gpus d) \<subseteq> Collect host_gpu" "dr_nics d = []"
    "dr_functions d = []" "dr_ports d = []" "dr_queues d = []" "dr_topology d = None"
    by (auto simp: discovery_default_def)
qed

text \<open>
  Accelerator discovery raises exactly when NVML is not usable, with the documented codes, and
  calls through a null pointer exactly when the library lacks the name function and has a
  device; otherwise it reports at most the permitted number of accelerators, each with a valid
  id, a name, a canonical address and real NVML evidence, and nothing else.
\<close>

theorem nvidia_discovery_outcome:
  "case nvidia_discover l ctx of
     None \<Rightarrow> name_missing l ctx
   | Some (Inl err) \<Rightarrow> if nvidia_available l then nl_count l = None \<and> err_code err = ErrorCode.kBackendError
       else err_code err = ErrorCode.kBackendUnavailable
   | Some (Inr d) \<Rightarrow> nvidia_available l \<and> nl_count l \<noteq> None \<and> length (dr_gpus d) \<le> ctx_max_gpus ctx \<and>
       set (dr_gpus d) \<subseteq> Collect host_gpu \<and> dr_nics d = [] \<and> dr_topology d = None"
proof (cases "nl_count l")
  case None
  then show ?thesis by (simp add: nvidia_discover_def nvidia_available_def Let_def)
next
  case (Some n)
  have "set [0..<min (unat n) (ctx_max_gpus ctx)] \<subseteq> {..<unat n}" by auto
  note rounds = nvidia_rounds_ok [OF _ this]
  show ?thesis
  proof (cases "nvidia_discover l ctx")
    case None
    then have "name_missing l ctx" by (simp only: nvidia_discover_None)
    with None show ?thesis by simp
  next
    case (Some r)
    with \<open>nl_count l = Some n\<close> show ?thesis
      using rounds [of "NvmlApi_load l" l ctx]
      by (fastforce simp: nvidia_discover_def nvidia_available_def Let_def discovery_default_def split: if_splits)
  qed
qed

end
