(* ===== verification/Inspector.thy ===== *)
theory Inspector
  imports Host_Backends Engine Residency_Policy
begin

unbundle bit_operations_syntax

text \<open>
  The inspection tool \<^verbatim>\<open>cli/nic_residency_inspect.cpp\<close>: its options, the discovery it runs through
  an engine, and the text it prints. What is printed is the returned string. The boot identity
  of the process and the answers of the host interfaces are arguments. The outcome of a run is
  \<^term>\<open>None\<close> when it does not return, \<^term>\<open>Inl\<close> an exception that leaves \<^verbatim>\<open>main\<close>, or the exit code
  with the output.
\<close>

section \<open>Printing records\<close>

definition json_escape :: "string \<Rightarrow> string" where
  "json_escape s = map (\<lambda>c. if to_byte c \<ge> 0x20 \<and> c \<noteq> CHR 0x22 \<and> c \<noteq> CHR 0x5C then c else CHR ''_'') s"

text \<open>\<^verbatim>\<open>"key":"value"\<close> and \<^verbatim>\<open>"key":\<close>\<close>

definition json_key :: "string \<Rightarrow> string" where
  "json_key k = quote @ k @ quote @ '':''"

definition json_str :: "string \<Rightarrow> string \<Rightarrow> string" where
  "json_str k v = json_key k @ quote @ c_str v @ quote"

definition nic_json :: "NicRecord \<Rightarrow> string" where
  "nic_json n = ''{'' @ json_str ''id'' (id_str (nic_id n)) @ '','' @
     json_key ''gen'' @ std_to_string (gen_value (nic_generation n)) @ '','' @
     json_str ''os'' (json_escape (nic_os_name n)) @ '','' @ json_str ''pci'' (pci_str (nic_pci n)) @ '','' @
     json_str ''kind'' (DeviceKind_str (nic_device_kind n)) @ '','' @
     json_key ''numa'' @ std_to_string (id_value (nic_numa_node n)) @ '','' @
     json_str ''link'' (LinkState_str (nic_link_state n)) @ '','' @
     json_str ''prov'' (prov_str (nic_provenance n)) @ '','' @
     json_str ''lifecycle'' (LifecycleState_str (nic_lifecycle n)) @ ''}''"

definition nic_line :: "NicRecord \<Rightarrow> string" where
  "nic_line n = ''  id='' @ c_str (id_str (nic_id n)) @ '' gen='' @ std_to_string (gen_value (nic_generation n)) @
     '' os='' @ c_str (nic_os_name n) @ '' pci='' @ c_str (pci_str (nic_pci n)) @
     '' kind='' @ DeviceKind_str (nic_device_kind n) @ '' numa='' @ std_to_string (id_value (nic_numa_node n)) @
     '' link='' @ LinkState_str (nic_link_state n) @ '' prov='' @ c_str (prov_str (nic_provenance n)) @ newline"

definition gpu_json :: "GpuRecord \<Rightarrow> string" where
  "gpu_json g = ''{'' @ json_str ''id'' (id_str (gpu_id g)) @ '','' @ json_str ''name'' (json_escape (gpu_name g)) @ '','' @
     json_str ''pci'' (pci_str (gpu_pci g)) @ '','' @ json_key ''numa'' @ std_to_string (id_value (gpu_numa_node g)) @ '','' @
     json_key ''cuda'' @ std_to_string (id_value (gpu_cuda_device g)) @ '','' @
     json_str ''prov'' (prov_str (gpu_provenance g)) @ ''}''"

definition gpu_line :: "GpuRecord \<Rightarrow> string" where
  "gpu_line g = ''  id='' @ c_str (id_str (gpu_id g)) @ '' name='' @ c_str (gpu_name g) @
     '' pci='' @ c_str (pci_str (gpu_pci g)) @ '' numa='' @ std_to_string (id_value (gpu_numa_node g)) @
     '' cuda='' @ std_to_string (id_value (gpu_cuda_device g)) @ '' prov='' @ c_str (prov_str (gpu_provenance g)) @ newline"

text \<open>The elements separated by a comma and a line break.\<close>

fun json_items :: "string list \<Rightarrow> string" where
  "json_items [] = []"
| "json_items [x] = x"
| "json_items (x # y # xs) = x @ '','' @ newline @ json_items (y # xs)"

definition json_array :: "string \<Rightarrow> string list \<Rightarrow> string" where
  "json_array k xs = json_key k @ ''['' @ newline @ json_items xs @ newline @ '']'' @ newline"

definition print_nics :: "RegistrySnapshot \<Rightarrow> bool \<Rightarrow> string" where
  "print_nics snap json =
     (if json then json_array ''nics'' (map (nic_json \<circ> snd) (snap_nics snap))
      else ''NICs ('' @ dec_digits (m_size (snap_nics snap)) @ ''):'' @ newline @
        concat (map (nic_line \<circ> snd) (snap_nics snap)))"

definition print_gpus :: "RegistrySnapshot \<Rightarrow> bool \<Rightarrow> string" where
  "print_gpus snap json =
     (if json then json_array ''gpus'' (map (gpu_json \<circ> snd) (snap_gpus snap))
      else ''Accelerators ('' @ dec_digits (m_size (snap_gpus snap)) @ ''):'' @ newline @
        concat (map (gpu_line \<circ> snd) (snap_gpus snap)))"

section \<open>Runs\<close>

definition scene_by_name :: "string \<Rightarrow> SyntheticScenario" where
  "scene_by_name s =
     (if s = ''one_gpu'' then kOneNicLocalToOneGpu
      else if s = ''two_numa'' then kTwoNicsDifferentNuma
      else if s = ''root_complex'' then kSameRootComplexPreference
      else if s = ''pcie_switch'' then kSamePcieSwitchPreference
      else if s = ''remote_numa'' then kRemoteNumaFallback
      else if s = ''smartnic'' then kSmartNicLocalMemory
      else if s = ''dpu'' then kDpuLikeLocalMemory
      else if s = ''pf_vfs'' then kPfWithMultipleVfs
      else if s = ''dense'' then kDenseCandidateSet
      else if s = ''unsupported'' then kUnsupportedCapability
      else kOneNicLocalToOneGpu)"

definition inspect_context :: DiscoveryContext where
  "inspect_context = context_default\<lparr>ctx_freshness := 1\<rparr>"

text \<open>An engine of epoch 1 with the host registered as worker 1.\<close>

definition host_engine :: "WorkerBootId \<Rightarrow> ResidencyError + NicRegistry" where
  "host_engine boot =
     (case NicRegistry_new (Id 1) of
        Inl err \<Rightarrow> Inl err
      | Inr r \<Rightarrow> (case register_host_worker boot (Id 1) r of (Inl err, _) \<Rightarrow> Inl err | (Inr _, s) \<Rightarrow> Inr s))"

text \<open>A fixture discovered and ingested; neither step is inside a handler.\<close>

definition fixture_engine :: "WorkerBootId \<Rightarrow> SyntheticScenario \<Rightarrow> (ResidencyError + NicRegistry) option" where
  "fixture_engine boot sc =
     (case host_engine boot of
        Inl err \<Rightarrow> Some (Inl err)
      | Inr r \<Rightarrow> (case synthetic_discover sc inspect_context of
            None \<Rightarrow> None
          | Some (Inl err) \<Rightarrow> Some (Inl err)
          | Some (Inr d) \<Rightarrow> (case ingest_current d (Id 1) boot r of
                (Inl err, _) \<Rightarrow> Some (Inl err) | (Inr _, s) \<Rightarrow> Some (Inr s))))"

text \<open>
  The two guarded discoveries of the host. Each returns the registry, which keeps what was
  ingested before an exception, and what was printed.
\<close>

definition system_step :: "HostApi \<Rightarrow> WorkerBootId \<Rightarrow> bool \<Rightarrow> NicRegistry \<Rightarrow> (NicRegistry \<times> string) option" where
  "system_step h boot json r =
     (let failed = (\<lambda>err. if json then json_str ''system_error'' (json_escape (c_str (err_what err))) @ newline
            else ''System discovery: '' @ c_str (err_what err) @ newline)
      in case system_discover h inspect_context of
           None \<Rightarrow> None
         | Some (Inl err) \<Rightarrow> Some (r, failed err)
         | Some (Inr d) \<Rightarrow> (case ingest_current d (Id 1) boot r of
               (Inl err, s) \<Rightarrow> Some (s, failed err) | (Inr _, s) \<Rightarrow> Some (s, [])))"

definition nvidia_step :: "NvmlLibrary \<Rightarrow> WorkerBootId \<Rightarrow> bool \<Rightarrow> NicRegistry \<Rightarrow> (NicRegistry \<times> string) option" where
  "nvidia_step l boot json r =
     (let failed = (\<lambda>err. if json then json_str ''nvidia_error'' (json_escape (c_str (err_what err))) @ newline
            else ''NVIDIA: '' @ c_str (err_what err) @ newline)
      in if nvidia_available l then
           (case nvidia_discover l inspect_context of
              None \<Rightarrow> None
            | Some (Inl err) \<Rightarrow> Some (r, failed err)
            | Some (Inr d) \<Rightarrow> (case ingest_current d (Id 1) boot r of
                  (Inl err, s) \<Rightarrow> Some (s, failed err) | (Inr _, s) \<Rightarrow> Some (s, [])))
         else Some (r, if json then json_str ''nvidia'' ''UNSUPPORTED'' @ newline
                  else ''NVIDIA/NVML: UNSUPPORTED (no NVML)'' @ newline))"

definition system_report :: "RegistrySnapshot \<Rightarrow> bool \<Rightarrow> string" where
  "system_report snap json =
     (if json then
        ''{'' @ newline @ json_str ''host_epoch'' (id_str (snap_epoch snap)) @ '','' @ newline @
        print_nics snap True @ '','' @ newline @ print_gpus snap True @ '','' @ newline @
        (case snap_topology snap of
           None \<Rightarrow> []
         | Some t \<Rightarrow> json_key ''topo_nodes'' @ dec_digits (top_node_count t) @ '','' @
             json_key ''topo_gen'' @ c_str (gen_str (top_generation t)) @ '','' @ newline) @
        json_str ''summary'' (json_escape (snap_summary snap)) @ newline @ ''}'' @ newline
      else
        ''Epoch='' @ c_str (id_str (snap_epoch snap)) @ newline @ print_nics snap False @ print_gpus snap False @
        (case snap_topology snap of
           None \<Rightarrow> []
         | Some t \<Rightarrow> ''Topology nodes='' @ dec_digits (top_node_count t) @ '' gen='' @
             c_str (gen_str (top_generation t)) @ newline) @
        c_str (snap_summary snap) @ newline)"

definition run_system :: "HostApi \<Rightarrow> NvmlLibrary \<Rightarrow> WorkerBootId \<Rightarrow> bool \<Rightarrow> (ResidencyError + string) option" where
  "run_system h l boot json =
     (case host_engine boot of
        Inl err \<Rightarrow> Some (Inl err)
      | Inr r0 \<Rightarrow> (case system_step h boot json r0 of
            None \<Rightarrow> None
          | Some (r1, out1) \<Rightarrow>
              (case nvidia_step l boot json r1 of
                 None \<Rightarrow> None
               | Some (r2, out2) \<Rightarrow> Some (Inr (out1 @ out2 @ system_report (snapshot r2) json)))))"

definition run_synthetic :: "WorkerBootId \<Rightarrow> string \<Rightarrow> bool \<Rightarrow> (ResidencyError + string) option" where
  "run_synthetic boot name json =
     (case fixture_engine boot (scene_by_name name) of
        None \<Rightarrow> None
      | Some (Inl err) \<Rightarrow> Some (Inl err)
      | Some (Inr r) \<Rightarrow>
          (let snap = snapshot r in Some (Inr (
             if json then
               ''{'' @ json_str ''scenario'' name @ '','' @ print_nics snap True @ '','' @ newline @
               print_gpus snap True @ '','' @ newline @ json_str ''summary'' (json_escape (snap_summary snap)) @
               ''}'' @ newline
             else
               ''Scenario: '' @ c_str name @ newline @ print_nics snap False @ print_gpus snap False @
               c_str (snap_summary snap) @ newline))))"

definition candidate_lines :: "CandidateResult \<Rightarrow> string" where
  "candidate_lines c =
     ''  candidate='' @ c_str (id_str (cr_nic c)) @ '' elig='' @ ResidencyEligibility_str (cr_eligibility c) @
     '' score='' @ fmt_int (cr_rank_score c) @ newline @
     concat (map (\<lambda>x. ''      reject: '' @ c_str (rej_name x) @ ''  ('' @ c_str (rej_detail x) @ '')'' @ newline)
       (cr_rejections c))"

definition query_policy :: ResidencyPolicy where
  "query_policy = policy_default\<lparr>allow_synthetic := True\<rparr>"

definition run_query :: "RegistrySnapshot \<Rightarrow> GpuId \<Rightarrow> NumaNodeId \<Rightarrow> bool \<Rightarrow> string" where
  "run_query snap gpu nn json =
     (let dec = decide query_policy snap gpu nn id_null (Id 1);
          sel = (if id_valid (dec_selected dec) then c_str (id_str (dec_selected dec)) else ''NONE'')
      in if json then
           ''{'' @ json_str ''overall'' (ResidencyEligibility_str (dec_overall dec)) @ '','' @
           json_str ''selected'' sel @ '','' @ json_str ''explanation'' (json_escape (dec_explanation dec)) @ '','' @
           json_key ''topo_gen'' @ c_str (gen_str (dec_topology_generation dec)) @ '','' @
           json_str ''epoch'' (id_str (snap_epoch snap)) @ ''}'' @ newline
         else
           ''Overall='' @ ResidencyEligibility_str (dec_overall dec) @ newline @ ''Selected='' @ sel @ newline @
           ''Explanation: '' @ c_str (dec_explanation dec) @ newline @
           concat (map candidate_lines (dec_evaluated dec)))"

section \<open>Options\<close>

record Options =
  opt_json :: bool
  opt_mode :: string
  opt_scenario :: string
  opt_gpu :: GpuId
  opt_numa :: NumaNodeId

definition options_default :: Options where
  "options_default = \<lparr>opt_json = False, opt_mode = ''system'', opt_scenario = [], opt_gpu = id_null, opt_numa = id_null\<rparr>"

definition usage :: string where
  "usage = ''nic_residency_inspect [options]'' @ newline
     @ ''  --system                 run REAL host discovery (Windows)'' @ newline
     @ ''  --synthetic <scenario>   run a synthetic scenario'' @ newline
     @ ''  --query --gpu <id> [--numa <id>]  resolve the best resident NIC'' @ newline
     @ ''  --json                    emit deterministic JSON'' @ newline
     @ ''  --version                 print version'' @ newline
     @ ''  --help                    this help'' @ newline
     @ ''  scenarios: one_gpu two_numa root_complex pcie_switch remote_numa smartnic dpu pf_vfs dense unsupported'' @ newline"

text \<open>The constants of \<^verbatim>\<open>version.hpp\<close>; the format version of persistence is in \<^verbatim>\<open>Persistence_Codec\<close>.\<close>

definition kVersionMajor :: int where "kVersionMajor = 1"

definition kVersionMinor :: int where "kVersionMinor = 0"

definition kVersionPatch :: int where "kVersionPatch = 1"

definition kLibraryApiVersion :: u32 where "kLibraryApiVersion = 6"

definition kProtocolVersion :: u32 where "kProtocolVersion = 1"

definition kVersionString :: string where "kVersionString = ''1.0.1''"

definition kProductName :: string where "kProductName = ''NIC Residency''"

definition kVendor :: string where "kVendor = ''Summon Software Labs''"

definition version_line :: string where
  "version_line = c_str kProductName @ '' '' @ c_str kVersionString @ '' ('' @ c_str kVendor @ '')'' @ newline"

text \<open>The option loop: \<^term>\<open>Inl\<close> the output of an option that ends the program.\<close>

fun parse_options :: "string list \<Rightarrow> Options \<Rightarrow> string + Options" where
  "parse_options [] opt = Inr opt"
| "parse_options (a # rest) opt =
     (if a = ''--json'' then parse_options rest (opt\<lparr>opt_json := True\<rparr>)
      else if a = ''--system'' then parse_options rest (opt\<lparr>opt_mode := ''system''\<rparr>)
      else if a = ''--synthetic'' then
        (case rest of
           [] \<Rightarrow> Inr (opt\<lparr>opt_mode := ''synthetic''\<rparr>)
         | v # rest' \<Rightarrow> parse_options rest' (opt\<lparr>opt_mode := ''synthetic'', opt_scenario := v\<rparr>))
      else if a = ''--query'' then parse_options rest (opt\<lparr>opt_mode := ''query''\<rparr>)
      else if a = ''--gpu'' then
        (case rest of [] \<Rightarrow> Inr opt | v # rest' \<Rightarrow> parse_options rest' (opt\<lparr>opt_gpu := Id (strtoull0 v)\<rparr>))
      else if a = ''--numa'' then
        (case rest of [] \<Rightarrow> Inr opt | v # rest' \<Rightarrow> parse_options rest' (opt\<lparr>opt_numa := Id (strtoull0 v)\<rparr>))
      else if a = ''--version'' then Inl version_line
      else if a = ''--help'' then Inl usage
      else parse_options rest opt)"

definition inspect_main ::
    "HostApi \<Rightarrow> NvmlLibrary \<Rightarrow> WorkerBootId \<Rightarrow> string list \<Rightarrow> (ResidencyError + int \<times> string) option" where
  "inspect_main h l boot args =
     (case parse_options args options_default of
        Inl out \<Rightarrow> Some (Inr (0, out))
      | Inr opt \<Rightarrow>
          if opt_mode opt = ''system'' then map_option (map_sum id (Pair 0)) (run_system h l boot (opt_json opt))
          else if opt_mode opt = ''synthetic'' then
            map_option (map_sum id (Pair 0)) (run_synthetic boot (opt_scenario opt) (opt_json opt))
          else if opt_mode opt = ''query'' then
            (case fixture_engine boot kTwoNicsDifferentNuma of
               None \<Rightarrow> None
             | Some (Inl err) \<Rightarrow> Some (Inl err)
             | Some (Inr r) \<Rightarrow>
                 (let gpu = (if id_valid (opt_gpu opt) then opt_gpu opt else Id 101)
                  in Some (Inr (0, run_query (snapshot r) gpu (opt_numa opt) (opt_json opt)))))
          else Some (Inr (1, usage)))"

end
