(* ===== verification/Backend_Interface.thy ===== *)
theory Backend_Interface
  imports Host_Theorems
begin

text \<open>
  The interface of the backends (class \<^verbatim>\<open>Backend\<close> of \<^verbatim>\<open>include/nicresidency/backend.hpp\<close>) with its
  four implementations, and its contract: \<^verbatim>\<open>synthetic()\<close> says what every record of a discovery is
  labelled, and a discovery raises with the documented codes only. The contract is a locale; a
  client is whatever discovers with a backend and ingests the result into its registry.
\<close>

section \<open>Implementations\<close>

text \<open>A backend with what its discovery depends on; the last three hold no members.\<close>

datatype Backend =
    SyntheticBackend SyntheticScenario
  | SystemBackend HostApi
  | NvidiaAffinityBackend NvmlLibrary
  | UnsupportedBackend

fun backend_kind :: "Backend \<Rightarrow> BackendKind" where
  "backend_kind (SyntheticBackend sc) = BackendKind.kSynthetic"
| "backend_kind (SystemBackend h) = BackendKind.kSystem"
| "backend_kind (NvidiaAffinityBackend l) = BackendKind.kNvidiaAffinity"
| "backend_kind UnsupportedBackend = BackendKind.kUnsupported"

fun backend_name :: "Backend \<Rightarrow> string" where
  "backend_name (SyntheticBackend sc) = ''synthetic''"
| "backend_name (SystemBackend h) = ''windows-system''"
| "backend_name (NvidiaAffinityBackend l) = ''nvidia-affinity''"
| "backend_name UnsupportedBackend = ''unsupported''"

fun backend_synthetic :: "Backend \<Rightarrow> bool" where
  "backend_synthetic (SyntheticBackend sc) = True"
| "backend_synthetic (SystemBackend h) = False"
| "backend_synthetic (NvidiaAffinityBackend l) = False"
| "backend_synthetic UnsupportedBackend = False"

fun backend_discover :: "Backend \<Rightarrow> DiscoveryContext \<Rightarrow> (ResidencyError + DiscoveryResult) option" where
  "backend_discover (SyntheticBackend sc) ctx = synthetic_discover sc ctx"
| "backend_discover (SystemBackend h) ctx = system_discover h ctx"
| "backend_discover (NvidiaAffinityBackend l) ctx = nvidia_discover l ctx"
| "backend_discover UnsupportedBackend ctx = Some (Inr (unsupported_discover ctx))"

text \<open>
  Discovery and ingestion one after the other, as the tools do it: an exception of either leaves
  the registry with what was ingested before it.
\<close>

definition discover_into ::
    "Backend \<Rightarrow> DiscoveryContext \<Rightarrow> WorkerId \<Rightarrow> WorkerBootId \<Rightarrow> NicRegistry \<Rightarrow> ((ResidencyError + unit) \<times> NicRegistry) option" where
  "discover_into bk ctx w b r =
     (case backend_discover bk ctx of
        None \<Rightarrow> None
      | Some (Inl err) \<Rightarrow> Some (Inl err, r)
      | Some (Inr d) \<Rightarrow> Some (ingest_current d w b r))"

fun discover_all ::
    "(Backend \<times> DiscoveryContext) list \<Rightarrow> WorkerId \<Rightarrow> WorkerBootId \<Rightarrow> NicRegistry \<Rightarrow> NicRegistry option" where
  "discover_all [] w b r = Some r"
| "discover_all ((bk, ctx) # bks) w b r =
     (case discover_into bk ctx w b r of None \<Rightarrow> None | Some (_, s) \<Rightarrow> discover_all bks w b s)"

section \<open>Evidence of discoveries and registries\<close>

text \<open>The records by their kind and id, each with its provenance.\<close>

datatype RecordKey = NicKey NicId | GpuKey GpuId | FunctionKey FunctionId | PortKey PortId | QueueKey QueueId

definition discovered_evidence :: "DiscoveryResult \<Rightarrow> (RecordKey \<times> Provenance) set" where
  "discovered_evidence d = (\<lambda>n. (NicKey (nic_id n), nic_provenance n)) ` set (dr_nics d) \<union>
     (\<lambda>g. (GpuKey (gpu_id g), gpu_provenance g)) ` set (dr_gpus d) \<union>
     (\<lambda>f. (FunctionKey (fn_id f), fn_provenance f)) ` set (dr_functions d) \<union>
     (\<lambda>p. (PortKey (port_id p), port_provenance p)) ` set (dr_ports d) \<union>
     (\<lambda>q. (QueueKey (queue_id q), queue_provenance q)) ` set (dr_queues d)"

definition table_evidence :: "('k \<Rightarrow> RecordKey) \<Rightarrow> ('v \<Rightarrow> Provenance) \<Rightarrow> ('k, 'v) smap \<Rightarrow> (RecordKey \<times> Provenance) set" where
  "table_evidence key prov m = (\<lambda>(k, v). (key k, prov v)) ` set m"

definition registered_evidence :: "NicRegistry \<Rightarrow> (RecordKey \<times> Provenance) set" where
  "registered_evidence r = table_evidence NicKey nic_provenance (reg_nics r) \<union>
     table_evidence GpuKey gpu_provenance (reg_gpus r) \<union>
     table_evidence FunctionKey fn_provenance (reg_functions r) \<union>
     table_evidence PortKey port_provenance (reg_ports r) \<union>
     table_evidence QueueKey queue_provenance (reg_queues r)"

text \<open>Publishing a record adds at most the evidence of the record.\<close>

lemma table_evidence_put: "table_evidence key prov (m_put k v m) \<subseteq> insert (key k, prov v) (table_evidence key prov m)"
  using image_mono [OF set_m_put [of k v m], of "\<lambda>(k, v). (key k, prov v)"] by (simp add: table_evidence_def)

lemma union_put: "A' \<subseteq> insert x A \<Longrightarrow> A' \<union> B \<subseteq> insert x (A \<union> B)" "A' \<subseteq> insert x A \<Longrightarrow> B \<union> A' \<subseteq> insert x (B \<union> A)"
  by auto

lemma evidence_put:
  "registered_evidence (r\<lparr>reg_worker_nics := c\<rparr>) = registered_evidence r"
  "registered_evidence (r\<lparr>reg_worker_nics := c, reg_nics := m_put i n (reg_nics r)\<rparr>) \<subseteq>
     insert (NicKey i, nic_provenance n) (registered_evidence r)"
  "registered_evidence (r\<lparr>reg_gpus := m_put j g (reg_gpus r)\<rparr>) \<subseteq> insert (GpuKey j, gpu_provenance g) (registered_evidence r)"
  "registered_evidence (r\<lparr>reg_functions := m_put k f (reg_functions r)\<rparr>) \<subseteq>
     insert (FunctionKey k, fn_provenance f) (registered_evidence r)"
  "registered_evidence (r\<lparr>reg_ports := m_put l p (reg_ports r)\<rparr>) \<subseteq> insert (PortKey l, port_provenance p) (registered_evidence r)"
  "registered_evidence (r\<lparr>reg_queues := m_put m q (reg_queues r)\<rparr>) \<subseteq>
     insert (QueueKey m, queue_provenance q) (registered_evidence r)"
  by (simp_all add: registered_evidence_def table_evidence_put union_put del: Un_subset_iff le_sup_iff sup.bounded_iff)

lemma publish_evidence:
  "registered_evidence (snd (register_nic n e w b r)) \<subseteq> insert (NicKey (nic_id n), nic_provenance n) (registered_evidence r)"
  "registered_evidence (snd (register_gpu g e w b r)) \<subseteq> insert (GpuKey (gpu_id g), gpu_provenance g) (registered_evidence r)"
  "registered_evidence (snd (register_function f e w b r)) \<subseteq> insert (FunctionKey (fn_id f), fn_provenance f) (registered_evidence r)"
  "registered_evidence (snd (register_port p e w b r)) \<subseteq> insert (PortKey (port_id p), port_provenance p) (registered_evidence r)"
  "registered_evidence (snd (register_queue q e w b r)) \<subseteq> insert (QueueKey (queue_id q), queue_provenance q) (registered_evidence r)"
  "registered_evidence (snd (set_topology t e w b r)) = registered_evidence r"
proof -
  note kept = subset_insertI evidence_put(1)
  show "registered_evidence (snd (register_nic n e w b r)) \<subseteq> insert (NicKey (nic_id n), nic_provenance n) (registered_evidence r)"
    using evidence_put(2) [where n = "n\<lparr>nic_freshness := 0\<rparr>"]
    by (simp add: register_nic_def Let_def kept split: sum.split option.split)
  show "registered_evidence (snd (register_gpu g e w b r)) \<subseteq> insert (GpuKey (gpu_id g), gpu_provenance g) (registered_evidence r)"
    by (simp add: register_gpu_def kept evidence_put(3) split: sum.split option.split)
  show "registered_evidence (snd (register_function f e w b r)) \<subseteq> insert (FunctionKey (fn_id f), fn_provenance f) (registered_evidence r)"
    by (simp add: register_function_def kept evidence_put(4) split: sum.split option.split)
  show "registered_evidence (snd (register_port p e w b r)) \<subseteq> insert (PortKey (port_id p), port_provenance p) (registered_evidence r)"
    by (simp add: register_port_def kept evidence_put(5) split: sum.split option.split)
  show "registered_evidence (snd (register_queue q e w b r)) \<subseteq> insert (QueueKey (queue_id q), queue_provenance q) (registered_evidence r)"
    by (simp add: register_queue_def kept evidence_put(6) split: sum.split option.split)
  show "registered_evidence (snd (set_topology t e w b r)) = registered_evidence r"
    by (simp add: set_topology_def registered_evidence_def split: sum.split)
qed

lemma ingest_evidence: "registered_evidence (snd (ingest d w b e r)) \<subseteq> registered_evidence r \<union> discovered_evidence d"
proof -
  define P where "P s \<longleftrightarrow> registered_evidence s \<subseteq> registered_evidence r \<union> discovered_evidence d" for s
  have "P (snd (ingest d w b e r))"
    unfolding ingest_def
  proof (intro ex_then_keeps [where P = P] ex_each_keeps [where P = P])
    show "P r" by (simp add: P_def)
    show "P (snd (register_nic n e w b s))" if "n \<in> set (dr_nics d)" "P s" for n s
      using that publish_evidence(1) [of n e w b s] by (auto simp: P_def discovered_evidence_def)
    show "P (snd (register_gpu g e w b s))" if "g \<in> set (dr_gpus d)" "P s" for g s
      using that publish_evidence(2) [of g e w b s] by (auto simp: P_def discovered_evidence_def)
    show "P (snd (load_topology (dr_topology d) e w b s))" if "P s" for s
      using that publish_evidence(6) by (cases "dr_topology d") (simp_all add: P_def)
    show "P (snd (register_function f e w b s))" if "f \<in> set (dr_functions d)" "P s" for f s
      using that publish_evidence(3) [of f e w b s] by (auto simp: P_def discovered_evidence_def)
    show "P (snd (register_port p e w b s))" if "p \<in> set (dr_ports d)" "P s" for p s
      using that publish_evidence(4) [of p e w b s] by (auto simp: P_def discovered_evidence_def)
    show "P (snd (register_queue q e w b s))" if "q \<in> set (dr_queues d)" "P s" for q s
      using that publish_evidence(5) [of q e w b s] by (auto simp: P_def discovered_evidence_def)
  qed
  then show ?thesis by (simp add: P_def)
qed

section \<open>The contract\<close>

definition evidence_class :: "bool \<Rightarrow> EvidenceKind" where
  "evidence_class s = (if s then EvidenceKind.kSynthetic else EvidenceKind.kReal)"

locale backend =
  fixes discover :: "DiscoveryContext \<Rightarrow> (ResidencyError + DiscoveryResult) option"
    and synthetic :: bool
  assumes labels: "discover ctx = Some (Inr d) \<Longrightarrow> prov_kind ` snd ` discovered_evidence d \<subseteq> {evidence_class synthetic}"
    and errors: "discover ctx = Some (Inl err) \<Longrightarrow>
      err_code err \<in> {ErrorCode.kBackendUnavailable, ErrorCode.kBackendError, ErrorCode.kResourceLimit}"
begin

lemma ingested_class:
  assumes "discover ctx = Some (Inr d)"
  shows "registered_evidence (snd (ingest d w b e r)) \<subseteq>
    registered_evidence r \<union> (discovered_evidence d \<inter> {x. prov_kind (snd x) = evidence_class synthetic})"
  using ingest_evidence [of d w b e r] labels [OF assms] by blast

end

text \<open>Every implementation keeps the contract.\<close>

lemma backend_labels:
  "backend_discover bk ctx = Some (Inr d) \<Longrightarrow>
     prov_kind ` snd ` discovered_evidence d \<subseteq> {evidence_class (backend_synthetic bk)}"
proof (cases bk)
  case (SyntheticBackend sc)
  moreover assume "backend_discover bk ctx = Some (Inr d)"
  ultimately obtain t where "d = (fx_out (scenario_body sc ctx (fixture_start sc)))\<lparr>dr_topology := t\<rparr>"
    using fixture_result [of sc ctx] by auto
  then have "snd ` discovered_evidence d \<subseteq> {syn}"
    using scenario_ok [of sc ctx] by (simp add: fixture_ok_def labelled_def discovered_evidence_def image_Un image_image)
  then show ?thesis using SyntheticBackend by (auto simp: evidence_class_def syn_def)
next
  case (SystemBackend h)
  moreover assume "backend_discover bk ctx = Some (Inr d)"
  ultimately have "system_discover h ctx = Some (Inr d)" by simp
  from system_discover_Inr [OF this] show ?thesis
    using SystemBackend by (auto simp: discovered_evidence_def evidence_class_def host_nic_def)
next
  case (NvidiaAffinityBackend l)
  moreover assume "backend_discover bk ctx = Some (Inr d)"
  ultimately have "nvidia_discover l ctx = Some (Inr d)" by simp
  from nvidia_discover_Inr [OF this] show ?thesis
    using NvidiaAffinityBackend by (auto simp: discovered_evidence_def evidence_class_def host_gpu_def)
next
  case UnsupportedBackend
  moreover assume "backend_discover bk ctx = Some (Inr d)"
  ultimately have "d = unsupported_discover ctx" by simp
  then show ?thesis by (simp add: unsupported_discover_def discovery_default_def discovered_evidence_def)
qed

lemma backend_errors:
  "backend_discover bk ctx = Some (Inl err) \<Longrightarrow>
     err_code err \<in> {ErrorCode.kBackendUnavailable, ErrorCode.kBackendError, ErrorCode.kResourceLimit}"
proof (cases bk)
  case (SyntheticBackend sc)
  moreover assume "backend_discover bk ctx = Some (Inl err)"
  ultimately show ?thesis using fixture_result [of sc ctx] by auto
next
  case (SystemBackend h)
  moreover assume "backend_discover bk ctx = Some (Inl err)"
  ultimately show ?thesis using system_discover_Inl [of h ctx err] by simp
next
  case (NvidiaAffinityBackend l)
  moreover assume "backend_discover bk ctx = Some (Inl err)"
  ultimately show ?thesis
    by (auto simp: nvidia_discover_def Let_def split: if_splits option.splits)
qed simp

interpretation bk: backend "backend_discover bk" "backend_synthetic bk" for bk
  by unfold_locales (rule backend_labels, assumption, rule backend_errors)

text \<open>What a backend reports, under the class that it claims.\<close>

definition reported :: "Backend \<Rightarrow> DiscoveryContext \<Rightarrow> (RecordKey \<times> Provenance) set" where
  "reported bk ctx =
     (case backend_discover bk ctx of Some (Inr d) \<Rightarrow> discovered_evidence d | _ \<Rightarrow> {}) \<inter>
     {x. prov_kind (snd x) = evidence_class (backend_synthetic bk)}"

text \<open>A discovery fails to return only in the loop of the accelerators.\<close>

lemma backend_discover_None: "backend_discover bk ctx = None \<longleftrightarrow> (\<exists>l. bk = NvidiaAffinityBackend l \<and> name_missing l ctx)"
proof (cases bk)
  case (SyntheticBackend sc)
  then show ?thesis using fixture_result [of sc ctx] by auto
qed (simp_all add: system_discover_returns nvidia_discover_None)

lemma discover_into_evidence:
  assumes "discover_into bk ctx w b r = Some (x, s)"
  shows "registered_evidence s \<subseteq> registered_evidence r \<union> reported bk ctx"
proof -
  consider "s = r" | d where "backend_discover bk ctx = Some (Inr d)" "s = snd (ingest d w b (reg_epoch r) r)"
    using assms by (auto simp: discover_into_def ingest_current_def split: option.splits sum.splits)
  then show ?thesis
  proof cases
    case 2
    then show ?thesis using bk.ingested_class [OF 2(1)] by (simp add: reported_def)
  qed simp
qed

lemma discover_into_None: "discover_into bk ctx w b r = None \<longleftrightarrow> backend_discover bk ctx = None"
  by (simp add: discover_into_def split: option.split sum.split)

text \<open>
  C33: no record changes its evidence on the way from the backends to the registry. However many
  backends discover for a registry, and whatever exceptions end a discovery or an ingestion, each
  NIC, accelerator, function, port and queue in the registry has the provenance that the record
  of the same id had before, or the one with which a backend reported a record of this very id,
  and then it is labelled as \<^verbatim>\<open>synthetic()\<close> of this backend says. So a synthetic record becomes a
  real one only when a backend of the host reports its id. The sequence fails to return exactly
  when it reaches the call through a null pointer in the accelerator backend.
\<close>

theorem evidence_class_kept:
  "case discover_all bks w b r of
     None \<Rightarrow> \<exists>l ctx. (NvidiaAffinityBackend l, ctx) \<in> set bks \<and> name_missing l ctx
   | Some s \<Rightarrow> registered_evidence s \<subseteq> registered_evidence r \<union> (\<Union>(bk, ctx) \<in> set bks. reported bk ctx) \<and>
       {(l, ctx). (NvidiaAffinityBackend l, ctx) \<in> set bks \<and> name_missing l ctx} = {}"
proof (induction bks w b r rule: discover_all.induct)
  case (2 bk ctx bks w b r)
  show ?case
  proof (cases "discover_into bk ctx w b r")
    case None
    then have "\<exists>l. bk = NvidiaAffinityBackend l \<and> name_missing l ctx"
      by (simp only: discover_into_None backend_discover_None)
    with None show ?thesis by auto
  next
    case (Some xs)
    then obtain x s where xs: "discover_into bk ctx w b r = Some (x, s)" by (cases xs) simp
    then have nn: "\<not> (\<exists>l. bk = NvidiaAffinityBackend l \<and> name_missing l ctx)"
      by (simp flip: backend_discover_None discover_into_None [of _ _ w b r])
    show ?thesis
    proof (cases "discover_all bks w b s")
      case None
      with 2 [OF xs refl] xs show ?thesis by auto
    next
      case (Some t)
      with 2 [OF xs refl] have t: "registered_evidence t \<subseteq> registered_evidence s \<union> (\<Union>(bk, ctx) \<in> set bks. reported bk ctx)"
        "{(l, ctx). (NvidiaAffinityBackend l, ctx) \<in> set bks \<and> name_missing l ctx} = {}" by simp_all
      have "registered_evidence t \<subseteq> registered_evidence r \<union> (\<Union>(bk, ctx) \<in> set ((bk, ctx) # bks). reported bk ctx)"
        using t(1) discover_into_evidence [OF xs] by (simp only: set_simps UN_insert prod.case) blast
      moreover have "{(l, ctx'). (NvidiaAffinityBackend l, ctx') \<in> set ((bk, ctx) # bks) \<and> name_missing l ctx'} = {}"
        using t(2) nn by auto
      ultimately show ?thesis using xs Some by simp
    qed
  qed
qed simp

end
