(* ===== verification/Inspector_Theorems.thy ===== *)
theory Inspector_Theorems
  imports Inspector Backend_Interface
begin

text \<open>
  The inspection tool always ends well: whatever its arguments and whatever the host answers it
  returns with exit code 0. Escaped strings cannot break out of a JSON string; the JSON of a
  system run, however, does not start with its object when the accelerator library is missing.
\<close>

section \<open>Every run ends with exit code 0\<close>

lemma host_engine_fresh: "\<exists>r. host_engine boot = Inr r \<and> fresh_engine (Id 1) (Id 1) boot r"
proof -
  let ?r = "snd (register_worker (Id 1) boot (empty_registry 1))"
  have new: "NicRegistry_new (Id 1) = Inr (empty_registry 1)" by (rule NicRegistry_new_eq) simp
  have "register_host_worker boot (Id 1) (empty_registry 1) = (Inr boot, ?r)"
    by (simp add: register_host_worker_def ex_then_def ex_bind_def register_worker_def empty_registry_def)
  with new show ?thesis by (auto simp: host_engine_def fresh_engine_def)
qed

text \<open>The registry after a fixture went through the engine.\<close>

lemma fixture_engine_result:
  fixes sc :: SyntheticScenario
  defines "fx \<equiv> scenario_body sc inspect_context (fixture_start sc)"
  obtains r m b t where "fresh_engine (Id 1) (Id 1) boot r"
    "fixture_engine boot sc = Some (Inr (with_children (fx_out fx)
       (with_devices ((fx_out fx)\<lparr>dr_topology := Some t\<rparr>) r\<lparr>reg_worker_nics := m\<rparr>)))"
    "build (Generation 1) b = Some t" "builder_inv b" "tb_nodes b = m_load tn_id (\<lambda>n. n) (fx_nodes fx) []"
proof -
  obtain r where r: "host_engine boot = Inr r" "fresh_engine (Id 1) (Id 1) boot r"
    using host_engine_fresh by blast
  obtain b t where d: "synthetic_discover sc inspect_context = Some (Inr ((fx_out fx)\<lparr>dr_topology := Some t\<rparr>))"
    "build (Generation 1) b = Some t" "builder_inv b" "tb_nodes b = m_load tn_id (\<lambda>n. n) (fx_nodes fx) []"
    by (rule fixture_build [of sc inspect_context])
      (simp add: fx_def inspect_context_def context_default_def)
  let ?d = "(fx_out fx)\<lparr>dr_topology := Some t\<rparr>"
  obtain m where "ingest ?d (Id 1) boot (Id 1) r =
      (Inr (), with_children ?d ((with_devices ?d r)\<lparr>reg_worker_nics := m\<rparr>))"
    by (rule ingest_fresh [OF r(2) fixture_consistent [OF d(1)]])
  moreover have "with_children ?d x = with_children (fx_out fx) x" for x by (simp add: with_children_def)
  ultimately have "fixture_engine boot sc = Some (Inr (with_children (fx_out fx)
       (with_devices ?d r\<lparr>reg_worker_nics := m\<rparr>)))"
    by (simp add: fixture_engine_def r(1) d(1) ingest_current_def fresh_engine_fields(2) [OF r(2)])
  with r(2) d(2-4) show thesis by (intro that)
qed

lemma fixture_engine_ok: "\<exists>r. fixture_engine boot sc = Some (Inr r)"
  using fixture_engine_result [of boot sc] by metis

lemma nvidia_step_None: "nvidia_step l boot json r = None \<longleftrightarrow> name_missing l inspect_context"
  using nvidia_discover_None [of l inspect_context]
  by (auto simp: nvidia_step_def Let_def name_missing_def split: option.split sum.split prod.split)

text \<open>
  The two steps are the discoveries of their backends, the exceptions of which they print. So an
  inspected host shows real evidence only.
\<close>

lemma steps_discover:
  "map_option fst (system_step h boot json r) = map_option snd (discover_into (SystemBackend h) inspect_context (Id 1) boot r)"
  "map_option fst (nvidia_step l boot json r) =
     map_option snd (discover_into (NvidiaAffinityBackend l) inspect_context (Id 1) boot r)"
proof -
  show "map_option fst (system_step h boot json r) = map_option snd (discover_into (SystemBackend h) inspect_context (Id 1) boot r)"
    by (simp add: system_step_def discover_into_def Let_def split: option.split sum.split prod.split)
  show "map_option fst (nvidia_step l boot json r) =
      map_option snd (discover_into (NvidiaAffinityBackend l) inspect_context (Id 1) boot r)"
  proof (cases "nvidia_available l")
    case True
    then show ?thesis
      by (simp add: nvidia_step_def discover_into_def Let_def split: option.split sum.split prod.split)
  next
    case False
    then have "\<exists>err. nvidia_discover l inspect_context = Some (Inl err)"
      by (auto simp: nvidia_discover_def nvidia_available_def Let_def)
    then show ?thesis using False by (auto simp: nvidia_step_def discover_into_def Let_def)
  qed
qed

lemma inspected_host_real:
  assumes "host_engine boot = Inr r0" "system_step h boot json r0 = Some (r1, out1)"
    "nvidia_step l boot json r1 = Some (r2, out2)"
  shows "prov_kind ` snd ` registered_evidence r2 \<subseteq> {EvidenceKind.kReal}"
proof -
  obtain x1 x2 where x: "discover_into (SystemBackend h) inspect_context (Id 1) boot r0 = Some (x1, r1)"
    "discover_into (NvidiaAffinityBackend l) inspect_context (Id 1) boot r1 = Some (x2, r2)"
    using steps_discover(1) [of h boot json r0] steps_discover(2) [of l boot json r1] assms(2,3) by (auto simp: eq_commute [of "Some _"])
  have real: "prov_kind (snd y) = EvidenceKind.kReal"
    if "y \<in> reported (SystemBackend h) inspect_context \<union> reported (NvidiaAffinityBackend l) inspect_context" for y
    using that by (auto simp: reported_def evidence_class_def)
  have "registered_evidence r0 = {}"
    using host_engine_fresh [of boot] assms(1) by (auto simp: registered_evidence_def table_evidence_def fresh_engine_fields)
  then have "registered_evidence r2 \<subseteq> reported (SystemBackend h) inspect_context \<union> reported (NvidiaAffinityBackend l) inspect_context"
    using discover_into_evidence [OF x(1)] discover_into_evidence [OF x(2)] by blast
  then show ?thesis using real by blast
qed

lemma run_system_ok:
  "case run_system h l boot json of None \<Rightarrow> name_missing l inspect_context
    | Some r \<Rightarrow> \<not> name_missing l inspect_context \<and> (\<exists>out. r = Inr out)"
proof -
  obtain r where r: "host_engine boot = Inr r" using host_engine_fresh by blast
  obtain x where "system_discover h inspect_context = Some x" using system_discover_returns by blast
  then have "\<exists>y. system_step h boot json r = Some y"
    by (auto simp: system_step_def Let_def split: sum.split prod.split)
  then obtain s o1 where s: "system_step h boot json r = Some (s, o1)" by auto
  show ?thesis
    using nvidia_step_None [of l boot json s]
    by (cases "nvidia_step l boot json s") (auto simp: run_system_def r s)
qed

lemma run_synthetic_ok: "\<exists>out. run_synthetic boot name json = Some (Inr out)"
proof -
  obtain r where "fixture_engine boot (scene_by_name name) = Some (Inr r)" using fixture_engine_ok by blast
  then show ?thesis by (simp add: run_synthetic_def Let_def)
qed

definition known_mode :: "string \<Rightarrow> bool" where
  "known_mode m \<longleftrightarrow> m = ''system'' \<or> m = ''synthetic'' \<or> m = ''query''"

lemma known_modes [simp]: "known_mode ''system''" "known_mode ''synthetic''" "known_mode ''query''"
  by (simp_all add: known_mode_def)

text \<open>A round of the option loop goes on with a shorter list and keeps the mode a known one.\<close>

definition next_round :: "string list \<Rightarrow> Options \<Rightarrow> bool" where
  "next_round rest opt' \<longleftrightarrow>
     (\<exists>t opt. length t \<le> length rest \<and> parse_options t opt = Inr opt' \<and> known_mode (opt_mode opt))"

lemma next_round_plain: "parse_options rest opt = Inr opt' \<Longrightarrow> known_mode (opt_mode opt) \<Longrightarrow> next_round rest opt'"
  by (auto simp: next_round_def)

lemma next_round_valued:
  assumes "(case rest of [] \<Rightarrow> Inr opt | v # t \<Rightarrow> parse_options t (f v)) = Inr opt'"
    "known_mode (opt_mode opt)" "\<And>v. known_mode (opt_mode (f v))"
  shows "next_round rest opt'"
proof (cases rest)
  case Nil
  with assms have "parse_options [] opt = Inr opt'" by simp
  then show ?thesis using assms(2) Nil next_round_plain by blast
next
  case (Cons v t)
  then show ?thesis using assms unfolding next_round_def by (intro exI [of _ t] exI [of _ "f v"]) simp
qed

lemma parse_options_round:
  assumes "parse_options (a # rest) opt = Inr opt'" "known_mode (opt_mode opt)"
  shows "next_round rest opt'"
proof -
  have "parse_options rest (opt\<lparr>opt_json := True\<rparr>) = Inr opt' \<or> parse_options rest (opt\<lparr>opt_mode := ''system''\<rparr>) = Inr opt' \<or>
    (case rest of [] \<Rightarrow> Inr (opt\<lparr>opt_mode := ''synthetic''\<rparr>)
       | v # t \<Rightarrow> parse_options t (opt\<lparr>opt_mode := ''synthetic'', opt_scenario := v\<rparr>)) = Inr opt' \<or>
    parse_options rest (opt\<lparr>opt_mode := ''query''\<rparr>) = Inr opt' \<or>
    (case rest of [] \<Rightarrow> Inr opt | v # t \<Rightarrow> parse_options t (opt\<lparr>opt_gpu := Id (strtoull0 v)\<rparr>)) = Inr opt' \<or>
    (case rest of [] \<Rightarrow> Inr opt | v # t \<Rightarrow> parse_options t (opt\<lparr>opt_numa := Id (strtoull0 v)\<rparr>)) = Inr opt' \<or>
    parse_options rest opt = Inr opt'"
    using assms(1) [unfolded parse_options.simps] by (metis (no_types, lifting) sum.distinct(1))
  then show ?thesis
    by - (elim disjE; (erule next_round_plain | erule next_round_valued); simp add: assms(2))
qed

lemma parse_options_mode:
  "parse_options args opt = Inr opt' \<Longrightarrow> known_mode (opt_mode opt) \<Longrightarrow> known_mode (opt_mode opt')"
proof (induction "length args" arbitrary: args opt rule: less_induct)
  case less
  show ?case
  proof (cases args)
    case Nil
    with less.prems show ?thesis by simp
  next
    case (Cons a rest)
    then have "next_round rest opt'" using less.prems parse_options_round by blast
    then obtain t o1 where "length t \<le> length rest" "parse_options t o1 = Inr opt'" "known_mode (opt_mode o1)"
      unfolding next_round_def by blast
    then show ?thesis using less.hyps [of t o1] Cons by simp
  qed
qed

text \<open>Whether the options ask for the inspection of the host.\<close>

definition inspects_host :: "string list \<Rightarrow> bool" where
  "inspects_host args =
     (case parse_options args options_default of Inl out \<Rightarrow> False | Inr opt \<Rightarrow> opt_mode opt = ''system'')"

text \<open>
  C35: for all arguments, all answers of the device interfaces and every boot identity, no
  exception leaves the inspection tool, it ends with exit code 0, and the usage text with exit
  code 1 at the end of its main function is never reached. The only way not to return is the
  call of a missing name function of NVML: that happens exactly when the options ask for the
  host, as they do without arguments, and the library lacks the function and reports a device.
\<close>

theorem inspector_never_fails:
  "(case inspect_main h l boot args of
      None \<Rightarrow> inspects_host args \<and> name_missing l inspect_context
    | Some (Inl err) \<Rightarrow> False
    | Some (Inr (code, out)) \<Rightarrow> code = 0 \<and> \<not> (inspects_host args \<and> name_missing l inspect_context)) \<and>
   inspects_host []"
proof
  show "inspects_host []" by (simp add: inspects_host_def) (simp add: options_default_def)
  show "case inspect_main h l boot args of
      None \<Rightarrow> inspects_host args \<and> name_missing l inspect_context
    | Some (Inl err) \<Rightarrow> False
    | Some (Inr (code, out)) \<Rightarrow> code = 0 \<and> \<not> (inspects_host args \<and> name_missing l inspect_context)"
  proof (cases "parse_options args options_default")
    case (Inl out)
    then show ?thesis by (simp add: inspect_main_def inspects_host_def)
  next
    case (Inr opt)
    note sys = run_system_ok [where h = h and l = l and boot = boot and json = "opt_json opt"]
    obtain o2 where o2: "run_synthetic boot (opt_scenario opt) (opt_json opt) = Some (Inr o2)"
      using run_synthetic_ok by blast
    obtain r where r: "fixture_engine boot kTwoNicsDifferentNuma = Some (Inr r)" using fixture_engine_ok by blast
    have "known_mode (opt_mode opt)"
      using parse_options_mode [OF Inr] by (simp add: options_default_def)
    then show ?thesis
      unfolding known_mode_def
      by (elim disjE) (use sys in \<open>auto simp: inspect_main_def inspects_host_def Inr o2 r Let_def split: option.splits sum.splits\<close>)
  qed
qed

section \<open>Output\<close>

text \<open>The version text agrees with the version numbers, and the version line with the texts.\<close>

lemma version_line_consistent:
  "kVersionString = fmt_int kVersionMajor @ ''.'' @ fmt_int kVersionMinor @ ''.'' @ fmt_int kVersionPatch \<and>
   version_line = kProductName @ '' '' @ kVersionString @ '' ('' @ kVendor @ '')'' @ newline"
  by code_simp

text \<open>
  An escaped string keeps its length, has no quote, backslash or control byte, and is what it
  was when it had none before.
\<close>

theorem json_escape_safe:
  "length (json_escape s) = length s \<and>
   (\<forall>c. c \<in> set (json_escape s) \<longrightarrow> to_byte c \<ge> 0x20 \<and> c \<noteq> CHR 0x22 \<and> c \<noteq> CHR 0x5C) \<and>
   json_escape (json_escape s) = json_escape s"
  by (auto simp: json_escape_def to_byte_def)

text \<open>
  A system run in JSON mode prints a bare member before the opening brace of its object
  whenever NVML is not available.
\<close>

theorem system_json_not_object:
  assumes "\<not> nvidia_available l" "run_system h l boot True = Some (Inr out)"
  shows "\<exists>rest. out = CHR 0x22 # rest"
proof -
  have q: "json_str k v = CHR 0x22 # k @ quote @ '':'' @ quote @ c_str v @ quote" for k v
    by (simp add: json_str_def json_key_def quote_def)
  obtain r s o1 where r: "host_engine boot = Inr r" "system_step h boot True r = Some (s, o1)"
    "out = o1 @ json_str ''nvidia'' ''UNSUPPORTED'' @ newline @ system_report (snapshot s) True"
    using assms by (auto simp: run_system_def nvidia_step_def Let_def split: sum.splits option.splits)
  have "o1 = [] \<or> (\<exists>t. o1 = CHR 0x22 # t)"
    using r(2) by (auto simp: system_step_def Let_def q split: option.splits sum.splits prod.splits)
  then show ?thesis using r(3) q by auto
qed

end
