(* ===== verification/Coordinator.thy ===== *)
theory Coordinator
  imports Frame_Theorems Persistence_Theorems Engine Residency_Selection C_Library
    "HOL-Library.List_Lexorder" "HOL-Library.Char_ord"
begin

unbundle bit_operations_syntax

text \<open>
  The processes of the authority plane: the worker that publishes a framed NIC record
  (\<^verbatim>\<open>tools/nic_authority_worker.cpp\<close>) and the coordinator that takes it in, decides, persists, is
  killed and comes back under a new epoch (\<^verbatim>\<open>tools/nic_residency_coordinator.cpp\<close>). The processes
  share nothing but files. What an output stream leaves in a file is the argument \<open>out\<close>: a map
  from the data to the new contents, \<^term>\<open>None\<close> when the file could not be opened; a stream that
  works is \<^term>\<open>Some\<close>.
\<close>

section \<open>Files and reports\<close>

type_synonym stream = "string \<Rightarrow> string option"

definition kWorkerA :: string where "kWorkerA = ''nic_crd2_worker_a.bin''"

definition kWorkerB :: string where "kWorkerB = ''nic_crd2_worker_b.bin''"

definition kState :: string where "kState = ''nic_crd2_state.ner''"

definition kFirstResult :: string where "kFirstResult = ''nic_crd2_first.txt''"

definition kRestartResult :: string where "kRestartResult = ''nic_crd2_restart.txt''"

text \<open>A file that cannot be opened is one that is not there.\<close>

definition read_file :: "string \<Rightarrow> file_system \<Rightarrow> string option" where
  "read_file path fs = fs path"

definition write_file :: "stream \<Rightarrow> string \<Rightarrow> string \<Rightarrow> file_system \<Rightarrow> file_system" where
  "write_file out path s fs = (case out s of None \<Rightarrow> fs | Some t \<Rightarrow> fs(path \<mapsto> t))"

type_synonym report_map = "(string, string) smap"

fun render_map :: "report_map \<Rightarrow> string" where
  "render_map [] = []"
| "render_map ((k, v) # m) = k @ ''='' @ v @ [CHR 0x0A] @ render_map m"

definition write_map :: "stream \<Rightarrow> string \<Rightarrow> report_map \<Rightarrow> file_system \<Rightarrow> file_system" where
  "write_map out path m fs = write_file out path (render_map m) fs"

text \<open>
  Decoding a worker's frame. The message type is not looked at. The identity arguments are
  references that the parser fills in as it reads, so they keep what was read when it fails
  later; \<open>frame_ids\<close> is what they hold afterwards.
\<close>

definition decode_worker_frame ::
    "string \<Rightarrow> file_system \<Rightarrow> (WorkerId \<times> WorkerBootId \<times> CoordinatorEpoch \<times> NicRecord) option" where
  "decode_worker_frame path fs =
     (case read_file path fs of
        None \<Rightarrow> None
      | Some frame \<Rightarrow> (case try_decode frame of
            Inl err \<Rightarrow> None
          | Inr None \<Rightarrow> None
          | Inr (Some (t, payload, consumed)) \<Rightarrow> parse_publish_nic payload nic_default))"

definition payload_ids :: "string \<Rightarrow> WorkerId \<times> WorkerBootId" where
  "payload_ids p = (if length p < 8 then id_null else Id (le_get 8 p 0),
     if length p < 16 then id_null else Id (le_get 8 p 8))"

definition frame_ids :: "string \<Rightarrow> file_system \<Rightarrow> WorkerId \<times> WorkerBootId" where
  "frame_ids path fs =
     (case read_file path fs of
        None \<Rightarrow> (id_null, id_null)
      | Some frame \<Rightarrow> (case try_decode frame of
            Inr (Some (t, payload, consumed)) \<Rightarrow> payload_ids payload
          | _ \<Rightarrow> (id_null, id_null)))"

section \<open>The worker process\<close>

definition worker_nic :: "u64 \<Rightarrow> NicRecord" where
  "worker_nic gen = nic_default\<lparr>nic_id := Id 0x1000, nic_generation := Generation gen,
     nic_os_name := ''worker-published-nic'',
     nic_os_description := ''evidence published by a real worker process'',
     nic_pci := \<lparr>pci_segment = 0, pci_bus = 1, pci_device = 0, pci_function = 0\<rparr>,
     nic_numa_node := Id 1,
     nic_capability := (nic_capability nic_default)\<lparr>cap_rdma := True,
       cap_provenance := mk_prov EvidenceKind.kReal [Source.kRdmaProvider]\<rparr>,
     nic_provenance := mk_prov EvidenceKind.kReal [Source.kRdmaProvider],
     nic_lifecycle := LifecycleState.kAvailable, nic_freshness := 1\<rparr>"

text \<open>
  The frame, and the file system once the worker waits to be killed; an exception ends it before
  the write. The boot identity is that of \<^term>\<open>fresh_boot_id\<close>.
\<close>

definition worker_frame :: "WorkerId \<Rightarrow> u64 \<Rightarrow> CoordinatorEpoch \<Rightarrow> WorkerBootId \<Rightarrow> ResidencyError + string" where
  "worker_frame my_id gen epoch boot =
     (case payload_publish_nic my_id boot epoch (worker_nic gen) of
        Inl err \<Rightarrow> Inl err
      | Inr payload \<Rightarrow> encode kPublishNic payload)"

definition worker_main ::
    "stream \<Rightarrow> string \<Rightarrow> WorkerId \<Rightarrow> u64 \<Rightarrow> CoordinatorEpoch \<Rightarrow> WorkerBootId \<Rightarrow> file_system \<Rightarrow> file_system" where
  "worker_main out frame_path my_id gen epoch boot fs =
     (case worker_frame my_id gen epoch boot of
        Inl err \<Rightarrow> fs
      | Inr frame \<Rightarrow> write_file out frame_path frame fs)"

text \<open>
  The command line, without the program name: path, worker, generation and epoch. The process
  prints when it is ready, or ends with the exception and prints nothing.
\<close>

definition argument :: "nat \<Rightarrow> string list \<Rightarrow> (string \<Rightarrow> 'a) \<Rightarrow> 'a \<Rightarrow> 'a" where
  "argument i args f d = (if i < length args then f (args ! i) else d)"

definition frame_path :: "string list \<Rightarrow> string" where
  "frame_path args = argument 0 args (\<lambda>s. s) ''worker_frame.bin''"

definition worker_process ::
    "stream \<Rightarrow> string list \<Rightarrow> WorkerBootId \<Rightarrow> file_system \<Rightarrow> (ResidencyError + string) \<times> file_system" where
  "worker_process out args boot fs =
     (let my_id = argument 1 args (\<lambda>s. Id (strtoull0 s)) (Id 1);
          epoch = argument 3 args (\<lambda>s. Id (strtoull0 s)) (Id 1);
          gen = argument 2 args strtoull0 1
      in (case worker_frame my_id gen epoch boot of
            Inl err \<Rightarrow> Inl err
          | Inr frame \<Rightarrow> Inr (''READY boot='' @ c_str (id_str boot) @ newline),
          worker_main out (frame_path args) my_id gen epoch boot fs))"

section \<open>A coordinator run\<close>

text \<open>
  The body of a run works on the report and the files and ends early with the error name and
  message it reports: by an exception the handler catches, or by an early return, which writes
  the same three entries.
\<close>

record Session =
  ss_report :: report_map
  ss_fs :: file_system

type_synonym 'a session = "(Session, string \<times> string, 'a) exop"

definition report :: "string \<Rightarrow> string \<Rightarrow> unit session" where
  "report k v s = (Inr (), s\<lparr>ss_report := m_put k v (ss_report s)\<rparr>)"

definition flag :: "bool \<Rightarrow> string" where
  "flag b = (if b then ''1'' else ''0'')"

definition caught :: "ResidencyError \<Rightarrow> string \<times> string" where
  "caught err = (ErrorCode_str (err_code err), err_what err)"

definition session_value :: "ResidencyError + 'a \<Rightarrow> 'a session" where
  "session_value v s = (case v of Inl err \<Rightarrow> (Inl (caught err), s) | Inr x \<Rightarrow> (Inr x, s))"

text \<open>A call on the local registry outside an inner \<^verbatim>\<open>try\<close>, and inside one.\<close>

definition on_registry :: "'a reg_op \<Rightarrow> NicRegistry \<Rightarrow> NicRegistry session" where
  "on_registry op reg s =
     (case op reg of (Inl err, _) \<Rightarrow> (Inl (caught err), s) | (Inr _, reg') \<Rightarrow> (Inr reg', s))"

definition try_registry :: "'a reg_op \<Rightarrow> NicRegistry \<Rightarrow> ErrorCode option \<times> NicRegistry" where
  "try_registry op reg =
     (case op reg of (Inl err, reg') \<Rightarrow> (Some (err_code err), reg') | (Inr _, reg') \<Rightarrow> (None, reg'))"

definition save_session :: "SaveIO \<Rightarrow> PersistentState \<Rightarrow> unit session" where
  "save_session io st s =
     (case save io kState st (ss_fs s) of
        (Inl err, fs) \<Rightarrow> (Inl (caught err), s\<lparr>ss_fs := fs\<rparr>)
      | (Inr _, fs) \<Rightarrow> (Inr (), s\<lparr>ss_fs := fs\<rparr>))"

text \<open>
  How a run ends: with exit code 1 after an error, otherwise it writes the report and blocks
  for ever (\<^term>\<open>None\<close>).
\<close>

definition end_run :: "stream \<Rightarrow> string \<Rightarrow> (string \<times> string) + unit \<Rightarrow> Session \<Rightarrow> int option \<times> file_system" where
  "end_run out path res s =
     (case res of
        Inl (error, message) \<Rightarrow>
          (Some 1, write_map out path
             (m_put ''message'' message (m_put ''error'' error (m_put ''status'' ''ERROR'' (ss_report s))))
             (ss_fs s))
      | Inr _ \<Rightarrow> (None, write_map out path (ss_report s) (ss_fs s)))"

text \<open>The residency both runs publish for a NIC.\<close>

definition run_residency ::
    "u64 \<Rightarrow> NicRecord \<Rightarrow> CoordinatorEpoch \<Rightarrow> WorkerId \<Rightarrow> WorkerBootId \<Rightarrow> ResidencyRecord" where
  "run_residency gen nic e w boot = res_default\<lparr>res_id := Id 1, res_generation := Generation gen,
     res_nic := nic_id nic, res_state := ResidencyState.kResident,
     res_lifecycle := LifecycleState.kResident, res_owner_worker := w, res_owner_boot := boot,
     res_epoch := e, res_target_numa := nic_numa_node nic, res_provenance := nic_provenance nic,
     res_ownership := OwnershipState.kAssigned, res_policy := Id 1, res_freshness := 1\<rparr>"

section \<open>The first run\<close>

definition first_state :: "CoordinatorEpoch \<Rightarrow> NicRecord \<Rightarrow> ResidencyRecord \<Rightarrow> PersistentState" where
  "first_state e nic rr = \<lparr>ps_format_version = kPersistenceFormatVersion, ps_epoch = e, ps_nics = [nic],
     ps_gpus = [], ps_policy = persisted_policy_default, ps_history = [rr]\<rparr>"

definition first_reports ::
    "CoordinatorEpoch \<Rightarrow> WorkerBootId \<Rightarrow> NicRecord \<Rightarrow> ResidencyDecision \<Rightarrow> ResidencyRecord \<Rightarrow> unit session" where
  "first_reports e boot nic d rr =
     ex_then (report ''epoch'' (std_to_string (id_value e)))
     (ex_then (report ''worker_boot'' (id_str boot))
     (ex_then (report ''nic_id'' (id_str (nic_id nic)))
     (ex_then (report ''nic_generation'' (std_to_string (gen_value (nic_generation nic))))
     (ex_then (report ''decision'' (ResidencyEligibility_str (dec_overall d)))
     (ex_then (report ''selected'' (id_str (dec_selected d)))
     (ex_then (report ''residency_state'' (ResidencyState_str (res_state rr)))
     (ex_then (report ''persisted'' ''1'')
       (report ''authoritative'' (flag (dec_selected d = nic_id nic \<and> is_allowed (dec_overall d)))))))))))"

definition first_body :: "SaveIO \<Rightarrow> unit session" where
  "first_body io s =
     (case decode_worker_frame kWorkerA (ss_fs s) of
        None \<Rightarrow> ex_throw (''decode_failed'', ''could not decode worker A frame'') s
      | Some (w, boot, e, nic) \<Rightarrow>
          ex_bind (session_value (NicRegistry_new e)) (\<lambda>reg0.
          ex_bind (on_registry (register_worker w boot) reg0) (\<lambda>reg1.
          ex_bind (on_registry (register_nic nic e w boot) reg1) (\<lambda>reg2.
          let rr = run_residency 1 nic e w boot in
          ex_bind (on_registry (publish_residency rr e w boot) reg2) (\<lambda>reg3.
          let d = decide policy_default (snapshot reg3) id_null (nic_numa_node nic) id_null w in
          ex_then (save_session io (first_state e nic rr)) (first_reports e boot nic d rr))))) s)"

definition run_first :: "SaveIO \<Rightarrow> stream \<Rightarrow> file_system \<Rightarrow> int option \<times> file_system" where
  "run_first io out fs =
     (case ex_then (report ''phase'' ''first'') (first_body io) \<lparr>ss_report = [], ss_fs = fs\<rparr> of
        (res, s) \<Rightarrow> end_run out kFirstResult res s)"

section \<open>The restarted run\<close>

definition restart_recover :: "bool \<Rightarrow> (CoordinatorEpoch \<times> NicRecord) session" where
  "restart_recover cs s =
     (let rec = recover cs kState (ss_fs s) in
      if \<not> rr_ok rec then ex_throw (''recovery_failed'', rr_message rec) s
      else
        let old = id_value (rr_epoch rec); new_epoch = Id (old + 1) in
        ex_then (report ''recovered_ok'' ''1'')
        (ex_then (report ''old_epoch'' (std_to_string old))
        (ex_then (report ''recovered_nic_count'' (dec_digits (length (rr_nics rec))))
        (ex_then (report ''new_epoch'' (std_to_string (id_value new_epoch)))
        (ex_then (report ''epoch_advanced'' (flag (id_value new_epoch > old)))
          (case rr_nics rec of
             [] \<Rightarrow> ex_throw (''no_recovered_nic'', ''no durable NIC recovered'')
           | recovered # _ \<Rightarrow>
               ex_then (report ''recovered_lifecycle'' (LifecycleState_str (nic_lifecycle recovered)))
               (ex_then (report ''recovered_freshness'' (std_to_string (nic_freshness recovered)))
               (ex_then (report ''recovered_conservative''
                   (flag (nic_lifecycle recovered = LifecycleState.kRevalidationRequired \<and>
                          nic_freshness recovered = 0)))
                 (ex_return (new_epoch, recovered)))))))))  s)"

text \<open>The frames of the old and of the new worker incarnation.\<close>

type_synonym decoded_frame = "WorkerId \<times> WorkerBootId \<times> CoordinatorEpoch \<times> NicRecord"

definition restart_frames :: "CoordinatorEpoch \<Rightarrow> NicRecord \<Rightarrow> (decoded_frame option \<times> decoded_frame) session" where
  "restart_frames new_epoch recovered s =
     (let frame_a = decode_worker_frame kWorkerA (ss_fs s) in
      ex_then
        (case frame_a of
           None \<Rightarrow> ex_return ()
         | Some (wA, bootA, eA, nicA) \<Rightarrow> report ''recovered_matches_a''
             (flag (nic_id recovered = nic_id nicA \<and> nic_generation recovered = nic_generation nicA \<and>
                    id_value eA < id_value new_epoch)))
        (case decode_worker_frame kWorkerB (ss_fs s) of
           None \<Rightarrow> ex_throw (''no_worker_b_frame'', ''no fresh worker A' frame'')
         | Some frame_b \<Rightarrow> ex_return (frame_a, frame_b)) s)"

definition restart_replay :: "decoded_frame option \<Rightarrow> NicRegistry \<Rightarrow> NicRegistry session" where
  "restart_replay frame_a reg =
     (let (code, reg') = (case frame_a of
            None \<Rightarrow> (None, reg)
          | Some (wA, bootA, eA, nicA) \<Rightarrow> try_registry (register_nic nicA eA wA bootA) reg) in
      ex_then (report ''stale_epoch_rejected'' (flag (code = Some ErrorCode.kStaleEpoch)))
      (ex_then (report ''stale_replay_code'' (case code of None \<Rightarrow> [] | Some c \<Rightarrow> ErrorCode_str c))
        (ex_return reg')))"

text \<open>
  The new incarnation registers, and the old identity tries to; \<open>ids_a\<close> is what the frame of
  the old one left in its variables. The flag says whether that was refused as a conflict.
\<close>

definition restart_workers ::
    "WorkerId \<times> WorkerBootId \<Rightarrow> WorkerId \<Rightarrow> WorkerBootId \<Rightarrow> NicRegistry \<Rightarrow> (bool \<times> NicRegistry) session" where
  "restart_workers ids_a wB bootB reg =
     ex_bind (on_registry (register_worker wB bootB) reg) (\<lambda>reg1.
     let (code, reg2) = try_registry (register_worker (fst ids_a) (snd ids_a)) reg1;
         rejected = (code = Some ErrorCode.kOwnerConflict) in
     ex_then (report ''old_boot_takeover_rejected'' (flag rejected)) (ex_return (rejected, reg2)))"

definition restart_before ::
    "CoordinatorEpoch \<Rightarrow> NicRecord \<Rightarrow> WorkerId \<Rightarrow> WorkerBootId \<Rightarrow> NicRegistry \<Rightarrow> NicRegistry session" where
  "restart_before new_epoch recovered wB bootB reg =
     ex_bind (on_registry (register_nic recovered new_epoch wB bootB) reg) (\<lambda>reg1.
     let d = decide policy_default (snapshot reg1) id_null (nic_numa_node recovered) id_null wB in
     ex_then (report ''pre_revalidation_overall'' (ResidencyEligibility_str (dec_overall d)))
     (ex_then (report ''pre_revalidation_selected'' (flag (id_valid (dec_selected d))))
     (ex_then (report ''worker_authority_not_recovered'' (flag (\<not> is_allowed (dec_overall d))))
       (ex_return reg1))))"

definition restart_after ::
    "CoordinatorEpoch \<Rightarrow> NicRecord \<Rightarrow> WorkerId \<Rightarrow> WorkerBootId \<Rightarrow> NicRegistry \<Rightarrow> NicRegistry session" where
  "restart_after new_epoch nicB wB bootB reg =
     ex_bind (on_registry (register_nic nicB new_epoch wB bootB) reg) (\<lambda>reg1.
     ex_bind (on_registry (publish_residency (run_residency 2 nicB new_epoch wB bootB) new_epoch wB bootB) reg1) (\<lambda>reg2.
     let d = decide policy_default (snapshot reg2) id_null (nic_numa_node nicB) id_null wB in
     ex_then (report ''post_revalidation_overall'' (ResidencyEligibility_str (dec_overall d)))
     (ex_then (report ''post_revalidation_selected'' (id_str (dec_selected d)))
     (ex_then (report ''required_refresh'' (flag (is_allowed (dec_overall d) \<and> dec_selected d = nic_id nicB)))
     (ex_then (report ''fresh_boot'' (id_str bootB)) (ex_return reg2))))))"

definition restart_history :: "bool \<Rightarrow> CoordinatorEpoch \<Rightarrow> unit session" where
  "restart_history cs new_epoch s =
     ex_bind (session_value (load cs kState (ss_fs s))) (\<lambda>loaded.
       case ps_history loaded of
         [] \<Rightarrow> report ''pre_restart_non_authoritative'' ''0''
       | old # _ \<Rightarrow>
           ex_then (report ''pre_restart_epoch'' (std_to_string (id_value (res_epoch old))))
           (ex_then (report ''pre_restart_state'' (ResidencyState_str (res_state old)))
           (ex_then (report ''pre_restart_boot'' (id_str (res_owner_boot old)))
             (report ''pre_restart_non_authoritative''
               (flag (id_value (res_epoch old) < id_value new_epoch)))))) s"

definition restart_live :: "bool \<Rightarrow> NicRegistry \<Rightarrow> unit session" where
  "restart_live rejected reg =
     (if rejected \<and> reg_residencies reg \<noteq> [] then
        ex_then (report ''fresh_residency_epoch'' (std_to_string (id_value (res_epoch (last (reg_residencies reg))))))
          (report ''fresh_residency_boot'' (id_str (res_owner_boot (last (reg_residencies reg)))))
      else ex_return ())"

definition restart_body :: "bool \<Rightarrow> unit session" where
  "restart_body cs =
     ex_bind (restart_recover cs) (\<lambda>(new_epoch, recovered).
     ex_bind (restart_frames new_epoch recovered) (\<lambda>(frame_a, wB, bootB, eB, nicB).
     ex_bind (session_value (NicRegistry_new new_epoch)) (\<lambda>reg0.
     ex_bind (restart_replay frame_a reg0) (\<lambda>reg1.
     ex_bind (\<lambda>s. restart_workers (frame_ids kWorkerA (ss_fs s)) wB bootB reg1 s) (\<lambda>(rejected, reg2).
     ex_bind (restart_before new_epoch recovered wB bootB reg2) (\<lambda>reg3.
     ex_bind (restart_after new_epoch nicB wB bootB reg3) (\<lambda>reg4.
     ex_then (restart_history cs new_epoch) (restart_live rejected reg4))))))))"

definition run_restart :: "bool \<Rightarrow> stream \<Rightarrow> file_system \<Rightarrow> int option \<times> file_system" where
  "run_restart cs out fs =
     (case ex_then (report ''phase'' ''restart'') (restart_body cs) \<lparr>ss_report = [], ss_fs = fs\<rparr> of
        (res, s) \<Rightarrow> end_run out kRestartResult res s)"

definition coordinator_main ::
    "bool \<Rightarrow> SaveIO \<Rightarrow> stream \<Rightarrow> string list \<Rightarrow> file_system \<Rightarrow> int option \<times> file_system" where
  "coordinator_main cs io out args fs =
     (let mode = (case args of [] \<Rightarrow> ''first'' | a # _ \<Rightarrow> a)
      in if mode = ''restart'' then run_restart cs out fs else run_first io out fs)"

end
