(* ===== verification/Coordinator_Theorems.thy ===== *)
theory Coordinator_Theorems
  imports Coordinator
begin

unbundle bit_operations_syntax

text \<open>
  The authority plane end to end: what the first run decides and persists, that a restarted
  coordinator never takes recovered state or an old frame for current authority, whatever the
  files hold, and that authority returns once a new worker incarnation publishes fresh evidence.
\<close>

section \<open>Frames of the worker process\<close>

abbreviation published_nic :: "u64 \<Rightarrow> NicRecord" where
  "published_nic gen \<equiv> received_nic (worker_nic gen) nic_default"

lemma worker_frame_eq:
  "worker_frame w gen e boot = Inr (frame_bytes kPublishNic (publish_bytes w boot e (worker_nic gen)))"
proof -
  have "payload_publish_nic w boot e (worker_nic gen) = Inr (publish_bytes w boot e (worker_nic gen))"
    by (rule payload_publish_nic_eq) (simp add: worker_nic_def)
  then show ?thesis
    by (simp add: worker_frame_def encode_eq publish_bytes_def worker_nic_def kHeaderSize_def kMaxFrame_def)
qed

lemma worker_main_eq:
  "worker_main Some path w gen e boot fs =
     fs(path \<mapsto> frame_bytes kPublishNic (publish_bytes w boot e (worker_nic gen)))"
  by (simp add: worker_main_def worker_frame_eq write_file_def)

lemma worker_frame_decoded:
  "fs path = Some (frame_bytes kPublishNic (publish_bytes w boot e (worker_nic gen))) \<Longrightarrow>
     decode_worker_frame path fs = Some (w, boot, e, published_nic gen)"
proof -
  let ?p = "publish_bytes w boot e (worker_nic gen)"
  have "length ?p + kHeaderSize \<le> kMaxFrame"
    by (simp add: publish_bytes_def worker_nic_def kHeaderSize_def kMaxFrame_def)
  from try_decode_bytes [OF this, of kPublishNic "[]"]
  have "try_decode (frame_bytes kPublishNic ?p) = Inr (Some (kPublishNic, ?p, length (frame_bytes kPublishNic ?p)))"
    by simp
  moreover have "parse_publish_nic ?p nic_default = Some (w, boot, e, published_nic gen)"
    by (rule parse_publish_bytes) (simp_all add: worker_nic_def pci_canonical_def)
  ultimately show "fs path = Some (frame_bytes kPublishNic ?p) \<Longrightarrow> ?thesis"
    by (simp add: decode_worker_frame_def read_file_def)
qed

text \<open>When a frame decodes, the identity variables hold the identities it carries.\<close>

lemma payload_ids_parsed:
  assumes "parse_publish_nic p nic = Some (w, b, e, n)"
  shows "payload_ids p = (w, b)"
proof -
  obtain v1 v2 r1 r2 where r: "rd_u64 frame_truncated (rd_at [] p) = (Inr v1, r1)"
      "rd_u64 frame_truncated r1 = (Inr v2, r2)" "w = Id v1" "b = Id v2"
    using assms
    by (auto simp: parse_publish_nic_def parse_all_def rd_open_at ex_bind_eq_Inr
        split: prod.splits sum.splits if_splits)
  then obtain t where "p = le_put 8 v1 @ le_put 8 v2 @ t"
    by (auto elim!: rd_u64_sound)
  with r(3,4)
  show ?thesis
    using le_get_put [of 8 "[]" v1 "le_put 8 v2 @ t"] le_get_put [of 8 "le_put 8 v1" v2 t]
    by (simp add: payload_ids_def)
qed

lemma frame_ids_decoded: "decode_worker_frame path fs = Some (w, b, e, n) \<Longrightarrow> frame_ids path fs = (w, b)"
  by (auto simp: decode_worker_frame_def frame_ids_def dest: payload_ids_parsed
      split: option.splits sum.splits)

text \<open>Whatever a frame holds, the NIC it yields is labelled real and available.\<close>

lemma decoded_nic_available:
  assumes "decode_worker_frame path fs = Some (w, b, e, n)"
  shows "nic_lifecycle n = LifecycleState.kAvailable"
    "nic_provenance n = mk_prov EvidenceKind.kReal [Source.kRdmaProvider]"
  using assms
  by (auto simp: decode_worker_frame_def parse_publish_nic_def parse_all_def ex_bind_eq_Inr
      split: option.splits sum.splits prod.splits if_splits)

section \<open>Decisions about a single NIC\<close>

lemma single_allowed:
  assumes "snap_nics reg = [(i, n)]" "admissible policy_default reg n gpu nn"
  shows "dec_selected (decide policy_default reg gpu nn ep wl) = nic_id n"
    "is_allowed (dec_overall (decide policy_default reg gpu nn ep wl))"
proof -
  have "allowed_nics policy_default reg gpu nn = [n]"
    using assms by (simp add: allowed_nics_def considered_nics_def policy_default_def)
  then have srt: "std_sort candidate_less (map (evaluate policy_default reg gpu nn)
      (allowed_nics policy_default reg gpu nn)) = evaluate policy_default reg gpu nn n # []" by simp
  show "dec_selected (decide policy_default reg gpu nn ep wl) = nic_id n"
    by (rule decide_selected(1) [OF srt])
  show "is_allowed (dec_overall (decide policy_default reg gpu nn ep wl))"
    using decide_selected(2) [OF srt] hard_check_admissible(1) assms(2) by metis
qed

lemma single_refused:
  assumes "snap_nics reg = [(i, n)]" "\<not> admissible policy_default reg n gpu nn"
  shows "dec_selected (decide policy_default reg gpu nn ep wl) = id_null"
    "\<not> is_allowed (dec_overall (decide policy_default reg gpu nn ep wl))"
proof -
  have none: "allowed_nics policy_default reg gpu nn = []"
    using assms by (simp add: allowed_nics_def considered_nics_def policy_default_def)
  have con: "considered_nics policy_default reg = [n]"
    using assms(1) by (simp add: considered_nics_def policy_default_def)
  show "dec_selected (decide policy_default reg gpu nn ep wl) = id_null"
    by (rule decide_unselected(1) [OF none])
  have "dec_overall (decide policy_default reg gpu nn ep wl) = fst (hard_check policy_default reg n gpu nn)"
    unfolding decide_unselected(3) [OF none] con by simp
  then show "\<not> is_allowed (dec_overall (decide policy_default reg gpu nn ep wl))"
    using hard_check_admissible(1) assms(2) by metis
qed

lemma default_admissible:
  "admissible policy_default reg n gpu nn \<longleftrightarrow>
     prov_kind (nic_provenance n) = EvidenceKind.kReal \<and> id_valid (nic_id n) \<and> usable_lifecycle (nic_lifecycle n)"
  by (auto simp: admissible_def policy_default_def capable_def local_enough_def)

section \<open>A registry with one worker\<close>

text \<open>The registry both runs work on, once its worker is registered.\<close>

definition one_worker :: "CoordinatorEpoch \<Rightarrow> WorkerId \<Rightarrow> WorkerBootId \<Rightarrow> NicRegistry" where
  "one_worker e w b = (empty_registry (id_value e))\<lparr>reg_workers := [(w, \<lparr>wh_worker = w, wh_boot = b\<rparr>)]\<rparr>"

lemma NicRegistry_new_cases:
  "NicRegistry_new e = (if id_valid e then Inr (empty_registry (id_value e))
     else Inl (ResidencyError ErrorCode.kInvalidArgument ''epoch must be non-zero'' []))"
  by (simp add: NicRegistry_new_def EnsureNextEpoch_def empty_registry_def)

lemma register_only_worker:
  "register_worker w b (empty_registry (id_value e)) = (Inr (), one_worker e w b)"
  by (simp add: register_worker_def empty_registry_def one_worker_def)

lemma one_worker_authority: "has_authority e w b (one_worker e w b)"
  by (simp add: EnsureAuthority_def one_worker_def empty_registry_def)

text \<open>A second identity that differs from the registered one only in its boot is refused.\<close>

lemma one_worker_takeover:
  "b \<noteq> b' \<Longrightarrow> try_registry (register_worker w b') (one_worker e w b) =
     (Some ErrorCode.kOwnerConflict, one_worker e w b)"
  by (simp add: try_registry_def register_worker_def one_worker_def empty_registry_def)

text \<open>The first NIC of the registry, and the residency published for it.\<close>

definition with_nic :: "NicRegistry \<Rightarrow> WorkerId \<Rightarrow> NicRecord \<Rightarrow> NicRegistry" where
  "with_nic r w n = r\<lparr>reg_worker_nics := [(w, [nic_id n])], reg_nics := [(nic_id n, n\<lparr>nic_freshness := 0\<rparr>)]\<rparr>"

lemma register_first_nic:
  "id_valid (nic_id n) \<Longrightarrow> gen_valid (nic_generation n) \<Longrightarrow>
     register_nic n e w b (one_worker e w b) = (Inr (nic_generation n), with_nic (one_worker e w b) w n)"
  using one_worker_authority [of e w b]
  by (simp add: register_nic_def Let_def with_nic_def)
    (simp add: one_worker_def empty_registry_def m_size_def kMaxNics_def)

lemma register_first_nic_only:
  assumes "register_nic n e w b (one_worker e w b) = (Inr g, r)"
  shows "id_valid (nic_id n)" "r = with_nic (one_worker e w b) w n"
proof -
  have emp: "reg_nics (one_worker e w b) = []" "reg_worker_nics (one_worker e w b) = []"
    by (simp_all add: one_worker_def empty_registry_def)
  have "id_valid (nic_id n) \<and> gen_valid (nic_generation n)"
    using assms one_worker_authority [of e w b] emp
    by (auto simp: register_nic_def Let_def split: if_splits)
  then show "id_valid (nic_id n)" "r = with_nic (one_worker e w b) w n"
    using register_first_nic [of n e w b] assms by auto
qed

lemma with_nic_authority: "has_authority e w b (with_nic (one_worker e w b) v n)"
  by (simp add: EnsureAuthority_def with_nic_def one_worker_def empty_registry_def)

lemma publish_first_residency:
  assumes "id_valid (nic_id n)" "nic_id m = nic_id n"
  shows "publish_residency (run_residency g m e w b) e w b (with_nic (one_worker e w b) v n) =
    (Inr (run_residency g m e w b), (with_nic (one_worker e w b) v n)\<lparr>reg_residencies := [run_residency g m e w b]\<rparr>)"
  using with_nic_authority [of e w b v n] assms
  by (simp add: publish_residency_def)
    (simp add: run_residency_def res_default_def with_nic_def one_worker_def empty_registry_def m_has_def
      kMaxResidencies_def)

section \<open>The first run\<close>

lemmas session_steps = ex_then_def ex_bind_def report_def session_value_def on_registry_def

lemma write_report [simp]: "write_map Some path m fs = fs(path \<mapsto> render_map m)"
  by (simp add: write_map_def write_file_def)

lemma first_state_storable:
  assumes "id_valid (nic_id n)" "nic_storable cs n"
  shows "state_storable cs (first_state e n (run_residency g n e w b))"
  using assms
  by (simp add: state_storable_def first_state_def kMaxPersistNics_def kMaxHistory_def run_residency_def
      res_default_def str_safe_def u16_safe_def)

lemma first_state_durable:
  "state_durable (first_state e n rr) =
     (first_state e n rr)\<lparr>ps_nics := [nic_durable n], ps_history := [history_durable rr]\<rparr>"
  by (simp add: state_durable_def first_state_def)

lemma first_run:
  assumes "decode_worker_frame kWorkerA fs = Some (w, boot, e, nic)"
    "id_valid e" "id_valid (nic_id nic)" "gen_valid (nic_generation nic)" "nic_storable cs nic"
    "io_open io" "io_write io" "io_rename io"
  obtains fs' m where "run_first io Some fs = (None, fs')" "fs' kFirstResult = Some (render_map m)"
    "m_find m ''authoritative'' = Some ''1''" "m_find m ''selected'' = Some (id_str (nic_id nic))"
    "m_find m ''persisted'' = Some ''1''"
    "load cs kState fs' = Inr (state_durable (first_state e nic (run_residency 1 nic e w boot)))"
    "fs' kWorkerA = fs kWorkerA"
proof -
  let ?rr = "run_residency 1 nic e w boot" and ?st = "first_state e nic (run_residency 1 nic e w boot)"
  let ?reg = "(with_nic (one_worker e w boot) w nic)\<lparr>reg_residencies := [?rr]\<rparr>"
  let ?d = "decide policy_default (snapshot ?reg) id_null (nic_numa_node nic) id_null w"
  have ok: "state_storable cs ?st" using assms(3,5) by (rule first_state_storable)
  have snap: "snap_nics (snapshot ?reg) = [(nic_id nic, nic\<lparr>nic_freshness := 0\<rparr>)]"
    by (simp add: snapshot_def with_nic_def)
  have adm: "admissible policy_default (snapshot ?reg) (nic\<lparr>nic_freshness := 0\<rparr>) id_null (nic_numa_node nic)"
    using decoded_nic_available [OF assms(1)] assms(3)
    by (simp add: default_admissible usable_lifecycle_def)
  note dec = single_allowed [OF snap adm, of id_null w]
  define fs1 where "fs1 = (fs(kState \<mapsto> file_image (enc_state ?st)))(kState @ ''.tmp'' := None)"
  have sv: "save io kState ?st fs = (Inr (), fs1)"
    unfolding fs1_def by (rule save_good [OF ok assms(6-8)])
  have body: "first_body io \<lparr>ss_report = m, ss_fs = fs\<rparr> = first_reports e boot nic ?d ?rr \<lparr>ss_report = m, ss_fs = fs1\<rparr>" for m
    using assms(2-4)
    by (simp add: first_body_def assms(1) session_steps NicRegistry_new_cases register_only_worker
        register_first_nic publish_first_residency Let_def save_session_def sv)
  define m where "m = ss_report (snd (first_reports e boot nic ?d ?rr \<lparr>ss_report = [(''phase'', ''first'')], ss_fs = fs1\<rparr>))"
  have run: "run_first io Some fs = (None, fs1(kFirstResult \<mapsto> render_map m))"
    by (simp add: run_first_def session_steps body end_run_def m_def first_reports_def)
  have rep: "m_find m ''authoritative'' = Some ''1''" "m_find m ''selected'' = Some (id_str (nic_id nic))"
    "m_find m ''persisted'' = Some ''1''"
    using dec by (simp_all add: m_def first_reports_def session_steps m_find_put flag_def)
  have paths: "kState \<noteq> kFirstResult" "kWorkerA \<notin> {kFirstResult, kState, kState @ ''.tmp''}"
    "kState \<noteq> kState @ ''.tmp''"
    by (simp_all add: kState_def kFirstResult_def kWorkerA_def)
  have ld: "load cs kState (fs1(kFirstResult \<mapsto> render_map m)) = Inr (state_durable ?st)"
    using load_image [of "fs1(kFirstResult \<mapsto> render_map m)" kState "enc_state ?st" cs]
      deserialize_serialize [OF ok] paths by (simp add: fs1_def)
  show thesis
    by (rule that [OF run _ rep ld]) (use paths in \<open>simp_all add: fs1_def\<close>)
qed

text \<open>
  C40: when the frame of worker A decodes to a publication with a valid epoch, a valid NIC id
  and generation and strings the store can hold, and the file operations succeed, the first run
  reaches its waiting state: its report says that the decision is authoritative and selects the
  published NIC, and the state file loads back as the epoch, the durable part of the NIC and
  the residency it published.
\<close>

theorem first_run_outcome:
  assumes "decode_worker_frame kWorkerA fs = Some (w, boot, e, nic)"
    "id_valid e" "id_valid (nic_id nic)" "gen_valid (nic_generation nic)" "nic_storable cs nic"
    "io_open io" "io_write io" "io_rename io"
  shows "\<exists>fs' m st. run_first io Some fs = (None, fs') \<and> fs' kFirstResult = Some (render_map m) \<and>
    m_find m ''authoritative'' = Some ''1'' \<and> m_find m ''selected'' = Some (id_str (nic_id nic)) \<and>
    m_find m ''persisted'' = Some ''1'' \<and>
    load cs kState fs' = Inr st \<and> ps_epoch st = e \<and> ps_nics st = [nic_durable nic] \<and>
    ps_history st = [history_durable (run_residency 1 nic e w boot)] \<and>
    fs' kWorkerA = fs kWorkerA"
proof -
  obtain fs' m where "run_first io Some fs = (None, fs')" "fs' kFirstResult = Some (render_map m)"
    "m_find m ''authoritative'' = Some ''1''" "m_find m ''selected'' = Some (id_str (nic_id nic))"
    "m_find m ''persisted'' = Some ''1''"
    "load cs kState fs' = Inr (state_durable (first_state e nic (run_residency 1 nic e w boot)))"
    "fs' kWorkerA = fs kWorkerA"
    by (rule first_run [OF assms])
  then show ?thesis
    by (intro exI [of _ fs'] exI [of _ m] exI [of _ "state_durable (first_state e nic (run_residency 1 nic e w boot))"])
      (simp add: first_state_durable, simp add: first_state_def)
qed

section \<open>The restarted run on arbitrary files\<close>

text \<open>A step that changes no file and writes only given entries of the report.\<close>

definition writes_only :: "string set \<Rightarrow> 'a session \<Rightarrow> bool" where
  "writes_only K m \<longleftrightarrow> (\<forall>s. ss_fs (snd (m s)) = ss_fs s \<and>
     (\<forall>k. k \<notin> K \<longrightarrow> m_find (ss_report (snd (m s))) k = m_find (ss_report s) k))"

named_theorems writes \<open>which report entries a step may write\<close>

lemma writes_report [writes]: "k \<in> K \<Longrightarrow> writes_only K (report k v)"
  by (auto simp: writes_only_def report_def m_find_put)

lemma writes_bind [writes]:
  "writes_only K m \<Longrightarrow> (\<And>x. writes_only K (f x)) \<Longrightarrow> writes_only K (ex_bind m f)"
  by (auto simp: writes_only_def ex_bind_def split: prod.split sum.split) (metis snd_conv)+

lemma writes_then [writes]: "writes_only K m \<Longrightarrow> writes_only K k \<Longrightarrow> writes_only K (ex_then m k)"
  unfolding ex_then_def by (rule writes_bind)

lemma writes_nothing [writes]:
  "writes_only K (ex_return x)" "writes_only K (ex_throw e)" "writes_only K (session_value v)"
  "writes_only K (on_registry op reg)" "writes_only K (Pair r)"
  by (simp_all add: writes_only_def session_value_def on_registry_def split: sum.split prod.split)

lemma writes_files: "(\<And>fs. writes_only K (m fs)) \<Longrightarrow> writes_only K (\<lambda>s. m (ss_fs s) s)"
  by (simp add: writes_only_def)

lemma writes_after:
  "writes_only K m \<Longrightarrow> m s = (r, t) \<Longrightarrow> k \<notin> K \<Longrightarrow> m_find (ss_report t) k = m_find (ss_report s) k"
  "writes_only K m \<Longrightarrow> m s = (r, t) \<Longrightarrow> ss_fs t = ss_fs s"
  by (metis writes_only_def snd_conv)+

lemma restart_writes:
  "writes_only {''stale_epoch_rejected'', ''stale_replay_code''} (restart_replay fa reg)"
  "writes_only {''old_boot_takeover_rejected''} (restart_workers ids wB bB reg)"
  "writes_only {''pre_revalidation_overall'', ''pre_revalidation_selected'', ''worker_authority_not_recovered''}
     (restart_before e n wB bB reg)"
  "writes_only {''post_revalidation_overall'', ''post_revalidation_selected'', ''required_refresh'', ''fresh_boot''}
     (restart_after e n wB bB reg)"
  "writes_only {''fresh_residency_epoch'', ''fresh_residency_boot''} (restart_live rej reg)"
  by (auto simp: restart_replay_def restart_workers_def restart_before_def restart_after_def restart_live_def
      Let_def split: prod.split intro!: writes)

lemma restart_writes_files:
  "writes_only {''pre_restart_epoch'', ''pre_restart_state'', ''pre_restart_boot'', ''pre_restart_non_authoritative''}
     (restart_history cs e)"
  "writes_only {''recovered_matches_a''} (restart_frames e n)"
proof -
  have h: "restart_history cs e = (\<lambda>s. (\<lambda>fs. ex_bind (session_value (load cs kState fs)) (\<lambda>loaded.
      case ps_history loaded of
         [] \<Rightarrow> report ''pre_restart_non_authoritative'' ''0''
       | old # _ \<Rightarrow>
           ex_then (report ''pre_restart_epoch'' (std_to_string (id_value (res_epoch old))))
           (ex_then (report ''pre_restart_state'' (ResidencyState_str (res_state old)))
           (ex_then (report ''pre_restart_boot'' (id_str (res_owner_boot old)))
             (report ''pre_restart_non_authoritative''
               (flag (id_value (res_epoch old) < id_value e))))))) (ss_fs s) s)"
    by (rule ext) (simp add: restart_history_def)
  show "writes_only {''pre_restart_epoch'', ''pre_restart_state'', ''pre_restart_boot'', ''pre_restart_non_authoritative''}
     (restart_history cs e)"
    unfolding h by (rule writes_files) (auto split: list.split intro!: writes)
  show "writes_only {''recovered_matches_a''} (restart_frames e n)"
    unfolding restart_frames_def Let_def
    by (rule writes_files) (auto split: option.split prod.split intro!: writes)
qed

lemma epoch_advances: "id_value e + 1 \<noteq> 0 \<Longrightarrow> e < Id (id_value e + 1)"
  using word_less_Suc [of "id_value e"] by (auto simp: less_Id_def add_eq_0_iff2)

text \<open>What a successful recovery phase yields.\<close>

lemma restart_recover_Inr:
  assumes "restart_recover cs s = (Inr (e', n), s')"
  shows "\<exists>st ns. load cs kState (ss_fs s) = Inr st \<and> ps_nics st = n # ns \<and>
    e' = Id (id_value (ps_epoch st) + 1) \<and> ss_fs s' = ss_fs s \<and>
    m_find (ss_report s') ''epoch_advanced'' = Some (flag (id_value e' > id_value (ps_epoch st))) \<and>
    m_find (ss_report s') ''recovered_conservative'' =
      Some (flag (nic_lifecycle n = LifecycleState.kRevalidationRequired \<and> nic_freshness n = 0))"
proof (cases "load cs kState (ss_fs s)")
  case (Inl err)
  then have "\<not> rr_ok (recover cs kState (ss_fs s))"
    using recover_reports_load [of cs kState "ss_fs s"] by simp
  with assms show ?thesis by (simp add: restart_recover_def)
next
  case (Inr st)
  then have "rr_ok (recover cs kState (ss_fs s))" "rr_epoch (recover cs kState (ss_fs s)) = ps_epoch st"
    "rr_nics (recover cs kState (ss_fs s)) = ps_nics st"
    using recover_reports_load [of cs kState "ss_fs s"] by simp_all
  with assms Inr show ?thesis
    by (cases "ps_nics st") (auto simp: restart_recover_def Let_def session_steps m_find_put)
qed

text \<open>Nobody is registered when the old frame is replayed, so it is refused and leaves no trace.\<close>

lemma replay_refused:
  "try_registry (register_nic n e w b) (empty_registry v) =
     (Some (if e \<noteq> Id v then ErrorCode.kStaleEpoch else ErrorCode.kNotReady), empty_registry v)"
  by (simp add: try_registry_def register_nic_def EnsureAuthority_def empty_registry_def)

lemma restart_replay_eq:
  "restart_replay fa (empty_registry v) s =
     (let code = (case fa of None \<Rightarrow> None | Some (w, b, e, n) \<Rightarrow>
            Some (if e \<noteq> Id v then ErrorCode.kStaleEpoch else ErrorCode.kNotReady)) in
      (Inr (empty_registry v), s\<lparr>ss_report := m_put ''stale_replay_code''
         (case code of None \<Rightarrow> [] | Some c \<Rightarrow> ErrorCode_str c)
         (m_put ''stale_epoch_rejected'' (flag (code = Some ErrorCode.kStaleEpoch)) (ss_report s))\<rparr>))"
  by (auto simp: restart_replay_def replay_refused session_steps Let_def split: option.split prod.split)

lemma restart_workers_nics:
  assumes "restart_workers ids wB bB (empty_registry v) s = (Inr (rej, r), t)"
  shows "reg_nics r = []"
  using assms
  by (auto simp: restart_workers_def session_steps register_worker_def try_registry_def empty_registry_def
      Let_def split: option.splits if_splits prod.splits)

lemma register_nic_into_empty:
  assumes "register_nic n e w b r = (Inr g, r')" "reg_nics r = []"
  shows "reg_nics r' = [(nic_id n, n\<lparr>nic_freshness := 0\<rparr>)]"
  using assms by (auto simp: register_nic_def Let_def split: sum.splits if_splits)

lemma restart_before_refused:
  assumes "restart_before e n w b r s = (Inr r', t)" "reg_nics r = []"
    "nic_lifecycle n = LifecycleState.kRevalidationRequired"
  shows "m_find (ss_report t) ''worker_authority_not_recovered'' = Some ''1''"
    "m_find (ss_report t) ''pre_revalidation_selected'' = Some ''0''"
proof -
  obtain g where reg: "register_nic n e w b r = (Inr g, r')"
    using assms(1) by (auto simp: restart_before_def session_steps Let_def split: prod.splits sum.splits)
  have snap: "snap_nics (snapshot r') = [(nic_id n, n\<lparr>nic_freshness := 0\<rparr>)]"
    using register_nic_into_empty [OF reg assms(2)] by (simp add: snapshot_def)
  have "\<not> admissible policy_default (snapshot r') (n\<lparr>nic_freshness := 0\<rparr>) id_null (nic_numa_node n)"
    using assms(3) by (simp add: default_admissible usable_lifecycle_def)
  from single_refused [OF snap this, of id_null w]
  show "m_find (ss_report t) ''worker_authority_not_recovered'' = Some ''1''"
    "m_find (ss_report t) ''pre_revalidation_selected'' = Some ''0''"
    using assms(1) reg by (auto simp: restart_before_def session_steps Let_def m_find_put flag_def)
qed

lemma session_value_Inr: "session_value v s = (Inr x, t) \<longleftrightarrow> v = Inr x \<and> t = s"
  by (auto simp: session_value_def split: sum.splits)

lemma restart_body_Inr:
  assumes "restart_body cs s = (Inr u, t)"
  obtains e n s1 fa wB bB eB nB s2 s3 rej r2 s4 r3 s5 r4 s6 s7 where
    "restart_recover cs s = (Inr (e, n), s1)" "restart_frames e n s1 = (Inr (fa, wB, bB, eB, nB), s2)"
    "id_valid e" "restart_replay fa (empty_registry (id_value e)) s2 = (Inr (empty_registry (id_value e)), s3)"
    "restart_workers (frame_ids kWorkerA (ss_fs s3)) wB bB (empty_registry (id_value e)) s3 = (Inr (rej, r2), s4)"
    "restart_before e n wB bB r2 s4 = (Inr r3, s5)" "restart_after e nB wB bB r3 s5 = (Inr r4, s6)"
    "restart_history cs e s6 = (Inr (), s7)" "restart_live rej r4 s7 = (Inr (), t)"
proof -
  from assms obtain e n s1 fa wB bB eB nB s2 r0 r1 s3 rej r2 s4 r3 s5 r4 s6 s7 where ch:
    "restart_recover cs s = (Inr (e, n), s1)" "restart_frames e n s1 = (Inr (fa, wB, bB, eB, nB), s2)"
    "NicRegistry_new e = Inr r0" "restart_replay fa r0 s2 = (Inr r1, s3)"
    "restart_workers (frame_ids kWorkerA (ss_fs s3)) wB bB r1 s3 = (Inr (rej, r2), s4)"
    "restart_before e n wB bB r2 s4 = (Inr r3, s5)" "restart_after e nB wB bB r3 s5 = (Inr r4, s6)"
    "restart_history cs e s6 = (Inr (), s7)" "restart_live rej r4 s7 = (Inr (), t)"
    by (auto simp: restart_body_def ex_then_def ex_bind_eq_Inr session_value_Inr split: prod.splits)
  have r0: "r0 = empty_registry (id_value e)" "id_valid e"
    using ch(3) by (auto simp: NicRegistry_new_cases split: if_splits)
  have "r1 = empty_registry (id_value e)"
    using ch(4) unfolding r0 restart_replay_eq by (simp add: Let_def)
  with ch r0 show thesis by (intro that) simp_all
qed

text \<open>The entries the properties speak about survive to the end of the run.\<close>

lemma restart_keeps:
  assumes "restart_frames e n s1 = (x2, s2)" "restart_replay fa r0 s2 = (x3, s3)"
    "restart_workers ids wB bB r1 s3 = (x4, s4)" "restart_before e n wB bB r2 s4 = (x5, s5)"
    "restart_after e nB wB bB r3 s5 = (x6, s6)" "restart_history cs e s6 = (x7, s7)"
    "restart_live rej r4 s7 = (x8, t)"
  shows "k \<in> {''epoch_advanced'', ''recovered_conservative''} \<Longrightarrow> m_find (ss_report t) k = m_find (ss_report s1) k"
    "m_find (ss_report t) ''stale_epoch_rejected'' = m_find (ss_report s3) ''stale_epoch_rejected''"
    "m_find (ss_report t) ''old_boot_takeover_rejected'' = m_find (ss_report s4) ''old_boot_takeover_rejected''"
    "k \<in> {''worker_authority_not_recovered'', ''pre_revalidation_selected''} \<Longrightarrow>
       m_find (ss_report t) k = m_find (ss_report s5) k"
    "m_find (ss_report t) ''required_refresh'' = m_find (ss_report s6) ''required_refresh''"
    "m_find (ss_report t) ''pre_restart_non_authoritative'' = m_find (ss_report s7) ''pre_restart_non_authoritative''"
    "ss_fs s2 = ss_fs s1" "ss_fs s3 = ss_fs s1" "ss_fs s6 = ss_fs s1" "ss_fs t = ss_fs s1"
proof -
  note keep = writes_after(1) [OF restart_writes_files(2) assms(1)] writes_after(1) [OF restart_writes(1) assms(2)]
    writes_after(1) [OF restart_writes(2) assms(3)] writes_after(1) [OF restart_writes(3) assms(4)]
    writes_after(1) [OF restart_writes(4) assms(5)] writes_after(1) [OF restart_writes_files(1) assms(6)]
    writes_after(1) [OF restart_writes(5) assms(7)]
  note files = writes_after(2) [OF restart_writes_files(2) assms(1)] writes_after(2) [OF restart_writes(1) assms(2)]
    writes_after(2) [OF restart_writes(2) assms(3)] writes_after(2) [OF restart_writes(3) assms(4)]
    writes_after(2) [OF restart_writes(4) assms(5)] writes_after(2) [OF restart_writes_files(1) assms(6)]
    writes_after(2) [OF restart_writes(5) assms(7)]
  show "k \<in> {''epoch_advanced'', ''recovered_conservative''} \<Longrightarrow> m_find (ss_report t) k = m_find (ss_report s1) k"
    by (elim insertE emptyE) (simp_all add: keep)
  show "m_find (ss_report t) ''stale_epoch_rejected'' = m_find (ss_report s3) ''stale_epoch_rejected''"
    using keep(3-7) by simp
  show "m_find (ss_report t) ''old_boot_takeover_rejected'' = m_find (ss_report s4) ''old_boot_takeover_rejected''"
    using keep(4-7) by simp
  show "k \<in> {''worker_authority_not_recovered'', ''pre_revalidation_selected''} \<Longrightarrow>
       m_find (ss_report t) k = m_find (ss_report s5) k"
    by (elim insertE emptyE) (simp_all add: keep(5-7))
  show "m_find (ss_report t) ''required_refresh'' = m_find (ss_report s6) ''required_refresh''"
    "m_find (ss_report t) ''pre_restart_non_authoritative'' = m_find (ss_report s7) ''pre_restart_non_authoritative''"
    using keep(6-7) by simp_all
  show "ss_fs s2 = ss_fs s1" "ss_fs s3 = ss_fs s1" "ss_fs s6 = ss_fs s1" "ss_fs t = ss_fs s1"
    using files by simp_all
qed

text \<open>
  C7: whatever the files hold, a restarted coordinator that reaches its waiting state changes
  no file but its report and trusts nothing it recovered: the epoch has strictly advanced, the
  recovered NIC is in REVALIDATION_REQUIRED with freshness 0, the decision taken on it selects
  nothing and is not an allowance, and the frame of worker A, which is the only one that is
  replayed, is refused as stale when it is from the persisted or an earlier epoch. The epoch
  in the frame of the new worker is not looked at.
\<close>

theorem restart_never_trusts_recovered:
  assumes "run_restart cs Some fs = (None, fs')"
  shows "\<exists>m st. load cs kState fs = Inr st \<and> fs' = fs(kRestartResult \<mapsto> render_map m) \<and>
    m_find m ''epoch_advanced'' = Some ''1'' \<and> m_find m ''recovered_conservative'' = Some ''1'' \<and>
    m_find m ''worker_authority_not_recovered'' = Some ''1'' \<and>
    m_find m ''pre_revalidation_selected'' = Some ''0'' \<and>
    (\<forall>w b e n. decode_worker_frame kWorkerA fs = Some (w, b, e, n) \<and> e \<le> ps_epoch st \<longrightarrow>
       m_find m ''stale_epoch_rejected'' = Some ''1'')"
proof -
  let ?s = "\<lparr>ss_report = [(''phase'', ''restart'')], ss_fs = fs\<rparr>"
  obtain t where t: "restart_body cs ?s = (Inr (), t)" "fs' = (ss_fs t)(kRestartResult \<mapsto> render_map (ss_report t))"
    using assms by (auto simp: run_restart_def session_steps end_run_def split: prod.splits sum.splits)
  obtain e n s1 fa wB bB eB nB s2 s3 rej r2 s4 r3 s5 r4 s6 s7 where ch:
    "restart_recover cs ?s = (Inr (e, n), s1)" "restart_frames e n s1 = (Inr (fa, wB, bB, eB, nB), s2)"
    "id_valid e" "restart_replay fa (empty_registry (id_value e)) s2 = (Inr (empty_registry (id_value e)), s3)"
    "restart_workers (frame_ids kWorkerA (ss_fs s3)) wB bB (empty_registry (id_value e)) s3 = (Inr (rej, r2), s4)"
    "restart_before e n wB bB r2 s4 = (Inr r3, s5)" "restart_after e nB wB bB r3 s5 = (Inr r4, s6)"
    "restart_history cs e s6 = (Inr (), s7)" "restart_live rej r4 s7 = (Inr (), t)"
    by (rule restart_body_Inr [OF t(1)])
  note keep = restart_keeps [OF ch(2,4-9)]
  obtain st ns where st: "load cs kState fs = Inr st" "ps_nics st = n # ns" "e = Id (id_value (ps_epoch st) + 1)"
      "ss_fs s1 = fs" "m_find (ss_report s1) ''epoch_advanced'' = Some (flag (id_value e > id_value (ps_epoch st)))"
      "m_find (ss_report s1) ''recovered_conservative'' =
        Some (flag (nic_lifecycle n = LifecycleState.kRevalidationRequired \<and> nic_freshness n = 0))"
    using restart_recover_Inr [OF ch(1)] by auto
  have n: "nic_lifecycle n = LifecycleState.kRevalidationRequired" "nic_freshness n = 0"
    using wellformed_nic [OF load_wellformed [OF st(1)], of n] st(2) by simp_all
  have less: "ps_epoch st < e"
    using ch(3) epoch_advances [of "ps_epoch st"] by (simp add: st(3))
  have fa: "fa = decode_worker_frame kWorkerA fs"
    using ch(2) st(4) by (auto simp: restart_frames_def session_steps Let_def split: option.splits prod.splits)
  have pre: "m_find (ss_report t) ''worker_authority_not_recovered'' = Some ''1''"
    "m_find (ss_report t) ''pre_revalidation_selected'' = Some ''0''"
    using restart_before_refused [OF ch(6) restart_workers_nics [OF ch(5)] n(1)] keep(4) by simp_all
  have adv: "m_find (ss_report t) ''epoch_advanced'' = Some ''1''"
    "m_find (ss_report t) ''recovered_conservative'' = Some ''1''"
    using st(5,6) n less keep(1) by (simp_all add: flag_def less_Id_def)
  have stale: "m_find (ss_report t) ''stale_epoch_rejected'' = Some ''1''"
    if fr: "decode_worker_frame kWorkerA fs = Some (w, b, ea, na)" "ea \<le> ps_epoch st" for w b ea na
  proof -
    have "ea \<noteq> Id (id_value e)" using fr(2) less by auto
    then have "m_find (ss_report s3) ''stale_epoch_rejected'' = Some ''1''"
      using ch(4) fa fr(1) by (auto simp: restart_replay_eq Let_def m_find_put flag_def)
    then show ?thesis using keep(2) by simp
  qed
  have "ss_fs t = fs" using keep(10) st(4) by simp
  then show ?thesis using st(1) t(2) pre adv stale by (intro exI [of _ "ss_report t"] exI [of _ st]) blast
qed

section \<open>Worker, coordinator, restart and new worker\<close>

lemma restart_recover_ok:
  assumes "load cs kState (ss_fs s) = Inr st" "ps_nics st = n # ns"
  shows "\<exists>s'. restart_recover cs s = (Inr (Id (id_value (ps_epoch st) + 1), n), s') \<and> ss_fs s' = ss_fs s"
proof -
  have "rr_ok (recover cs kState (ss_fs s))" "rr_epoch (recover cs kState (ss_fs s)) = ps_epoch st"
    "rr_nics (recover cs kState (ss_fs s)) = n # ns"
    using assms recover_reports_load [of cs kState "ss_fs s"] by simp_all
  then show ?thesis by (simp add: restart_recover_def Let_def session_steps)
qed

lemma restart_frames_ok:
  "decode_worker_frame kWorkerA (ss_fs s) = Some fa \<Longrightarrow> decode_worker_frame kWorkerB (ss_fs s) = Some fb \<Longrightarrow>
     \<exists>s'. restart_frames e n s = (Inr (Some fa, fb), s')"
  by (simp add: restart_frames_def session_steps split: prod.split)

lemma restart_workers_ok:
  "b \<noteq> b' \<Longrightarrow> \<exists>s'. restart_workers (w, b) w b' (empty_registry (id_value e)) s = (Inr (True, one_worker e w b'), s') \<and>
     m_find (ss_report s') ''old_boot_takeover_rejected'' = Some ''1''"
  by (simp add: restart_workers_def session_steps register_only_worker one_worker_takeover m_find_put flag_def)

lemma restart_before_ok:
  "id_valid (nic_id n) \<Longrightarrow> gen_valid (nic_generation n) \<Longrightarrow>
     \<exists>s'. restart_before e n w b (one_worker e w b) s = (Inr (with_nic (one_worker e w b) w n), s')"
  by (simp add: restart_before_def session_steps register_first_nic Let_def)

lemma republish_nic:
  assumes "id_valid (nic_id n)" "nic_id m = nic_id n" "nic_generation n < nic_generation m"
  shows "register_nic m e w b (with_nic (one_worker e w b) w n) =
    (Inr (nic_generation m), with_nic (one_worker e w b) w m)"
  using with_nic_authority [of e w b w n] assms less_imp_not_less [OF assms(3)] less_imp_neq [OF assms(3)]
  by (simp add: register_nic_def Let_def)
    (simp add: with_nic_def one_worker_def empty_registry_def m_size_def kMaxNics_def)

text \<open>The same evidence at the same generation is accepted and changes nothing.\<close>

lemma republish_same:
  assumes "id_valid (nic_id n)" "nic_equal m (n\<lparr>nic_freshness := 0\<rparr>)"
  shows "register_nic m e w b (with_nic (one_worker e w b) w n) =
    (Inr (nic_generation m), with_nic (one_worker e w b) w n)"
proof -
  have "nic_id m = nic_id n" "nic_generation m = nic_generation n" using assms(2) by (simp_all add: nic_equal_def)
  then show ?thesis
    using with_nic_authority [of e w b w n] assms
    by (simp add: register_nic_def Let_def)
      (simp add: with_nic_def one_worker_def empty_registry_def m_size_def kMaxNics_def)
qed

text \<open>Older evidence is refused, which ends the run.\<close>

lemma republish_older:
  assumes "id_valid (nic_id n)" "nic_id m = nic_id n" "nic_generation m < nic_generation n"
  shows "\<exists>err r. register_nic m e w b (with_nic (one_worker e w b) w n) = (Inl err, r) \<and> err_code err = ErrorCode.kStaleNic"
  using with_nic_authority [of e w b w n] assms less_imp_neq [OF assms(3)]
  by (simp add: register_nic_def Let_def)
    (simp add: with_nic_def one_worker_def empty_registry_def m_size_def kMaxNics_def)

lemma restart_after_older:
  assumes "id_valid (nic_id n)" "nic_id m = nic_id n" "nic_generation m < nic_generation n"
  shows "\<exists>msg. restart_after e m w b (with_nic (one_worker e w b) w n) s = (Inl (''STALE_NIC'', msg), s)"
proof -
  obtain err r where "register_nic m e w b (with_nic (one_worker e w b) w n) = (Inl err, r)" "err_code err = ErrorCode.kStaleNic"
    using republish_older [OF assms] by blast
  then show ?thesis by (simp add: restart_after_def session_steps caught_def)
qed

text \<open>What the registry holds for the NIC after the new incarnation published it.\<close>

definition republished :: "NicRecord \<Rightarrow> NicRecord \<Rightarrow> NicRecord" where
  "republished n m = (if nic_generation n < nic_generation m then m else n)"

definition republishable :: "NicRecord \<Rightarrow> NicRecord \<Rightarrow> bool" where
  "republishable n m \<longleftrightarrow> nic_id m = nic_id n \<and>
     (nic_generation n < nic_generation m \<or> nic_equal m (n\<lparr>nic_freshness := 0\<rparr>))"

lemma restart_after_ok:
  assumes "id_valid (nic_id n)" "republishable n m" "nic_lifecycle n = LifecycleState.kRevalidationRequired"
    "prov_kind (nic_provenance m) = EvidenceKind.kReal" "usable_lifecycle (nic_lifecycle m)"
  shows "\<exists>s'. restart_after e m w b (with_nic (one_worker e w b) w n) s =
      (Inr ((with_nic (one_worker e w b) w (republished n m))\<lparr>reg_residencies := [run_residency 2 m e w b]\<rparr>), s') \<and>
    m_find (ss_report s') ''required_refresh'' = Some (flag (nic_generation n < nic_generation m))"
proof -
  let ?x = "republished n m"
  let ?r = "(with_nic (one_worker e w b) w ?x)\<lparr>reg_residencies := [run_residency 2 m e w b]\<rparr>"
  let ?d = "decide policy_default (snapshot ?r) id_null (nic_numa_node m) id_null w"
  have id: "nic_id m = nic_id n" "id_valid (nic_id ?x)" "nic_id m = nic_id ?x"
    using assms(1,2) by (simp_all add: republishable_def republished_def)
  have reg: "register_nic m e w b (with_nic (one_worker e w b) w n) = (Inr (nic_generation m), with_nic (one_worker e w b) w ?x)"
    using assms(2) republish_nic [OF assms(1) id(1), of e w b] republish_same [OF assms(1), of m e w b]
    by (auto simp: republishable_def republished_def nic_equal_def)
  have snap: "snap_nics (snapshot ?r) = [(nic_id ?x, ?x\<lparr>nic_freshness := 0\<rparr>)]"
    by (simp add: snapshot_def with_nic_def)
  have adm: "admissible policy_default (snapshot ?r) (?x\<lparr>nic_freshness := 0\<rparr>) id_null (nic_numa_node m) \<longleftrightarrow>
      nic_generation n < nic_generation m"
    using assms(1,3-5) id by (simp add: default_admissible republished_def usable_lifecycle_def)
  have "is_allowed (dec_overall ?d) \<and> dec_selected ?d = nic_id m \<longleftrightarrow> nic_generation n < nic_generation m"
    using single_allowed [OF snap, of id_null "nic_numa_node m" id_null w] single_refused [OF snap, of id_null "nic_numa_node m" id_null w]
      adm id(3) by (cases "nic_generation n < nic_generation m") simp_all
  then show ?thesis
    using reg publish_first_residency [OF id(2,3)]
    by (simp add: restart_after_def session_steps Let_def m_find_put)
qed

lemma restart_history_ok:
  "load cs kState (ss_fs s) = Inr st \<Longrightarrow> ps_history st = h # hs \<Longrightarrow> res_epoch h < e \<Longrightarrow>
     \<exists>s'. restart_history cs e s = (Inr (), s') \<and>
       m_find (ss_report s') ''pre_restart_non_authoritative'' = Some ''1''"
  by (simp add: restart_history_def session_steps m_find_put flag_def less_Id_def)

lemma restart_live_ok: "\<exists>s'. restart_live rej r s = (Inr (), s')"
  by (simp add: restart_live_def session_steps)

text \<open>The phases up to the refused replay, and from the registration to the fresh decision.\<close>

lemma restart_opening:
  assumes st: "load cs kState fs = Inr st" "ps_nics st = n # ns" "id_value (ps_epoch st) + 1 \<noteq> 0"
    and fr: "decode_worker_frame kWorkerA fs = Some (w, b, ps_epoch st, nA)" "decode_worker_frame kWorkerB fs = Some fb"
  defines "e \<equiv> Id (id_value (ps_epoch st) + 1) :: CoordinatorEpoch"
  obtains s1 s2 s3 where "restart_recover cs \<lparr>ss_report = m, ss_fs = fs\<rparr> = (Inr (e, n), s1)" "ss_fs s1 = fs"
    "restart_frames e n s1 = (Inr (Some (w, b, ps_epoch st, nA), fb), s2)"
    "restart_replay (Some (w, b, ps_epoch st, nA)) (empty_registry (id_value e)) s2 = (Inr (empty_registry (id_value e)), s3)"
    "m_find (ss_report s3) ''stale_epoch_rejected'' = Some ''1''"
proof -
  obtain s1 where s1: "restart_recover cs \<lparr>ss_report = m, ss_fs = fs\<rparr> = (Inr (e, n), s1)" "ss_fs s1 = fs"
    using restart_recover_ok [of cs "\<lparr>ss_report = m, ss_fs = fs\<rparr>" st n ns] st(1,2) by (auto simp: e_def)
  obtain s2 where s2: "restart_frames e n s1 = (Inr (Some (w, b, ps_epoch st, nA), fb), s2)"
    using restart_frames_ok [OF fr [folded s1(2)]] by blast
  have "ps_epoch st < e" using epoch_advances [OF st(3)] by (simp add: e_def)
  then obtain s3 where s3: "restart_replay (Some (w, b, ps_epoch st, nA)) (empty_registry (id_value e)) s2 =
      (Inr (empty_registry (id_value e)), s3)" "m_find (ss_report s3) ''stale_epoch_rejected'' = Some ''1''"
    by (simp add: restart_replay_eq Let_def m_find_put flag_def)
  show thesis by (rule that [OF s1 s2 s3])
qed

lemma restart_reentry:
  assumes "b \<noteq> b'" "id_valid (nic_id n)" "gen_valid (nic_generation n)" "republishable n nB"
    "nic_lifecycle n = LifecycleState.kRevalidationRequired" "prov_kind (nic_provenance nB) = EvidenceKind.kReal"
    "usable_lifecycle (nic_lifecycle nB)"
  obtains s4 s5 s6 where
    "restart_workers (w, b) w b' (empty_registry (id_value e)) s3 = (Inr (True, one_worker e w b'), s4)"
    "m_find (ss_report s4) ''old_boot_takeover_rejected'' = Some ''1''"
    "restart_before e n w b' (one_worker e w b') s4 = (Inr (with_nic (one_worker e w b') w n), s5)"
    "restart_after e nB w b' (with_nic (one_worker e w b') w n) s5 =
       (Inr ((with_nic (one_worker e w b') w (republished n nB))\<lparr>reg_residencies := [run_residency 2 nB e w b']\<rparr>), s6)"
    "m_find (ss_report s6) ''required_refresh'' = Some (flag (nic_generation n < nic_generation nB))" "ss_fs s6 = ss_fs s3"
proof -
  obtain s4 where s4: "restart_workers (w, b) w b' (empty_registry (id_value e)) s3 = (Inr (True, one_worker e w b'), s4)"
      "m_find (ss_report s4) ''old_boot_takeover_rejected'' = Some ''1''"
    using restart_workers_ok [OF assms(1)] by blast
  obtain s5 where s5: "restart_before e n w b' (one_worker e w b') s4 = (Inr (with_nic (one_worker e w b') w n), s5)"
    using restart_before_ok [OF assms(2,3)] by blast
  obtain s6 where s6: "restart_after e nB w b' (with_nic (one_worker e w b') w n) s5 =
      (Inr ((with_nic (one_worker e w b') w (republished n nB))\<lparr>reg_residencies := [run_residency 2 nB e w b']\<rparr>), s6)"
      "m_find (ss_report s6) ''required_refresh'' = Some (flag (nic_generation n < nic_generation nB))"
    using restart_after_ok [OF assms(2,4-7)] by blast
  have "ss_fs s6 = ss_fs s3"
    using writes_after(2) [OF restart_writes(2) s4(1)] writes_after(2) [OF restart_writes(3) s5]
      writes_after(2) [OF restart_writes(4) s6(1)] by simp
  then show thesis by (rule that [OF s4 s5 s6])
qed

text \<open>
  A restart on files that hold a first state, the old frame and a frame of the same worker
  under another boot with a later generation of the NIC, or with the same evidence again.
\<close>

lemma restart_run:
  assumes st: "load cs kState fs = Inr st" "ps_nics st = n # ns" "ps_history st = h # hs"
    "res_epoch h = ps_epoch st" "id_value (ps_epoch st) + 1 \<noteq> 0"
    and fr: "decode_worker_frame kWorkerA fs = Some (w, b, ps_epoch st, nA)"
    "decode_worker_frame kWorkerB fs = Some (w, b', eB, nB)" "b \<noteq> b'"
    and nic: "id_valid (nic_id n)" "gen_valid (nic_generation n)" "republishable n nB"
  shows "\<exists>fs' m. run_restart cs Some fs = (None, fs') \<and> fs' kRestartResult = Some (render_map m) \<and>
    m_find m ''stale_epoch_rejected'' = Some ''1'' \<and> m_find m ''old_boot_takeover_rejected'' = Some ''1'' \<and>
    m_find m ''worker_authority_not_recovered'' = Some ''1'' \<and>
    m_find m ''required_refresh'' = Some (flag (nic_generation n < nic_generation nB)) \<and>
    m_find m ''pre_restart_non_authoritative'' = Some ''1''"
proof -
  let ?s = "\<lparr>ss_report = [(''phase'', ''restart'')], ss_fs = fs\<rparr>"
  define e where "e = (Id (id_value (ps_epoch st) + 1) :: CoordinatorEpoch)"
  let ?r = "(with_nic (one_worker e w b') w (republished n nB))\<lparr>reg_residencies := [run_residency 2 nB e w b']\<rparr>"
  obtain s1 s2 s3 where o: "restart_recover cs ?s = (Inr (e, n), s1)" "ss_fs s1 = fs"
    "restart_frames e n s1 = (Inr (Some (w, b, ps_epoch st, nA), w, b', eB, nB), s2)"
    "restart_replay (Some (w, b, ps_epoch st, nA)) (empty_registry (id_value e)) s2 = (Inr (empty_registry (id_value e)), s3)"
    "m_find (ss_report s3) ''stale_epoch_rejected'' = Some ''1''"
    unfolding e_def by (rule restart_opening [OF st(1,2,5) fr(1,2)])
  have n: "nic_lifecycle n = LifecycleState.kRevalidationRequired"
    using wellformed_nic(1) [OF load_wellformed [OF st(1)], of n] st(2) by simp
  have nB: "prov_kind (nic_provenance nB) = EvidenceKind.kReal" "usable_lifecycle (nic_lifecycle nB)"
    using decoded_nic_available [OF fr(2)] by (simp_all add: usable_lifecycle_def)
  obtain s4 s5 s6 where a:
    "restart_workers (w, b) w b' (empty_registry (id_value e)) s3 = (Inr (True, one_worker e w b'), s4)"
    "m_find (ss_report s4) ''old_boot_takeover_rejected'' = Some ''1''"
    "restart_before e n w b' (one_worker e w b') s4 = (Inr (with_nic (one_worker e w b') w n), s5)"
    "restart_after e nB w b' (with_nic (one_worker e w b') w n) s5 = (Inr ?r, s6)"
    "m_find (ss_report s6) ''required_refresh'' = Some (flag (nic_generation n < nic_generation nB))" "ss_fs s6 = ss_fs s3"
    by (rule restart_reentry [OF fr(3) nic n nB])
  have fs3: "ss_fs s3 = fs"
    using writes_after(2) [OF restart_writes_files(2) o(3)] writes_after(2) [OF restart_writes(1) o(4)] o(2) by simp
  obtain s7 where s7: "restart_history cs e s6 = (Inr (), s7)"
      "m_find (ss_report s7) ''pre_restart_non_authoritative'' = Some ''1''"
    using restart_history_ok [of cs s6 st h hs e] a(6) fs3 st epoch_advances [OF st(5)] by (auto simp: e_def)
  obtain t where t: "restart_live True ?r s7 = (Inr (), t)" using restart_live_ok by blast
  note keep = restart_keeps [OF o(3,4) a(1,3,4) s7(1) t]
  have pre: "m_find (ss_report s5) ''worker_authority_not_recovered'' = Some ''1''"
    using restart_before_refused(1) [OF a(3) _ n] by (simp add: one_worker_def empty_registry_def)
  have ids: "frame_ids kWorkerA (ss_fs s3) = (w, b)" using fs3 frame_ids_decoded [OF fr(1)] by simp
  have valid: "id_valid e" using st(5) by (simp add: e_def)
  have "restart_body cs ?s = (Inr (), t)"
    by (simp add: restart_body_def ex_then_def ex_bind_def o(1,3,4) valid session_value_def NicRegistry_new_cases
        ids a(1,3,4) s7(1) t)
  then have run: "run_restart cs Some fs = (None, (ss_fs t)(kRestartResult \<mapsto> render_map (ss_report t)))"
    by (simp add: run_restart_def session_steps end_run_def)
  show ?thesis
    by (intro exI [of _ "(ss_fs t)(kRestartResult \<mapsto> render_map (ss_report t))"] exI [of _ "ss_report t"])
      (simp add: run keep o(5) a(2,5) s7(2) pre)
qed

text \<open>The same files with older evidence: the run ends with the error and has shown the same until then.\<close>

lemma restart_run_older:
  assumes st: "load cs kState fs = Inr st" "ps_nics st = n # ns" "id_value (ps_epoch st) + 1 \<noteq> 0"
    and fr: "decode_worker_frame kWorkerA fs = Some (w, b, ps_epoch st, nA)"
    "decode_worker_frame kWorkerB fs = Some (w, b', eB, nB)" "b \<noteq> b'"
    and nic: "id_valid (nic_id n)" "gen_valid (nic_generation n)" "nic_id nB = nic_id n"
    "nic_generation nB < nic_generation n"
  shows "\<exists>fs' m. run_restart cs Some fs = (Some 1, fs') \<and> fs' kRestartResult = Some (render_map m) \<and>
    m_find m ''stale_epoch_rejected'' = Some ''1'' \<and> m_find m ''old_boot_takeover_rejected'' = Some ''1'' \<and>
    m_find m ''worker_authority_not_recovered'' = Some ''1'' \<and> m_find m ''error'' = Some ''STALE_NIC''"
proof -
  let ?s = "\<lparr>ss_report = [(''phase'', ''restart'')], ss_fs = fs\<rparr>"
  define e where "e = (Id (id_value (ps_epoch st) + 1) :: CoordinatorEpoch)"
  obtain s1 s2 s3 where o: "restart_recover cs ?s = (Inr (e, n), s1)" "ss_fs s1 = fs"
    "restart_frames e n s1 = (Inr (Some (w, b, ps_epoch st, nA), w, b', eB, nB), s2)"
    "restart_replay (Some (w, b, ps_epoch st, nA)) (empty_registry (id_value e)) s2 = (Inr (empty_registry (id_value e)), s3)"
    "m_find (ss_report s3) ''stale_epoch_rejected'' = Some ''1''"
    unfolding e_def by (rule restart_opening [OF st fr(1,2)])
  have n: "nic_lifecycle n = LifecycleState.kRevalidationRequired"
    using wellformed_nic(1) [OF load_wellformed [OF st(1)], of n] st(2) by simp
  obtain s4 where s4: "restart_workers (w, b) w b' (empty_registry (id_value e)) s3 = (Inr (True, one_worker e w b'), s4)"
      "m_find (ss_report s4) ''old_boot_takeover_rejected'' = Some ''1''"
    using restart_workers_ok [OF fr(3)] by blast
  obtain s5 where s5: "restart_before e n w b' (one_worker e w b') s4 = (Inr (with_nic (one_worker e w b') w n), s5)"
    using restart_before_ok [OF nic(1,2)] by blast
  obtain msg where s6: "restart_after e nB w b' (with_nic (one_worker e w b') w n) s5 = (Inl (''STALE_NIC'', msg), s5)"
    using restart_after_older [OF nic(1,3,4)] by blast
  note keep = writes_after(1) [OF restart_writes(2) s4(1)] writes_after(1) [OF restart_writes(3) s5]
  have fs3: "ss_fs s3 = fs"
    using writes_after(2) [OF restart_writes_files(2) o(3)] writes_after(2) [OF restart_writes(1) o(4)] o(2) by simp
  have pre: "m_find (ss_report s5) ''worker_authority_not_recovered'' = Some ''1''"
    using restart_before_refused(1) [OF s5 _ n] by (simp add: one_worker_def empty_registry_def)
  have ids: "frame_ids kWorkerA (ss_fs s3) = (w, b)" using fs3 frame_ids_decoded [OF fr(1)] by simp
  have valid: "id_valid e" using st(3) by (simp add: e_def)
  let ?m = "m_put ''message'' msg (m_put ''error'' ''STALE_NIC'' (m_put ''status'' ''ERROR'' (ss_report s5)))"
  have "restart_body cs ?s = (Inl (''STALE_NIC'', msg), s5)"
    by (simp add: restart_body_def ex_then_def ex_bind_def o(1,3,4) valid session_value_def NicRegistry_new_cases
        ids s4(1) s5 s6)
  then have run: "run_restart cs Some fs = (Some 1, (ss_fs s5)(kRestartResult \<mapsto> render_map ?m))"
    by (simp add: run_restart_def session_steps end_run_def)
  show ?thesis
    by (intro exI [of _ "(ss_fs s5)(kRestartResult \<mapsto> render_map ?m)"] exI [of _ ?m])
      (simp add: run m_find_put keep o(5) s4(2) pre)
qed

lemma published_nic_fields:
  "nic_id (published_nic g) = Id 0x1000" "nic_generation (published_nic g) = Generation g"
  "nic_storable cs (published_nic g)"
  by (simp_all add: received_nic_def worker_nic_def nic_storable_def str_safe_def u16_safe_def nic_default_def
      cap_default_def prov_default_def)

lemma published_first_state:
  "ps_epoch (state_durable (first_state e n rr)) = e"
  "ps_nics (state_durable (first_state e n rr)) = [nic_durable n]"
  "ps_history (state_durable (first_state e n rr)) = [history_durable rr]"
  by (simp_all add: first_state_durable) (simp add: first_state_def)

lemma republishable_published:
  assumes "g \<le> g'"
  shows "republishable (nic_durable (published_nic g)) (published_nic g')"
proof (cases "g = g'")
  case True
  have "nic_equal (published_nic g) ((nic_durable (published_nic g))\<lparr>nic_freshness := 0\<rparr>)"
    by (simp add: nic_equal_def nic_durable_def)
  then show ?thesis using True by (simp add: republishable_def nic_durable_def)
next
  case False
  then have "g < g'" using assms by simp
  then show ?thesis by (simp add: republishable_def nic_durable_def published_nic_fields Generation_less_iff)
qed

text \<open>The files a restart finds after a worker, a coordinator and a new incarnation of the worker.\<close>

lemma cycle_files:
  assumes "id_valid e" "0 < g" "io_open io" "io_write io" "io_rename io"
  obtains fs2 where "run_first io Some (worker_main Some kWorkerA w g e b fs) = (None, fs2)"
    "load cs kState (worker_main Some kWorkerB w g' eB b' fs2) =
       Inr (state_durable (first_state e (published_nic g) (run_residency 1 (published_nic g) e w b)))"
    "decode_worker_frame kWorkerA (worker_main Some kWorkerB w g' eB b' fs2) = Some (w, b, e, published_nic g)"
    "decode_worker_frame kWorkerB (worker_main Some kWorkerB w g' eB b' fs2) = Some (w, b', eB, published_nic g')"
proof -
  let ?fs1 = "worker_main Some kWorkerA w g e b fs" and ?n = "published_nic g"
  have A: "?fs1 kWorkerA = Some (frame_bytes kPublishNic (publish_bytes w b e (worker_nic g)))"
    by (simp add: worker_main_eq)
  have dA: "decode_worker_frame kWorkerA ?fs1 = Some (w, b, e, ?n)" using A by (rule worker_frame_decoded)
  obtain fs2 where fs2: "run_first io Some ?fs1 = (None, fs2)"
      "load cs kState fs2 = Inr (state_durable (first_state e ?n (run_residency 1 ?n e w b)))" "fs2 kWorkerA = ?fs1 kWorkerA"
    by (rule first_run [OF dA assms(1) _ _ _ assms(3-5), of cs]) (use assms(2) in \<open>simp_all add: published_nic_fields gen_valid_def\<close>)
  let ?fs3 = "worker_main Some kWorkerB w g' eB b' fs2"
  have paths: "kWorkerA \<noteq> kWorkerB" "kState \<noteq> kWorkerB"
    by (simp_all add: kWorkerA_def kWorkerB_def kState_def)
  show thesis
  proof (rule that [OF fs2(1)])
    show "load cs kState ?fs3 = Inr (state_durable (first_state e ?n (run_residency 1 ?n e w b)))"
      using fs2(2) paths by (simp add: worker_main_eq load_def)
    show "decode_worker_frame kWorkerA ?fs3 = Some (w, b, e, ?n)"
      by (rule worker_frame_decoded) (use paths fs2(3) A in \<open>simp add: worker_main_eq\<close>)
    show "decode_worker_frame kWorkerB ?fs3 = Some (w, b', eB, published_nic g')"
      by (rule worker_frame_decoded) (simp add: worker_main_eq)
  qed
qed

lemma authority_cycle:
  assumes e: "id_valid e" "id_value e + 1 \<noteq> 0" and g: "0 < g" and b: "b \<noteq> b'"
    and io: "io_open io" "io_write io" "io_rename io"
  obtains fs2 fs4 m where "run_first io Some (worker_main Some kWorkerA w g e b fs) = (None, fs2)"
    "run_restart cs Some (worker_main Some kWorkerB w g' eB b' fs2) = (if g' < g then Some 1 else None, fs4)"
    "fs4 kRestartResult = Some (render_map m)"
    "m_find m ''stale_epoch_rejected'' = Some ''1''" "m_find m ''old_boot_takeover_rejected'' = Some ''1''"
    "m_find m ''worker_authority_not_recovered'' = Some ''1''"
    "if g' < g then m_find m ''error'' = Some ''STALE_NIC''
     else m_find m ''required_refresh'' = Some (flag (g < g')) \<and> m_find m ''pre_restart_non_authoritative'' = Some ''1''"
proof -
  let ?n = "published_nic g"
  let ?st = "state_durable (first_state e ?n (run_residency 1 ?n e w b))"
  obtain fs2 where fs2: "run_first io Some (worker_main Some kWorkerA w g e b fs) = (None, fs2)"
    and ld: "load cs kState (worker_main Some kWorkerB w g' eB b' fs2) = Inr ?st"
    and fA: "decode_worker_frame kWorkerA (worker_main Some kWorkerB w g' eB b' fs2) = Some (w, b, ps_epoch ?st, ?n)"
    and fB: "decode_worker_frame kWorkerB (worker_main Some kWorkerB w g' eB b' fs2) = Some (w, b', eB, published_nic g')"
    unfolding published_first_state(1) by (rule cycle_files [OF e(1) g io])
  let ?fs3 = "worker_main Some kWorkerB w g' eB b' fs2"
  have gen: "gen_valid (Generation g)" using g by (simp add: gen_valid_def)
  note fields = published_first_state history_durable_def run_residency_def nic_durable_def
    published_nic_fields Generation_less_iff
  have "\<exists>fs4 m. run_restart cs Some ?fs3 = (if g' < g then Some 1 else None, fs4) \<and>
    fs4 kRestartResult = Some (render_map m) \<and>
    m_find m ''stale_epoch_rejected'' = Some ''1'' \<and> m_find m ''old_boot_takeover_rejected'' = Some ''1'' \<and>
    m_find m ''worker_authority_not_recovered'' = Some ''1'' \<and>
    (if g' < g then m_find m ''error'' = Some ''STALE_NIC''
     else m_find m ''required_refresh'' = Some (flag (g < g')) \<and> m_find m ''pre_restart_non_authoritative'' = Some ''1'')"
  proof (cases "g' < g")
    case True
    then show ?thesis
      using restart_run_older [OF ld published_first_state(2) _ fA fB b] e(2) gen by (simp add: fields)
  next
    case False
    then show ?thesis
      using restart_run [OF ld published_first_state(2,3) _ _ fA fB b _ _ republishable_published [of g g']] e(2) gen
      by (simp add: fields)
  qed
  then obtain fs4 m where r: "run_restart cs Some ?fs3 = (if g' < g then Some 1 else None, fs4)"
    "fs4 kRestartResult = Some (render_map m)"
    "m_find m ''stale_epoch_rejected'' = Some ''1''" "m_find m ''old_boot_takeover_rejected'' = Some ''1''"
    "m_find m ''worker_authority_not_recovered'' = Some ''1''"
    "if g' < g then m_find m ''error'' = Some ''STALE_NIC''
     else m_find m ''required_refresh'' = Some (flag (g < g')) \<and> m_find m ''pre_restart_non_authoritative'' = Some ''1''"
    by (elim exE conjE)
  show thesis by (rule that [OF fs2 r])
qed

text \<open>
  C8: the authority cycle, from any initial files and for any worker: a worker publishes its
  NIC, the coordinator decides and persists, both are killed, the worker comes back under
  another boot with its NIC at any generation and any epoch \<open>eB\<close> in its frame, and the
  coordinator is started again. It reports
  that the old frame was refused as stale, that the old boot could not take over the worker and
  that no authority was recovered. With an older generation it ends with STALE_NIC. Otherwise
  it reaches its waiting state, the old decision is only history, and authority has returned
  with the fresh evidence exactly if the generation is a later one: the same generation is taken
  for a duplicate and leaves the recovered record in REVALIDATION_REQUIRED. None of this depends
  on \<open>eB\<close>: the coordinator does not look at the epoch of the fresh frame and registers its NIC
  under the new epoch, so a frame that carries the old epoch brings authority back as well (the
  instance below has one).
\<close>

theorem authority_returns_after_restart:
  assumes "id_valid e" "id_value e + 1 \<noteq> 0" "0 < g" "b \<noteq> b'" "io_open io" "io_write io" "io_rename io"
  shows "\<exists>fs2 fs4 m. run_first io Some (worker_main Some kWorkerA w g e b fs) = (None, fs2) \<and>
    run_restart cs Some (worker_main Some kWorkerB w g' eB b' fs2) = (if g' < g then Some 1 else None, fs4) \<and>
    fs4 kRestartResult = Some (render_map m) \<and>
    m_find m ''stale_epoch_rejected'' = Some ''1'' \<and> m_find m ''old_boot_takeover_rejected'' = Some ''1'' \<and>
    m_find m ''worker_authority_not_recovered'' = Some ''1'' \<and>
    (if g' < g then m_find m ''error'' = Some ''STALE_NIC''
     else m_find m ''required_refresh'' = Some (flag (g < g')) \<and>
       m_find m ''pre_restart_non_authoritative'' = Some ''1'')"
  by (rule authority_cycle [OF assms]) (intro exI conjI)

theorem authority_returns_after_restart_witness:
  "\<exists>fs2 fs4. run_first good_io Some (worker_main Some kWorkerA (Id 1) 1 (Id 1) (Id 10) Map.empty) = (None, fs2) \<and>
    run_restart True Some (worker_main Some kWorkerB (Id 1) 2 (Id 1) (Id 11) fs2) = (None, fs4)"
  using authority_returns_after_restart [where e = "Id 1" and g = 1 and g' = 2 and b = "Id 10" and b' = "Id 11" and io = good_io and
      w = "Id 1" and fs = Map.empty and cs = True and eB = "Id 1"]
  by (auto simp: good_io_def)

theorem restart_never_trusts_recovered_witness:
  "\<exists>fs m. fst (run_restart True Some fs) = None \<and>
     snd (run_restart True Some fs) kRestartResult = Some (render_map m) \<and>
     m_find m ''recovered_conservative'' = Some ''1''"
proof -
  have v: "id_valid (Id 1 :: CoordinatorEpoch)" "id_value (Id 1 :: CoordinatorEpoch) + 1 \<noteq> 0" by simp_all
  have io: "io_open good_io" "io_write good_io" "io_rename good_io" by (simp_all add: good_io_def)
  obtain fs3 fs4 where "run_restart True Some fs3 = (None, fs4)"
    by (rule authority_cycle [OF v _ _ io, where g = 1 and g' = 2 and b = "Id 10" and b' = "Id 11" and w = "Id 1" and
          fs = Map.empty and cs = True and eB = "Id 2"]) simp_all
  then show ?thesis
    using restart_never_trusts_recovered [of True fs3 fs4] by (intro exI [of _ fs3]) auto
qed

theorem first_run_outcome_witness:
  "\<exists>fs2 m. run_first good_io Some (worker_main Some kWorkerA (Id 1) 1 (Id 1) (Id 10) Map.empty) = (None, fs2) \<and>
     fs2 kFirstResult = Some (render_map m) \<and> m_find m ''authoritative'' = Some ''1''"
proof -
  have "decode_worker_frame kWorkerA (worker_main Some kWorkerA (Id 1) 1 (Id 1) (Id 10) Map.empty) =
      Some (Id 1, Id 10, Id 1, published_nic 1)"
    by (rule worker_frame_decoded) (simp add: worker_main_eq)
  from first_run_outcome [OF this, of True good_io] show ?thesis
    by (auto simp: published_nic_fields good_io_def gen_valid_def)
qed

section \<open>Processes that end\<close>

text \<open>
  C38: every command line works: the worker never ends with an exception, writes only the file named
  first, and what the coordinator decodes from that file is the identity and epoch of the command
  line, the boot identity of the process, and the fixed NIC at the generation of the command line.
\<close>

theorem worker_reaches_coordinator:
  "\<exists>fs' frame n. worker_process Some args boot fs = (Inr (''READY boot='' @ c_str (id_str boot) @ newline), fs') \<and>
     fs' = fs(frame_path args \<mapsto> frame) \<and>
     decode_worker_frame (frame_path args) fs' =
       Some (argument 1 args (\<lambda>s. Id (strtoull0 s)) (Id 1), boot, argument 3 args (\<lambda>s. Id (strtoull0 s)) (Id 1), n) \<and>
     nic_id n = Id 0x1000 \<and> nic_generation n = Generation (argument 2 args strtoull0 1) \<and>
     nic_lifecycle n = LifecycleState.kAvailable"
proof -
  let ?w = "argument 1 args (\<lambda>s. Id (strtoull0 s)) (Id 1)" and ?e = "argument 3 args (\<lambda>s. Id (strtoull0 s)) (Id 1)"
    and ?g = "argument 2 args strtoull0 1"
  let ?frame = "frame_bytes kPublishNic (publish_bytes ?w boot ?e (worker_nic ?g))"
  let ?fs = "fs(frame_path args \<mapsto> ?frame)"
  have dec: "decode_worker_frame (frame_path args) ?fs = Some (?w, boot, ?e, published_nic ?g)"
    by (rule worker_frame_decoded) simp
  have "worker_process Some args boot fs = (Inr (''READY boot='' @ c_str (id_str boot) @ newline), ?fs)"
    by (simp add: worker_process_def worker_frame_eq worker_main_eq Let_def)
  with dec show ?thesis
    by (intro exI [of _ ?fs] exI [of _ ?frame] exI [of _ "published_nic ?g"])
      (simp add: published_nic_fields decoded_nic_available(1) [OF dec])
qed

lemma restart_body_files: "ss_fs (snd (restart_body cs s)) = ss_fs s"
proof -
  have wide: "writes_only UNIV m" if "writes_only K m" for K and m :: "'a session"
    using that by (simp add: writes_only_def)
  have rec: "writes_only UNIV (restart_recover cs)"
    by (simp add: writes_only_def restart_recover_def session_steps Let_def split: list.split)
  have wrk: "writes_only UNIV (\<lambda>s. restart_workers (frame_ids kWorkerA (ss_fs s)) w b r s)" for w b r
    by (rule writes_files) (rule wide [OF restart_writes(2)])
  have "writes_only UNIV (restart_body cs)"
    unfolding restart_body_def
    by (auto split: prod.split intro!: writes rec wrk wide [OF restart_writes_files(1)] wide [OF restart_writes_files(2)]
        wide [OF restart_writes(1)] wide [OF restart_writes(3)] wide [OF restart_writes(4)] wide [OF restart_writes(5)])
  then show ?thesis by (simp add: writes_only_def)
qed

lemma first_body_error:
  assumes "first_body io s = (Inl x, t)"
  shows "ss_fs t kState = ss_fs s kState"
proof -
  have save: "ss_fs t' kState = ss_fs s' kState" if "save_session io st s' = (Inl y, t')" for st s' y t'
    using that by (auto simp: save_session_def save_def Let_def kState_def split: sum.splits if_splits prod.splits)
  have reports: "first_reports e b n d rr s' = (Inl y, t') \<Longrightarrow> False" for e b n d rr s' y t'
    by (simp add: first_reports_def session_steps)
  show ?thesis
    using assms
    by (auto simp: first_body_def ex_bind_def ex_then_def session_value_def on_registry_def Let_def
        split: option.splits sum.splits prod.splits dest: save reports)
qed

text \<open>How a run ended, and what it left in its files.\<close>

definition reports_error :: "string \<Rightarrow> file_system \<Rightarrow> bool" where
  "reports_error path fs \<longleftrightarrow> (\<exists>m. fs path = Some (render_map m) \<and> m_find m ''status'' = Some ''ERROR'')"

lemma end_run_error:
  assumes "end_run Some path res s = (Some c, fs')"
  obtains x m where "res = Inl x" "c = 1" "fs' = (ss_fs s)(path \<mapsto> render_map m)" "m_find m ''status'' = Some ''ERROR''"
  using assms by (auto simp: end_run_def m_find_put split: sum.splits prod.splits)

text \<open>
  C39: a run of the coordinator that ends does so with exit code 1, leaves a report with status
  ERROR, and has not touched the persisted state; a restarted run has changed nothing but its
  report. For all files, and for the first run whatever its I/O calls report.
\<close>

theorem failed_run_reported:
  "(case run_first io Some fs of (None, fs') \<Rightarrow> True
    | (Some c, fs') \<Rightarrow> c = 1 \<and> reports_error kFirstResult fs' \<and> fs' kState = fs kState) \<and>
   (case run_restart cs Some fs of (None, fs') \<Rightarrow> True
    | (Some c, fs') \<Rightarrow> c = 1 \<and> reports_error kRestartResult fs' \<and> fs'(kRestartResult := fs kRestartResult) = fs)"
proof
  have path: "kState \<noteq> kFirstResult" by (simp add: kState_def kFirstResult_def)
  have "c = 1 \<and> reports_error kFirstResult fs' \<and> fs' kState = fs kState" if "run_first io Some fs = (Some c, fs')" for c fs'
  proof -
    let ?s = "\<lparr>ss_report = [(''phase'', ''first'')], ss_fs = fs\<rparr>"
    obtain res t where t: "first_body io ?s = (res, t)" by fastforce
    with that have "end_run Some kFirstResult res t = (Some c, fs')" by (simp add: run_first_def session_steps)
    then obtain x m where "res = Inl x" "c = 1" "fs' = (ss_fs t)(kFirstResult \<mapsto> render_map m)"
      "m_find m ''status'' = Some ''ERROR''" by (rule end_run_error)
    with first_body_error [of io ?s x t] t path show ?thesis by (auto simp: reports_error_def)
  qed
  then show "case run_first io Some fs of (None, fs') \<Rightarrow> True
    | (Some c, fs') \<Rightarrow> c = 1 \<and> reports_error kFirstResult fs' \<and> fs' kState = fs kState"
    by (auto split: prod.split option.split)
  have "c = 1 \<and> reports_error kRestartResult fs' \<and> fs'(kRestartResult := fs kRestartResult) = fs"
    if "run_restart cs Some fs = (Some c, fs')" for c fs'
  proof -
    let ?s = "\<lparr>ss_report = [(''phase'', ''restart'')], ss_fs = fs\<rparr>"
    obtain res t where t: "restart_body cs ?s = (res, t)" by fastforce
    with that have "end_run Some kRestartResult res t = (Some c, fs')" by (simp add: run_restart_def session_steps)
    then obtain x m where "res = Inl x" "c = 1" "fs' = (ss_fs t)(kRestartResult \<mapsto> render_map m)"
      "m_find m ''status'' = Some ''ERROR''" by (rule end_run_error)
    with restart_body_files [of cs ?s] t show ?thesis by (auto simp: reports_error_def)
  qed
  then show "case run_restart cs Some fs of (None, fs') \<Rightarrow> True
    | (Some c, fs') \<Rightarrow> c = 1 \<and> reports_error kRestartResult fs' \<and> fs'(kRestartResult := fs kRestartResult) = fs"
    by (auto split: prod.split option.split)
qed

end
