(* ===== verification/Restart_Theorems.thy ===== *)
theory Restart_Theorems
  imports Coordinator_Theorems
begin

text \<open>
  Repeated restarts of the coordinator (\<^verbatim>\<open>tools/nic_residency_coordinator.cpp\<close>). A restarted
  run reads the state and the two frames and writes only its report, so the next restart finds
  what the last one found. In particular the advanced epoch is not persisted.
\<close>

section \<open>What a restart reads\<close>

text \<open>Two sessions that cannot be told apart by reading the state and the frames.\<close>

definition agree :: "file_system \<Rightarrow> file_system \<Rightarrow> bool" where
  "agree fs fs' \<longleftrightarrow> fs kState = fs' kState \<and> fs kWorkerA = fs' kWorkerA \<and> fs kWorkerB = fs' kWorkerB"

definition alike :: "Session \<Rightarrow> Session \<Rightarrow> bool" where
  "alike s s' \<longleftrightarrow> ss_report s = ss_report s' \<and> agree (ss_fs s) (ss_fs s')"

definition reads_inputs :: "'a session \<Rightarrow> bool" where
  "reads_inputs m \<longleftrightarrow> (\<forall>s s'. alike s s' \<longrightarrow> fst (m s) = fst (m s') \<and> alike (snd (m s)) (snd (m s')))"

named_theorems reads \<open>steps that depend on the inputs of a restart only\<close>

lemma reads_bind [reads]:
  assumes "reads_inputs m" "\<And>x. reads_inputs (f x)"
  shows "reads_inputs (ex_bind m f)"
  unfolding reads_inputs_def
proof (intro allI impI)
  fix s s' assume "alike s s'"
  then have "fst (m s) = fst (m s')" "alike (snd (m s)) (snd (m s'))"
    using assms(1) by (simp_all add: reads_inputs_def)
  then show "fst (ex_bind m f s) = fst (ex_bind m f s') \<and> alike (snd (ex_bind m f s)) (snd (ex_bind m f s'))"
    using assms(2) by (auto simp: ex_bind_def reads_inputs_def split: prod.split sum.split)
qed

lemma reads_then [reads]: "reads_inputs m \<Longrightarrow> reads_inputs k \<Longrightarrow> reads_inputs (ex_then m k)"
  unfolding ex_then_def by (rule reads_bind)

lemma reads_steps [reads]:
  "reads_inputs (report k v)" "reads_inputs (ex_return x)" "reads_inputs (ex_throw e)" "reads_inputs (session_value y)"
  "reads_inputs (on_registry op reg)" "reads_inputs (Pair r)"
  by (auto simp: reads_inputs_def alike_def report_def session_value_def on_registry_def ex_return_def ex_throw_def
      split: sum.split prod.split)

lemma reads_if [reads]: "reads_inputs m \<Longrightarrow> reads_inputs k \<Longrightarrow> reads_inputs (\<lambda>s. if c then m s else k s)"
  by (simp add: reads_inputs_def)

lemma reads_files:
  assumes "\<And>fs. reads_inputs (m fs)" "\<And>fs fs'. agree fs fs' \<Longrightarrow> m fs = m fs'"
  shows "reads_inputs (\<lambda>s. m (ss_fs s) s)"
  unfolding reads_inputs_def
proof (intro allI impI)
  fix s s' assume a: "alike s s'"
  then have "m (ss_fs s) = m (ss_fs s')" by (intro assms(2)) (simp add: alike_def)
  with a assms(1) show "fst (m (ss_fs s) s) = fst (m (ss_fs s') s') \<and> alike (snd (m (ss_fs s) s)) (snd (m (ss_fs s') s'))"
    by (simp add: reads_inputs_def)
qed

lemma agree_reads:
  assumes "agree fs fs'"
  shows "recover cs kState fs = recover cs kState fs'" "load cs kState fs = load cs kState fs'"
    "decode_worker_frame kWorkerA fs = decode_worker_frame kWorkerA fs'"
    "decode_worker_frame kWorkerB fs = decode_worker_frame kWorkerB fs'"
    "frame_ids kWorkerA fs = frame_ids kWorkerA fs'"
  using assms by (simp_all add: agree_def recover_def load_def store_exists_def decode_worker_frame_def
      frame_ids_def read_file_def)

lemma restart_reads: "reads_inputs (restart_body cs)"
proof -
  have rec: "reads_inputs (restart_recover cs)"
    unfolding restart_recover_def
    by (rule reads_files, (auto simp: Let_def split: list.split intro!: reads)[1], simp add: agree_reads(1))
  have frm: "reads_inputs (restart_frames e n)" for e n
    unfolding restart_frames_def
    by (rule reads_files, (auto simp: Let_def split: option.split prod.split intro!: reads)[1], simp add: agree_reads(3,4))
  have hist: "reads_inputs (restart_history cs e)" for e
    unfolding restart_history_def
    by (rule reads_files, (auto split: list.split intro!: reads)[1], simp add: agree_reads(2))
  have rep: "reads_inputs (restart_replay fa r)" "reads_inputs (restart_before e n w b r)"
    "reads_inputs (restart_after e n w b r)" "reads_inputs (restart_live rej r)" "reads_inputs (restart_workers ids w b r)"
    for fa r e n w b rej ids
    by (auto simp: restart_replay_def restart_before_def restart_after_def restart_live_def restart_workers_def
        Let_def split: prod.split intro!: reads)
  have wrk: "reads_inputs (\<lambda>s. restart_workers (frame_ids kWorkerA (ss_fs s)) w b r s)" for w b r
    by (rule reads_files) (simp_all add: rep agree_reads(5))
  show ?thesis
    unfolding restart_body_def by (auto split: prod.split intro!: reads rec frm hist rep wrk)
qed

section \<open>Restarts repeat each other\<close>

text \<open>
  C32: a restart is idempotent: starting the coordinator once more on the files that a restarted
  run left gives the same exit code and the same files, the report included. Whatever the first
  restart reports of its epoch, the second one reports too: the advanced epoch has not been
  persisted, and both runs act under it.
\<close>

theorem restarts_repeat: "run_restart cs Some (snd (run_restart cs Some fs)) = run_restart cs Some fs"
proof -
  let ?s = "\<lambda>fs. \<lparr>ss_report = [(''phase'', ''restart'')], ss_fs = fs\<rparr>"
  obtain res t where t: "restart_body cs (?s fs) = (res, t)" by fastforce
  have files: "ss_fs t = fs" using restart_body_files [of cs "?s fs"] t by simp
  have run: "run_restart cs Some fs' = end_run Some kRestartResult (fst (restart_body cs (?s fs'))) (snd (restart_body cs (?s fs')))" for fs'
    by (simp add: run_restart_def session_steps split: prod.split)
  have "\<exists>x. snd (run_restart cs Some fs) = fs(kRestartResult \<mapsto> x)"
    by (auto simp: run t end_run_def write_map_def write_file_def files split: sum.split prod.split)
  then obtain x where x: "snd (run_restart cs Some fs) = fs(kRestartResult \<mapsto> x)" by blast
  have "alike (?s fs) (?s (fs(kRestartResult \<mapsto> x)))"
    by (simp add: alike_def agree_def kState_def kWorkerA_def kWorkerB_def kRestartResult_def)
  with restart_reads [of cs] have "fst (restart_body cs (?s fs)) = fst (restart_body cs (?s (fs(kRestartResult \<mapsto> x)))) \<and>
      alike (snd (restart_body cs (?s fs))) (snd (restart_body cs (?s (fs(kRestartResult \<mapsto> x)))))"
    unfolding reads_inputs_def by blast
  then have again: "fst (restart_body cs (?s (fs(kRestartResult \<mapsto> x)))) = res"
    "ss_report (snd (restart_body cs (?s (fs(kRestartResult \<mapsto> x))))) = ss_report t"
    by (simp_all add: t alike_def)
  have "ss_fs (snd (restart_body cs (?s (fs(kRestartResult \<mapsto> x))))) = fs(kRestartResult \<mapsto> x)"
    by (simp add: restart_body_files)
  then show ?thesis
    unfolding x by (simp add: run again t end_run_def write_map_def write_file_def files split: sum.split prod.split)
qed


text \<open>
  So a frame that was published under the epoch of an earlier restart is not refused as stale by
  the next one, which runs under the same epoch.
\<close>

theorem earlier_restart_not_fenced:
  assumes "run_restart cs Some fs = (None, fs')" "load cs kState fs = Inr st"
    "decode_worker_frame kWorkerA fs = Some (w, b, Id (id_value (ps_epoch st) + 1), nA)"
  shows "\<exists>m. fs' kRestartResult = Some (render_map m) \<and> m_find m ''stale_epoch_rejected'' = Some ''0''"
proof -
  let ?s = "\<lparr>ss_report = [(''phase'', ''restart'')], ss_fs = fs\<rparr>"
  obtain t where t: "restart_body cs ?s = (Inr (), t)" "fs' = (ss_fs t)(kRestartResult \<mapsto> render_map (ss_report t))"
    using assms(1) by (auto simp: run_restart_def session_steps end_run_def split: prod.splits sum.splits)
  obtain e n s1 fa wB bB eB nB s2 s3 rej r2 s4 r3 s5 r4 s6 s7 where ch:
    "restart_recover cs ?s = (Inr (e, n), s1)" "restart_frames e n s1 = (Inr (fa, wB, bB, eB, nB), s2)"
    "id_valid e" "restart_replay fa (empty_registry (id_value e)) s2 = (Inr (empty_registry (id_value e)), s3)"
    "restart_workers (frame_ids kWorkerA (ss_fs s3)) wB bB (empty_registry (id_value e)) s3 = (Inr (rej, r2), s4)"
    "restart_before e n wB bB r2 s4 = (Inr r3, s5)" "restart_after e nB wB bB r3 s5 = (Inr r4, s6)"
    "restart_history cs e s6 = (Inr (), s7)" "restart_live rej r4 s7 = (Inr (), t)"
    by (rule restart_body_Inr [OF t(1)])
  have e: "e = Id (id_value (ps_epoch st) + 1)" "ss_fs s1 = fs"
    using restart_recover_Inr [OF ch(1)] assms(2) by auto
  have "fa = Some (w, b, e, nA)"
    using ch(2) e assms(3) by (auto simp: restart_frames_def session_steps Let_def split: option.splits prod.splits)
  then have "m_find (ss_report s3) ''stale_epoch_rejected'' = Some ''0''"
    using ch(4) by (auto simp: restart_replay_eq Let_def m_find_put flag_def)
  with restart_keeps(2) [OF ch(2,4-9)] show ?thesis
    using t(2) by (intro exI [of _ "ss_report t"]) simp
qed

end
