(* ===== verification/Registry_Threads.thy ===== *)
theory Registry_Threads
  imports Registry_Runs
begin

text \<open>
  The registry under several threads. Each public operation of
  \<^verbatim>\<open>include/nicresidency/registry.hpp\<close> takes the mutex first and gives it back when it is left,
  also by an exception. A thread is a list of operations; an exception its client does not
  handle ends it. A snapshot is copied field by field, so that a change in between would show.
  A schedule names the thread that goes next; a thread that waits for the mutex stays where it is.
\<close>

section \<open>The machine\<close>

text \<open>\<open>Mutate c handled\<close>: a call, and whether the client catches its exceptions.\<close>

datatype thread_op = Mutate reg_call bool | TakeSnapshot

datatype phase = Idle | Calling | Copying nat RegistrySnapshot | Leaving

record Thread =
  th_todo :: "thread_op list"
  th_phase :: phase

datatype event = Called reg_call "ResidencyError option" | Took RegistrySnapshot

record Machine =
  mc_reg :: NicRegistry
  mc_lock :: "nat option"
  mc_threads :: "Thread list"
  mc_log :: "(nat \<times> event) list"

definition snap_default :: RegistrySnapshot where
  "snap_default = \<lparr>snap_epoch = id_null, snap_nics = [], snap_functions = [], snap_ports = [],
     snap_queues = [], snap_attachments = [], snap_gpus = [], snap_residencies = [], snap_topology = None\<rparr>"

text \<open>The assignments of \<^verbatim>\<open>snapshot()\<close>, by their number.\<close>

definition copy_field :: "nat \<Rightarrow> NicRegistry \<Rightarrow> RegistrySnapshot \<Rightarrow> RegistrySnapshot" where
  "copy_field k r s =
     (if k = 0 then s\<lparr>snap_epoch := reg_epoch r\<rparr>
      else if k = 1 then s\<lparr>snap_nics := reg_nics r\<rparr>
      else if k = 2 then s\<lparr>snap_functions := reg_functions r\<rparr>
      else if k = 3 then s\<lparr>snap_ports := reg_ports r\<rparr>
      else if k = 4 then s\<lparr>snap_queues := reg_queues r\<rparr>
      else if k = 5 then s\<lparr>snap_attachments := reg_attachments r\<rparr>
      else if k = 6 then s\<lparr>snap_gpus := reg_gpus r\<rparr>
      else if k = 7 then s\<lparr>snap_residencies := reg_residencies r\<rparr>
      else s\<lparr>snap_topology := reg_topology r\<rparr>)"

definition kSnapshotFields :: nat where "kSnapshotFields = 9"

fun entered :: "thread_op \<Rightarrow> phase" where
  "entered (Mutate c handled) = Calling"
| "entered TakeSnapshot = Copying 0 snap_default"

definition set_thread :: "nat \<Rightarrow> Thread \<Rightarrow> Machine \<Rightarrow> Machine" where
  "set_thread i t m = m\<lparr>mc_threads := (mc_threads m)[i := t]\<rparr>"

text \<open>The next step of a thread; \<^term>\<open>None\<close> when it is finished or waits.\<close>

definition enter :: "nat \<Rightarrow> Thread \<Rightarrow> Machine \<Rightarrow> Machine option" where
  "enter i t m =
     (case th_todo t of
        [] \<Rightarrow> None
      | x # rest \<Rightarrow> if mc_lock m \<noteq> None then None
          else Some (set_thread i (t\<lparr>th_phase := entered x\<rparr>) (m\<lparr>mc_lock := Some i\<rparr>)))"

definition perform :: "nat \<Rightarrow> Thread \<Rightarrow> Machine \<Rightarrow> Machine option" where
  "perform i t m =
     (case th_todo t of
        Mutate c handled # rest \<Rightarrow>
          (case exec_call c (mc_reg m) of (err, r) \<Rightarrow>
             Some (set_thread i \<lparr>th_todo = (if err = None \<or> handled then rest else []), th_phase = Leaving\<rparr>
               (m\<lparr>mc_reg := r, mc_log := mc_log m @ [(i, Called c err)]\<rparr>)))
      | _ \<Rightarrow> None)"

definition copy :: "nat \<Rightarrow> Thread \<Rightarrow> nat \<Rightarrow> RegistrySnapshot \<Rightarrow> Machine \<Rightarrow> Machine option" where
  "copy i t k s m =
     (if k < kSnapshotFields then
        Some (set_thread i (t\<lparr>th_phase := Copying (Suc k) (copy_field k (mc_reg m) s)\<rparr>) m)
      else
        Some (set_thread i \<lparr>th_todo = tl (th_todo t), th_phase = Leaving\<rparr>
          (m\<lparr>mc_log := mc_log m @ [(i, Took s)]\<rparr>)))"

definition leave :: "nat \<Rightarrow> Thread \<Rightarrow> Machine \<Rightarrow> Machine" where
  "leave i t m = set_thread i (t\<lparr>th_phase := Idle\<rparr>) (m\<lparr>mc_lock := None\<rparr>)"

definition step_thread :: "nat \<Rightarrow> Machine \<Rightarrow> Machine option" where
  "step_thread i m =
     (if i < length (mc_threads m) then
        let t = mc_threads m ! i in
        case th_phase t of
          Idle \<Rightarrow> enter i t m
        | Calling \<Rightarrow> perform i t m
        | Copying k s \<Rightarrow> copy i t k s m
        | Leaving \<Rightarrow> Some (leave i t m)
      else None)"

fun run_schedule :: "nat list \<Rightarrow> Machine \<Rightarrow> Machine" where
  "run_schedule [] m = m"
| "run_schedule (i # is) m = run_schedule is (case step_thread i m of None \<Rightarrow> m | Some m' \<Rightarrow> m')"

definition start :: "NicRegistry \<Rightarrow> thread_op list list \<Rightarrow> Machine" where
  "start r progs = \<lparr>mc_reg = r, mc_lock = None, mc_threads = map (\<lambda>p. \<lparr>th_todo = p, th_phase = Idle\<rparr>) progs, mc_log = []\<rparr>"

section \<open>Sequential reading of the log\<close>

text \<open>
  The log run as one sequence of operations: the registry it ends in, or \<^term>\<open>None\<close> when one of
  the operations would not have answered as the log says.
\<close>

fun replay :: "NicRegistry \<Rightarrow> event list \<Rightarrow> NicRegistry option" where
  "replay r [] = Some r"
| "replay r (Called c err # es) = (if fst (exec_call c r) = err then replay (snd (exec_call c r)) es else None)"
| "replay r (Took s # es) = (if s = snapshot r then replay r es else None)"

text \<open>What is left of a program after the given events; \<^term>\<open>None\<close> when they are not its own in order.\<close>

fun remaining :: "thread_op list \<Rightarrow> event list \<Rightarrow> thread_op list option" where
  "remaining p [] = Some p"
| "remaining (Mutate c handled # p) (Called c' err # es) =
     (if c' = c then remaining (if err = None \<or> handled then p else []) es else None)"
| "remaining (TakeSnapshot # p) (Took s # es) = remaining p es"
| "remaining p es = None"

definition events_of :: "nat \<Rightarrow> (nat \<times> event) list \<Rightarrow> event list" where
  "events_of i log = map snd (filter (\<lambda>x. fst x = i) log)"

lemma events_of_simps [simp]:
  "events_of i [] = []" "events_of i (x # log) = (if fst x = i then [snd x] else []) @ events_of i log"
  "events_of i (log @ log') = events_of i log @ events_of i log'"
  by (simp_all add: events_of_def)

lemma events_of_pair: "events_of j (map (Pair i) es) = (if j = i then es else [])"
  by (simp add: events_of_def filter_map comp_def)

lemma replay_append: "replay r (es @ fs) = (case replay r es of None \<Rightarrow> None | Some s \<Rightarrow> replay s fs)"
  by (induction r es rule: replay.induct) simp_all

lemma remaining_append:
  "remaining p (es @ fs) = (case remaining p es of None \<Rightarrow> None | Some q \<Rightarrow> remaining q fs)"
  by (induction p es rule: remaining.induct) (simp_all split: option.split)

section \<open>The invariant\<close>

text \<open>The first \<open>k\<close> fields of a snapshot are those of the registry.\<close>

definition copied :: "nat \<Rightarrow> NicRegistry \<Rightarrow> RegistrySnapshot" where
  "copied k r = fold (\<lambda>j. copy_field j r) [0..<k] snap_default"

lemma copied_simps [simp]: "copied 0 r = snap_default" "copied (Suc k) r = copy_field k r (copied k r)"
  by (simp_all add: copied_def)

lemma copied_all: "copied kSnapshotFields r = snapshot r"
  by (simp add: kSnapshotFields_def eval_nat_numeral copy_field_def snap_default_def snapshot_def)

definition phase_ok :: "NicRegistry \<Rightarrow> Thread \<Rightarrow> bool" where
  "phase_ok r t \<longleftrightarrow>
     (case th_phase t of
        Idle \<Rightarrow> True
      | Leaving \<Rightarrow> True
      | Calling \<Rightarrow> (\<exists>c h rest. th_todo t = Mutate c h # rest)
      | Copying k s \<Rightarrow> (\<exists>rest. th_todo t = TakeSnapshot # rest) \<and> k \<le> kSnapshotFields \<and> s = copied k r)"

definition machine_inv :: "NicRegistry \<Rightarrow> thread_op list list \<Rightarrow> Machine \<Rightarrow> bool" where
  "machine_inv r progs m \<longleftrightarrow>
     length (mc_threads m) = length progs \<and>
     (\<forall>i < length progs. th_phase (mc_threads m ! i) \<noteq> Idle \<longleftrightarrow> mc_lock m = Some i) \<and>
     (\<forall>i < length progs. phase_ok (mc_reg m) (mc_threads m ! i)) \<and>
     (\<forall>i < length progs. remaining (progs ! i) (events_of i (mc_log m)) = Some (th_todo (mc_threads m ! i))) \<and>
     (\<forall>i. mc_lock m = Some i \<longrightarrow> i < length progs) \<and>
     fst ` set (mc_log m) \<subseteq> {..<length progs} \<and>
     replay r (map snd (mc_log m)) = Some (mc_reg m)"


lemma machine_inv_todo:
  "machine_inv r progs m \<Longrightarrow> i < length progs \<Longrightarrow>
     remaining (progs ! i) (events_of i (mc_log m)) = Some (th_todo (mc_threads m ! i))"
  by (simp add: machine_inv_def)

lemma machine_inv_start: "machine_inv r progs (start r progs)"
  by (auto simp: machine_inv_def start_def phase_ok_def)

text \<open>
  One thread moves: it holds the mutex or finds it free, and it answers for the events it logs.
  The others are outside, so whatever happens to the registry does not concern them.
\<close>

lemma machine_inv_move:
  assumes inv: "machine_inv r progs m" and i: "i < length progs" and lock: "mc_lock m = None \<or> mc_lock m = Some i"
    and lock': "l' = (if th_phase t' = Idle then None else Some i)"
    and t': "phase_ok r' t'" "remaining (th_todo (mc_threads m ! i)) es = Some (th_todo t')"
    and es: "replay (mc_reg m) es = Some r'"
    and m': "mc_reg m' = r'" "mc_lock m' = l'" "mc_threads m' = (mc_threads m)[i := t']"
      "mc_log m' = mc_log m @ map (Pair i) es"
  shows "machine_inv r progs m'"
proof -
  have n: "length (mc_threads m) = length progs" using inv by (simp add: machine_inv_def)
  have idle: "th_phase (mc_threads m ! j) = Idle" if "j < length progs" "j \<noteq> i" for j
    using inv lock that unfolding machine_inv_def by (metis option.distinct(1) option.inject)
  have todo: "remaining (progs ! j) (events_of j (mc_log m)) = Some (th_todo (mc_threads m ! j))" if "j < length progs" for j
    using inv that by (simp add: machine_inv_def)
  have "phase_ok r' (mc_threads m ! j)" if "j < length progs" "j \<noteq> i" for j
    using idle [OF that] by (simp add: phase_ok_def)
  then have phases: "\<forall>j < length progs. phase_ok r' ((mc_threads m)[i := t'] ! j)"
    using t'(1) n i by (auto simp: nth_list_update)
  have holds: "\<forall>j < length progs. th_phase ((mc_threads m)[i := t'] ! j) \<noteq> Idle \<longleftrightarrow> l' = Some j"
    using idle n i by (auto simp: nth_list_update lock')
  have order: "\<forall>j < length progs. remaining (progs ! j) (events_of j (mc_log m @ map (Pair i) es)) =
      Some (th_todo ((mc_threads m)[i := t'] ! j))"
    using todo t'(2) n i by (auto simp: events_of_pair remaining_append nth_list_update)
  have "replay r (map snd (mc_log m @ map (Pair i) es)) = Some r'"
    "fst ` set (mc_log m @ map (Pair i) es) \<subseteq> {..<length progs}"
    using inv es i by (auto simp: machine_inv_def replay_append comp_def)
  with phases holds order n i show ?thesis by (simp add: machine_inv_def m' lock')
qed

text \<open>The five kinds of steps, with what the invariant says of the thread.\<close>

lemma step_thread_cases [consumes 2, case_names enter perform copy took leave]:
  assumes "machine_inv r progs m" "step_thread i m = Some m'"
  obtains (enter) x rest where "th_phase (mc_threads m ! i) = Idle" "th_todo (mc_threads m ! i) = x # rest"
      "mc_lock m = None" "m' = set_thread i ((mc_threads m ! i)\<lparr>th_phase := entered x\<rparr>) (m\<lparr>mc_lock := Some i\<rparr>)"
    | (perform) c h rest err s where "th_phase (mc_threads m ! i) = Calling" "mc_lock m = Some i"
      "th_todo (mc_threads m ! i) = Mutate c h # rest" "exec_call c (mc_reg m) = (err, s)"
      "m' = set_thread i \<lparr>th_todo = (if err = None \<or> h then rest else []), th_phase = Leaving\<rparr>
         (m\<lparr>mc_reg := s, mc_log := mc_log m @ [(i, Called c err)]\<rparr>)"
    | (copy) k rest where "th_phase (mc_threads m ! i) = Copying k (copied k (mc_reg m))" "mc_lock m = Some i"
      "th_todo (mc_threads m ! i) = TakeSnapshot # rest" "k < kSnapshotFields"
      "m' = set_thread i ((mc_threads m ! i)\<lparr>th_phase := Copying (Suc k) (copied (Suc k) (mc_reg m))\<rparr>) m"
    | (took) rest where "th_phase (mc_threads m ! i) = Copying kSnapshotFields (snapshot (mc_reg m))"
      "mc_lock m = Some i" "th_todo (mc_threads m ! i) = TakeSnapshot # rest"
      "m' = set_thread i \<lparr>th_todo = rest, th_phase = Leaving\<rparr> (m\<lparr>mc_log := mc_log m @ [(i, Took (snapshot (mc_reg m)))]\<rparr>)"
    | (leave) "th_phase (mc_threads m ! i) = Leaving" "mc_lock m = Some i"
      "m' = set_thread i ((mc_threads m ! i)\<lparr>th_phase := Idle\<rparr>) (m\<lparr>mc_lock := None\<rparr>)"
proof -
  define t where "t = mc_threads m ! i"
  have i: "i < length progs" using assms by (simp add: step_thread_def machine_inv_def split: if_splits)
  have ok: "phase_ok (mc_reg m) t" and holds: "th_phase t \<noteq> Idle \<longleftrightarrow> mc_lock m = Some i"
    using assms(1) i by (simp_all add: machine_inv_def t_def)
  have step: "(case th_phase t of Idle \<Rightarrow> Registry_Threads.enter i t m | Calling \<Rightarrow> Registry_Threads.perform i t m
      | Copying k s \<Rightarrow> Registry_Threads.copy i t k s m | Leaving \<Rightarrow> Some (Registry_Threads.leave i t m)) = Some m'"
    using assms(2) unfolding t_def by (simp add: step_thread_def Let_def split: if_splits)
  show thesis
  proof (cases "th_phase t")
    case Idle
    with step show thesis
      by (auto simp: enter_def t_def split: list.splits if_splits intro: enter)
  next
    case Calling
    with ok step holds show thesis
      by (auto simp: phase_ok_def perform_def t_def split: prod.splits intro: perform)
  next
    case (Copying k s)
    then obtain rest where x: "th_todo t = TakeSnapshot # rest" "k \<le> kSnapshotFields" "s = copied k (mc_reg m)"
      using ok by (auto simp: phase_ok_def)
    show thesis
    proof (cases "k < kSnapshotFields")
      case True
      then show thesis using Copying step x holds by (intro copy) (auto simp: copy_def t_def)
    next
      case False
      then have "k = kSnapshotFields" "s = snapshot (mc_reg m)" using x(2,3) copied_all by simp_all
      then show thesis using Copying step x holds by (intro took) (auto simp: copy_def t_def)
    qed
  next
    case Leaving
    with step holds show thesis by (intro leave) (auto simp: leave_def t_def)
  qed
qed

lemma machine_inv_step:
  assumes inv: "machine_inv r progs m" and step: "step_thread i m = Some m'"
  shows "machine_inv r progs m'"
proof -
  have i: "i < length progs" using assms by (simp add: step_thread_def machine_inv_def split: if_splits)
  note move = machine_inv_move [OF inv i]
  from inv step show ?thesis
  proof (cases rule: step_thread_cases)
    case (enter x rest)
    then show ?thesis
      by (intro move [where t' = "(mc_threads m ! i)\<lparr>th_phase := entered x\<rparr>" and es = "[]"])
        (cases x; auto simp: set_thread_def phase_ok_def)+
  next
    case (perform c h rest err s)
    then show ?thesis
      by (intro move [where t' = "\<lparr>th_todo = (if err = None \<or> h then rest else []), th_phase = Leaving\<rparr>"
            and es = "[Called c err]"]) (auto simp: set_thread_def phase_ok_def)
  next
    case (copy k rest)
    then show ?thesis
      by (intro move [where t' = "(mc_threads m ! i)\<lparr>th_phase := Copying (Suc k) (copied (Suc k) (mc_reg m))\<rparr>" and es = "[]"])
        (auto simp: set_thread_def phase_ok_def)
  next
    case (took rest)
    then show ?thesis
      by (intro move [where t' = "\<lparr>th_todo = rest, th_phase = Leaving\<rparr>" and es = "[Took (snapshot (mc_reg m))]"])
        (auto simp: set_thread_def phase_ok_def)
  next
    case leave
    then show ?thesis
      by (intro move [where t' = "(mc_threads m ! i)\<lparr>th_phase := Idle\<rparr>" and es = "[]"])
        (auto simp: set_thread_def phase_ok_def)
  qed
qed

lemma machine_inv_schedule: "machine_inv r progs m \<Longrightarrow> machine_inv r progs (run_schedule is m)"
  by (induction "is" m rule: run_schedule.induct) (simp_all add: machine_inv_step split: option.split)

lemma machine_inv_run: "machine_inv r progs (run_schedule is (start r progs))"
  by (rule machine_inv_schedule [OF machine_inv_start])

end
