(* ===== verification/Thread_Theorems.thy ===== *)
theory Thread_Theorems
  imports Registry_Threads Registry_Theorems Engine Sample_States
begin

text \<open>
  What the mutex of the registry gives its clients: every concurrent execution reads as one
  sequence of operations, every fair schedule lets all threads finish, and an ingestion that a
  coordinator restart overtakes stops with at most one refused call.
\<close>

section \<open>Every execution is a sequence\<close>

text \<open>
  C4: whatever the schedule, the log of a concurrent execution is a sequential one with the same
  registry at the end and the same answers: each call raises in sequence what it raised
  concurrently, and each snapshot is that of one state of the sequence, although it is copied
  field by field. The events of each thread are its own program in order. At most the holder of
  the mutex is inside an operation.
\<close>

theorem threads_linearizable:
  "let m = run_schedule is (start r progs) in
     replay r (map snd (mc_log m)) = Some (mc_reg m) \<and>
     map (\<lambda>i. remaining (progs ! i) (events_of i (mc_log m))) [0..<length progs] =
       map (\<lambda>t. Some (th_todo t)) (mc_threads m) \<and>
     {i. i < length progs \<and> th_phase (mc_threads m ! i) \<noteq> Idle} \<subseteq> set_option (mc_lock m)"
proof -
  define m where "m = run_schedule is (start r progs)"
  have "machine_inv r progs m" unfolding m_def by (rule machine_inv_run)
  then show ?thesis
    unfolding m_def [symmetric] Let_def machine_inv_def
    by (intro conjI nth_equalityI) (auto simp: elem_set)
qed

text \<open>The registry of an execution is one that the calls in the log lead to.\<close>

fun called :: "event list \<Rightarrow> reg_call list" where
  "called [] = []"
| "called (Called c err # es) = c # called es"
| "called (Took s # es) = called es"

lemma replay_calls: "replay r es = Some s \<Longrightarrow> s = exec_calls (called es) r"
  by (induction r es rule: replay.induct) (simp_all split: if_splits)

section \<open>Every thread finishes\<close>

text \<open>The steps a thread has before it: three for a call, twelve for a snapshot.\<close>

fun op_work :: "thread_op \<Rightarrow> nat" where
  "op_work (Mutate c handled) = 3"
| "op_work TakeSnapshot = 12"

definition program_work :: "thread_op list \<Rightarrow> nat" where
  "program_work p = sum_list (map op_work p)"

definition thread_work :: "Thread \<Rightarrow> nat" where
  "thread_work t =
     (case th_phase t of
        Idle \<Rightarrow> program_work (th_todo t)
      | Calling \<Rightarrow> program_work (th_todo t) - 1
      | Copying k s \<Rightarrow> program_work (th_todo t) - (k + 1)
      | Leaving \<Rightarrow> program_work (th_todo t) + 1)"

definition machine_work :: "Machine \<Rightarrow> nat" where
  "machine_work m = sum_list (map thread_work (mc_threads m))"

definition finished :: "Machine \<Rightarrow> bool" where
  "finished m \<longleftrightarrow> mc_lock m = None \<and> (\<forall>t \<in> set (mc_threads m). th_todo t = [] \<and> th_phase t = Idle)"

lemma program_work_simps [simp]:
  "program_work [] = 0" "program_work (x # p) = op_work x + program_work p"
  by (simp_all add: program_work_def)

lemma machine_work_move:
  assumes "i < length (mc_threads m)" "mc_threads m' = (mc_threads m)[i := t']"
    "thread_work t' < thread_work (mc_threads m ! i)"
  shows "machine_work m' < machine_work m"
proof -
  have "sum_list (map thread_work (mc_threads m)) =
      sum_list (map thread_work (take i (mc_threads m))) + thread_work (mc_threads m ! i) +
      sum_list (map thread_work (drop (Suc i) (mc_threads m)))"
    using id_take_nth_drop [OF assms(1)] by (metis map_append sum_list_append list.simps(9) sum_list.Cons add.assoc)
  then show ?thesis
    using assms by (simp add: machine_work_def upd_conv_take_nth_drop)
qed

lemma step_work:
  assumes inv: "machine_inv r progs m" and step: "step_thread i m = Some m'"
  shows "machine_work m' < machine_work m"
proof -
  have "i < length (mc_threads m)" using step by (simp add: step_thread_def split: if_splits)
  note move = machine_work_move [OF this]
  from inv step show ?thesis
  proof (cases rule: step_thread_cases)
    case (enter x rest)
    then show ?thesis
      by (intro move [where t' = "(mc_threads m ! i)\<lparr>th_phase := entered x\<rparr>"])
        (cases x; simp add: set_thread_def thread_work_def)+
  next
    case (perform c h rest err s)
    then show ?thesis
      by (intro move [where t' = "\<lparr>th_todo = (if err = None \<or> h then rest else []), th_phase = Leaving\<rparr>"])
        (simp_all add: set_thread_def thread_work_def)
  next
    case (copy k rest)
    then show ?thesis
      by (intro move [where t' = "(mc_threads m ! i)\<lparr>th_phase := Copying (Suc k) (copied (Suc k) (mc_reg m))\<rparr>"])
        (simp_all add: set_thread_def thread_work_def kSnapshotFields_def)
  next
    case (took rest)
    then show ?thesis
      by (intro move [where t' = "\<lparr>th_todo = rest, th_phase = Leaving\<rparr>"])
        (simp_all add: set_thread_def thread_work_def kSnapshotFields_def)
  next
    case leave
    then show ?thesis
      by (intro move [where t' = "(mc_threads m ! i)\<lparr>th_phase := Idle\<rparr>"])
        (simp_all add: set_thread_def thread_work_def)
  qed
qed


text \<open>As long as a thread is not finished, one can go on: the holder of the mutex, or any.\<close>

lemma progress:
  assumes inv: "machine_inv r progs m" and "\<not> finished m"
  obtains i where "i < length progs" "step_thread i m \<noteq> None"
proof (cases "mc_lock m")
  case (Some i)
  then have i: "i < length progs" "th_phase (mc_threads m ! i) \<noteq> Idle" "phase_ok (mc_reg m) (mc_threads m ! i)"
    "length (mc_threads m) = length progs" using inv by (auto simp: machine_inv_def)
  then have "step_thread i m \<noteq> None"
    by (cases "th_phase (mc_threads m ! i)")
      (auto simp: step_thread_def phase_ok_def Let_def perform_def copy_def split: prod.split)
  with i(1) show thesis by (rule that)
next
  case None
  then have idle: "th_phase (mc_threads m ! j) = Idle" if "j < length progs" for j
    using inv that by (auto simp: machine_inv_def)
  have n: "length (mc_threads m) = length progs" using inv by (simp add: machine_inv_def)
  obtain t where "t \<in> set (mc_threads m)" "th_todo t \<noteq> [] \<or> th_phase t \<noteq> Idle"
    using assms(2) None by (auto simp: finished_def)
  then obtain i where i: "i < length progs" "th_todo (mc_threads m ! i) \<noteq> []"
    using idle n by (metis in_set_conv_nth)
  then have "step_thread i m \<noteq> None"
    using None idle [OF i(1)] n by (simp add: step_thread_def Let_def enter_def split: list.split)
  with i(1) show thesis by (rule that)
qed

lemma finished_stays: "finished m \<Longrightarrow> run_schedule is m = m"
proof (induction "is")
  case (Cons i "is")
  then have "step_thread i m = None" by (simp add: finished_def step_thread_def Let_def enter_def)
  with Cons show ?case by simp
qed simp

lemma run_schedule_append: "run_schedule (is @ js) m = run_schedule js (run_schedule is m)"
  by (induction "is" m rule: run_schedule.induct) simp_all

lemma schedule_work_le: "machine_inv r progs m \<Longrightarrow> machine_work (run_schedule is m) \<le> machine_work m"
proof (induction "is" arbitrary: m)
  case (Cons i "is")
  show ?case
  proof (cases "step_thread i m")
    case None
    with Cons show ?thesis by simp
  next
    case (Some m')
    with Cons machine_inv_step [OF Cons.prems Some] step_work [OF Cons.prems Some] show ?thesis by fastforce
  qed
qed simp

lemma schedule_work_less:
  "machine_inv r progs m \<Longrightarrow> i \<in> set is \<Longrightarrow> step_thread i m \<noteq> None \<Longrightarrow>
     machine_work (run_schedule is m) < machine_work m"
proof (induction "is")
  case (Cons j "is")
  show ?case
  proof (cases "step_thread j m")
    case None
    with Cons show ?thesis by auto
  next
    case (Some m')
    have "machine_work (run_schedule is m') \<le> machine_work m'"
      by (rule schedule_work_le [OF machine_inv_step [OF Cons.prems(1) Some]])
    with Some step_work [OF Cons.prems(1) Some] show ?thesis by simp
  qed
qed simp

lemma fair_schedule:
  "machine_inv r progs m \<Longrightarrow> \<forall>round \<in> set rounds. {..<length progs} \<subseteq> set round \<Longrightarrow>
     machine_work m \<le> length rounds \<Longrightarrow> finished (run_schedule (concat rounds) m)"
proof (induction rounds arbitrary: m)
  case Nil
  show ?case
  proof (rule ccontr)
    assume "\<not> finished (run_schedule (concat []) m)"
    then have "\<not> finished m" by simp
    then obtain i where "step_thread i m \<noteq> None" using progress [OF Nil.prems(1)] by blast
    then show False using step_work [OF Nil.prems(1)] Nil.prems(3) by fastforce
  qed
next
  case (Cons round rounds)
  let ?m = "run_schedule round m"
  show ?case
  proof (cases "finished m")
    case True
    then show ?thesis by (simp add: finished_stays)
  next
    case False
    then obtain i where "i < length progs" "step_thread i m \<noteq> None" using progress [OF Cons.prems(1)] by blast
    then have "machine_work ?m < machine_work m"
      using Cons.prems(2) by (intro schedule_work_less [OF Cons.prems(1)]) auto
    then show ?thesis
      using Cons machine_inv_schedule [OF Cons.prems(1)] by (simp add: run_schedule_append)
  qed
qed

lemma start_work: "machine_work (start r progs) = sum_list (map program_work progs)"
  by (simp add: machine_work_def start_def thread_work_def comp_def)

text \<open>
  C30: the mutex starves and blocks nobody for good: when every thread is scheduled at least once
  in each round, as many rounds as the programs have steps suffice for all threads to finish, the
  mutex is free then, and each thread has performed its whole program, up to the first exception
  it does not handle.
\<close>

theorem threads_finish:
  assumes "\<forall>round \<in> set rounds. {..<length progs} \<subseteq> set round"
    "sum_list (map program_work progs) \<le> length rounds"
  shows "let m = run_schedule (concat rounds) (start r progs) in
    finished m \<and> map (\<lambda>i. remaining (progs ! i) (events_of i (mc_log m))) [0..<length progs] = map (\<lambda>_. Some []) progs"
proof -
  let ?m = "run_schedule (concat rounds) (start r progs)"
  have fin: "finished ?m"
    using assms by (intro fair_schedule [OF machine_inv_start]) (simp_all add: start_work)
  have "machine_inv r progs ?m" by (rule machine_inv_run)
  with fin have "map (\<lambda>i. remaining (progs ! i) (events_of i (mc_log ?m))) [0..<length progs] = map (\<lambda>_. Some []) progs"
    by (intro nth_equalityI) (auto simp: finished_def machine_inv_def)
  with fin show ?thesis by (simp add: Let_def)
qed

theorem threads_finish_witness:
  "finished (run_schedule (concat (replicate 15 [1, 0]))
     (start sample_registry [[TakeSnapshot], [Mutate (RegisterWorker (Id 1) (Id 11)) False]]))"
  using threads_finish [of "replicate 15 [1, 0]" "[[TakeSnapshot], [Mutate (RegisterWorker (Id 1) (Id 11)) False]]" sample_registry]
  by (simp add: Let_def less_Suc_eq lessThan_def subset_iff)

section \<open>An ingestion that a restart overtakes\<close>

text \<open>The engine does not handle exceptions between the calls of an ingestion.\<close>

definition ingest_program :: "DiscoveryResult \<Rightarrow> WorkerId \<Rightarrow> WorkerBootId \<Rightarrow> CoordinatorEpoch \<Rightarrow> thread_op list" where
  "ingest_program d w b e = map (\<lambda>c. Mutate c False) (ingest_calls d w b e)"

lemma ingest_calls_auth: "c \<in> set (ingest_calls d w b e) \<Longrightarrow> call_auth c = Some (e, w, b)"
  by (auto simp: ingest_calls_def split: option.splits)

lemma remaining_length: "remaining p es = Some q \<Longrightarrow> length es \<le> length p"
  by (induction p es rule: remaining.induct) (fastforce split: if_splits)+

lemma remaining_calls:
  "remaining (map (\<lambda>c. Mutate c False) cs) es = Some q \<Longrightarrow>
     \<exists>ds. set ds \<subseteq> set cs \<and> q = map (\<lambda>c. Mutate c False) ds"
proof (induction es arbitrary: cs)
  case (Cons e es)
  then obtain c ds where cs: "cs = c # ds" by (cases cs) auto
  then obtain ds' where "set ds' \<subseteq> set cs" "remaining (map (\<lambda>c. Mutate c False) ds') es = Some q"
    using Cons.prems by (cases e) (auto split: if_splits intro: that [of "[]"])
  with Cons.IH [of ds'] show ?case by blast
qed auto

text \<open>A program that handles nothing, at a point where its next call is refused.\<close>

lemma remaining_refused:
  assumes "remaining (map (\<lambda>c. Mutate c False) cs) es = Some q" "replay s es = Some s'"
    "\<And>c. c \<in> set cs \<Longrightarrow> \<exists>err. exec_call c s = (Some err, s) \<and> P err"
  shows "s' = s \<and> (es = [] \<or> (\<exists>c err. es = [Called c (Some err)] \<and> P err))"
proof (cases es)
  case (Cons e fs)
  with assms(1) obtain c ds err where c: "cs = c # ds" "e = Called c err"
    "remaining (if err = None then map (\<lambda>c. Mutate c False) ds else []) fs = Some q"
    by (cases cs; cases e) (auto split: if_splits)
  obtain err' where err': "exec_call c s = (Some err', s)" "P err'" using assms(3) c(1) by auto
  then have "err = Some err'" "replay s fs = Some s'"
    using assms(2) Cons c(2) by (simp_all split: if_splits)
  with c(3) have "fs = []" by (cases fs) simp_all
  with \<open>err = Some err'\<close> \<open>replay s fs = Some s'\<close> err' Cons c(2) show ?thesis by simp
qed (use assms(2) in simp)


lemma replay_epoch_mono: "replay r es = Some s \<Longrightarrow> id_value (reg_epoch r) \<le> id_value (reg_epoch s)"
  using exec_calls_epoch_mono [of r "called es"] replay_calls [of r es s] by simp

text \<open>The restarting thread has one call, so after it only the other thread logs.\<close>

lemma after_only_call:
  assumes inv: "machine_inv r [p, [Mutate c h]] m" and log: "mc_log m = xs @ (1, Called c err) # ys"
  shows "ys = map (Pair 0) (map snd ys)"
proof -
  have "remaining [Mutate c h] (events_of 1 (mc_log m)) = Some (th_todo (mc_threads m ! 1))"
    using machine_inv_todo [OF inv, of 1] by simp
  from remaining_length [OF this] have "events_of 1 ys = []" by (simp add: log)
  then have "fst y \<noteq> 1" if "y \<in> set ys" for y
    using that by (auto simp: events_of_def filter_empty_conv)
  moreover have "fst ` set (mc_log m) \<subseteq> {..<2}"
    using inv by (simp add: machine_inv_def numeral_2_eq_2)
  then have "fst y < 2" if "y \<in> set ys" for y
    using that by (auto simp: log)
  ultimately have "fst y = 0" if "y \<in> set ys" for y using that by (metis less_2_cases One_nat_def)
  then have "map (\<lambda>y. (0, snd y)) ys = ys" by (intro map_idI) (simp add: prod_eq_iff)
  then show ?thesis by (simp add: comp_def)
qed

text \<open>
  C31: an ingestion under the epoch its engine read before, on one thread, and a coordinator
  restart on another: in every schedule in which the restart succeeds, the ingestion performs at
  most one more call, which is refused as STALE_EPOCH and ends it. The registry stays as the
  restart left it, so nothing of the discovery enters after it.
\<close>

theorem overtaken_ingestion_stops:
  assumes "mc_log (run_schedule is (start r [ingest_program d w b (reg_epoch r), [Mutate (CoordinatorRestart e) True]])) =
    xs @ (1, Called (CoordinatorRestart e) None) # ys"
  shows "(ys = [] \<or> (\<exists>c err. ys = [(0, Called c (Some err))] \<and> err_code err = ErrorCode.kStaleEpoch)) \<and>
    (\<exists>s. replay r (map snd xs) = Some s \<and> coordinator_restart e s =
      (Inr (), mc_reg (run_schedule is (start r [ingest_program d w b (reg_epoch r), [Mutate (CoordinatorRestart e) True]]))))"
proof -
  let ?p = "ingest_program d w b (reg_epoch r)" and ?q = "[Mutate (CoordinatorRestart e) True]"
  define m where "m = run_schedule is (start r [?p, ?q])"
  have inv: "machine_inv r [?p, ?q] m" unfolding m_def by (rule machine_inv_run)
  have log: "mc_log m = xs @ (1, Called (CoordinatorRestart e) None) # ys" using assms by (simp add: m_def)
  have "replay r (map snd xs @ Called (CoordinatorRestart e) None # map snd ys) = Some (mc_reg m)"
    using inv by (simp add: machine_inv_def log)
  then obtain s s1 where s: "replay r (map snd xs) = Some s" "coordinator_restart e s = (Inr (), s1)"
    "replay s1 (map snd ys) = Some (mc_reg m)"
    by (auto simp: replay_append outcome_def split: option.splits sum.splits if_splits) (metis prod.collapse)
  have "id_value (reg_epoch s) < id_value (reg_epoch s1)"
    using s(2) by (auto simp: coordinator_restart_def split: if_splits)
  with replay_epoch_mono [OF s(1)] have stale: "reg_epoch r \<noteq> reg_epoch s1" by auto
  have refused: "\<exists>err. exec_call c s1 = (Some err, s1) \<and> err_code err = ErrorCode.kStaleEpoch"
    if "c \<in> set (ingest_calls d w b (reg_epoch r))" for c
    using authority_error [of "reg_epoch r" s1 w b] stale exec_call_fenced [OF ingest_calls_auth [OF that], of s1]
    by metis
  have ys: "ys = map (Pair 0) (map snd ys)" by (rule after_only_call [OF inv log])
  then have "events_of 0 ys = map snd ys" using events_of_pair [of 0 0] by metis
  then have "remaining ?p (events_of 0 xs @ map snd ys) = Some (th_todo (mc_threads m ! 0))"
    using machine_inv_todo [OF inv, of 0] by (simp add: log)
  with remaining_calls [of "ingest_calls d w b (reg_epoch r)" "events_of 0 xs"] obtain cs where cs: "set cs \<subseteq> set (ingest_calls d w b (reg_epoch r))"
    "remaining (map (\<lambda>c. Mutate c False) cs) (map snd ys) = Some (th_todo (mc_threads m ! 0))"
    by (auto simp: remaining_append ingest_program_def split: option.splits)
  have "mc_reg m = s1 \<and> (map snd ys = [] \<or> (\<exists>c err. map snd ys = [Called c (Some err)] \<and> err_code err = ErrorCode.kStaleEpoch))"
    by (rule remaining_refused [OF cs(2) s(3)]) (use refused cs(1) in blast)
  with s ys show ?thesis by (auto simp flip: m_def)
qed


theorem overtaken_ingestion_stops_witness:
  "\<exists>c err. mc_log (run_schedule [1, 1, 1, 0, 0, 0] (start sample_registry
      [ingest_program (discovery_default\<lparr>dr_nics := [sample_nic 9 1]\<rparr>) (Id 1) (Id 10) (reg_epoch sample_registry),
       [Mutate (CoordinatorRestart (Id 8)) True]])) =
     [(1, Called (CoordinatorRestart (Id 8)) None), (0, Called c (Some err))] \<and> err_code err = ErrorCode.kStaleEpoch"
proof -
  let ?d = "discovery_default\<lparr>dr_nics := [sample_nic 9 1]\<rparr>"
  let ?m = "run_schedule [1, 1, 1, 0, 0, 0] (start sample_registry
      [ingest_program ?d (Id 1) (Id 10) (reg_epoch sample_registry), [Mutate (CoordinatorRestart (Id 8)) True]])"
  define r1 where "r1 = snd (coordinator_restart (Id 8) sample_registry)"
  have r1: "coordinator_restart (Id 8) sample_registry = (Inr (), r1)"
    by (simp add: r1_def coordinator_restart_def sample_registry_eq)
  obtain err where n: "exec_call (RegisterNic (sample_nic 9 1) (reg_epoch sample_registry) (Id 1) (Id 10)) r1 = err" by blast
  have log: "mc_log ?m = [] @ (1, Called (CoordinatorRestart (Id 8)) None) #
      [(0, Called (RegisterNic (sample_nic 9 1) (reg_epoch sample_registry) (Id 1) (Id 10)) (fst err))]"
    using n by (cases err)
      (simp add: start_def ingest_program_def ingest_calls_def discovery_default_def step_thread_def enter_def perform_def
        leave_def set_thread_def outcome_def r1 Let_def del: exec_call.simps(4))
  from overtaken_ingestion_stops [OF log] log show ?thesis by auto
qed

end
