(* ===== verification/Example_Programs.thy ===== *)
theory Example_Programs
  imports Inspector
begin

unbundle bit_operations_syntax

text \<open>
  The programs under \<^verbatim>\<open>examples/\<close>: each builds an engine, discovers a scenario or the real host,
  takes the result in, changes the registry and decides. Those that check an expectation end
  with exit code 1 when it fails. What is printed is the returned string, the boot identity of
  the process an argument. The outcome is \<^term>\<open>Inl\<close> an exception that leaves \<^verbatim>\<open>main\<close>, or the exit
  code with the output; \<^term>\<open>None\<close> stands for a program that does not return or follows a null
  pointer.
\<close>

section \<open>Common steps\<close>

type_synonym run = "(ResidencyError + int \<times> string) option"

text \<open>A call on the registry outside every \<^verbatim>\<open>try\<close>, with the rest of the program.\<close>

definition called :: "'a reg_op \<Rightarrow> NicRegistry \<Rightarrow> (NicRegistry \<Rightarrow> run) \<Rightarrow> run" where
  "called op r k = (case op r of (Inl err, _) \<Rightarrow> Some (Inl err) | (Inr _, s) \<Rightarrow> k s)"

text \<open>Engine, host worker, fixture, ingestion: the first lines of the fixture programs.\<close>

definition with_fixture :: "WorkerBootId \<Rightarrow> SyntheticScenario \<Rightarrow> (NicRegistry \<Rightarrow> run) \<Rightarrow> run" where
  "with_fixture boot sc k =
     (case fixture_engine boot sc of
        None \<Rightarrow> None
      | Some (Inl err) \<Rightarrow> Some (Inl err)
      | Some (Inr r) \<Rightarrow> k r)"

definition ended :: "bool \<Rightarrow> string \<Rightarrow> run" where
  "ended ok out = Some (Inr (if ok then 0 else 1, out))"

definition verdict :: "bool \<Rightarrow> string" where
  "verdict ok = newline @ (if ok then ''PASS'' else ''FAIL'')"

definition selected_text :: "ResidencyDecision \<Rightarrow> string" where
  "selected_text d = (if id_valid (dec_selected d) then c_str (id_str (dec_selected d)) else ''NONE'')"

definition overall_line :: "ResidencyDecision \<Rightarrow> string" where
  "overall_line d = ''overall='' @ ResidencyEligibility_str (dec_overall d) @ '' selected='' @ selected_text d @ newline"

definition score_line :: "CandidateResult \<Rightarrow> string" where
  "score_line c = ''  candidate='' @ c_str (id_str (cr_nic c)) @ '' elig='' @
     ResidencyEligibility_str (cr_eligibility c) @ '' score='' @ fmt_int (cr_rank_score c) @ newline"

definition id_text :: "'tag Id \<Rightarrow> string" where
  "id_text i = c_str (id_str i)"

section \<open>Discovery and selection\<close>

definition basic_discovery_main :: "WorkerBootId \<Rightarrow> run" where
  "basic_discovery_main boot = with_fixture boot kOneNicLocalToOneGpu (\<lambda>r.
     let snap = snapshot r;
         policy = policy_default\<lparr>allow_synthetic := True, policy_id := Id 7\<rparr>;
         dec = decide policy snap (Id 100) id_null id_null (Id 1)
     in Some (Inr (0,
       ''Discovered NICs ('' @ dec_digits (m_size (snap_nics snap)) @ ''):'' @ newline @
       concat (map (nic_line \<circ> snd) (snap_nics snap)) @
       newline @ ''Overall='' @ ResidencyEligibility_str (dec_overall dec) @ newline @
       ''Selected NIC='' @ selected_text dec @ newline @
       ''Explanation: '' @ c_str (dec_explanation dec) @ newline)))"

definition accelerator_affinity_main :: "WorkerBootId \<Rightarrow> run" where
  "accelerator_affinity_main boot = with_fixture boot kSamePcieSwitchPreference (\<lambda>r.
     let snap = snapshot r;
         policy = policy_default\<lparr>allow_synthetic := True\<rparr>;
         dec = decide policy snap (Id 102) id_null id_null (Id 1);
         same_switch_wins = dec_selected dec = Id 30
     in ended same_switch_wins (
       ''Candidate NICs: (same root complex, different PCIe switches)'' @ newline @
       concat (map (\<lambda>(_, n). ''  id='' @ id_text (nic_id n) @ '' pci='' @ c_str (pci_str (nic_pci n)) @
         '' numa='' @ std_to_string (id_value (nic_numa_node n)) @ newline) (snap_nics snap)) @
       newline @ ''Target GPU id='' @ id_text (Id 102 :: GpuId) @ '' (behind the same switch as the NUMA-0 NIC)'' @ newline @
       ''Overall='' @ ResidencyEligibility_str (dec_overall dec) @ newline @
       ''Selected NIC='' @ selected_text dec @ newline @
       concat (map score_line (dec_evaluated dec)) @
       verdict same_switch_wins @ '': expected same-switch NIC id='' @ id_text (Id 30 :: NicId) @ '' to win'' @ newline))"

text \<open>The NICs and the accelerator are published again with valid NUMA nodes.\<close>

definition numa_selection_main :: "WorkerBootId \<Rightarrow> run" where
  "numa_selection_main boot = with_fixture boot kTwoNicsDifferentNuma (\<lambda>r0.
     case snap_nic (snapshot r0) (Id 20) of None \<Rightarrow> None | Some n0 \<Rightarrow>
     called (register_nic (n0\<lparr>nic_generation := Generation 2, nic_numa_node := Id 1\<rparr>)
       (reg_epoch r0) (Id 1) boot) r0 (\<lambda>r1.
     case snap_nic (snapshot r1) (Id 21) of None \<Rightarrow> None | Some n1 \<Rightarrow>
     called (register_nic (n1\<lparr>nic_generation := Generation 2, nic_numa_node := Id 2\<rparr>)
       (reg_epoch r1) (Id 1) boot) r1 (\<lambda>r2.
     case snap_gpu (snapshot r2) (Id 101) of None \<Rightarrow> None | Some g0 \<Rightarrow>
     called (register_gpu (g0\<lparr>gpu_numa_node := Id 1\<rparr>) (reg_epoch r2) (Id 1) boot) r2 (\<lambda>r3.
     let snap = snapshot r3;
         policy = policy_default\<lparr>allow_synthetic := True\<rparr>;
         dec = decide policy snap (Id 101) id_null id_null (Id 1);
         ok = dec_selected dec = Id 20
     in ended ok (
       ''Candidate NICs (different NUMA nodes):'' @ newline @
       concat (map (\<lambda>(_, n). ''  id='' @ id_text (nic_id n) @
         '' numa='' @ std_to_string (id_value (nic_numa_node n)) @ '' pci='' @ c_str (pci_str (nic_pci n)) @ newline)
         (snap_nics snap)) @
       newline @ ''Target GPU id='' @ id_text (Id 101 :: GpuId) @ '' on the same NUMA node'' @ newline @
       ''Overall='' @ ResidencyEligibility_str (dec_overall dec) @ newline @
       ''Selected NIC='' @ selected_text dec @ newline @
       concat (map score_line (dec_evaluated dec)) @
       verdict ok @ '': expected the same-NUMA NIC id='' @ id_text (Id 20 :: NicId) @ newline)))))"

text \<open>The first registry takes the discovery in, the second one its NICs in reverse order.\<close>

definition tiebreak_registry_b :: "DiscoveryResult \<Rightarrow> WorkerBootId \<Rightarrow> unit reg_op" where
  "tiebreak_registry_b d boot r =
     (let e = reg_epoch r
      in ex_then (ex_each (\<lambda>n. register_nic n e (Id 1) boot) (rev (dr_nics d)))
        (ex_then (ex_each (\<lambda>g. register_gpu g e (Id 1) boot) (dr_gpus d))
          (case dr_topology d of None \<Rightarrow> ex_return () | Some t \<Rightarrow> set_topology t e (Id 1) boot)) r)"

definition tiebreak_report :: "ResidencyDecision \<Rightarrow> ResidencyDecision \<Rightarrow> nat \<times> string" where
  "tiebreak_report dA dB =
     (let none_a = \<not> id_valid (dec_selected dA); none_b = \<not> id_valid (dec_selected dB);
          differ = dec_selected dA \<noteq> dec_selected dB; other = dec_selected dA \<noteq> Id 200;
          failures = of_bool none_a + of_bool none_b + of_bool differ + of_bool other
      in (failures,
        (if none_a then ''FAIL: registry A selected no NIC'' @ newline else []) @
        (if none_b then ''FAIL: registry B selected no NIC'' @ newline else []) @
        (if differ then ''FAIL: selection depends on insertion order'' @ newline else []) @
        (if other then ''FAIL: expected the deterministic first candidate id='' @ id_text (Id 200 :: NicId) @ newline else []) @
        ''Registry A: candidates='' @ dec_digits (length (dec_candidates dA)) @ '' selected='' @ selected_text dA @ newline @
        ''Registry B: candidates='' @ dec_digits (length (dec_candidates dB)) @ '' selected='' @ selected_text dB @ newline @
        verdict (failures = 0) @ '': the same NIC was selected in both insertion orders'' @ newline))"

definition deterministic_tiebreak_main :: "WorkerBootId \<Rightarrow> WorkerBootId \<Rightarrow> run" where
  "deterministic_tiebreak_main bootA bootB =
     (case (host_engine bootA, host_engine bootB) of
        (Inl err, _) \<Rightarrow> Some (Inl err)
      | (Inr _, Inl err) \<Rightarrow> Some (Inl err)
      | (Inr a0, Inr b0) \<Rightarrow> (case synthetic_discover kDenseCandidateSet inspect_context of
            None \<Rightarrow> None
          | Some (Inl err) \<Rightarrow> Some (Inl err)
          | Some (Inr d) \<Rightarrow>
              called (ingest_current d (Id 1) bootA) a0 (\<lambda>a.
              called (tiebreak_registry_b d bootB) b0 (\<lambda>b.
              let policy = policy_default\<lparr>allow_synthetic := True\<rparr>;
                  (failures, out) = tiebreak_report
                    (decide policy (snapshot a) (Id 107) id_null id_null (Id 1))
                    (decide policy (snapshot b) (Id 107) id_null id_null (Id 1))
              in ended (failures = 0) out))))"

section \<open>Devices and backends\<close>

definition smartnic_case ::
    "WorkerBootId \<Rightarrow> SyntheticScenario \<Rightarrow> NicId \<Rightarrow> GpuId \<Rightarrow> DeviceKind \<Rightarrow> string \<Rightarrow> run" where
  "smartnic_case boot sc nic gpu expected label = with_fixture boot sc (\<lambda>r.
     let snap = snapshot r in
     case snap_nic snap nic of
       None \<Rightarrow> ended False (''['' @ label @ ''] FAIL: NIC id='' @ id_text nic @ '' not found'' @ newline)
     | Some n \<Rightarrow>
         let local_mem = cap_local_memory (nic_capability n);
             synth = prov_synthetic (nic_provenance n);
             dec = decide (policy_default\<lparr>allow_synthetic := True\<rparr>) snap gpu id_null id_null (Id 1);
             ok = nic_device_kind n = expected \<and> local_mem \<and> synth
         in ended ok (
           ''['' @ label @ ''] id='' @ id_text (nic_id n) @ '' kind='' @ DeviceKind_str (nic_device_kind n) @
           '' localmem='' @ (if local_mem then ''yes'' else ''no'') @ '' prov='' @ c_str (prov_str (nic_provenance n)) @ newline @
           ''  decision: '' @ overall_line dec @
           ''  '' @ (if ok then ''PASS'' else ''FAIL'') @ '': device_kind='' @ DeviceKind_str expected @
           '' local-memory observable, provenance SYNTHETIC'' @ newline))"

text \<open>Each case has an engine, and so a boot identity, of its own.\<close>

definition synthetic_smartnic_dpu_main :: "WorkerBootId \<Rightarrow> WorkerBootId \<Rightarrow> run" where
  "synthetic_smartnic_dpu_main boot1 boot2 =
     (case smartnic_case boot1 kSmartNicLocalMemory (Id 50) (Id 104) DeviceKind.kSmartNic ''smartnic'' of
        None \<Rightarrow> None
      | Some (Inl err) \<Rightarrow> Some (Inl err)
      | Some (Inr (f1, out1)) \<Rightarrow>
          (case smartnic_case boot2 kDpuLikeLocalMemory (Id 60) (Id 105) DeviceKind.kDpu ''dpu'' of
             None \<Rightarrow> None
           | Some (Inl err) \<Rightarrow> Some (Inl err)
           | Some (Inr (f2, out2)) \<Rightarrow>
               ended (f1 + f2 = 0) (out1 @ out2 @ verdict (f1 + f2 = 0) @ newline)))"

definition unsupported_smartnic_main :: "WorkerBootId \<Rightarrow> run" where
  "unsupported_smartnic_main boot =
     (case host_engine boot of
        Inl err \<Rightarrow> Some (Inl err)
      | Inr r0 \<Rightarrow>
          let d = unsupported_discover inspect_context in
          called (ingest_current d (Id 1) boot) r0 (\<lambda>r.
          let snap = snapshot r;
              dec = decide policy_default snap id_null id_null id_null (Id 1)
          in Some (Inr (0,
            ''Backend kind: '' @ BackendKind_str BackendKind.kUnsupported @ '' (name=unsupported)'' @ newline @
            concat (map (\<lambda>n. ''  note: '' @ c_str n @ newline) (dr_notes d)) @
            ''NICs discovered: '' @ dec_digits (m_size (snap_nics snap)) @ newline @
            ''  no SmartNIC, RDMA, SR-IOV, offload, or local-memory capability is claimed by this backend.'' @ newline @
            newline @ ''Policy decision: '' @ overall_line dec @
            ''  => no SmartNIC was invented; the capability set is UNSUPPORTED.'' @ newline))))"

text \<open>The real host: both discoveries have a handler, which only prints.\<close>

definition real_system_step :: "HostApi \<Rightarrow> WorkerBootId \<Rightarrow> NicRegistry \<Rightarrow> (NicRegistry \<times> string) option" where
  "real_system_step h boot r =
     (let failed = (\<lambda>err. ''SystemBackend: '' @ c_str (err_what err) @ newline)
      in case system_discover h inspect_context of
           None \<Rightarrow> None
         | Some (Inl err) \<Rightarrow> Some (r, failed err)
         | Some (Inr d) \<Rightarrow> (case ingest_current d (Id 1) boot r of
               (Inl err, s) \<Rightarrow> Some (s, failed err) | (Inr _, s) \<Rightarrow> Some (s, [])))"

definition real_nvidia_step :: "NvmlLibrary \<Rightarrow> WorkerBootId \<Rightarrow> NicRegistry \<Rightarrow> (NicRegistry \<times> string) option" where
  "real_nvidia_step l boot r =
     (let failed = (\<lambda>err. ''NvidiaAffinityBackend: '' @ c_str (err_what err) @ newline)
      in if nvidia_available l then
           (case nvidia_discover l inspect_context of
              None \<Rightarrow> None
            | Some (Inl err) \<Rightarrow> Some (r, failed err)
            | Some (Inr d) \<Rightarrow> (case ingest_current d (Id 1) boot r of
                  (Inl err, s) \<Rightarrow> Some (s, failed err)
                | (Inr _, s) \<Rightarrow> Some (s, ''NvidiaAffinityBackend: available'' @ newline)))
         else Some (r, ''NvidiaAffinityBackend: UNSUPPORTED (NVML not available)'' @ newline))"

definition real_system_backend_main :: "HostApi \<Rightarrow> NvmlLibrary \<Rightarrow> WorkerBootId \<Rightarrow> run" where
  "real_system_backend_main h l boot =
     (case host_engine boot of
        Inl err \<Rightarrow> Some (Inl err)
      | Inr r0 \<Rightarrow> (case real_system_step h boot r0 of
            None \<Rightarrow> None
          | Some (r1, out1) \<Rightarrow>
              (case real_nvidia_step l boot r1 of
                None \<Rightarrow> None
              | Some (r2, out2) \<Rightarrow>
              let snap = snapshot r2;
                  target = (case snap_gpus snap of [] \<Rightarrow> id_null | (i, _) # _ \<Rightarrow> i);
                  dec = decide policy_default snap target id_null id_null (Id 1)
              in Some (Inr (0, out1 @ out2 @
                newline @ ''NICs ('' @ dec_digits (m_size (snap_nics snap)) @ ''):'' @ newline @
                concat (map (\<lambda>(_, n). ''  id='' @ id_text (nic_id n) @ '' os='' @ c_str (nic_os_name n) @
                  '' pci='' @ c_str (pci_str (nic_pci n)) @ '' prov='' @ c_str (prov_str (nic_provenance n)) @ newline)
                  (snap_nics snap)) @
                ''Accelerators ('' @ dec_digits (m_size (snap_gpus snap)) @ ''):'' @ newline @
                concat (map (\<lambda>(_, g). ''  id='' @ id_text (gpu_id g) @ '' name='' @ c_str (gpu_name g) @
                  '' pci='' @ c_str (pci_str (gpu_pci g)) @ '' prov='' @ c_str (prov_str (gpu_provenance g)) @ newline)
                  (snap_gpus snap)) @
                (if m_size (snap_nics snap) = 0 \<and> m_size (snap_gpus snap) = 0
                 then newline @ ''Nothing available on this host.'' @ newline else []) @
                newline @ ''Policy decision: '' @ overall_line dec @
                c_str (snap_summary snap) @ newline)))))"

section \<open>Authority and generations\<close>

definition stale_generation_main :: "WorkerBootId \<Rightarrow> run" where
  "stale_generation_main boot = with_fixture boot kOneNicLocalToOneGpu (\<lambda>r0.
     let policy = policy_default\<lparr>allow_synthetic := True\<rparr>; snap = snapshot r0 in
     case snap_nic snap (Id 10) of
       None \<Rightarrow> ended False (''FAIL: NIC id='' @ id_text (Id 10 :: NicId) @ '' not found'' @ newline)
     | Some first \<Rightarrow>
         let before = decide policy snap (Id 100) id_null id_null (Id 1) in
         called (advance_nic_generation (Id 10) (reg_epoch r0) (Id 1) boot) r0 (\<lambda>r1.
         case snap_nic (snapshot r1) (Id 10) of None \<Rightarrow> None | Some advanced \<Rightarrow>
         called (register_nic (advanced\<lparr>nic_generation := Generation 3,
             nic_lifecycle := LifecycleState.kRevalidationRequired\<rparr>) (reg_epoch r1) (Id 1) boot) r1 (\<lambda>r2.
         let after_dec = decide policy (snapshot r2) (Id 100) id_null id_null (Id 1);
             ok = dec_overall after_dec = ResidencyEligibility.kRevalidationRequired
         in ended ok (
           ''NIC id='' @ id_text (nic_id first) @ '' generation='' @ c_str (gen_str (nic_generation first)) @ newline @
           newline @ ''Decision BEFORE generation advance:'' @ newline @ ''  '' @ overall_line before @
           newline @ ''Advanced NIC generation -> new generation:'' @ newline @
           ''  NIC id='' @ id_text (nic_id advanced) @ '' generation='' @ c_str (gen_str (nic_generation advanced)) @ newline @
           newline @ ''Decision AFTER generation advance (device requires revalidation):'' @ newline @
           ''  '' @ overall_line after_dec @
           concat (map (\<lambda>c. ''  candidate='' @ id_text (cr_nic c) @ '' elig='' @
             ResidencyEligibility_str (cr_eligibility c) @ newline @
             concat (map (\<lambda>x. ''      reject: '' @ c_str (rej_name x) @ ''  ('' @ c_str (rej_detail x) @ '')'' @ newline)
               (cr_rejections c))) (dec_evaluated after_dec)) @
           verdict ok @ '': the advanced device is reported REVALIDATION_REQUIRED'' @ newline))))"

definition attachment_line :: "Attachment option \<Rightarrow> string" where
  "attachment_line a = (case a of None \<Rightarrow> []
     | Some x \<Rightarrow> ''Attachment id='' @ id_text (att_id x) @ '' state='' @ AttachmentState_str (att_state x) @
         '' (topology gen '' @ c_str (gen_str (att_topology_generation x)) @ '')'' @ newline)"

definition snap_attachment :: "RegistrySnapshot \<Rightarrow> AttachmentId \<Rightarrow> Attachment option" where
  "snap_attachment s i = m_find (snap_attachments s) i"

definition example_attachment :: "CoordinatorEpoch \<Rightarrow> WorkerBootId \<Rightarrow> Attachment" where
  "example_attachment e boot = att_default\<lparr>att_id := Id 1, att_generation := Generation 1,
     att_nic := Id 10, att_function := Id 10, att_port := Id 10, att_queue := Id 10, att_gpu := Id 100,
     att_numa := id_null, att_topology_generation := Generation 1, att_state := AttachmentState.kCommitted,
     att_owner_worker := Id 1, att_owner_boot := boot, att_epoch := e,
     att_provenance := mk_prov EvidenceKind.kSynthetic [Source.kSyntheticFixture], att_freshness := 1\<rparr>"

definition attachment_invalidation_main :: "WorkerBootId \<Rightarrow> run" where
  "attachment_invalidation_main boot = with_fixture boot kOneNicLocalToOneGpu (\<lambda>r0.
     called (register_attachment (example_attachment (reg_epoch r0) boot) (reg_epoch r0) (Id 1) boot) r0 (\<lambda>r1.
     let a0 = snap_attachment (snapshot r1) (Id 1);
         ctx2 = context_default\<lparr>ctx_freshness := 1, ctx_topology_generation := Generation 2\<rparr>
     in case synthetic_discover kOneNicLocalToOneGpu ctx2 of
          None \<Rightarrow> None
        | Some (Inl err) \<Rightarrow> Some (Inl err)
        | Some (Inr d2) \<Rightarrow> (case dr_topology d2 of None \<Rightarrow> None | Some t \<Rightarrow>
            called (set_topology t (reg_epoch r1) (Id 1) boot) r1 (\<lambda>r2.
            let a1 = snap_attachment (snapshot r2) (Id 1);
                ok = (case a1 of None \<Rightarrow> False | Some x \<Rightarrow> att_state x = AttachmentState.kStale)
            in ended ok (attachment_line a0 @ attachment_line a1 @
              verdict ok @ '': the attachment became STALE after the topology change'' @ newline)))))"

definition example_residency :: "CoordinatorEpoch \<Rightarrow> WorkerBootId \<Rightarrow> ResidencyRecord" where
  "example_residency e boot = res_default\<lparr>res_id := Id 1, res_generation := Generation 1, res_nic := Id 10,
     res_function := Id 10, res_port := Id 10, res_queue := Id 10, res_target_gpu := Id 100,
     res_state := ResidencyState.kResident, res_topology_generation := Generation 1,
     res_ownership := OwnershipState.kAssigned, res_owner_worker := Id 1, res_owner_boot := boot,
     res_epoch := e, res_policy := Id 1,
     res_provenance := mk_prov EvidenceKind.kSynthetic [Source.kSyntheticFixture], res_freshness := 1,
     res_lifecycle := LifecycleState.kResident\<rparr>"

definition front_state :: "NicRegistry \<Rightarrow> ResidencyState option" where
  "front_state r = (case reg_residencies r of [] \<Rightarrow> None | x # _ \<Rightarrow> Some (res_state x))"

definition worker_incarnation_main :: "WorkerBootId \<Rightarrow> run" where
  "worker_incarnation_main bootA = with_fixture bootA kOneNicLocalToOneGpu (\<lambda>r0.
     let bootB = Id (id_value bootA + 1);
         (res, r1) = register_worker (Id 1) bootB r0;
         conflict = (case res of Inl err \<Rightarrow> err_code err = ErrorCode.kOwnerConflict | Inr _ \<Rightarrow> False);
         out1 = (case res of Inl err \<Rightarrow> ''register_worker(boot B) threw: '' @ c_str (err_what err) @ newline | Inr _ \<Rightarrow> [])
           @ verdict conflict @ '': different boot id for the same worker is OWNER_CONFLICT'' @ newline
     in if \<not> conflict then ended False out1
        else
          called (publish_residency (example_residency (reg_epoch r1) bootA) (reg_epoch r1) (Id 1) bootA) r1 (\<lambda>r2.
          case front_state r2 of None \<Rightarrow> None | Some before \<Rightarrow>
          called (worker_retired (Id 1) bootA) r2 (\<lambda>r3.
          case front_state r3 of None \<Rightarrow> None | Some after \<Rightarrow>
          let ok = after = ResidencyState.kRevalidationRequired
          in ended ok (out1 @ ''Residency before retire: state='' @ ResidencyState_str before @ newline @
            ''Residency after retire:  state='' @ ResidencyState_str after @ newline @
            verdict ok @ '': retiring the worker marks its dynamic state REVALIDATION_REQUIRED'' @ newline))))"

end
