(* ===== verification/Example_Theorems.thy ===== *)
theory Example_Theorems
  imports Example_Programs Inspector_Theorems
begin

unbundle bit_operations_syntax

text \<open>
  The example programs do what they announce: whatever the boot identities of the process and
  whatever the host answers, each returns with exit code 0. Behind this are the selections on
  the fixture topologies, derived from the definition of the rank and not by running them.
\<close>

section \<open>The registry the programs start from\<close>

definition exits_ok :: "run \<Rightarrow> bool" where
  "exits_ok r = (case r of Some (Inr (c, out)) \<Rightarrow> c = 0 | _ \<Rightarrow> False)"

lemma exits_ok_simps [simp]:
  "exits_ok (Some (Inr (c, out))) \<longleftrightarrow> c = 0" "\<not> exits_ok None" "\<not> exits_ok (Some (Inl err))"
  by (simp_all add: exits_ok_def)

lemma exits_ok_ended [simp]: "exits_ok (ended ok out) \<longleftrightarrow> ok"
  by (simp add: ended_def)

abbreviation fixture :: "SyntheticScenario \<Rightarrow> Fixture" where
  "fixture sc \<equiv> scenario_body sc inspect_context (fixture_start sc)"

text \<open>What a registry holds after a fixture went through the engine.\<close>

definition holds_fixture :: "SyntheticScenario \<Rightarrow> NicRegistry \<Rightarrow> bool" where
  "holds_fixture sc s \<longleftrightarrow>
     reg_nics s = m_load nic_id (\<lambda>n. n\<lparr>nic_freshness := 0\<rparr>) (dr_nics (fx_out (fixture sc))) [] \<and>
     reg_gpus s = m_load gpu_id (\<lambda>g. g) (dr_gpus (fx_out (fixture sc))) [] \<and>
     reg_functions s = m_load fn_id (\<lambda>f. f) (dr_functions (fx_out (fixture sc))) [] \<and>
     reg_ports s = m_load port_id (\<lambda>p. p) (dr_ports (fx_out (fixture sc))) [] \<and>
     reg_queues s = m_load queue_id (\<lambda>q. q) (dr_queues (fx_out (fixture sc))) [] \<and>
     reg_attachments s = [] \<and> reg_residencies s = [] \<and> reg_epoch s = Id 1"

lemma holds_fixture_nics:
  "holds_fixture sc s \<Longrightarrow>
     reg_nics s = m_load nic_id (\<lambda>n. n\<lparr>nic_freshness := 0\<rparr>) (dr_nics (fx_out (fixture sc))) []"
  by (simp add: holds_fixture_def)

definition fixture_topology :: "SyntheticScenario \<Rightarrow> TopologySnapshot \<Rightarrow> bool" where
  "fixture_topology sc t \<longleftrightarrow> (\<exists>b. build (Generation 1) b = Some t \<and> builder_inv b \<and>
     tb_nodes b = m_load tn_id (\<lambda>n. n) (fx_nodes (fixture sc)) [])"

lemma fixture_topology_nodes:
  assumes "fixture_topology sc t"
  shows "top_nodes t = m_load tn_id (\<lambda>n. n) (fx_nodes (fixture sc)) []" "top_generation t = Generation 1"
  using assms build_fields by (auto simp: fixture_topology_def)

lemma fixture_registry:
  obtains s t where "fixture_engine boot sc = Some (Inr s)" "holds_fixture sc s" "has_authority (Id 1) (Id 1) boot s"
    "reg_topology s = Some t" "fixture_topology sc t"
proof -
  obtain r m b t where r: "fresh_engine (Id 1) (Id 1) boot r"
    "fixture_engine boot sc = Some (Inr (with_children (fx_out (fixture sc))
       (with_devices ((fx_out (fixture sc))\<lparr>dr_topology := Some t\<rparr>) r\<lparr>reg_worker_nics := m\<rparr>)))"
    "build (Generation 1) b = Some t" "builder_inv b" "tb_nodes b = m_load tn_id (\<lambda>n. n) (fx_nodes (fixture sc)) []"
    by (rule fixture_engine_result [of boot sc])
  show thesis
  proof (rule that [OF r(2)])
    show "fixture_topology sc t" using r(3-5) by (auto simp: fixture_topology_def)
  qed (use fresh_engine_fields [OF r(1)] fresh_engine_empty [OF r(1)] in
      \<open>simp_all add: holds_fixture_def with_children_def with_devices_def EnsureAuthority_def\<close>)
qed

lemma with_fixture_ok:
  assumes "\<And>s t. holds_fixture sc s \<Longrightarrow> has_authority (Id 1) (Id 1) boot s \<Longrightarrow> reg_topology s = Some t \<Longrightarrow>
      fixture_topology sc t \<Longrightarrow> exits_ok (k s)"
  shows "exits_ok (with_fixture boot sc k)"
proof -
  obtain s t where "fixture_engine boot sc = Some (Inr s)" "holds_fixture sc s" "has_authority (Id 1) (Id 1) boot s"
    "reg_topology s = Some t" "fixture_topology sc t"
    by (rule fixture_registry [of boot sc])
  then show ?thesis using assms by (simp add: with_fixture_def)
qed

section \<open>Selections\<close>

text \<open>A NIC that beats every other allowed one is selected.\<close>

lemma decide_unique_best:
  assumes "n \<in> set (allowed_nics p reg gpu nn)"
    and "\<And>m. m \<in> set (allowed_nics p reg gpu nn) \<Longrightarrow> nic_id m \<noteq> nic_id n \<Longrightarrow> \<not> preferred p reg gpu nn m n"
  shows "dec_selected (decide p reg gpu nn ep wl) = nic_id n"
proof -
  have "allowed_nics p reg gpu nn \<noteq> []" using assms(1) by auto
  from decide_best [OF this] obtain x where x: "x \<in> set (allowed_nics p reg gpu nn)"
    "\<And>m. m \<in> set (allowed_nics p reg gpu nn) \<Longrightarrow> preferred p reg gpu nn x m"
    "std_sort candidate_less (map (evaluate p reg gpu nn) (allowed_nics p reg gpu nn)) =
       evaluate p reg gpu nn x # tl (std_sort candidate_less (map (evaluate p reg gpu nn) (allowed_nics p reg gpu nn)))"
    by metis
  have "nic_id x = nic_id n" using assms x(1,2) by metis
  then show ?thesis using decide_selected(1) [OF x(3)] by simp
qed

abbreviation demo_policy :: ResidencyPolicy where
  "demo_policy \<equiv> policy_default\<lparr>allow_synthetic := True\<rparr>"

text \<open>The policy of the programs admits every usable labelled NIC.\<close>

definition usable :: "NicRecord \<Rightarrow> bool" where
  "usable n \<longleftrightarrow> prov_kind (nic_provenance n) \<in> {EvidenceKind.kReal, EvidenceKind.kSynthetic} \<and>
     id_valid (nic_id n) \<and> usable_lifecycle (nic_lifecycle n)"

lemma demo_admissible: "admissible demo_policy reg n gpu x \<longleftrightarrow> usable n"
  by (simp add: admissible_def usable_def policy_default_def capable_def local_enough_def)

lemma demo_allowed:
  assumes "m_size (snap_nics reg) \<le> 1024" "\<forall>(i, n) \<in> set (snap_nics reg). usable n"
  shows "set (allowed_nics demo_policy reg gpu x) = snd ` set (snap_nics reg)"
proof -
  have "considered_nics demo_policy reg = map snd (snap_nics reg)"
    using assms(1) by (simp add: considered_nics_def policy_default_def m_size_def)
  then show ?thesis using assms(2) by (force simp: allowed_nics_def demo_admissible)
qed

lemma usable_make_nic: "usable (make_nic i name pci n ctx b c) \<longleftrightarrow> i \<noteq> 0"
  by (simp add: usable_def make_nic_def syn_def usable_lifecycle_def id_valid_def)

lemma usable_update [simp]:
  "usable (n\<lparr>nic_freshness := f\<rparr>) = usable n" "usable (n\<lparr>nic_generation := g, nic_numa_node := m\<rparr>) = usable n"
  by (simp_all add: usable_def)

text \<open>Its rank for an accelerator target on a known topology.\<close>

lemma demo_rank:
  assumes "snap_topology reg = Some t" "id_valid gpu" "snap_gpu reg gpu = Some g"
  shows "rank demo_policy reg n gpu id_null =
     (let near = id_valid (gpu_numa_node g) \<and> nic_numa_node n = gpu_numa_node g; a = nic_pci n; c = gpu_pci g
      in (if same_pcie_switch t a c then - 40 else 0) + (if same_root_complex t a c then - 20 else 0) +
         (if near \<or> same_numa_node t a c then - 10 else 0) + (if near then - 55 else 0))"
  using assms
  by (auto simp: rank_def locality_of_def target_gpu_rec_def policy_default_def Let_def id_valid_def id_null_def)

text \<open>Without a topology node of the accelerator only its NUMA node counts.\<close>

lemma demo_rank_unplaced:
  assumes "snap_topology reg = Some t" "id_valid gpu" "snap_gpu reg gpu = Some g"
    and "node_for_pci t (gpu_pci g) = None" "id_valid (gpu_numa_node g)"
  shows "rank demo_policy reg n gpu id_null = (if nic_numa_node n = gpu_numa_node g then - 65 else 0)"
  using same_known [of t "nic_pci n" "gpu_pci g"] assms(4,5)
  by (auto simp: demo_rank [OF assms(1-3)] Let_def)

section \<open>Discovery and selection\<close>

lemma basic_discovery_ok: "exits_ok (basic_discovery_main boot)"
  unfolding basic_discovery_main_def by (rule with_fixture_ok) (simp add: Let_def)

lemmas fixture_records = push_nic_def push_function_def add_gpu_def add_dev_node_def fixture_start_def
  discovery_default_def make_nic_def make_function_def make_port_def make_queue_def make_gpu_def
  preference_body_def Let_def

lemma same_switch_nodes:
  assumes "fixture_topology kSamePcieSwitchPreference t"
  shows "same_pcie_switch t (mk_pci 0 1 0 0) (mk_pci 0 1 0 1)" "same_root_complex t (mk_pci 0 1 0 0) (mk_pci 0 1 0 1)"
    "\<not> same_pcie_switch t (mk_pci 0 2 0 0) (mk_pci 0 1 0 1)"
proof -
  obtain b where b: "build (Generation 1) b = Some t" "builder_inv b"
    "tb_nodes b = m_load tn_id (\<lambda>n. n) (fx_nodes (fixture kSamePcieSwitchPreference)) []"
    using assms by (auto simp: fixture_topology_def)
  define dev where "dev = (\<lambda>i bus fn sw. mk_node (Id i) (mk_pci 0 bus 0 fn) TopologyNodeKind.kDevice sw (numa 0) syn)"
  have nodes: "tb_nodes b = map (\<lambda>n. (tn_id n, n)) (base_nodes @ [dev 1000 1 0 sw0, dev 1001 2 0 sw1, dev 1002 1 1 sw0])"
    by (simp add: b(3) fixture_records base_nodes_def dev_def sws less_Id_def)
  note list = nodes base_nodes_def dev_def sws
  have top: "top_nodes t = tb_nodes b" by (rule build_fields(2) [OF b(1)])
  have found: "node_for_pci t (mk_pci 0 1 0 0) = Some (base_nodes ! 2)"
    "node_for_pci t (mk_pci 0 2 0 0) = Some (base_nodes ! 3)"
    "node_for_pci t (mk_pci 0 1 0 1) = Some (dev 1002 1 1 sw0)"
    by (simp_all add: node_for_pci_def top list pci_eq_def pci_numeric_def)
  have path1: "parent_path (tb_nodes b) (Id 101) [base_nodes ! 2, base_nodes ! 0]"
    unfolding list by (simp, (rule parent_path.up, simp add: id_valid_def, simp, simp)+, rule parent_path.stop)
      (simp add: id_valid_def id_null_def)
  have path2: "parent_path (tb_nodes b) (Id 102) [base_nodes ! 3, base_nodes ! 0]"
    unfolding list by (simp, (rule parent_path.up, simp add: id_valid_def, simp, simp)+, rule parent_path.stop)
      (simp add: id_valid_def id_null_def)
  have path3: "parent_path (tb_nodes b) (Id 1002) [dev 1002 1 1 sw0, base_nodes ! 2, base_nodes ! 0]"
    unfolding list by (simp, (rule parent_path.up, simp add: id_valid_def, simp, simp)+, rule parent_path.stop)
      (simp add: id_valid_def id_null_def)
  have has: "m_has (tb_nodes b) (Id 101)" "m_has (tb_nodes b) (Id 102)" "m_has (tb_nodes b) (Id 1002)"
    by (simp_all add: m_has_def list)
  have "root_complex_of t (Id 101) = Id 1" "switch_of t (Id 101) = Id 101" "switch_of t (Id 102) = Id 102"
    "root_complex_of t (Id 1002) = Id 1" "switch_of t (Id 1002) = Id 101"
    using build_ancestors [OF b(1,2) has(1) path1] build_ancestors [OF b(1,2) has(2) path2]
      build_ancestors [OF b(1,2) has(3) path3]
    by (simp_all add: base_nodes_def dev_def sws)
  then show "same_pcie_switch t (mk_pci 0 1 0 0) (mk_pci 0 1 0 1)" "same_root_complex t (mk_pci 0 1 0 0) (mk_pci 0 1 0 1)"
    "\<not> same_pcie_switch t (mk_pci 0 2 0 0) (mk_pci 0 1 0 1)"
    by (simp_all add: same_pcie_switch_def same_root_complex_def found)
      (simp_all add: base_nodes_def dev_def sws id_valid_def)
qed

lemma accelerator_affinity_ok: "exits_ok (accelerator_affinity_main boot)"
  unfolding accelerator_affinity_main_def
proof (rule with_fixture_ok)
  fix s t assume s: "holds_fixture kSamePcieSwitchPreference s" "reg_topology s = Some t"
    and t: "fixture_topology kSamePcieSwitchPreference t"
  define nic where "nic = (\<lambda>i name bus. (make_nic i name (mk_pci 0 bus 0 0) (numa 0) inspect_context True False)
    \<lparr>nic_freshness := 0\<rparr>)"
  let ?a = "nic 30 ''synth-nic-sw0'' 1" and ?b = "nic 31 ''synth-nic-sw1'' 2"
  let ?g = "make_gpu 102 (mk_pci 0 1 0 1) (numa 0) inspect_context" and ?reg = "snapshot s"
  have nics: "snap_nics ?reg = [(Id 30, ?a), (Id 31, ?b)]"
    using s(1) by (simp add: holds_fixture_def snapshot_def nic_def fixture_records less_Id_def)
  have gpu: "snap_gpu ?reg (Id 102) = Some ?g"
    using s(1) by (simp add: holds_fixture_def snapshot_def snap_gpu_def fixture_records)
  have top: "snap_topology ?reg = Some t" using s(2) by (simp add: snapshot_def)
  have v: "id_valid (Id 102 :: GpuId)" by (simp add: id_valid_def)
  note rank = demo_rank [OF top v gpu] and near = same_switch_nodes [OF t]
  have ranks: "rank demo_policy ?reg ?a (Id 102) id_null < rank demo_policy ?reg ?b (Id 102) id_null"
    unfolding rank by (simp add: nic_def make_nic_def make_gpu_def near numa_def id_valid_def)
  have allowed: "set (allowed_nics demo_policy ?reg (Id 102) id_null) = {?a, ?b}"
    by (subst demo_allowed) (simp_all add: nics nic_def usable_make_nic m_size_def)
  have "dec_selected (decide demo_policy ?reg (Id 102) id_null id_null (Id 1)) = nic_id ?a"
    by (rule decide_unique_best) (use ranks in \<open>auto simp: allowed preferred_def\<close>)
  then show "exits_ok (let snap = snapshot s; policy = demo_policy;
         dec = decide policy snap (Id 102) id_null id_null (Id 1);
         same_switch_wins = dec_selected dec = Id 30
     in ended same_switch_wins (out snap dec same_switch_wins))" for out
    by (simp add: Let_def nic_def make_nic_def)
qed

lemma register_nic_newer:
  assumes "has_authority e w b r" "id_valid (nic_id n)" "m_size (reg_nics r) < kMaxNics"
    "m_find (reg_nics r) (nic_id n) = Some old" "nic_generation old < nic_generation n"
  obtains m where "register_nic n e w b r = (Inr (nic_generation n),
      r\<lparr>reg_worker_nics := m, reg_nics := m_put (nic_id n) (n\<lparr>nic_freshness := 0\<rparr>) (reg_nics r)\<rparr>)"
proof -
  have "nic_generation n \<noteq> nic_generation old" "\<not> nic_generation n < nic_generation old"
    using assms(5) by auto
  with assms(1-4) have "\<exists>m. register_nic n e w b r = (Inr (nic_generation n),
      r\<lparr>reg_worker_nics := m, reg_nics := m_put (nic_id n) (n\<lparr>nic_freshness := 0\<rparr>) (reg_nics r)\<rparr>)"
    unfolding register_nic_def Let_def by (intro exI) simp
  with that show thesis by blast
qed

text \<open>A NIC of a fixture as the registry stores it, and the two of the NUMA example after they were published again.\<close>

definition stored_nic :: "u64 \<Rightarrow> string \<Rightarrow> u8 \<Rightarrow> NumaNodeId \<Rightarrow> NicRecord" where
  "stored_nic i name bus n = (make_nic i name (mk_pci 0 bus 0 0) n inspect_context True False)\<lparr>nic_freshness := 0\<rparr>"

definition near_nic :: NicRecord where
  "near_nic = (stored_nic 20 ''synth-nic-numa0'' 1 (numa 0))\<lparr>nic_generation := Generation 2, nic_numa_node := Id 1\<rparr>"

definition far_nic :: NicRecord where
  "far_nic = (stored_nic 21 ''synth-nic-numa1'' 0x81 (numa 1))\<lparr>nic_generation := Generation 2, nic_numa_node := Id 2\<rparr>"

definition near_gpu :: GpuRecord where
  "near_gpu = (make_gpu 101 (mk_pci 0 1 0 1) (numa 0) inspect_context)\<lparr>gpu_numa_node := Id 1\<rparr>"

lemma stored_nic_fields [simp]:
  "nic_id (stored_nic i name bus n) = Id i" "nic_generation (stored_nic i name bus n) = Generation 1"
  "nic_freshness (stored_nic i name bus n) = 0"
  by (simp_all add: stored_nic_def make_nic_def)

lemma near_far_fields [simp]:
  "nic_id near_nic = Id 20" "nic_id far_nic = Id 21" "nic_generation near_nic = Generation 2"
  "nic_generation far_nic = Generation 2" "near_nic\<lparr>nic_freshness := 0\<rparr> = near_nic" "far_nic\<lparr>nic_freshness := 0\<rparr> = far_nic"
  by (simp_all add: near_nic_def far_nic_def stored_nic_def make_nic_def)

lemma near_nic_selected:
  assumes "snap_nics reg = [(Id 20, near_nic), (Id 21, far_nic)]" "snap_topology reg = Some t"
    "snap_gpu reg (Id 101) = Some near_gpu" and t: "fixture_topology kTwoNicsDifferentNuma t"
  shows "dec_selected (decide demo_policy reg (Id 101) id_null id_null (Id 1)) = Id 20"
proof -
  have none: "node_for_pci t (gpu_pci near_gpu) = None" and valid: "id_valid (gpu_numa_node near_gpu)"
    by (simp_all add: node_for_pci_def fixture_topology_nodes [OF t] fixture_records base_nodes_def sws less_Id_def
        pci_eq_def pci_numeric_def id_valid_def near_gpu_def)
  have id: "id_valid (Id 101 :: GpuId)" by (simp add: id_valid_def)
  have "rank demo_policy reg near_nic (Id 101) id_null < rank demo_policy reg far_nic (Id 101) id_null"
    unfolding demo_rank_unplaced [OF assms(2) id assms(3) none valid]
    by (simp add: near_nic_def far_nic_def near_gpu_def stored_nic_def make_nic_def)
  moreover have "set (allowed_nics demo_policy reg (Id 101) id_null) = {near_nic, far_nic}"
    by (subst demo_allowed)
      (simp_all only: assms(1), simp_all add: near_nic_def far_nic_def stored_nic_def usable_make_nic m_size_def)
  ultimately have "dec_selected (decide demo_policy reg (Id 101) id_null id_null (Id 1)) = nic_id near_nic"
    by (intro decide_unique_best) (auto simp: preferred_def)
  then show ?thesis by simp
qed

lemma numa_selection_ok: "exits_ok (numa_selection_main boot)"
  unfolding numa_selection_main_def
proof (rule with_fixture_ok)
  fix s t assume s: "holds_fixture kTwoNicsDifferentNuma s" "reg_topology s = Some t"
    and auth: "has_authority (Id 1) (Id 1) boot s" and t: "fixture_topology kTwoNicsDifferentNuma t"
  let ?a = "stored_nic 20 ''synth-nic-numa0'' 1 (numa 0)" and ?b = "stored_nic 21 ''synth-nic-numa1'' 0x81 (numa 1)"
  let ?g = "make_gpu 101 (mk_pci 0 1 0 1) (numa 0) inspect_context"
  have nics: "reg_nics s = [(Id 20, ?a), (Id 21, ?b)]" and gpus: "reg_gpus s = [(Id 101, ?g)]"
    and e: "reg_epoch s = Id 1"
    using s(1) by (simp_all add: holds_fixture_def stored_nic_def fixture_records less_Id_def)
  obtain m1 where r1: "register_nic near_nic (Id 1) (Id 1) boot s =
      (Inr (Generation 2), s\<lparr>reg_worker_nics := m1, reg_nics := [(Id 20, near_nic), (Id 21, ?b)]\<rparr>)"
    by (rule register_nic_newer [OF auth, of near_nic ?a])
      (simp_all add: nics id_valid_def m_size_def kMaxNics_def less_Generation_def)
  let ?s1 = "s\<lparr>reg_worker_nics := m1, reg_nics := [(Id 20, near_nic), (Id 21, ?b)]\<rparr>"
  have "has_authority (Id 1) (Id 1) boot ?s1" using auth by simp
  then obtain m2 where r2: "register_nic far_nic (Id 1) (Id 1) boot ?s1 =
      (Inr (Generation 2), ?s1\<lparr>reg_worker_nics := m2, reg_nics := [(Id 20, near_nic), (Id 21, far_nic)]\<rparr>)"
    by (rule register_nic_newer [of _ _ _ _ far_nic ?b])
      (simp_all add: id_valid_def m_size_def kMaxNics_def less_Generation_def less_Id_def)
  let ?s2 = "s\<lparr>reg_worker_nics := m2, reg_nics := [(Id 20, near_nic), (Id 21, far_nic)]\<rparr>"
  let ?s3 = "?s2\<lparr>reg_gpus := [(Id 101, near_gpu)]\<rparr>"
  have r3: "register_gpu near_gpu (Id 1) (Id 1) boot ?s2 = (Inr (), ?s3)"
    using auth by (simp add: register_gpu_def gpus near_gpu_def make_gpu_def id_valid_def m_size_def kMaxGpus_def)
  have find: "snap_nic (snapshot r) i = m_find (reg_nics r) i" "snap_gpu (snapshot r) j = m_find (reg_gpus r) j" for r i j
    by (simp_all add: snap_nic_def snap_gpu_def snapshot_def)
  have best: "dec_selected (decide demo_policy (snapshot ?s3) (Id 101) id_null id_null (Id 1)) = Id 20"
    by (rule near_nic_selected [OF _ _ _ t]) (use s(2) in \<open>simp_all add: snapshot_def snap_gpu_def\<close>)
  show "exits_ok (case snap_nic (snapshot s) (Id 20) of None \<Rightarrow> None | Some n0 \<Rightarrow>
     called (register_nic (n0\<lparr>nic_generation := Generation 2, nic_numa_node := Id 1\<rparr>)
       (reg_epoch s) (Id 1) boot) s (\<lambda>r1.
     case snap_nic (snapshot r1) (Id 21) of None \<Rightarrow> None | Some n1 \<Rightarrow>
     called (register_nic (n1\<lparr>nic_generation := Generation 2, nic_numa_node := Id 2\<rparr>)
       (reg_epoch r1) (Id 1) boot) r1 (\<lambda>r2.
     case snap_gpu (snapshot r2) (Id 101) of None \<Rightarrow> None | Some g0 \<Rightarrow>
     called (register_gpu (g0\<lparr>gpu_numa_node := Id 1\<rparr>) (reg_epoch r2) (Id 1) boot) r2 (\<lambda>r3.
     let snap = snapshot r3; policy = demo_policy;
         dec = decide policy snap (Id 101) id_null id_null (Id 1);
         ok = dec_selected dec = Id 20
     in ended ok (out snap dec ok)))))" for out
    using r2 best
    by (simp add: find nics gpus e called_def r1 r3 Let_def near_nic_def [symmetric] far_nic_def [symmetric]
        near_gpu_def [symmetric])
qed

text \<open>The dense scenario: 200 NICs on two NUMA nodes, and an accelerator without a topology node.\<close>

definition dense_pci :: "u64 \<Rightarrow> PciAddress" where
  "dense_pci i = mk_pci 0 (if i mod 2 = 0 then 0x01 else 0x81) (ucast ((i div 2) AND 0x1F)) (ucast (i mod 8))"

definition dense_nic :: "u64 \<Rightarrow> NicRecord" where
  "dense_nic i = make_nic (200 + i) ''synth-dense'' (dense_pci i) (if i mod 2 = 0 then numa 0 else numa 1)
     inspect_context True False"

lemma dense_round_eq:
  "dr_nics (fx_out (dense_round inspect_context i fx)) = dr_nics (fx_out fx) @ [dense_nic i]"
  "\<exists>par n. fx_nodes (dense_round inspect_context i fx) =
     fx_nodes fx @ [mk_node (Id (2000 + i)) (dense_pci i) TopologyNodeKind.kDevice par n syn]"
  by (simp_all add: dense_round_def Let_def push_nic_def add_dev_node_def dense_nic_def dense_pci_def)

lemma dense_loop_eq:
  "dr_nics (fx_out (for_loop (dense_round inspect_context) is fx)) =
     dr_nics (fx_out fx) @ map (\<lambda>i. dense_nic (word_of_nat i)) is"
  "tn_pci ` set (fx_nodes (for_loop (dense_round inspect_context) is fx)) =
     tn_pci ` set (fx_nodes fx) \<union> (\<lambda>i. dense_pci (word_of_nat i)) ` set is"
proof (induction "is" arbitrary: fx)
  case (Cons i "is")
  { case 1 show ?case by (simp add: Cons.IH(1) dense_round_eq(1)) }
  { case 2
    obtain par n where "fx_nodes (dense_round inspect_context (word_of_nat i) fx) =
        fx_nodes fx @ [mk_node (Id (2000 + word_of_nat i)) (dense_pci (word_of_nat i)) TopologyNodeKind.kDevice par n syn]"
      using dense_round_eq(2) by blast
    then show ?case by (simp add: Cons.IH(2)) }
qed simp_all

lemma dense_pci_function: "\<not> pci_eq (dense_pci i) (mk_pci 0 1 0 1)"
proof
  have fn: "unat (ucast (i mod 8) :: u8) = unat i mod 8"
    by (simp add: unsigned_ucast_eq take_bit_eq_mod unat_mod)
  have dev: "unat (ucast ((i div 2) AND 0x1F) :: u8) < 32"
  proof -
    have "(i div 2) AND 0x1F < 32" using and_mask_less' [of 5 "i div 2"] by (simp add: mask_numeral)
    then have "unat ((i div 2) AND 0x1F) < 32" by (simp add: word_less_nat_alt)
    then show ?thesis by (simp add: unsigned_ucast_eq take_bit_eq_mod)
  qed
  assume "pci_eq (dense_pci i) (mk_pci 0 1 0 1)"
  moreover have "pci_canonical (dense_pci i)" "pci_canonical (mk_pci 0 1 0 1)"
    using dev by (simp_all add: pci_canonical_def dense_pci_def word_less_nat_alt fn)
  ultimately have eq: "dense_pci i = mk_pci 0 1 0 1" using pci_eq_canonical by blast
  then have "i mod 2 = 0" by (auto simp: dense_pci_def split: if_splits)
  then have "unat i mod 2 = 0" using unat_mod [of i 2] by simp
  moreover have "unat i mod 8 = 1" using arg_cong [OF eq, of "unat \<circ> pci_function"] by (simp add: dense_pci_def fn)
  ultimately show False by presburger
qed

lemma dense_fixture:
  "dr_nics (fx_out (fixture kDenseCandidateSet)) = map (\<lambda>i. dense_nic (word_of_nat i)) [0..<200]"
  "dr_gpus (fx_out (fixture kDenseCandidateSet)) = [make_gpu 107 (mk_pci 0 1 0 1) (numa 0) inspect_context]"
  "\<forall>n \<in> set (fx_nodes (fixture kDenseCandidateSet)). \<not> pci_eq (tn_pci n) (mk_pci 0 1 0 1)"
proof -
  let ?loop = "for_loop (dense_round inspect_context) [0..<200] (fixture_start kDenseCandidateSet)"
  have fx: "fixture kDenseCandidateSet = add_gpu 107 (mk_pci 0 1 0 1) (numa 0) inspect_context ?loop" by simp
  show "dr_nics (fx_out (fixture kDenseCandidateSet)) = map (\<lambda>i. dense_nic (word_of_nat i)) [0..<200]"
    unfolding fx by (simp add: add_gpu_def dense_loop_eq(1) fixture_start_def discovery_default_def del: upt_Suc)
  show "dr_gpus (fx_out (fixture kDenseCandidateSet)) = [make_gpu 107 (mk_pci 0 1 0 1) (numa 0) inspect_context]"
    unfolding fx by (simp add: add_gpu_def dense_loop_others fixture_start_def discovery_default_def)
  have "\<forall>p \<in> tn_pci ` set (fx_nodes ?loop). \<not> pci_eq p (mk_pci 0 1 0 1)"
    unfolding dense_loop_eq(2) ball_Un
    by (intro conjI) (simp add: fixture_start_def base_nodes_def pci_eq_def pci_numeric_def, simp add: dense_pci_function)
  then show "\<forall>n \<in> set (fx_nodes (fixture kDenseCandidateSet)). \<not> pci_eq (tn_pci n) (mk_pci 0 1 0 1)"
    unfolding fx by (simp add: add_gpu_def)
qed

lemma m_load_size: "m_inv m \<Longrightarrow> m_size (m_load key val xs m) \<le> m_size m + length xs"
proof (induction xs arbitrary: m)
  case (Cons x xs)
  have "m_size (m_load key val xs (m_put (key x) (val x) m)) \<le> m_size (m_put (key x) (val x) m) + length xs"
    using Cons.prems by (intro Cons.IH) simp
  then show ?case using Cons.prems by (auto split: if_splits)
qed simp

lemma dense_id: "i < 200 \<Longrightarrow> unat (200 + word_of_nat i :: u64) = 200 + i"
  by (simp add: unat_word_ariths unsigned_of_nat take_bit_eq_mod)

lemma dense_nic_fields [simp]:
  "nic_id (dense_nic i) = Id (200 + i)" "nic_numa_node (dense_nic i) = (if i mod 2 = 0 then numa 0 else numa 1)"
  "usable (dense_nic i) \<longleftrightarrow> 200 + i \<noteq> 0"
  by (simp_all add: dense_nic_def usable_make_nic) (simp_all add: make_nic_def)

lemma dense_selected:
  assumes "snap_nics reg = m_load nic_id (\<lambda>n. n\<lparr>nic_freshness := 0\<rparr>) (dr_nics (fx_out (fixture kDenseCandidateSet))) []"
    and "snap_gpus reg = m_load gpu_id (\<lambda>g. g) (dr_gpus (fx_out (fixture kDenseCandidateSet))) []"
    and "snap_topology reg = Some t" "top_nodes t = m_load tn_id (\<lambda>n. n) (fx_nodes (fixture kDenseCandidateSet)) []"
  shows "dec_selected (decide demo_policy reg (Id 107) id_null ep wl) = Id 200"
proof -
  let ?nic = "\<lambda>i. (dense_nic (word_of_nat i))\<lparr>nic_freshness := 0\<rparr>" and ?xs = "map (\<lambda>i. dense_nic (word_of_nat i)) [0..<200]"
  let ?g = "make_gpu 107 (mk_pci 0 1 0 1) (numa 0) inspect_context" and ?rank = "\<lambda>n. rank demo_policy reg n (Id 107) id_null"
  have "distinct (map nic_id ?xs)" using dense_id_inj by (auto simp: distinct_map inj_on_def)
  then have nics: "set (snap_nics reg) = (\<lambda>i. (Id (200 + word_of_nat i), ?nic i)) ` {0..<200}"
    unfolding assms(1) dense_fixture(1) by (simp add: m_load_set image_image del: upt_Suc)
  have "m_size (snap_nics reg) \<le> 200"
    using m_load_size [of "[]" nic_id "\<lambda>n. n\<lparr>nic_freshness := 0\<rparr>" ?xs]
    unfolding assms(1) dense_fixture(1) by (simp add: m_size_def del: upt_Suc)
  moreover have "usable (?nic i)" if "i < 200" for i
    using dense_id [OF that] by (auto simp del: unat_eq_zero)
  ultimately have allowed: "set (allowed_nics demo_policy reg (Id 107) id_null) = ?nic ` {0..<200}"
    by (subst demo_allowed) (auto simp: nics image_image)
  have gpu: "snap_gpu reg (Id 107) = Some ?g" "id_valid (Id 107 :: GpuId)" "id_valid (gpu_numa_node ?g)"
    unfolding snap_gpu_def assms(2) dense_fixture(2) by (simp_all add: make_gpu_def numa_def id_valid_def)
  have "distinct (map tn_id (fx_nodes (fixture kDenseCandidateSet)))"
    using scenario_ok [of kDenseCandidateSet inspect_context] by (simp add: fixture_ok_def staged_ok_def)
  then have "node_for_pci t (gpu_pci ?g) = None"
    using dense_fixture(3) by (auto simp: node_for_pci_def assms(4) first_pci_None m_load_set make_gpu_def)
  note rank = demo_rank_unplaced [OF assms(3) gpu(2,1) this gpu(3)]
  have ranks: "?rank (?nic 0) = - 65" "?rank (?nic 0) \<le> ?rank n" for n
    unfolding rank by (simp_all add: make_gpu_def)
  have later: "Id 200 < nic_id (?nic i)" if "i < 200" "nic_id (?nic i) \<noteq> Id 200" for i
    using that dense_id [OF that(1)] by (cases "i = 0") (auto simp: less_Id_def word_less_nat_alt)
  have "dec_selected (decide demo_policy reg (Id 107) id_null ep wl) = nic_id (?nic 0)"
  proof (rule decide_unique_best)
    fix m assume "m \<in> set (allowed_nics demo_policy reg (Id 107) id_null)" and ne: "nic_id m \<noteq> nic_id (?nic 0)"
    then obtain i where i: "i < 200" "m = ?nic i" unfolding allowed by auto
    then have "nic_id (?nic 0) < nic_id m" using later [of i] ne by simp
    with ranks(2) [of m] show "\<not> preferred demo_policy reg (Id 107) id_null m (?nic 0)"
      by (auto simp: preferred_def)
  qed (unfold allowed, rule imageI, simp)
  then show ?thesis by simp
qed

lemma reversed_ok: "discovery_ok d \<Longrightarrow> discovery_ok (d\<lparr>dr_nics := rev (dr_nics d)\<rparr>)"
  by (simp add: discovery_ok_def flip: rev_map)

lemma tiebreak_agrees:
  "dec_selected dA = Id 200 \<Longrightarrow> dec_selected dB = Id 200 \<Longrightarrow> tiebreak_report dA dB = (n, out) \<Longrightarrow> n = 0"
  by (auto simp: tiebreak_report_def Let_def id_valid_def)

lemma deterministic_tiebreak_ok: "exits_ok (deterministic_tiebreak_main bootA bootB)"
proof -
  let ?out = "fx_out (fixture kDenseCandidateSet)"
  obtain b t where d: "synthetic_discover kDenseCandidateSet inspect_context = Some (Inr (?out\<lparr>dr_topology := Some t\<rparr>))"
    "build (Generation 1) b = Some t" "tb_nodes b = m_load tn_id (\<lambda>n. n) (fx_nodes (fixture kDenseCandidateSet)) []"
    by (rule fixture_build [of kDenseCandidateSet inspect_context])
      (simp add: inspect_context_def context_default_def)
  define dd where "dd = ?out\<lparr>dr_topology := Some t\<rparr>"
  have ok: "discovery_ok dd" using fixture_consistent [OF d(1)] by (simp add: dd_def)
  have nodes: "top_nodes t = m_load tn_id (\<lambda>n. n) (fx_nodes (fixture kDenseCandidateSet)) []"
    by (simp add: build_fields(2) [OF d(2)] d(3))
  obtain a0 where a0: "host_engine bootA = Inr a0" "fresh_engine (Id 1) (Id 1) bootA a0"
    using host_engine_fresh by blast
  obtain b0 where b0: "host_engine bootB = Inr b0" "fresh_engine (Id 1) (Id 1) bootB b0"
    using host_engine_fresh by blast
  obtain m where a: "ingest dd (Id 1) bootA (Id 1) a0 = (Inr (), with_children dd ((with_devices dd a0)\<lparr>reg_worker_nics := m\<rparr>))"
    by (rule ingest_fresh [OF a0(2) ok])
  let ?a = "with_children dd ((with_devices dd a0)\<lparr>reg_worker_nics := m\<rparr>)"
  let ?rd = "dd\<lparr>dr_nics := rev (dr_nics dd)\<rparr>"
  obtain r1 r2 k where "ex_each (\<lambda>n. register_nic n (Id 1) (Id 1) bootB) (rev (dr_nics dd)) b0 = (Inr (), r1)"
    "ex_each (\<lambda>g. register_gpu g (Id 1) (Id 1) bootB) (dr_gpus dd) r1 = (Inr (), r2)"
    "load_topology (dr_topology dd) (Id 1) (Id 1) bootB r2 = (Inr (), (with_devices ?rd b0)\<lparr>reg_worker_nics := k\<rparr>)"
    using ingest_devices [OF b0(2) reversed_ok [OF ok]] by auto
  then have b: "tiebreak_registry_b dd bootB b0 = (Inr (), (with_devices ?rd b0)\<lparr>reg_worker_nics := k\<rparr>)"
    by (simp add: tiebreak_registry_b_def Let_def ex_then_def ex_bind_def fresh_engine_fields(2) [OF b0(2)])
  let ?b = "(with_devices ?rd b0)\<lparr>reg_worker_nics := k\<rparr>"
  have "m_load nic_id v (rev (dr_nics dd)) [] = m_load nic_id v (dr_nics dd) []" for v :: "NicRecord \<Rightarrow> NicRecord"
    using ok by (intro m_load_perm) (simp_all add: discovery_ok_def)
  then have "dec_selected (decide demo_policy (snapshot ?b) (Id 107) id_null id_null (Id 1)) = Id 200"
    by (intro dense_selected [OF _ _ _ nodes]) (simp_all add: snapshot_def with_devices_def dd_def)
  moreover have "dec_selected (decide demo_policy (snapshot ?a) (Id 107) id_null id_null (Id 1)) = Id 200"
    by (intro dense_selected [OF _ _ _ nodes])
      (simp_all add: snapshot_def with_devices_def with_children_def dd_def)
  ultimately show ?thesis
    unfolding deterministic_tiebreak_main_def a0(1) b0(1) d(1) dd_def [symmetric]
    by (simp add: ingest_current_def fresh_engine_fields(2) [OF a0(2)] called_def a b Let_def tiebreak_agrees
        split: prod.split)
qed

section \<open>Devices and backends\<close>

lemma smartnic_case_ok:
  assumes "dr_nics (fx_out (fixture sc)) = [n]" "nic_id n = i" "nic_device_kind n = kind"
    "cap_local_memory (nic_capability n)" "nic_provenance n = syn"
  shows "exits_ok (smartnic_case boot sc i gpu kind label)"
  unfolding smartnic_case_def
proof (rule with_fixture_ok)
  fix s assume "holds_fixture sc s"
  then have "snap_nic (snapshot s) i = Some (n\<lparr>nic_freshness := 0\<rparr>)"
    using assms(1,2) by (simp add: snap_nic_def snapshot_def holds_fixture_nics)
  then show "exits_ok (let snap = snapshot s in
     case snap_nic snap i of None \<Rightarrow> ended False missing
     | Some n \<Rightarrow> let local_mem = cap_local_memory (nic_capability n); synth = prov_synthetic (nic_provenance n);
         dec = decide demo_policy snap gpu id_null id_null (Id 1);
         ok = nic_device_kind n = kind \<and> local_mem \<and> synth
       in ended ok (out snap n local_mem synth dec ok))" for missing out
    using assms by (simp add: Let_def syn_def prov_synthetic_def)
qed

lemma exits_okD: "exits_ok r \<Longrightarrow> \<exists>out. r = Some (Inr (0, out))"
  by (auto simp: exits_ok_def split: option.splits sum.splits prod.splits)

lemma synthetic_smartnic_dpu_ok: "exits_ok (synthetic_smartnic_dpu_main boot1 boot2)"
proof -
  have "exits_ok (smartnic_case boot1 kSmartNicLocalMemory (Id 50) (Id 104) DeviceKind.kSmartNic ''smartnic'')"
    by (rule smartnic_case_ok) (simp_all add: fixture_records, simp_all add: cap_default_def)
  then obtain o1 where o1: "smartnic_case boot1 kSmartNicLocalMemory (Id 50) (Id 104) DeviceKind.kSmartNic ''smartnic'' =
      Some (Inr (0, o1))" by (auto dest: exits_okD)
  have "exits_ok (smartnic_case boot2 kDpuLikeLocalMemory (Id 60) (Id 105) DeviceKind.kDpu ''dpu'')"
    by (rule smartnic_case_ok) (simp_all add: fixture_records, simp_all add: cap_default_def)
  then obtain o2 where "smartnic_case boot2 kDpuLikeLocalMemory (Id 60) (Id 105) DeviceKind.kDpu ''dpu'' =
      Some (Inr (0, o2))" by (auto dest: exits_okD)
  with o1 show ?thesis by (simp add: synthetic_smartnic_dpu_main_def)
qed

lemma unsupported_smartnic_ok: "exits_ok (unsupported_smartnic_main boot)"
proof -
  obtain r where r: "host_engine boot = Inr r" using host_engine_fresh by blast
  have "ingest_current (unsupported_discover inspect_context) (Id 1) boot r = (Inr (), r)"
    by (simp add: ingest_current_def ingest_def unsupported_discover_def discovery_default_def ex_then_def ex_bind_def)
  then show ?thesis by (simp add: unsupported_smartnic_main_def r Let_def called_def)
qed

lemma real_system_backend_ok:
  "case real_system_backend_main h l boot of None \<Rightarrow> name_missing l inspect_context
    | Some x \<Rightarrow> exits_ok (Some x)"
proof -
  obtain r where r: "host_engine boot = Inr r" using host_engine_fresh by blast
  obtain x where "system_discover h inspect_context = Some x" using system_discover_returns by blast
  then have "\<exists>y. real_system_step h boot r = Some y"
    by (auto simp: real_system_step_def Let_def split: sum.split prod.split)
  then obtain s o1 where s: "real_system_step h boot r = Some (s, o1)" by auto
  have "real_nvidia_step l boot s = None \<Longrightarrow> name_missing l inspect_context"
    using nvidia_discover_None [of l inspect_context]
    by (auto simp: real_nvidia_step_def Let_def split: option.splits sum.splits prod.splits if_splits)
  then show ?thesis
    by (cases "real_nvidia_step l boot s") (auto simp: real_system_backend_main_def r s Let_def)
qed

section \<open>Authority and generations\<close>

text \<open>The only NIC of the one-NIC scenario.\<close>

definition only_nic :: NicRecord where
  "only_nic = (make_nic 10 ''synth-nic0'' (mk_pci 0 1 0 0) (numa 0) inspect_context True False)\<lparr>nic_freshness := 0\<rparr>"

lemma only_nic_fields [simp]:
  "nic_id only_nic = Id 10" "nic_generation only_nic = Generation 1" "nic_provenance only_nic = syn"
  by (simp_all add: only_nic_def make_nic_def)

lemma one_nic_tables:
  assumes "holds_fixture kOneNicLocalToOneGpu s"
  shows "reg_nics s = [(Id 10, only_nic)]" "map fst (reg_functions s) = [Id 10]" "map fst (reg_ports s) = [Id 10]"
    "map fst (reg_queues s) = [Id 10]" "reg_attachments s = []" "reg_residencies s = []" "reg_epoch s = Id 1"
  using assms by (simp_all add: holds_fixture_def only_nic_def fixture_records)

lemma attachment_invalidation_ok: "exits_ok (attachment_invalidation_main boot)"
  unfolding attachment_invalidation_main_def
proof (rule with_fixture_ok)
  fix s t assume s: "holds_fixture kOneNicLocalToOneGpu s" "reg_topology s = Some t"
    and auth: "has_authority (Id 1) (Id 1) boot s" and t: "fixture_topology kOneNicLocalToOneGpu t"
  note tables = one_nic_tables [OF s(1)]
  let ?ctx = "context_default\<lparr>ctx_freshness := 1, ctx_topology_generation := Generation 2\<rparr>"
  let ?att = "example_attachment (Id 1) boot"
  let ?s1 = "s\<lparr>reg_attachments := [(Id 1, ?att)]\<rparr>"
  have has: "m_has (reg_functions s) (Id 10)" "m_has (reg_ports s) (Id 10)" "m_has (reg_queues s) (Id 10)"
    using tables(2-4) by (auto simp: m_has_def map_of_eq_None_iff simp flip: list.set_map)
  have r1: "register_attachment ?att (Id 1) (Id 1) boot s = (Inr (Generation 1), ?s1)"
    using auth has by (simp add: register_attachment_def example_attachment_def tables m_size_def kMaxAttachments_def
        id_valid_def gen_valid_def m_has_def)
  obtain b t2 where d2: "synthetic_discover kOneNicLocalToOneGpu ?ctx =
      Some (Inr ((fx_out (scenario_body kOneNicLocalToOneGpu ?ctx (fixture_start kOneNicLocalToOneGpu)))\<lparr>dr_topology := Some t2\<rparr>))"
    "build (ctx_topology_generation ?ctx) b = Some t2"
    by (rule fixture_build)
  have gens: "top_generation t2 = Generation 2" "top_generation t = Generation 1"
    using build_fields(1) [OF d2(2)] fixture_topology_nodes(2) [OF t] by simp_all
  let ?s2 = "?s1\<lparr>reg_topology := Some t2, reg_attachments := [(Id 1, att_invalidate ?att)]\<rparr>"
  have "has_authority (Id 1) (Id 1) boot ?s1" using auth EnsureAuthority_cong [of ?s1 s] by simp
  then have r2: "set_topology t2 (Id 1) (Id 1) boot ?s1 = (Inr (), ?s2)"
    using s(2) gens tables(6) by (simp add: set_topology_def m_foreach_def less_Generation_def)
  show "exits_ok (called (register_attachment (example_attachment (reg_epoch s) boot) (reg_epoch s) (Id 1) boot) s (\<lambda>r1.
     let a0 = snap_attachment (snapshot r1) (Id 1);
         ctx2 = context_default\<lparr>ctx_freshness := 1, ctx_topology_generation := Generation 2\<rparr>
     in case synthetic_discover kOneNicLocalToOneGpu ctx2 of
          None \<Rightarrow> None
        | Some (Inl err) \<Rightarrow> Some (Inl err)
        | Some (Inr d2) \<Rightarrow> (case dr_topology d2 of None \<Rightarrow> None | Some t \<Rightarrow>
            called (set_topology t (reg_epoch r1) (Id 1) boot) r1 (\<lambda>r2.
            let a1 = snap_attachment (snapshot r2) (Id 1);
                ok = (case a1 of None \<Rightarrow> False | Some x \<Rightarrow> att_state x = AttachmentState.kStale)
            in ended ok (out a0 a1 ok)))))" for out
    by (simp add: tables(7) called_def r1 d2(1) r2 Let_def snap_attachment_def snapshot_def
        att_invalidate_def del: scenario_body.simps)
qed

lemma stale_generation_ok: "exits_ok (stale_generation_main boot)"
  unfolding stale_generation_main_def
proof (rule with_fixture_ok)
  fix s t assume s: "holds_fixture kOneNicLocalToOneGpu s" and auth: "has_authority (Id 1) (Id 1) boot s"
  note tables = one_nic_tables [OF s]
  let ?n1 = "only_nic\<lparr>nic_generation := Generation 2\<rparr>"
  let ?n2 = "only_nic\<lparr>nic_generation := Generation 3, nic_lifecycle := LifecycleState.kRevalidationRequired\<rparr>"
  define s1 where "s1 = snd (advance_nic_generation (Id 10) (Id 1) (Id 1) boot s)"
  have s1: "advance_nic_generation (Id 10) (Id 1) (Id 1) boot s = (Inr (), s1)" "reg_nics s1 = [(Id 10, ?n1)]"
    "reg_epoch s1 = Id 1" "reg_workers s1 = reg_workers s"
    using auth by (simp_all add: s1_def advance_nic_generation_def tables gen_next_def)
  have fresh: "?n2\<lparr>nic_freshness := 0\<rparr> = ?n2" by (simp add: only_nic_def make_nic_def)
  have "has_authority (Id 1) (Id 1) boot s1" using auth EnsureAuthority_cong [of s1 s] s1(3,4) tables(7) by simp
  then obtain m where s2: "register_nic ?n2 (Id 1) (Id 1) boot s1 =
      (Inr (Generation 3), s1\<lparr>reg_worker_nics := m, reg_nics := [(Id 10, ?n2)]\<rparr>)"
    by (rule register_nic_newer [of _ _ _ _ ?n2 ?n1])
      (simp_all only: fresh, simp_all add: s1(2) id_valid_def m_size_def kMaxNics_def less_Generation_def)
  let ?reg = "snapshot (s1\<lparr>reg_worker_nics := m, reg_nics := [(Id 10, ?n2)]\<rparr>)"
  have cons: "considered_nics demo_policy ?reg = [?n2]"
    by (simp add: considered_nics_def snapshot_def policy_default_def)
  have check: "fst (hard_check demo_policy ?reg ?n2 (Id 100) id_null) = ResidencyEligibility.kRevalidationRequired"
    by (simp add: hard_check_def syn_def prov_synthetic_def prov_unsupported_def policy_default_def id_valid_def)
  have "\<not> usable ?n2" by (simp add: usable_def usable_lifecycle_def)
  then have "allowed_nics demo_policy ?reg (Id 100) id_null = []"
    by (simp add: allowed_nics_def cons demo_admissible)
  from decide_unselected(3) [OF this] have
    "dec_overall (decide demo_policy ?reg (Id 100) id_null id_null (Id 1)) = ResidencyEligibility.kRevalidationRequired"
    by (simp add: cons check)
  then show "exits_ok (let policy = demo_policy; snap = snapshot s in
     case snap_nic snap (Id 10) of
       None \<Rightarrow> ended False missing
     | Some first \<Rightarrow>
         let before = decide policy snap (Id 100) id_null id_null (Id 1) in
         called (advance_nic_generation (Id 10) (reg_epoch s) (Id 1) boot) s (\<lambda>r1.
         case snap_nic (snapshot r1) (Id 10) of None \<Rightarrow> None | Some advanced \<Rightarrow>
         called (register_nic (advanced\<lparr>nic_generation := Generation 3,
             nic_lifecycle := LifecycleState.kRevalidationRequired\<rparr>) (reg_epoch r1) (Id 1) boot) r1 (\<lambda>r2.
         let after_dec = decide policy (snapshot r2) (Id 100) id_null id_null (Id 1);
             ok = dec_overall after_dec = ResidencyEligibility.kRevalidationRequired
         in ended ok (out first before advanced after_dec ok))))" for missing out
    using s2 by (simp add: snap_nic_def snapshot_def tables called_def s1 Let_def)
qed

lemma worker_incarnation_ok: "exits_ok (worker_incarnation_main boot)"
  unfolding worker_incarnation_main_def
proof (rule with_fixture_ok)
  fix s t assume s: "holds_fixture kOneNicLocalToOneGpu s" and auth: "has_authority (Id 1) (Id 1) boot s"
  note tables = one_nic_tables [OF s]
  obtain h where h: "m_find (reg_workers s) (Id 1) = Some h" "wh_boot h = boot"
    using auth by (auto simp: EnsureAuthority_def split: if_splits option.splits)
  have "wh_boot h \<noteq> Id (id_value boot + 1)" using h(2) by (cases boot) simp
  then have b: "register_worker (Id 1) (Id (id_value boot + 1)) s = (Inl (ResidencyError ErrorCode.kOwnerConflict
      ''worker already active with a different boot id'' (''worker='' @ id_str (Id 1 :: WorkerId))), s)"
    by (simp add: register_worker_def h)
  let ?res = "example_residency (Id 1) boot"
  have has: "m_has (reg_functions s) (Id 10)" "m_has (reg_ports s) (Id 10)" "m_has (reg_queues s) (Id 10)"
    using tables(2-4) by (auto simp: m_has_def map_of_eq_None_iff simp flip: list.set_map)
  have r1: "publish_residency ?res (Id 1) (Id 1) boot s = (Inr ?res, s\<lparr>reg_residencies := [?res]\<rparr>)"
    using auth has by (simp add: publish_residency_def example_residency_def tables kMaxResidencies_def
        id_valid_def m_has_def)
  have disowned: "res_state (res_disown (Id 1) boot ?res) = ResidencyState.kRevalidationRequired"
    by (simp add: res_disown_def example_residency_def)
  have r2: "\<exists>s2. worker_retired (Id 1) boot (s\<lparr>reg_residencies := [?res]\<rparr>) = (Inr (), s2) \<and>
      reg_residencies s2 = [res_disown (Id 1) boot ?res]"
    by (simp add: worker_retired_def h Let_def split: option.split)
  then obtain s2 where s2: "worker_retired (Id 1) boot (s\<lparr>reg_residencies := [?res]\<rparr>) = (Inr (), s2)"
    "reg_residencies s2 = [res_disown (Id 1) boot ?res]" by blast
  show "exits_ok (let bootB = Id (id_value boot + 1); (res, r1) = register_worker (Id 1) bootB s;
         conflict = (case res of Inl err \<Rightarrow> err_code err = ErrorCode.kOwnerConflict | Inr _ \<Rightarrow> False);
         out1 = out0 res conflict
     in if \<not> conflict then ended False out1
        else
          called (publish_residency (example_residency (reg_epoch r1) boot) (reg_epoch r1) (Id 1) boot) r1 (\<lambda>r2.
          case front_state r2 of None \<Rightarrow> None | Some before \<Rightarrow>
          called (worker_retired (Id 1) boot) r2 (\<lambda>r3.
          case front_state r3 of None \<Rightarrow> None | Some after \<Rightarrow>
          let ok = after = ResidencyState.kRevalidationRequired
          in ended ok (out out1 before after ok))))" for out0 out
    by (simp add: b tables(7) called_def r1 s2 front_state_def disowned Let_def)
qed

section \<open>All programs\<close>

text \<open>
  C37: every example program ends with exit code 0, whatever the boot identities of its engines and
  whatever the host and its device interfaces answer: the expectations they check hold. (The
  one exception is the program on the real host where the NVML library lacks the name function
  and reports a device: it calls through a null pointer.) The NIC
  behind the accelerator's switch wins over the one that only shares its root complex, the NIC
  on the accelerator's NUMA node over the remote one, the smallest id among 200 NICs in both
  registration orders; a device to be revalidated is reported so, an attachment turns stale
  with a new topology, a second boot of a worker is an owner conflict, retiring the worker
  leaves its residency to be revalidated.
\<close>

theorem example_programs_pass:
  "exits_ok (basic_discovery_main boot) \<and> exits_ok (accelerator_affinity_main boot) \<and>
   exits_ok (numa_selection_main boot) \<and> exits_ok (deterministic_tiebreak_main boot boot') \<and>
   exits_ok (synthetic_smartnic_dpu_main boot boot') \<and> exits_ok (unsupported_smartnic_main boot) \<and>
   exits_ok (stale_generation_main boot) \<and> exits_ok (attachment_invalidation_main boot) \<and>
   exits_ok (worker_incarnation_main boot) \<and>
   (case real_system_backend_main h l boot of None \<Rightarrow> name_missing l inspect_context
     | Some x \<Rightarrow> exits_ok (Some x))"
  by (intro conjI basic_discovery_ok accelerator_affinity_ok numa_selection_ok deterministic_tiebreak_ok
      synthetic_smartnic_dpu_ok unsupported_smartnic_ok stale_generation_ok
      attachment_invalidation_ok worker_incarnation_ok real_system_backend_ok)

end
