(* ===== verification/Spec2Isabelle.thy ===== *)
theory Spec2Isabelle
  imports Registry_Theorems Registry_Invalidation Authority_Spec Policy_Theorems Frame_Theorems
    Persistence_Theorems Topology_Theorems System_Topology Host_Theorems Inspector_Theorems
    Coordinator_Theorems Restart_Theorems Thread_Theorems Example_Theorems
begin

text \<open>
  \<^bold>\<open>A verification development for NIC Residency\<close>, the C++ runtime under \<^verbatim>\<open>src/\<close> that keeps an
  authoritative registry of NICs, their functions, ports, queues, attachments and residencies,
  decides which NIC a workload may live on, and fences stale evidence by worker boots,
  coordinator epochs and generations.

  \<^bold>\<open>The program and its model.\<close> Workers discover devices through a backend and publish them, in
  process through the engine or between processes as framed messages. The registry accepts or
  refuses each publication under the authority of a registered worker boot and the current
  coordinator epoch. The policy decides on an immutable snapshot. The store persists durable
  identity, which a restarted coordinator recovers without any authority. The theories follow
  this structure; paths are relative to \<^verbatim>\<open>src/\<close>, headers are in \<^verbatim>\<open>include/nicresidency/\<close>.

  \<^item> \<^verbatim>\<open>NR_Prelude\<close>, \<^verbatim>\<open>Std_Containers\<close>: fixed-width words, operations that may throw while they
    mutate a state (\<open>exop\<close>), \<^verbatim>\<open>std::sort\<close> over a strict weak order (locale \<open>comparator\<close>),
    \<^verbatim>\<open>std::map\<close> as an ordered association list (locale \<open>std_map\<close>) with the effect of entering a
    list of records (\<open>m_load\<close>), bytes and decimal rendering. \<^verbatim>\<open>C_Library\<close>: the scanning, numeric and
    string functions of the C library that the sources call.
  \<^item> \<^verbatim>\<open>Identity\<close> (\<^verbatim>\<open>id.hpp\<close>), \<^verbatim>\<open>Enums\<close> (\<^verbatim>\<open>enums.hpp\<close>, \<^verbatim>\<open>error.hpp\<close>), \<^verbatim>\<open>Evidence\<close> (\<^verbatim>\<open>provenance.hpp\<close>,
    \<^verbatim>\<open>capability.hpp\<close>), \<^verbatim>\<open>Pci_Locality\<close> (\<^verbatim>\<open>locality.hpp\<close>), \<^verbatim>\<open>Domain_Records\<close> (\<^verbatim>\<open>records.hpp\<close>): the data model.
    Ids and generations are 64-bit words with a phantom tag; a generation wraps like the code's.
  \<^item> \<^verbatim>\<open>Topology_Graph\<close>, \<^verbatim>\<open>Topology_Theorems\<close> (\<^verbatim>\<open>topology.hpp\<close>): the builder, finalization and the
    locality queries. The parent walk may not end, so \<open>build\<close> is partial: \<^term>\<open>None\<close> is a call
    that does not return, and the theorems say exactly when that happens. Edges are kept in
    insertion order, which is immaterial because the code only tests membership.
  \<^item> \<^verbatim>\<open>Registry_Core\<close> (\<^verbatim>\<open>registry.hpp\<close>, \<^verbatim>\<open>src/registry.cpp\<close>): the registry state and every public
    operation with its whole chain of guards. \<^verbatim>\<open>Registry_Safety\<close> has the invariant and its
    preservation, \<^verbatim>\<open>Registry_Runs\<close> the calls as data, runs and reachable states,
    \<^verbatim>\<open>Registry_Generations\<close> monotonicity, \<^verbatim>\<open>Authority_Spec\<close> an abstract authority machine that the
    registry refines, \<^verbatim>\<open>Registry_Theorems\<close> and \<^verbatim>\<open>Registry_Invalidation\<close> the
    properties. \<^verbatim>\<open>Registry_Threads\<close> has threads that take the mutex, run their operations and copy
    snapshots field by field, under any schedule; \<^verbatim>\<open>Thread_Theorems\<close> shows that every execution is
    a sequence of calls, which is why runs are modelled as sequences, and that threads finish.
  \<^item> \<^verbatim>\<open>Residency_Policy\<close> (\<^verbatim>\<open>residency.hpp\<close>, \<^verbatim>\<open>policy.hpp\<close>, \<^verbatim>\<open>src/policy.cpp\<close>): hard checks, ranking,
    candidate loop and decision. \<^verbatim>\<open>Residency_Selection\<close> gives the declarative reading
    (\<open>admissible\<close>, \<open>preferred\<close>), \<^verbatim>\<open>Policy_Theorems\<close> the properties. Ranks are \<^typ>\<open>int\<close>;
    \<open>rank_bounded\<close> shows when the 64-bit sums of the code do not overflow.
  \<^item> \<^verbatim>\<open>Byte_Codec\<close>, \<^verbatim>\<open>Frame_Codec\<close>, \<^verbatim>\<open>Frame_Theorems\<close> (\<^verbatim>\<open>authority.hpp\<close>, \<^verbatim>\<open>src/authority.cpp\<close>): little-endian
    fields, the reader with its truncation errors (locale \<open>codec\<close>), the FNV-1a checksum, frames
    and message payloads.
  \<^item> \<^verbatim>\<open>Persistence_Codec\<close>, \<^verbatim>\<open>Persistence_Roundtrip\<close>, \<^verbatim>\<open>Persistence_Store\<close>, \<^verbatim>\<open>Persistence_Theorems\<close>
    (\<^verbatim>\<open>persistence.hpp\<close>, \<^verbatim>\<open>src/persistence.cpp\<close>): the serializer, the reader and the file store.
  \<^item> \<^verbatim>\<open>Backends\<close>, \<^verbatim>\<open>Backend_Theorems\<close>, \<^verbatim>\<open>System_Topology\<close> (\<^verbatim>\<open>backend.hpp\<close>, \<^verbatim>\<open>unsupported_backend.hpp\<close>,
    \<^verbatim>\<open>src/synthetic_backend.cpp\<close>, \<^verbatim>\<open>src/system_backend.cpp\<close>): the fixture scenarios, and the hierarchy
    derived from discovered PCI addresses, by error-limited Hoare triples.
  \<^item> \<^verbatim>\<open>Host_Backends\<close>, \<^verbatim>\<open>Host_Theorems\<close> (\<^verbatim>\<open>src/system_backend.cpp\<close>, \<^verbatim>\<open>src/nvidia_backend.cpp\<close>): adapter and
    accelerator discovery from the answers of the device interfaces. \<^verbatim>\<open>Backend_Interface\<close>: the four
    backends behind their virtual interface and its contract (locale \<open>backend\<close>), and what a
    sequence of discoveries brings into a registry.
  \<^item> \<^verbatim>\<open>Engine\<close>, \<^verbatim>\<open>Engine_Theorems\<close> (\<^verbatim>\<open>engine.hpp\<close>, \<^verbatim>\<open>src/engine.cpp\<close>): boot identities and ingestion as a
    run of registry calls (locale \<open>fresh_loader\<close>: each of the five record tables of a fresh
    registry ends up holding exactly the discovered records).
  \<^item> \<^verbatim>\<open>Inspector\<close>, \<^verbatim>\<open>Inspector_Theorems\<close> (\<^verbatim>\<open>cli/nic_residency_inspect.cpp\<close>): the options, modes and
    output of the inspection tool.
  \<^item> \<^verbatim>\<open>Coordinator\<close>, \<^verbatim>\<open>Coordinator_Theorems\<close> (\<^verbatim>\<open>tools/nic_residency_coordinator.cpp\<close>,
    \<^verbatim>\<open>tools/nic_authority_worker.cpp\<close>): the processes with the command line of the worker. They
    share nothing but files. \<^verbatim>\<open>Restart_Theorems\<close> compares repeated restarts.
  \<^item> \<^verbatim>\<open>Example_Programs\<close>, \<^verbatim>\<open>Example_Theorems\<close> (\<^verbatim>\<open>examples/\<close>): the ten example programs, which put the
    components together, with their output and exit code.
  \<^item> \<^verbatim>\<open>Sample_States\<close>: small states built by executing the model, for the instances.

  \<^bold>\<open>What the properties show.\<close> The registry keeps its invariant in every reachable state and
  refines the authority machine; every
  publication without current authority is refused and changes nothing; an old epoch, an old
  boot and a retired worker stay fenced; a failed call leaves the state as it was; the generations
  of records do not go back. Threads see all this too: their executions are sequences of calls, a
  snapshot is that of one state, and an ingestion that a restart overtakes stops. A decision
  allows exactly the NICs that pass the hard checks, picks the least (rank, id) among them, does
  not depend on the order of discovery, and is outdated by an advance. Frames and
  files come back as they were written, damage of a byte is noticed, a save is all or nothing,
  and no NIC that loads carries current evidence. Topologies finish exactly when no parent
  cycle was staged. Fixtures stay labelled synthetic from discovery to decision; a
  record in a registry has the evidence it had before or that a backend reported for it. A restarted
  coordinator trusts nothing it recovered, whatever its files hold, and regains authority
  after a fresh publication exactly when its generation is a later one; repeated restarts do the
  same, as the advanced epoch is not persisted; a run that fails says so and leaves the
  persisted state alone. Whatever its command line, a worker reaches the coordinator. Real
  discovery returns for every answer of the host and is taken in by a fresh engine; the
  inspection tool ends with exit code 0 for all arguments, and every expectation the example
  programs check holds, but for a call through a null pointer
  where the NVML library lacks its name function.

  \<^bold>\<open>What the documents promise and the code does not.\<close> The hard checks look at the NIC record and
  its locality only, not at the currency or ownership of functions, ports, queues, capabilities
  and the topology. The restarted coordinator ignores the epoch of the new worker's frame. The
  store checks neither generations nor references. Ingestion registers whole records, with their
  readiness. The capability generation of a NIC may fall. The theorems state what the code does
  in each case.

  \<^bold>\<open>Parameters.\<close> What comes from outside the sources is an argument: the signedness of plain
  \<^verbatim>\<open>char\<close> (\<open>cs\<close>), the results of file operations (\<open>io\<close>, \<open>out\<close>), the process id, clock and entropy
  of a boot identity, and the answers of the Windows device interfaces
  (\<open>HostApi\<close>) and of the NVML library with the names it exports (\<open>NvmlLibrary\<close>). No hypothesis is
  made about them beyond what a theorem states.

  \<^bold>\<open>Choices.\<close> \<^verbatim>\<open>std::sort\<close> is modelled by insertion sort; \<open>sorted_unique\<close> shows that the choice does
  not matter where no two elements are equivalent, which holds for candidates and for the ids
  of persisted devices; history entries of equal id may be stored in either order by the code.
  No fuel is used: loops are structural, or partial where they may not end. A schedule is a list
  of thread numbers; a call takes three steps and a snapshot twelve, which bounds the rounds in
  which a fair schedule finishes (\<open>threads_finish\<close>).

  \<^bold>\<open>Not modelled.\<close> SetupAPI, the IP helper and NVML are foreign interfaces whose answers are
  arguments. The conversions of \<^verbatim>\<open>swscanf\<close> reduce a number too large for its variable modulo its
  width, where C leaves the result open. \<^verbatim>\<open>epoch()\<close> and the reference that \<^verbatim>\<open>residencies()\<close> returns are
  read without the mutex; the machine of the threads has neither, as such a race has no meaning in
  C++. Stream output operators,
  tests and benchmarks hold no logic of the runtime. Exceptions of the C++ library itself, such
  as exhausted memory, do not occur in the model.
\<close>

end
